(* ===== verification/Prelude.thy ===== *)
theory Prelude
  imports Main "HOL-Library.List_Lexorder" "HOL-Library.Char_ord" "HOL-Library.Sublist"
begin

text \<open>
  Shared ground of the development. Three things live here: the result type of a Python call
  that may raise and that changes a state (\<open>prog\<close>, with its sequencing operators), the relational
  queries the repositories are written in (a table is a list of rows), and generic facts on lists.
  Nothing in this theory models a particular file of the repository.
\<close>

named_theorems prog_simps "unfolding of the sequencing operators"
named_theorems prog_elims "inversion of a run that returned"

section \<open>Programs that raise and change a state\<close>

type_synonym ('s, 'e, 'a) prog = "'s \<Rightarrow> ('e + 'a) \<times> 's"

text \<open>A run yields either the exception raised or the value returned, and the state it leaves:
  an exception does not undo the writes made before it.\<close>

definition ret :: "'a \<Rightarrow> ('s, 'e, 'a) prog" where
  "ret x = (\<lambda>s. (Inr x, s))"

definition raise :: "'e \<Rightarrow> ('s, 'e, 'a) prog" where
  "raise e = (\<lambda>s. (Inl e, s))"

definition bnd :: "('s, 'e, 'a) prog \<Rightarrow> ('a \<Rightarrow> ('s, 'e, 'b) prog) \<Rightarrow> ('s, 'e, 'b) prog" where
  "bnd m f = (\<lambda>s. case m s of (Inl e, s') \<Rightarrow> (Inl e, s') | (Inr x, s') \<Rightarrow> f x s')"

definition andthen :: "('s, 'e, 'a) prog \<Rightarrow> ('s, 'e, 'b) prog \<Rightarrow> ('s, 'e, 'b) prog" where
  "andthen m k = bnd m (\<lambda>_. k)"

definition gets :: "('s \<Rightarrow> 'a) \<Rightarrow> ('s, 'e, 'a) prog" where
  "gets f = (\<lambda>s. (Inr (f s), s))"

definition modify :: "('s \<Rightarrow> 's) \<Rightarrow> ('s, 'e, unit) prog" where
  "modify f = (\<lambda>s. (Inr (), f s))"

definition of_result :: "'e + 'a \<Rightarrow> ('s, 'e, 'a) prog" where
  "of_result r = (\<lambda>s. (r, s))"

definition query :: "('s \<Rightarrow> 'e + 'a) \<Rightarrow> ('s, 'e, 'a) prog" where
  "query f = (\<lambda>s. (f s, s))"

definition guard :: "bool \<Rightarrow> 'e \<Rightarrow> ('s, 'e, unit) prog" where
  "guard b e = (if b then ret () else raise e)"

definition try_else :: "('s, 'e, 'a) prog \<Rightarrow> ('e \<Rightarrow> ('s, 'e, 'a) prog) \<Rightarrow> ('s, 'e, 'a) prog" where
  "try_else m h = (\<lambda>s. case m s of (Inl e, s') \<Rightarrow> h e s' | (Inr x, s') \<Rightarrow> (Inr x, s'))"

definition attempt :: "('s, 'e, 'a) prog \<Rightarrow> ('s, 'e, 'e + 'a) prog" where
  "attempt m = (\<lambda>s. case m s of (r, s') \<Rightarrow> (Inr r, s'))"

fun for_each :: "'a list \<Rightarrow> ('a \<Rightarrow> ('s, 'e, unit) prog) \<Rightarrow> ('s, 'e, unit) prog" where
  "for_each [] f = ret ()"
| "for_each (x # xs) f = andthen (f x) (for_each xs f)"

fun map_prog :: "('a \<Rightarrow> ('s, 'e, 'b) prog) \<Rightarrow> 'a list \<Rightarrow> ('s, 'e, 'b list) prog" where
  "map_prog f [] = ret []"
| "map_prog f (x # xs) = bnd (f x) (\<lambda>y. bnd (map_prog f xs) (\<lambda>ys. ret (y # ys)))"

fun map_result :: "('a \<Rightarrow> 'e + 'b) \<Rightarrow> 'a list \<Rightarrow> 'e + 'b list" where
  "map_result f [] = Inr []"
| "map_result f (x # xs) =
     (case f x of Inl e \<Rightarrow> Inl e
      | Inr y \<Rightarrow> (case map_result f xs of Inl e \<Rightarrow> Inl e | Inr ys \<Rightarrow> Inr (y # ys)))"

text \<open>For evaluation a program runs only when it has its state.\<close>

lemma prog_code [code]:
  "bnd m f s = (case m s of (Inl e, s') \<Rightarrow> (Inl e, s') | (Inr x, s') \<Rightarrow> f x s')"
  "andthen m k s = (case m s of (Inl e, s') \<Rightarrow> (Inl e, s') | (Inr x, s') \<Rightarrow> k s')"
  "try_else m h s = (case m s of (Inl e, s') \<Rightarrow> h e s' | (Inr x, s') \<Rightarrow> (Inr x, s'))"
  "attempt m s = (case m s of (r, s') \<Rightarrow> (Inr r, s'))"
  by (simp_all add: bnd_def andthen_def try_else_def attempt_def)

lemmas [prog_simps] = ret_def raise_def bnd_def andthen_def gets_def modify_def of_result_def
  query_def guard_def try_else_def attempt_def

lemma bnd_ret [simp]: "bnd (ret x) f = f x"
  by (simp add: prog_simps)

lemma bnd_raise [simp]: "bnd (raise e) f = raise e"
  by (simp add: prog_simps)

lemma bnd_assoc: "bnd (bnd m f) g = bnd m (\<lambda>x. bnd (f x) g)"
  by (auto simp: bnd_def fun_eq_iff split: prod.splits sum.splits)

lemma bnd_Inr [prog_elims]:
  "bnd m f s = (Inr y, s'') \<longleftrightarrow> (\<exists>x s'. m s = (Inr x, s') \<and> f x s' = (Inr y, s''))"
  by (auto simp: bnd_def split: prod.splits sum.splits)

lemma bnd_Inl:
  "bnd m f s = (Inl e, s'') \<longleftrightarrow>
     m s = (Inl e, s'') \<or> (\<exists>x s'. m s = (Inr x, s') \<and> f x s' = (Inl e, s''))"
  by (auto simp: bnd_def split: prod.splits sum.splits)

lemma andthen_Inr [prog_elims]:
  "andthen m k s = (Inr y, s'') \<longleftrightarrow> (\<exists>x s'. m s = (Inr x, s') \<and> k s' = (Inr y, s''))"
  by (simp add: andthen_def bnd_Inr)

lemma ret_Inr [prog_elims]: "ret x s = (Inr y, s') \<longleftrightarrow> y = x \<and> s' = s"
  by (auto simp: ret_def)

lemma raise_Inr [prog_elims]: "raise e s = (Inr y, s') \<longleftrightarrow> False"
  by (simp add: raise_def)

lemma gets_Inr [prog_elims]: "gets f s = (Inr y, s') \<longleftrightarrow> y = f s \<and> s' = s"
  by (auto simp: gets_def)

lemma modify_Inr [prog_elims]: "modify f s = (Inr y, s') \<longleftrightarrow> s' = f s"
  by (auto simp: modify_def)

lemma query_Inr [prog_elims]: "query f s = (Inr y, s') \<longleftrightarrow> f s = Inr y \<and> s' = s"
  by (auto simp: query_def)

lemma of_result_Inr [prog_elims]: "of_result r s = (Inr y, s') \<longleftrightarrow> r = Inr y \<and> s' = s"
  by (auto simp: of_result_def)

lemma guard_Inr [prog_elims]: "guard b e s = (Inr y, s') \<longleftrightarrow> b \<and> s' = s"
  by (auto simp: guard_def ret_def raise_def)

lemma try_raise_Inr [prog_elims]:
  "try_else m (\<lambda>e. raise (h e)) s = (Inr x, s') \<longleftrightarrow> m s = (Inr x, s')"
  by (auto simp: try_else_def raise_def split: prod.splits sum.splits)

lemma map_result_Inr_set:
  "map_result f xs = Inr ys \<Longrightarrow> y \<in> set ys \<Longrightarrow> \<exists>x \<in> set xs. f x = Inr y"
  by (induction xs arbitrary: ys) (auto split: sum.splits)

lemma map_result_Inr_in: "map_result f xs = Inr ys \<Longrightarrow> x \<in> set xs \<Longrightarrow> \<exists>y \<in> set ys. f x = Inr y"
  by (induction xs arbitrary: ys) (auto split: sum.splits)

lemma map_result_Inr_length: "map_result f xs = Inr ys \<Longrightarrow> length ys = length xs"
  by (induction xs arbitrary: ys) (auto split: sum.splits)

lemma map_result_total:
  "(\<And>x. x \<in> set xs \<Longrightarrow> f x = Inr (g x)) \<Longrightarrow> map_result f xs = Inr (map g xs)"
  by (induction xs) auto

lemma span_append:
  assumes "\<forall>c \<in> set s. P c" "t = [] \<or> \<not> P (hd t)"
  shows "takeWhile P (s @ t) = s" "dropWhile P (s @ t) = t"
  using assms by (induction s; cases t; simp)+

section \<open>Running a predicate through a program\<close>

text \<open>\<open>keeps I m\<close>: whatever \<open>m\<close> does, returning or raising, it leaves \<open>I\<close> true.\<close>

definition keeps :: "('s \<Rightarrow> bool) \<Rightarrow> ('s, 'e, 'a) prog \<Rightarrow> bool" where
  "keeps I m \<longleftrightarrow> (\<forall>s. I s \<longrightarrow> I (snd (m s)))"

lemma keepsI: "(\<And>s. I s \<Longrightarrow> I (snd (m s))) \<Longrightarrow> keeps I m"
  by (simp add: keeps_def)

lemma keepsD: "keeps I m \<Longrightarrow> I s \<Longrightarrow> I (snd (m s))"
  by (simp add: keeps_def)

lemma keeps_ret [intro, simp]: "keeps I (ret x)"
  by (simp add: keeps_def ret_def)

lemma keeps_raise [intro, simp]: "keeps I (raise e)"
  by (simp add: keeps_def raise_def)

lemma keeps_gets [intro, simp]: "keeps I (gets f)"
  by (simp add: keeps_def gets_def)

lemma keeps_query [intro, simp]: "keeps I (query f)"
  by (simp add: keeps_def query_def)

lemma keeps_of_result [intro, simp]: "keeps I (of_result r)"
  by (simp add: keeps_def of_result_def)

lemma keeps_guard [intro, simp]: "keeps I (guard b e)"
  by (simp add: guard_def)

lemma keeps_bnd: "keeps I m \<Longrightarrow> (\<And>x. keeps I (f x)) \<Longrightarrow> keeps I (bnd m f)"
  unfolding keeps_def bnd_def
  by (clarsimp split: prod.splits sum.splits) (metis snd_conv)

lemma keeps_andthen: "keeps I m \<Longrightarrow> keeps I k \<Longrightarrow> keeps I (andthen m k)"
  by (simp add: andthen_def keeps_bnd)

lemma keeps_attempt: "keeps I m \<Longrightarrow> keeps I (attempt m)"
  by (simp add: keeps_def attempt_def case_prod_beta)

lemma keeps_for_each: "(\<And>x. x \<in> set xs \<Longrightarrow> keeps I (f x)) \<Longrightarrow> keeps I (for_each xs f)"
  by (induction xs) (auto intro: keeps_andthen)

lemma keeps_map_prog: "(\<And>x. x \<in> set xs \<Longrightarrow> keeps I (f x)) \<Longrightarrow> keeps I (map_prog f xs)"
  by (induction xs) (auto intro!: keeps_bnd)

section \<open>Triples\<close>

text \<open>From a state in \<open>P\<close>, a run of \<open>m\<close> that returns \<open>x\<close> ends in \<open>Q x\<close>, and one that raises ends in \<open>E\<close>.\<close>

definition triple ::
  "('s \<Rightarrow> bool) \<Rightarrow> ('s, 'e, 'a) prog \<Rightarrow> ('a \<Rightarrow> 's \<Rightarrow> bool) \<Rightarrow> ('s \<Rightarrow> bool) \<Rightarrow> bool" where
  "triple P m Q E \<longleftrightarrow> (\<forall>s. P s \<longrightarrow> (case m s of (Inl e, s') \<Rightarrow> E s' | (Inr x, s') \<Rightarrow> Q x s'))"

lemma tripleI:
  assumes "\<And>s x s'. P s \<Longrightarrow> m s = (Inr x, s') \<Longrightarrow> Q x s'"
    and "\<And>s e s'. P s \<Longrightarrow> m s = (Inl e, s') \<Longrightarrow> E s'"
  shows "triple P m Q E"
  using assms unfolding triple_def by (auto split: prod.splits sum.splits)

lemma tripleD: "triple P m Q E \<Longrightarrow> P s \<Longrightarrow> m s = (Inr x, s') \<Longrightarrow> Q x s'"
  unfolding triple_def by fastforce

lemma tripleE: "triple P m Q E \<Longrightarrow> P s \<Longrightarrow> m s = (Inl e, s') \<Longrightarrow> E s'"
  unfolding triple_def by fastforce

lemma triple_snd:
  assumes "triple P m (\<lambda>_. I) I" "P s"
  shows "I (snd (m s))"
proof (cases "m s")
  case (Pair r s')
  then show ?thesis using assms tripleD [OF assms(1)] tripleE [OF assms(1)] by (cases r) auto
qed

lemma triple_bnd:
  assumes "triple P m R E" "\<And>x. triple (R x) (f x) Q E"
  shows "triple P (bnd m f) Q E"
proof (rule tripleI)
  show "Q y s''" if "P s" "bnd m f s = (Inr y, s'')" for s y s''
    using that unfolding bnd_Inr by (metis tripleD [OF assms(1)] tripleD [OF assms(2)])
  show "E s''" if "P s" "bnd m f s = (Inl e, s'')" for s e s''
    using that unfolding bnd_Inl by (metis tripleD [OF assms(1)] tripleE [OF assms(1)] tripleE [OF assms(2)])
qed

lemma triple_andthen:
  "triple P m (\<lambda>_. R) E \<Longrightarrow> triple R k Q E \<Longrightarrow> triple P (andthen m k) Q E"
  unfolding andthen_def by (rule triple_bnd)

lemma triple_read:
  assumes "\<And>s. snd (m s) = s" "\<And>s x. P s \<Longrightarrow> fst (m s) = Inr x \<Longrightarrow> Q x s" "\<And>s. P s \<Longrightarrow> E s"
  shows "triple P m Q E"
proof (rule tripleI)
  show "Q x s'" if "P s" "m s = (Inr x, s')" for s x s' using that assms(1,2) by (metis fst_conv snd_conv)
  show "E s'" if "P s" "m s = (Inl e, s')" for s e s' using that assms(1,3) by (metis snd_conv)
qed

lemma triple_ret: "(\<And>s. P s \<Longrightarrow> Q x s) \<Longrightarrow> triple P (ret x) Q E"
  by (rule tripleI) (auto simp: ret_def)

lemma triple_raise: "(\<And>s. P s \<Longrightarrow> E s) \<Longrightarrow> triple P (raise e) Q E"
  by (rule tripleI) (auto simp: raise_def)

lemma triple_guard: "(\<And>s. P s \<Longrightarrow> b \<Longrightarrow> Q () s) \<Longrightarrow> (\<And>s. P s \<Longrightarrow> E s) \<Longrightarrow> triple P (guard b e) Q E"
  by (rule tripleI) (auto simp: guard_def ret_def raise_def split: if_splits)

lemma triple_conseq:
  assumes "triple P m Q E" "\<And>s. P' s \<Longrightarrow> P s" "\<And>x s. Q x s \<Longrightarrow> Q' x s" "\<And>s. E s \<Longrightarrow> E' s"
  shows "triple P' m Q' E'"
  by (rule tripleI) (use assms(2-4) tripleD [OF assms(1)] tripleE [OF assms(1)] in blast)+

lemma triple_fix: "(\<And>s0. P s0 \<Longrightarrow> triple (\<lambda>s. s = s0) m Q E) \<Longrightarrow> triple P m Q E"
  by (simp add: triple_def)

section \<open>Programs that only read\<close>

lemma query_reads [simp]: "snd (query f d) = d" by (simp add: query_def)
lemma gets_reads [simp]: "snd (gets f d) = d" by (simp add: gets_def)

lemma bnd_reads: "(\<And>d. snd (m d) = d) \<Longrightarrow> (\<And>x d. snd (k x d) = d) \<Longrightarrow> snd (bnd m k d) = d"
  by (cases "m d"; cases "fst (m d)") (auto simp: bnd_def, (metis snd_conv)+)
section \<open>Tables and queries\<close>

datatype query_error = DoesNotExist | MultipleObjectsReturned

text \<open>\<open>Model.get(...)\<close>: the one row that matches.\<close>

definition q_get :: "('r \<Rightarrow> bool) \<Rightarrow> 'r list \<Rightarrow> query_error + 'r" where
  "q_get P t = (case filter P t of [] \<Rightarrow> Inl DoesNotExist | [r] \<Rightarrow> Inr r
                | _ \<Rightarrow> Inl MultipleObjectsReturned)"

text \<open>\<open>.filter(...).update(...)\<close> and \<open>.filter(...).delete()\<close>.\<close>

definition q_update :: "('r \<Rightarrow> bool) \<Rightarrow> ('r \<Rightarrow> 'r) \<Rightarrow> 'r list \<Rightarrow> 'r list" where
  "q_update P f t = map (\<lambda>r. if P r then f r else r) t"

definition q_delete :: "('r \<Rightarrow> bool) \<Rightarrow> 'r list \<Rightarrow> 'r list" where
  "q_delete P t = filter (\<lambda>r. \<not> P r) t"

text \<open>\<open>.order_by("-key")\<close> and \<open>.offset(o).limit(l)\<close>; sorting is stable.\<close>

definition order_desc :: "('r \<Rightarrow> 'k::linorder) \<Rightarrow> 'r list \<Rightarrow> 'r list" where
  "order_desc k t = rev (sort_key k (rev t))"

definition page_of :: "nat \<Rightarrow> nat \<Rightarrow> 'r list \<Rightarrow> 'r list" where
  "page_of off lim t = take lim (drop off t)"

lemma q_get_Inr_iff: "q_get P t = Inr r \<longleftrightarrow> filter P t = [r]"
  by (auto simp: q_get_def split: list.splits)

lemma q_get_InrD: "q_get P t = Inr r \<Longrightarrow> r \<in> set t \<and> P r"
proof -
  assume "q_get P t = Inr r"
  then have "r \<in> set (filter P t)" by (simp add: q_get_Inr_iff)
  then show ?thesis by simp
qed

lemma q_get_missing_iff: "q_get P t = Inl DoesNotExist \<longleftrightarrow> (\<forall>r \<in> set t. \<not> P r)"
proof -
  have "q_get P t = Inl DoesNotExist \<longleftrightarrow> filter P t = []"
    by (simp add: q_get_def split: list.splits)
  then show ?thesis by (simp add: filter_empty_conv)
qed

lemma filter_unique:
  "distinct t \<Longrightarrow> r \<in> set t \<Longrightarrow> P r \<Longrightarrow> (\<And>x. x \<in> set t \<Longrightarrow> P x \<Longrightarrow> x = r) \<Longrightarrow> filter P t = [r]"
proof (induction t)
  case Nil
  then show ?case by simp
next
  case (Cons a t)
  show ?case
  proof (cases "a = r")
    case True
    with Cons.prems(1,4) have "filter P t = []"
      by (metis distinct.simps(2) filter_False list.set_intros(2))
    with True Cons.prems(3) show ?thesis by simp
  next
    case False
    with Cons.prems(4) [of a] have "\<not> P a" by auto
    moreover have "filter P t = [r]"
      using Cons.prems False by (intro Cons.IH) auto
    ultimately show ?thesis by simp
  qed
qed

lemma q_get_unique:
  assumes "distinct (map k t)" "r \<in> set t" "P r"
    and "\<And>x. x \<in> set t \<Longrightarrow> P x \<Longrightarrow> k x = k r"
  shows "q_get P t = Inr r"
proof -
  have inj: "inj_on k (set t)" using assms(1) by (simp add: distinct_map)
  have "x = r" if "x \<in> set t" "P x" for x
    using inj that assms(2) assms(4) [OF that] by (auto dest: inj_onD)
  moreover have "distinct t" using assms(1) by (simp add: distinct_map)
  ultimately show ?thesis
    unfolding q_get_Inr_iff using assms(2,3) by (intro filter_unique)
qed

lemma set_q_delete [simp]: "set (q_delete P t) = {r \<in> set t. \<not> P r}"
  by (auto simp: q_delete_def)

lemma set_q_update: "set (q_update P f t) = (\<lambda>r. if P r then f r else r) ` set t"
  by (auto simp: q_update_def)

lemma length_q_update [simp]: "length (q_update P f t) = length t"
  by (simp add: q_update_def)

lemma map_q_update: "(\<And>r. k (f r) = k r) \<Longrightarrow> map k (q_update P f t) = map k t"
  by (auto simp: q_update_def)

lemma distinct_map_q_delete: "distinct (map k t) \<Longrightarrow> distinct (map k (q_delete P t))"
  unfolding q_delete_def by (rule distinct_map_filter)

lemma set_order_desc [simp]: "set (order_desc k t) = set t"
  by (simp add: order_desc_def)

lemma length_order_desc [simp]: "length (order_desc k t) = length t"
  by (simp add: order_desc_def)

lemma sorted_order_desc: "sorted (rev (map k (order_desc k t)))"
  by (simp add: order_desc_def rev_map)

lemma set_page_of: "set (page_of off lim t) \<subseteq> set t"
  by (auto simp: page_of_def dest: in_set_takeD in_set_dropD)

section \<open>Sums over tables\<close>

lemma sum_list_filter_split:
  "sum_list (map f (filter P xs)) =
     sum_list (map f (filter (\<lambda>x. P x \<and> Q x) xs)) + sum_list (map f (filter (\<lambda>x. P x \<and> \<not> Q x) xs))"
  for f :: "'a \<Rightarrow> int"
  by (induction xs) auto

lemma sum_list_filter_empty: "(\<And>x. x \<in> set xs \<Longrightarrow> \<not> P x) \<Longrightarrow> sum_list (map f (filter P xs)) = 0"
  by (metis (no_types, lifting) filter_False list.simps(8) sum_list.Nil)

lemma filter_cong_set: "(\<And>x. x \<in> set xs \<Longrightarrow> P x = Q x) \<Longrightarrow> filter P xs = filter Q xs"
  by (rule filter_cong) auto

end
