(* ===== verification/PyStr.thy ===== *)
theory PyStr
  imports Prelude
begin

text \<open>
  The part of Python's \<open>str\<close> and of \<open>os.path\<close> (POSIX flavour) and \<open>pathlib.PurePath\<close> that the
  repository uses. A \<open>str\<close> is a HOL \<open>string\<close>; case folding acts on the ASCII letters, so the text
  domain of the model is text whose only cased characters are ASCII letters. The functions follow
  the standard library's own algorithms step by step.
\<close>

section \<open>Strings\<close>

definition lower_char :: "char \<Rightarrow> char" where
  "lower_char c =
     (let n = of_char c :: nat in if 65 \<le> n \<and> n \<le> 90 then char_of (n + 32) else c)"

definition casefold :: "string \<Rightarrow> string" where
  "casefold s = map lower_char s"

fun split_on :: "char \<Rightarrow> string \<Rightarrow> string list" where
  "split_on c [] = [[]]"
| "split_on c (x # xs) =
     (if x = c then [] # split_on c xs
      else (case split_on c xs of [] \<Rightarrow> [[x]] | y # ys \<Rightarrow> (x # y) # ys))"

fun join_with :: "string \<Rightarrow> string list \<Rightarrow> string" where
  "join_with s [] = []"
| "join_with s [x] = x"
| "join_with s (x # y # ys) = x @ s @ join_with s (y # ys)"

text \<open>\<open>str.replace(old, new, 1)\<close> and \<open>str.replace(old, new)\<close> for a non-empty \<open>old\<close>.\<close>

fun replace_first :: "string \<Rightarrow> string \<Rightarrow> string \<Rightarrow> string" where
  "replace_first old new [] = (if old = [] then new else [])"
| "replace_first old new (x # xs) =
     (if prefix old (x # xs) then new @ drop (length old) (x # xs)
      else x # replace_first old new xs)"

function replace_all :: "string \<Rightarrow> string \<Rightarrow> string \<Rightarrow> string" where
  "replace_all old new [] = []"
| "replace_all old new (x # xs) =
     (if old \<noteq> [] \<and> prefix old (x # xs) then new @ replace_all old new (drop (length old) (x # xs))
      else x # replace_all old new xs)"
  by pat_completeness auto
termination
  by (relation "measure (\<lambda>(old, new, s). length s)") (auto simp: neq_Nil_conv)

definition strip_chars :: "(char \<Rightarrow> bool) \<Rightarrow> string \<Rightarrow> string" where
  "strip_chars P s = rev (dropWhile P (rev (dropWhile P s)))"

definition is_space :: "char \<Rightarrow> bool" where
  "is_space c \<longleftrightarrow> (let n = of_char c :: nat in n = 32 \<or> (9 \<le> n \<and> n \<le> 13) \<or> (28 \<le> n \<and> n \<le> 31))"

definition strip :: "string \<Rightarrow> string" where
  "strip s = strip_chars is_space s"

text \<open>Position just after the last occurrence of a character: \<open>s.rfind(c) + 1\<close>.\<close>

fun after_last :: "char \<Rightarrow> string \<Rightarrow> nat" where
  "after_last c [] = 0"
| "after_last c (x # xs) =
     (if after_last c xs > 0 then Suc (after_last c xs) else if x = c then 1 else 0)"

lemma after_last_code [code]:
  "after_last c [] = 0"
  "after_last c (x # xs) = (let k = after_last c xs in if k > 0 then Suc k else if x = c then 1 else 0)"
  by (simp_all add: Let_def)

fun digits_of :: "nat \<Rightarrow> string" where
  "digits_of n = (if n < 10 then [char_of (48 + n)] else digits_of (n div 10) @ [char_of (48 + n mod 10)])"

declare digits_of.simps [simp del]

section \<open>os.path\<close>

abbreviation slash :: char where "slash \<equiv> CHR 0x2F"
abbreviation dot :: char where "dot \<equiv> CHR 0x2E"

text \<open>The loop of \<open>os.path.normpath\<close>; the accumulator is \<open>new_comps\<close> reversed.\<close>

fun norm_comps :: "bool \<Rightarrow> string list \<Rightarrow> string list \<Rightarrow> string list" where
  "norm_comps rooted acc [] = rev acc"
| "norm_comps rooted acc (c # cs) =
     (if c = [] \<or> c = ''.'' then norm_comps rooted acc cs
      else if c \<noteq> ''..'' \<or> (\<not> rooted \<and> acc = []) \<or> (acc \<noteq> [] \<and> hd acc = ''..'')
      then norm_comps rooted (c # acc) cs
      else if acc \<noteq> [] then norm_comps rooted (tl acc) cs
      else norm_comps rooted acc cs)"

definition initial_slashes :: "string \<Rightarrow> nat" where
  "initial_slashes p =
     (if \<not> prefix ''/'' p then 0
      else if prefix ''//'' p \<and> \<not> prefix ''///'' p then 2 else 1)"

definition normpath :: "string \<Rightarrow> string" where
  "normpath p =
     (if p = [] then ''.''
      else let n = initial_slashes p;
               q = replicate n slash @ join_with ''/'' (norm_comps (n > 0) [] (split_on slash p))
           in if q = [] then ''.'' else q)"

definition os_join :: "string \<Rightarrow> string \<Rightarrow> string" where
  "os_join a b =
     (if prefix ''/'' b then b
      else if a = [] \<or> last a = slash then a @ b
      else a @ ''/'' @ b)"

definition basename :: "string \<Rightarrow> string" where
  "basename p = drop (after_last slash p) p"

definition dirname :: "string \<Rightarrow> string" where
  "dirname p =
     (let h = take (after_last slash p) p
      in if h \<noteq> [] \<and> h \<noteq> replicate (length h) slash
         then rev (dropWhile (\<lambda>c. c = slash) (rev h)) else h)"

text \<open>\<open>os.path.splitext\<close>: leading dots of the last component do not start an extension.\<close>

definition splitext :: "string \<Rightarrow> string \<times> string" where
  "splitext p =
     (let sep = after_last slash p; d = after_last dot p
      in if d > sep \<and> (\<exists>c \<in> set (take (d - 1 - sep) (drop sep p)). c \<noteq> dot)
         then (take (d - 1) p, drop (d - 1) p) else (p, []))"

text \<open>\<open>PurePath(p).parents\<close> of a POSIX path. Parsing drops empty and \<open>"."\<close> components; a leading
  slash (exactly two leading slashes count as two) is the root.\<close>

definition pure_comps :: "string \<Rightarrow> string list" where
  "pure_comps p = filter (\<lambda>c. c \<noteq> [] \<and> c \<noteq> ''.'') (split_on slash p)"

definition pure_str :: "string \<Rightarrow> string list \<Rightarrow> string" where
  "pure_str root cs = (let s = root @ join_with ''/'' cs in if s = [] then ''.'' else s)"

definition pure_parents :: "string \<Rightarrow> string list" where
  "pure_parents p =
     (let cs = pure_comps p; root = replicate (initial_slashes p) slash
      in map (\<lambda>k. pure_str root (take k cs)) (rev [0..<length cs]))"

section \<open>Facts\<close>

lemma lower_char_idem [simp]: "lower_char (lower_char c) = lower_char c"
proof (cases "65 \<le> (of_char c :: nat) \<and> (of_char c :: nat) \<le> 90")
  case True
  then have "(of_char (char_of (of_char c + 32 :: nat) :: char) :: nat) = of_char c + 32"
    by simp
  with True show ?thesis by (auto simp: lower_char_def Let_def)
next
  case False
  then show ?thesis by (auto simp: lower_char_def Let_def)
qed

lemma lower_char_eq_small:
  assumes "(of_char d :: nat) < 65"
  shows "lower_char c = d \<longleftrightarrow> c = d"
proof (cases "65 \<le> (of_char c :: nat) \<and> (of_char c :: nat) \<le> 90")
  case True
  then have "(of_char (lower_char c) :: nat) = of_char c + 32"
    by (simp add: lower_char_def Let_def)
  with True assms show ?thesis by auto
next
  case False
  then have "lower_char c = c" by (auto simp: lower_char_def Let_def)
  then show ?thesis by simp
qed

lemma lower_char_slash [simp]: "lower_char c = slash \<longleftrightarrow> c = slash"
  by (rule lower_char_eq_small) simp

lemma lower_char_dot [simp]: "lower_char c = dot \<longleftrightarrow> c = dot"
  by (rule lower_char_eq_small) simp

lemma casefold_idem [simp]: "casefold (casefold s) = casefold s"
  by (simp add: casefold_def)

lemma length_casefold [simp]: "length (casefold s) = length s"
  by (simp add: casefold_def)

lemma casefold_append [simp]: "casefold (s @ t) = casefold s @ casefold t"
  by (simp add: casefold_def)

lemma casefold_Nil [simp]: "casefold [] = []"
  by (simp add: casefold_def)

lemma casefold_eq_Nil [simp]: "casefold s = [] \<longleftrightarrow> s = []"
  by (simp add: casefold_def)

lemma casefold_Cons: "casefold (c # s) = lower_char c # casefold s"
  by (simp add: casefold_def)

lemma lower_char_slash_id [simp]: "lower_char slash = slash"
  by simp

lemma lower_char_dot_id [simp]: "lower_char dot = dot"
  by simp

lemma casefold_slash_Cons [simp]: "casefold (slash # s) = slash # casefold s"
  by (simp add: casefold_def)

lemma casefold_dot [simp]: "casefold ''.'' = ''.''"
  by (simp add: casefold_def)

lemma casefold_eq_dot [simp]: "casefold s = ''.'' \<longleftrightarrow> s = ''.''"
  by (auto simp: casefold_def map_eq_Cons_conv)

lemma split_on_ne [simp]: "split_on c s \<noteq> []"
  by (induction s) (auto split: list.splits)

lemma split_on_no_sep: "t \<in> set (split_on c s) \<Longrightarrow> c \<notin> set t"
  by (induction s arbitrary: t) (auto split: list.splits if_splits)

lemma join_split [simp]: "join_with [c] (split_on c s) = s"
proof (induction s)
  case Nil
  then show ?case by simp
next
  case (Cons x s)
  obtain y ys where "split_on c s = y # ys" by (meson split_on_ne neq_Nil_conv)
  with Cons show ?case by (cases ys) auto
qed

lemma split_on_append_sep: "c \<notin> set t \<Longrightarrow> split_on c (t @ c # s) = t # split_on c s"
  by (induction t) auto

lemma split_on_plain: "c \<notin> set t \<Longrightarrow> split_on c t = [t]"
  by (induction t) auto

lemma split_join:
  "xs \<noteq> [] \<Longrightarrow> (\<And>t. t \<in> set xs \<Longrightarrow> c \<notin> set t) \<Longrightarrow> split_on c (join_with [c] xs) = xs"
proof (induction xs rule: induct_list012)
  case 1
  then show ?case by simp
next
  case (2 x)
  then show ?case by (simp add: split_on_plain)
next
  case (3 x y zs)
  then show ?case by (simp add: split_on_append_sep)
qed

lemma join_with_snoc: "xs \<noteq> [] \<Longrightarrow> join_with s (xs @ [x]) = join_with s xs @ s @ x"
  by (induction xs rule: induct_list012) auto

lemma join_with_append:
  "xs \<noteq> [] \<Longrightarrow> ys \<noteq> [] \<Longrightarrow> join_with s (xs @ ys) = join_with s xs @ s @ join_with s ys"
proof (induction xs rule: induct_list012)
  case 1
  then show ?case by simp
next
  case (2 x)
  then show ?case by (cases ys) auto
next
  case (3 x y zs)
  then show ?case by simp
qed

lemma join_with_eq_Nil: "(\<And>t. t \<in> set xs \<Longrightarrow> t \<noteq> []) \<Longrightarrow> join_with s xs = [] \<longleftrightarrow> xs = []"
  by (induction xs rule: induct_list012) auto

lemma after_last_le: "after_last c s \<le> length s"
  by (induction s) auto

lemma after_last_zero: "after_last c s = 0 \<longleftrightarrow> c \<notin> set s"
  by (induction s) auto

lemma after_last_append: "c \<notin> set t \<Longrightarrow> after_last c (s @ c # t) = Suc (length s)"
  by (induction s) (auto simp: after_last_zero)

lemma basename_append [simp]: "slash \<notin> set t \<Longrightarrow> basename (s @ slash # t) = t"
  by (simp add: basename_def after_last_append)

lemma basename_plain [simp]: "slash \<notin> set t \<Longrightarrow> basename t = t"
  by (simp add: basename_def after_last_zero [THEN iffD2])

lemma slash_notin_basename: "slash \<notin> set (basename s)"
proof (induction s)
  case Nil
  then show ?case by (simp add: basename_def)
next
  case (Cons x s)
  then show ?case by (auto simp: basename_def after_last_zero)
qed

lemma dirname_plain [simp]: "slash \<notin> set t \<Longrightarrow> dirname t = []"
  by (simp add: dirname_def after_last_zero [THEN iffD2])

lemma dirname_append:
  assumes "slash \<notin> set t" "s \<noteq> []" "last s \<noteq> slash"
  shows "dirname (s @ slash # t) = s"
proof -
  obtain s' x where s: "s = s' @ [x]" and x: "x \<noteq> slash"
    using assms(2,3) by (metis append_butlast_last_id)
  let ?h = "s @ [slash]"
  have tk: "take (after_last slash (s @ slash # t)) (s @ slash # t) = ?h"
    using assms(1) by (simp add: after_last_append)
  have ne: "?h \<noteq> replicate (length ?h) slash"
  proof
    assume eq: "?h = replicate (length ?h) slash"
    have "x \<in> set ?h" by (simp add: s)
    then have "x \<in> set (replicate (length ?h) slash)" using eq by metis
    with x show False by (auto split: if_splits)
  qed
  have "rev (dropWhile (\<lambda>c. c = slash) (rev ?h)) = s"
    using x by (simp add: s)
  with ne show ?thesis unfolding dirname_def tk Let_def by simp
qed

lemma replace_first_unfold_prefix: "prefix p s \<Longrightarrow> replace_first p q s = q @ drop (length p) s"
  by (cases s) auto

lemma replace_first_prefix [simp]: "replace_first p q (p @ s) = q @ s"
  by (simp add: replace_first_unfold_prefix)

lemma replace_first_absent: "\<not> sublist p s \<Longrightarrow> replace_first p q s = s"
proof (induction s)
  case Nil
  then show ?case by auto
next
  case (Cons x s)
  then have "\<not> prefix p (x # s)" "\<not> sublist p s"
    by (auto simp: sublist_Cons_right)
  with Cons.IH show ?case by simp
qed

end
