(* ===== verification/Paths.thy ===== *)
theory Paths
  imports PyStr
begin

text \<open>
  \<open>src/app/app/files/domain/path.py\<close>: the case-insensitive path that keeps its original casing.
  A \<open>Path\<close> object wraps one normalised string (\<open>_path\<close>). Equality, hashing and ordering go through
  \<open>casefold\<close>, so two different HOL values of type \<open>path\<close> can be equal for the program: the
  program's \<open>==\<close> is \<open>path_eq\<close>, its \<open><=\<close> and \<open><\<close> are the class operations of the preorder instance.
\<close>

section \<open>The class Path\<close>

datatype path = MkPath (raw: string)

text \<open>\<open>Path(s)\<close>: the constructor normalises.\<close>

definition Path :: "string \<Rightarrow> path" where
  "Path s = MkPath (normpath s)"

definition path_eq :: "path \<Rightarrow> path \<Rightarrow> bool" where
  "path_eq p q \<longleftrightarrow> casefold (raw p) = casefold (raw q)"

text \<open>\<open>Path == str\<close>.\<close>

definition path_eq_str :: "path \<Rightarrow> string \<Rightarrow> bool" where
  "path_eq_str p s \<longleftrightarrow> casefold (raw p) = casefold s"

text \<open>\<open>__hash__\<close> hashes the folded string; the model keeps the hashed key itself.\<close>

definition path_hash_key :: "path \<Rightarrow> string" where
  "path_hash_key p = casefold (raw p)"

definition path_le :: "path \<Rightarrow> path \<Rightarrow> bool" where
  "path_le p q \<longleftrightarrow> casefold (raw p) \<le> casefold (raw q)"

definition path_lt :: "path \<Rightarrow> path \<Rightarrow> bool" where
  "path_lt p q \<longleftrightarrow> casefold (raw p) < casefold (raw q)"

instantiation path :: preorder
begin

definition less_eq_path :: "path \<Rightarrow> path \<Rightarrow> bool" where
  "less_eq_path = path_le"

definition less_path :: "path \<Rightarrow> path \<Rightarrow> bool" where
  "less_path = path_lt"

instance
proof
  fix x y z :: path
  show "x < y \<longleftrightarrow> x \<le> y \<and> \<not> y \<le> x"
    by (auto simp: less_path_def less_eq_path_def path_le_def path_lt_def)
  show "x \<le> x" by (simp add: less_eq_path_def path_le_def)
  show "x \<le> y \<Longrightarrow> y \<le> z \<Longrightarrow> x \<le> z" by (simp add: less_eq_path_def path_le_def)
qed

end

definition path_str :: "path \<Rightarrow> string" where
  "path_str p = raw p"

text \<open>\<open>self / key\<close> and \<open>key / self\<close>.\<close>

definition path_div :: "path \<Rightarrow> string \<Rightarrow> path" where
  "path_div p key = Path (os_join (raw p) key)"

definition path_rdiv :: "string \<Rightarrow> path \<Rightarrow> path" where
  "path_rdiv key p = Path (os_join key (raw p))"

definition path_name :: "path \<Rightarrow> string" where
  "path_name p = basename (raw p)"

definition path_parent :: "path \<Rightarrow> path" where
  "path_parent p = Path (dirname (raw p))"

definition path_parents :: "path \<Rightarrow> path list" where
  "path_parents p = map Path (pure_parents (raw p))"

text \<open>The keys of \<open>mimetypes.encodings_map\<close>.\<close>

definition encodings_map :: "string list" where
  "encodings_map = [''.gz'', ''.Z'', ''.bz2'', ''.xz'', ''.br'']"

definition path_splitext :: "string \<Rightarrow> string \<times> string" where
  "path_splitext name =
     (let (stem, suffix) = splitext name
      in if suffix \<in> set encodings_map
         then (let (stem', suffix') = splitext stem in (stem', suffix' @ suffix))
         else (stem, suffix))"

definition path_stem :: "path \<Rightarrow> string" where
  "path_stem p = fst (path_splitext (path_name p))"

definition path_suffix :: "path \<Rightarrow> string" where
  "path_suffix p = snd (path_splitext (path_name p))"

definition is_relative_to :: "path \<Rightarrow> string \<Rightarrow> bool" where
  "is_relative_to p s \<longleftrightarrow>
     s = ''.'' \<or> path_eq_str p s
     \<or> prefix (casefold (normpath s) @ ''/'') (casefold (raw p))"

text \<open>\<open>with_restored_casing\<close> raises \<open>ValueError\<close> (\<open>None\<close> here) on an unrelated path.\<close>

definition with_restored_casing :: "path \<Rightarrow> string \<Rightarrow> path option" where
  "with_restored_casing p s =
     (if \<not> is_relative_to p s then None
      else if raw (Path s) = ''.'' then Some p
      else Some (Path (raw (Path s) @ drop (length (raw (Path s))) (raw p))))"

definition with_stem :: "path \<Rightarrow> string \<Rightarrow> path" where
  "with_stem p next_stem = path_div (path_parent p) (next_stem @ path_suffix p)"

section \<open>Paths as lists of components\<close>

text \<open>A component the normalised form keeps, and the string a component list spells.\<close>

definition good_comp :: "string \<Rightarrow> bool" where
  "good_comp c \<longleftrightarrow> c \<noteq> [] \<and> slash \<notin> set c \<and> c \<noteq> ''.'' \<and> c \<noteq> ''..''"

definition good_comps :: "string list \<Rightarrow> bool" where
  "good_comps cs \<longleftrightarrow> (\<forall>c \<in> set cs. good_comp c)"

definition path_of :: "string list \<Rightarrow> string" where
  "path_of cs = (if cs = [] then ''.'' else join_with ''/'' cs)"

lemma good_comps_Nil [simp]: "good_comps []"
  by (simp add: good_comps_def)

lemma good_comps_Cons [simp]: "good_comps (c # cs) \<longleftrightarrow> good_comp c \<and> good_comps cs"
  by (auto simp: good_comps_def)

lemma good_comps_append [simp]: "good_comps (cs @ ds) \<longleftrightarrow> good_comps cs \<and> good_comps ds"
  by (auto simp: good_comps_def)

lemma good_comps_take [intro]: "good_comps cs \<Longrightarrow> good_comps (take k cs)"
  by (auto simp: good_comps_def dest: in_set_takeD)

lemma good_comps_drop [intro]: "good_comps cs \<Longrightarrow> good_comps (drop k cs)"
  by (auto simp: good_comps_def dest: in_set_dropD)

lemma good_comps_prefix: "prefix cs ds \<Longrightarrow> good_comps ds \<Longrightarrow> good_comps cs"
  by (auto simp: prefix_def)

lemma good_compD: "good_comp c \<Longrightarrow> c \<noteq> []" "good_comp c \<Longrightarrow> slash \<notin> set c"
  by (auto simp: good_comp_def)

lemma join_good_ne: "good_comps cs \<Longrightarrow> join_with s cs = [] \<longleftrightarrow> cs = []"
  by (intro join_with_eq_Nil) (auto simp: good_comps_def good_comp_def)

lemma join_good_hd:
  "good_comps cs \<Longrightarrow> cs \<noteq> [] \<Longrightarrow> \<exists>x t. join_with ''/'' cs = x # t \<and> x \<noteq> slash"
  by (induction cs rule: induct_list012) (auto simp: good_comp_def neq_Nil_conv)

lemma join_good_last: "good_comps cs \<Longrightarrow> cs \<noteq> [] \<Longrightarrow> last (join_with ''/'' cs) \<noteq> slash"
proof -
  assume g: "good_comps cs" and "cs \<noteq> []"
  then obtain ds c where cs: "cs = ds @ [c]" by (metis append_butlast_last_id)
  with g have "c \<noteq> []" "slash \<notin> set c" by (auto simp: good_comp_def)
  then have "last c \<noteq> slash" by (metis last_in_set)
  then show ?thesis
    using \<open>c \<noteq> []\<close> by (cases "ds = []") (auto simp: cs join_with_snoc)
qed

lemma path_of_ne [simp]: "good_comps cs \<Longrightarrow> path_of cs \<noteq> []"
  by (simp add: path_of_def join_good_ne)

lemma split_path_of: "good_comps cs \<Longrightarrow> cs \<noteq> [] \<Longrightarrow> split_on slash (path_of cs) = cs"
  unfolding path_of_def by (auto simp: good_comps_def good_comp_def intro!: split_join)

lemma initial_slashes_path_of [simp]: "good_comps cs \<Longrightarrow> initial_slashes (path_of cs) = 0"
  using join_good_hd [of cs] by (auto simp: initial_slashes_def path_of_def)

lemma pure_comps_path_of [simp]: "good_comps cs \<Longrightarrow> pure_comps (path_of cs) = cs"
proof (cases "cs = []")
  case True
  then show ?thesis by (simp add: path_of_def pure_comps_def)
next
  case False
  assume g: "good_comps cs"
  then have "\<forall>c \<in> set cs. c \<noteq> [] \<and> c \<noteq> ''.''" by (auto simp: good_comps_def good_comp_def)
  with g False show ?thesis by (simp add: pure_comps_def split_path_of)
qed

lemma path_of_inj: "good_comps cs \<Longrightarrow> good_comps ds \<Longrightarrow> path_of cs = path_of ds \<longleftrightarrow> cs = ds"
  by (metis pure_comps_path_of)

lemma norm_comps_good: "good_comps cs \<Longrightarrow> norm_comps rooted acc cs = rev acc @ cs"
  by (induction cs arbitrary: acc) (auto simp: good_comp_def)

lemma normpath_path_of [simp]: "good_comps cs \<Longrightarrow> normpath (path_of cs) = path_of cs"
proof (cases "cs = []")
  case True
  then show ?thesis by (simp add: path_of_def normpath_def initial_slashes_def)
next
  case False
  assume g: "good_comps cs"
  with False show ?thesis
    by (simp add: normpath_def split_path_of norm_comps_good Let_def)
       (simp add: path_of_def join_good_ne)
qed

lemma pure_parents_path_of:
  "good_comps cs \<Longrightarrow>
     pure_parents (path_of cs) = map (\<lambda>k. path_of (take k cs)) (rev [0..<length cs])"
proof -
  assume g: "good_comps cs"
  have "pure_str [] (take k cs) = path_of (take k cs)" for k
    using join_good_ne [OF good_comps_take [OF g], of "''/''" k]
    by (auto simp: pure_str_def path_of_def Let_def)
  with g show ?thesis by (simp add: pure_parents_def Let_def)
qed

lemma path_parents_path_of:
  "good_comps cs \<Longrightarrow>
     map raw (path_parents (MkPath (path_of cs))) = map (\<lambda>k. path_of (take k cs)) (rev [0..<length cs])"
  by (simp add: path_parents_def pure_parents_path_of Path_def good_comps_take)

lemma set_path_parents:
  assumes "good_comps cs"
  shows "raw ` set (path_parents (MkPath (path_of cs))) = {path_of ds |ds. strict_prefix ds cs}"
proof -
  have "raw ` set (path_parents (MkPath (path_of cs))) = (\<lambda>k. path_of (take k cs)) ` {..<length cs}"
    using path_parents_path_of [OF assms] by (metis atLeast_upt set_map set_rev)
  also have "\<dots> = {path_of ds |ds. strict_prefix ds cs}"
  proof (intro set_eqI iffI)
    fix x assume "x \<in> (\<lambda>k. path_of (take k cs)) ` {..<length cs}"
    then obtain k where "k < length cs" "x = path_of (take k cs)" by auto
    moreover from this have "strict_prefix (take k cs) cs"
      by (metis append_take_drop_id length_take min.absorb4 not_less_iff_gr_or_eq
          prefixI prefix_order.le_neq_trans)
    ultimately show "x \<in> {path_of ds |ds. strict_prefix ds cs}" by blast
  next
    fix x assume "x \<in> {path_of ds |ds. strict_prefix ds cs}"
    then obtain ds where ds: "strict_prefix ds cs" "x = path_of ds" by auto
    then have "length ds < length cs" "ds = take (length ds) cs"
      by (auto simp: strict_prefix_def prefix_def)
    with ds show "x \<in> (\<lambda>k. path_of (take k cs)) ` {..<length cs}"
      by (metis imageI lessThan_iff)
  qed
  finally show ?thesis .
qed

lemma path_name_path_of [simp]:
  "good_comps (cs @ [c]) \<Longrightarrow> path_name (MkPath (path_of (cs @ [c]))) = c"
  by (cases "cs = []") (auto simp: path_name_def path_of_def join_with_snoc good_comp_def)

lemma path_parent_path_of [simp]:
  assumes "good_comps (cs @ [c])"
  shows "path_parent (MkPath (path_of (cs @ [c]))) = MkPath (path_of cs)"
proof (cases "cs = []")
  case True
  with assms show ?thesis
    by (simp add: path_parent_def path_of_def Path_def normpath_def good_comp_def)
next
  case False
  with assms have "dirname (path_of (cs @ [c])) = path_of cs"
    by (auto simp: path_of_def join_with_snoc good_comp_def join_good_last join_good_ne
        intro!: dirname_append)
  with assms show ?thesis by (simp add: path_parent_def Path_def)
qed

lemma path_parent_root [simp]: "path_parent (MkPath ''.'') = MkPath ''.''"
  by (simp add: path_parent_def Path_def normpath_def)

lemma Path_path_of [simp]: "good_comps cs \<Longrightarrow> Path (path_of cs) = MkPath (path_of cs)"
  by (simp add: Path_def)

lemma path_div_path_of:
  assumes "good_comps (cs @ [c])"
  shows "path_div (MkPath (path_of cs)) c = MkPath (path_of (cs @ [c]))"
proof (cases "cs = []")
  case True
  from assms have c: "c \<noteq> []" "slash \<notin> set c" "c \<noteq> ''.''" "c \<noteq> ''..''" by (auto simp: good_comp_def)
  then have "split_on slash (''./'' @ c) = [''.'', c]"
    by (simp add: split_on_plain)
  moreover have "\<not> prefix ''/'' c" using c by (auto simp: prefix_def)
  ultimately show ?thesis
    using c True
    by (simp add: path_div_def Path_def path_of_def os_join_def normpath_def initial_slashes_def)
next
  case False
  have "\<not> prefix ''/'' c" using assms by (auto simp: prefix_def good_comp_def)
  with False assms have "os_join (path_of cs) c = path_of (cs @ [c])"
    by (simp add: os_join_def path_of_def join_with_snoc join_good_last join_good_ne)
  with assms show ?thesis by (simp add: path_div_def)
qed

lemma casefold_join: "casefold (join_with ''/'' cs) = join_with ''/'' (map casefold cs)"
  by (induction cs rule: induct_list012) auto

lemma casefold_path_of: "casefold (path_of cs) = path_of (map casefold cs)"
  by (simp add: path_of_def casefold_join)

lemma casefold_eq_dotdot: "casefold c = ''..'' \<longleftrightarrow> c = ''..''"
  by (auto simp: casefold_def map_eq_Cons_conv)

lemma slash_in_casefold [simp]: "slash \<in> set (casefold c) \<longleftrightarrow> slash \<in> set c"
  unfolding casefold_def set_map image_iff by (metis lower_char_slash)

lemma good_comp_casefold [simp]: "good_comp (casefold c) \<longleftrightarrow> good_comp c"
  by (simp add: good_comp_def casefold_eq_dotdot)

lemma good_comps_casefold [simp]: "good_comps (map casefold cs) \<longleftrightarrow> good_comps cs"
  by (simp add: good_comps_def)

lemma casefold_path_of_eq:
  "good_comps cs \<Longrightarrow> good_comps ds \<Longrightarrow>
     casefold (path_of cs) = casefold (path_of ds) \<longleftrightarrow> map casefold cs = map casefold ds"
  by (simp add: casefold_path_of path_of_inj)

text \<open>A path lies strictly below a folder iff its string starts with the folder's string and a
  slash (the home folder \<open>"."\<close> apart, which is no string prefix of anything).\<close>

lemma prefix_path_of:
  assumes "good_comps cs" "good_comps ds" "cs \<noteq> []"
  shows "prefix (path_of cs @ ''/'') (path_of ds) \<longleftrightarrow> strict_prefix cs ds"
proof
  assume "strict_prefix cs ds"
  then obtain es where es: "ds = cs @ es" "es \<noteq> []" by (auto simp: strict_prefix_def prefix_def)
  with assms show "prefix (path_of cs @ ''/'') (path_of ds)"
    by (simp add: path_of_def join_with_append)
next
  assume "prefix (path_of cs @ ''/'') (path_of ds)"
  then obtain t where t: "path_of ds = path_of cs @ slash # t" by (auto simp: prefix_def)
  have ds: "ds \<noteq> []"
  proof
    assume "ds = []"
    with t have "''.'' = path_of cs @ slash # t" by (simp add: path_of_def)
    with assms(1) show False using path_of_ne [OF assms(1)] by (cases "path_of cs") auto
  qed
  have "split_on slash (join_with [slash] cs @ slash # t) = cs @ split_on slash t"
    using assms(1,3)
  proof (induction cs rule: induct_list012)
    case 1
    then show ?case by simp
  next
    case (2 x)
    then show ?case by (simp add: split_on_append_sep good_comp_def)
  next
    case (3 x y zs)
    then show ?case by (simp add: split_on_append_sep good_comp_def)
  qed
  moreover have "path_of cs = join_with [slash] cs" using assms(3) by (simp add: path_of_def)
  ultimately have "ds = cs @ split_on slash t"
    using split_path_of [OF assms(2) ds] t by simp
  then show "strict_prefix cs ds" by (simp add: strict_prefix_def)
qed

end
