(* ===== verification/Entities.thy ===== *)
theory Entities
  imports Paths "HOL-Library.Word"
begin

text \<open>
  The data of the program: the exception classes, the domain entities (the pydantic models under
  \<open>src/app/app/*/domain\<close>) and the rows of the database tables
  (\<open>src/app/infrastructure/database/tortoise/models.py\<close>). A UUID is a natural number (its 128-bit
  value), a \<open>datetime\<close> is an integer (microseconds since the epoch), \<open>bytes\<close> is a list of octets.
  Field names carry a short prefix per class, because HOL record selectors are global.
\<close>

type_synonym uuid = nat
type_synonym datetime = int
type_synonym bytes = "8 word list"

section \<open>Exceptions\<close>

datatype file_error = FileActionNotAllowed | FileAlreadyExists | FileNotFound | FileTooLarge
  | IsADirectory | MalformedPath | MissingParent | NotADirectory | FileThumbnailUnavailable

datatype user_error = InvalidCredentials | StorageQuotaExceeded | UserAlreadyExists
  | UserEmailAlreadySet | UserEmailAlreadyVerified | UserEmailIsMissing | UserNotFound

datatype user_service_error = EmailUpdateAlreadyStarted | EmailUpdateNotStarted | OTPCodeAlreadySent

datatype blob_error = BlobNotFound | BlobAlreadyExists | BlobThumbnailUnavailable

datatype token_error = InvalidToken | ReusedToken

text \<open>\<open>infrastructure/storage/s3/clients/exceptions.py\<close>; \<open>HTTPStatusError\<close> is what \<open>httpx\<close> raises for
  any other failed response.\<close>

datatype s3_error = AccessDenied | BucketAlreadyExists | BucketAlreadyOwnedByYou | NoSuchKey
  | ResourceNotFound | SignatureDoesNotMatch | HTTPStatusError

text \<open>Errors of the language runtime and of the operating system the code can run into.\<close>

datatype os_error = FileNotFoundError | NotADirectoryError | IsADirectoryError | FileExistsError
  | OSInvalidArgument | ShutilError

datatype py_error = AssertionError | ValueError | KeyError | TypeError | IndexError | RuntimeError
  | LookupError | AttributeError | ZeroDivisionError | XMLParseError

text \<open>\<open>TaskGroupErr e\<close> is the exception group an \<open>asyncio.TaskGroup\<close> raises when a task raised \<open>e\<close>;
  \<open>LoopUnfinished\<close> is no exception of the program: it marks a loop that ran out of its fuel.\<close>

datatype exn = FileErr file_error | NamespaceNotFound | SharedLinkNotFound
  | UserErr user_error | UserServiceErr user_service_error | EmailUpdateLimitReached
  | BlobErr blob_error | BlobMetadataNotFound | AlbumNotFound | MediaItemNotFound
  | ThumbnailErr | OperationalError | S3Err s3_error | OSErr os_error | TokenErr token_error | QueryErr query_error | IntegrityError | PyErr py_error
  | TaskGroupErr exn | LoopUnfinished

section \<open>Domain entities\<close>

text \<open>\<open>MediaType.FOLDER\<close> and the other members the services look at.\<close>

definition mt_folder :: string where "mt_folder = ''application/directory''"
definition mt_octet_stream :: string where "mt_octet_stream = ''application/octet-stream''"

definition EMPTY_CONTENT_HASH :: string where "EMPTY_CONTENT_HASH = ''''"

definition SENTINEL_ID :: uuid where "SENTINEL_ID = 0"

record File =
  f_id :: uuid
  f_blob_id :: "uuid option"
  f_owner_id :: uuid
  f_ns_path :: string
  f_name :: string
  f_path :: path
  f_chash :: string
  f_size :: int
  f_modified_at :: datetime
  f_mediatype :: string
  f_shared :: bool

definition is_folder :: "File \<Rightarrow> bool" where
  "is_folder f \<longleftrightarrow> f_mediatype f = mt_folder"

definition is_hidden :: "File \<Rightarrow> bool" where
  "is_hidden f \<longleftrightarrow> prefix ''.'' (f_name f)"

record Namespace =
  nsp_id :: uuid
  nsp_path :: string
  nsp_owner_id :: uuid

record SharedLink =
  sl_id :: uuid
  sl_file_id :: uuid
  sl_token :: string
  sl_created_at :: datetime

record Account =
  ac_id :: uuid
  ac_user_id :: uuid
  ac_storage_quota :: "int option"

record User =
  u_id :: uuid
  u_username :: string
  u_password :: string
  u_email :: "string option"
  u_email_verified :: bool
  u_display_name :: string
  u_active :: bool
  u_superuser :: bool
  u_created_at :: datetime
  u_last_login_at :: "datetime option"

definition is_verified :: "User \<Rightarrow> bool" where
  "is_verified u \<longleftrightarrow> u_superuser u \<or> u_email_verified u"

record Bookmark =
  bk_user_id :: uuid
  bk_file_id :: uuid

record Blob =
  b_id :: uuid
  b_storage_key :: string
  b_size :: int
  b_chash :: string
  b_media_type :: string
  b_created_at :: datetime

datatype blob_job_payload =
    BlobJobDelete uuid string
  | BlobJobDeletePrefix string
  | BlobJobMove uuid string string
  | BlobJobMovePrefix string string

record BlobJob =
  bj_id :: uuid
  bj_payload :: blob_job_payload
  bj_created_at :: datetime

text \<open>\<open>Exif\<close>: the float fields are Unix timestamps, kept as integers.\<close>

record Exif =
  ex_make :: "string option"
  ex_model :: "string option"
  ex_focal_length :: "int option"
  ex_focal_length_35mm :: "int option"
  ex_fnumber :: "string option"
  ex_exposure :: "string option"
  ex_iso :: "string option"
  ex_dt_original :: "int option"
  ex_dt_digitized :: "int option"
  ex_height :: "int option"
  ex_width :: "int option"

record BlobMetadata =
  bm_blob_id :: uuid
  bm_data :: Exif

record Album =
  al_id :: uuid
  al_owner_id :: uuid
  al_title :: string
  al_slug :: string
  al_cover :: "uuid option"
  al_items_count :: int
  al_created_at :: datetime

record MediaItem =
  mi_id :: uuid
  mi_owner_id :: uuid
  mi_blob_id :: uuid
  mi_name :: string
  mi_media_type :: string
  mi_size :: int
  mi_chash :: string
  mi_taken_at :: "datetime option"
  mi_created_at :: datetime
  mi_modified_at :: datetime
  mi_deleted_at :: "datetime option"

datatype AuditTrailAction = Act_file_added | Act_file_moved | Act_file_trashed | Act_folder_created
  | Act_trash_emptied | Act_user_signed_in

record AuditTrailUser =
  au_id :: uuid
  au_username :: string

record AuditTrailFile =
  af_id :: uuid
  af_name :: string
  af_path :: string

record AuditTrail =
  at_id :: uuid
  at_action :: AuditTrailAction
  at_user :: "AuditTrailUser option"
  at_asset :: "AuditTrailFile option"
  at_created_at :: datetime

record CurrentUser =
  cu_id :: uuid
  cu_username :: string

text \<open>The content of an upload: the size it announces and its bytes.\<close>

record BlobContent =
  c_size :: int
  c_data :: bytes

section \<open>Rows\<close>

record account_row =
  ar_id :: uuid
  ar_user :: uuid
  ar_storage_quota :: "int option"

record album_row =
  lr_id :: uuid
  lr_title :: string
  lr_slug :: string
  lr_owner :: uuid
  lr_created_at :: datetime
  lr_items_count :: int
  lr_cover :: "uuid option"

record audit_action_row =
  aar_id :: uuid
  aar_name :: AuditTrailAction

record audit_row =
  atr_id :: uuid
  atr_created_at :: datetime
  atr_action :: uuid
  atr_user :: "uuid option"

record audit_asset_row =
  asr_trail :: uuid
  asr_file :: uuid

record blob_row =
  br_id :: uuid
  br_storage_key :: string
  br_size :: int
  br_chash :: string
  br_media_type :: string
  br_created_at :: datetime

record blob_job_row =
  jr_id :: uuid
  jr_data :: blob_job_payload
  jr_created_at :: datetime

record blob_metadata_row =
  mr_id :: uuid
  mr_data :: Exif
  mr_blob :: uuid

record bookmark_row =
  kr_id :: uuid
  kr_user :: uuid
  kr_file :: uuid

record file_row =
  fr_id :: uuid
  fr_name :: string
  fr_path :: string
  fr_size :: int
  fr_modified_at :: datetime
  fr_owner :: uuid
  fr_ns :: uuid
  fr_blob :: "uuid option"
  fr_deleted_at :: "datetime option"

record media_item_row =
  ir_id :: uuid
  ir_owner :: uuid
  ir_blob :: uuid
  ir_name :: string
  ir_created_at :: datetime
  ir_modified_at :: datetime
  ir_deleted_at :: "datetime option"

record favourite_row =
  vr_id :: uuid
  vr_user :: uuid
  vr_media_item :: uuid

record namespace_row =
  nr_id :: uuid
  nr_path :: string
  nr_owner :: uuid

record shared_link_row =
  sr_id :: uuid
  sr_token :: string
  sr_created_at :: datetime
  sr_file :: uuid

record user_row =
  ur_id :: uuid
  ur_username :: string
  ur_password :: string
  ur_email :: "string option"
  ur_email_verified :: bool
  ur_display_name :: string
  ur_created_at :: datetime
  ur_last_login_at :: "datetime option"
  ur_active :: bool
  ur_superuser :: bool

section \<open>The text form of a UUID\<close>

definition hex_digit :: "nat \<Rightarrow> char" where
  "hex_digit n = (if n < 10 then char_of (48 + n) else char_of (87 + n))"

fun hex_string :: "nat \<Rightarrow> nat \<Rightarrow> string" where
  "hex_string 0 n = []"
| "hex_string (Suc k) n = hex_string k (n div 16) @ [hex_digit (n mod 16)]"

text \<open>\<open>str(uuid)\<close>: 32 hexadecimal digits in groups of 8, 4, 4, 4 and 12.\<close>

definition uuid_str :: "uuid \<Rightarrow> string" where
  "uuid_str u =
     (let h = hex_string 32 u
      in take 8 h @ ''-'' @ take 4 (drop 8 h) @ ''-'' @ take 4 (drop 12 h) @ ''-''
         @ take 4 (drop 16 h) @ ''-'' @ drop 20 h)"

text \<open>For evaluation: the text of a UUID is computed when the UUID is known.\<close>

definition uuid_text :: "uuid \<Rightarrow> string" where
  "uuid_text u = uuid_str u"

lemma uuid_text_code [code]:
  "uuid_text u =
     (let h = hex_string 32 u
      in take 8 h @ ''-'' @ take 4 (drop 8 h) @ ''-'' @ take 4 (drop 12 h) @ ''-''
         @ take 4 (drop 16 h) @ ''-'' @ drop 20 h)"
  by (simp add: uuid_text_def uuid_str_def)

lemma uuid_str_code [code]: "uuid_str 0 = uuid_text 0" "uuid_str (Suc n) = uuid_text (Suc n)"
  by (simp_all add: uuid_text_def)

lemma length_hex_string [simp]: "length (hex_string k n) = k"
  by (induction k arbitrary: n) auto

lemma length_uuid_str [simp]: "length (uuid_str u) = 36"
  by (simp add: uuid_str_def Let_def)

lemma hex_digit_not_slash: "n < 16 \<Longrightarrow> hex_digit n \<noteq> slash"
proof -
  assume "n < 16"
  then have "n \<in> {0..<16}" by simp
  then show ?thesis by (auto simp: hex_digit_def char_of_eq_iff atLeastLessThan_nat_numeral)
qed

lemma slash_notin_hex_string: "slash \<notin> set (hex_string k n)"
  by (induction k arbitrary: n) (auto simp: hex_digit_not_slash dest: sym)

lemma slash_notin_uuid_str [simp]: "slash \<notin> set (uuid_str u)"
  using slash_notin_hex_string [of 32 u]
  by (auto simp: uuid_str_def Let_def dest: in_set_takeD in_set_dropD)

lemma uuid_str_ne [simp]: "uuid_str u \<noteq> []"
  by (metis length_uuid_str list.size(3) zero_neq_numeral)

end
