(* ===== verification/Database.thy ===== *)
theory Database
  imports Entities
begin

text \<open>
  The relational store behind \<open>TortoiseDatabase\<close>: one list of rows per table of \<open>models.py\<close>, the
  uniqueness constraints and foreign keys the tables declare, checked at insertion, and the
  \<open>on_delete\<close> rules, applied at deletion. Ids come from a counter, as \<open>uuid7\<close> values grow with time.
  A repository operation is a program over \<open>db\<close>.
\<close>

section \<open>Tables\<close>

record db =
  d_next :: uuid
  d_accounts :: "account_row list"
  d_albums :: "album_row list"
  d_album_items :: "(uuid \<times> uuid) list"
  d_actions :: "audit_action_row list"
  d_trails :: "audit_row list"
  d_assets :: "audit_asset_row list"
  d_blobs :: "blob_row list"
  d_jobs :: "blob_job_row list"
  d_metadata :: "blob_metadata_row list"
  d_bookmarks :: "bookmark_row list"
  d_files :: "file_row list"
  d_media :: "media_item_row list"
  d_favourites :: "favourite_row list"
  d_namespaces :: "namespace_row list"
  d_links :: "shared_link_row list"
  d_users :: "user_row list"

definition empty_db :: db where
  "empty_db = \<lparr> d_next = 1, d_accounts = [], d_albums = [], d_album_items = [], d_actions = [],
     d_trails = [], d_assets = [], d_blobs = [], d_jobs = [], d_metadata = [], d_bookmarks = [],
     d_files = [], d_media = [], d_favourites = [], d_namespaces = [], d_links = [], d_users = [] \<rparr>"

type_synonym 'a repo = "(db, exn, 'a) prog"

definition has_user :: "db \<Rightarrow> uuid \<Rightarrow> bool" where
  "has_user d u \<longleftrightarrow> u \<in> ur_id ` set (d_users d)"

definition has_namespace :: "db \<Rightarrow> uuid \<Rightarrow> bool" where
  "has_namespace d n \<longleftrightarrow> n \<in> nr_id ` set (d_namespaces d)"

definition has_blob :: "db \<Rightarrow> uuid \<Rightarrow> bool" where
  "has_blob d b \<longleftrightarrow> b \<in> br_id ` set (d_blobs d)"

definition has_file :: "db \<Rightarrow> uuid \<Rightarrow> bool" where
  "has_file d f \<longleftrightarrow> f \<in> fr_id ` set (d_files d)"

definition has_media :: "db \<Rightarrow> uuid \<Rightarrow> bool" where
  "has_media d m \<longleftrightarrow> m \<in> ir_id ` set (d_media d)"

section \<open>Insertion\<close>

text \<open>Each function checks the table's constraints and either appends the row under a fresh id or
  raises \<open>IntegrityError\<close>. The \<open>id\<close> of the argument is ignored.\<close>

definition insert_account :: "account_row \<Rightarrow> uuid repo" where
  "insert_account r = (\<lambda>d.
     if has_user d (ar_user r) \<and> ar_user r \<notin> ar_user ` set (d_accounts d)
     then (Inr (d_next d), d\<lparr>d_accounts := d_accounts d @ [r\<lparr>ar_id := d_next d\<rparr>], d_next := Suc (d_next d)\<rparr>)
     else (Inl IntegrityError, d))"

definition insert_action :: "AuditTrailAction \<Rightarrow> uuid repo" where
  "insert_action a = (\<lambda>d.
     (Inr (d_next d), d\<lparr>d_actions := d_actions d @ [\<lparr>aar_id = d_next d, aar_name = a\<rparr>],
                        d_next := Suc (d_next d)\<rparr>))"

definition insert_album :: "album_row \<Rightarrow> uuid repo" where
  "insert_album r = (\<lambda>d.
     if has_user d (lr_owner r)
        \<and> (lr_owner r, lr_slug r) \<notin> (\<lambda>x. (lr_owner x, lr_slug x)) ` set (d_albums d)
     then (Inr (d_next d), d\<lparr>d_albums := d_albums d @ [r\<lparr>lr_id := d_next d\<rparr>], d_next := Suc (d_next d)\<rparr>)
     else (Inl IntegrityError, d))"

text \<open>The column \<open>user\<close> of an audit trail is not nullable: the model's constructor raises
  \<open>ValueError\<close> on \<open>None\<close>.\<close>

definition insert_trail :: "audit_row \<Rightarrow> uuid repo" where
  "insert_trail r = (\<lambda>d.
     case atr_user r of None \<Rightarrow> (Inl (PyErr ValueError), d)
     | Some u \<Rightarrow>
         if has_user d u
         then (Inr (d_next d), d\<lparr>d_trails := d_trails d @ [r\<lparr>atr_id := d_next d\<rparr>], d_next := Suc (d_next d)\<rparr>)
         else (Inl IntegrityError, d))"

definition insert_asset :: "audit_asset_row \<Rightarrow> unit repo" where
  "insert_asset r = (\<lambda>d.
     if has_file d (asr_file r) then (Inr (), d\<lparr>d_assets := d_assets d @ [r]\<rparr>)
     else (Inl IntegrityError, d))"

definition insert_blob :: "blob_row \<Rightarrow> uuid repo" where
  "insert_blob r = (\<lambda>d.
     if br_storage_key r \<notin> br_storage_key ` set (d_blobs d)
     then (Inr (d_next d), d\<lparr>d_blobs := d_blobs d @ [r\<lparr>br_id := d_next d\<rparr>], d_next := Suc (d_next d)\<rparr>)
     else (Inl IntegrityError, d))"

definition insert_job :: "blob_job_row \<Rightarrow> uuid repo" where
  "insert_job r = (\<lambda>d.
     (Inr (d_next d), d\<lparr>d_jobs := d_jobs d @ [r\<lparr>jr_id := d_next d\<rparr>], d_next := Suc (d_next d)\<rparr>))"

definition insert_metadata :: "blob_metadata_row \<Rightarrow> uuid repo" where
  "insert_metadata r = (\<lambda>d.
     if has_blob d (mr_blob r) \<and> mr_blob r \<notin> mr_blob ` set (d_metadata d)
     then (Inr (d_next d), d\<lparr>d_metadata := d_metadata d @ [r\<lparr>mr_id := d_next d\<rparr>], d_next := Suc (d_next d)\<rparr>)
     else (Inl IntegrityError, d))"

definition file_conflict :: "db \<Rightarrow> file_row \<Rightarrow> bool" where
  "file_conflict d r \<longleftrightarrow> (\<exists>x \<in> set (d_files d). fr_path x = fr_path r \<and> fr_ns x = fr_ns r)"

definition file_fk_ok :: "db \<Rightarrow> file_row \<Rightarrow> bool" where
  "file_fk_ok d r \<longleftrightarrow> has_user d (fr_owner r) \<and> has_namespace d (fr_ns r)
     \<and> (case fr_blob r of None \<Rightarrow> True | Some b \<Rightarrow> has_blob d b)"

definition insert_file :: "file_row \<Rightarrow> uuid repo" where
  "insert_file r = (\<lambda>d.
     if file_fk_ok d r \<and> \<not> file_conflict d r
     then (Inr (d_next d), d\<lparr>d_files := d_files d @ [r\<lparr>fr_id := d_next d\<rparr>], d_next := Suc (d_next d)\<rparr>)
     else (Inl IntegrityError, d))"

definition insert_media :: "media_item_row \<Rightarrow> uuid repo" where
  "insert_media r = (\<lambda>d.
     if has_user d (ir_owner r) \<and> has_blob d (ir_blob r)
     then (Inr (d_next d), d\<lparr>d_media := d_media d @ [r\<lparr>ir_id := d_next d\<rparr>], d_next := Suc (d_next d)\<rparr>)
     else (Inl IntegrityError, d))"

definition insert_namespace :: "namespace_row \<Rightarrow> uuid repo" where
  "insert_namespace r = (\<lambda>d.
     if has_user d (nr_owner r) \<and> nr_path r \<notin> nr_path ` set (d_namespaces d)
     then (Inr (d_next d), d\<lparr>d_namespaces := d_namespaces d @ [r\<lparr>nr_id := d_next d\<rparr>],
                             d_next := Suc (d_next d)\<rparr>)
     else (Inl IntegrityError, d))"

definition insert_link :: "shared_link_row \<Rightarrow> uuid repo" where
  "insert_link r = (\<lambda>d.
     if has_file d (sr_file r) \<and> sr_file r \<notin> sr_file ` set (d_links d)
        \<and> sr_token r \<notin> sr_token ` set (d_links d)
     then (Inr (d_next d), d\<lparr>d_links := d_links d @ [r\<lparr>sr_id := d_next d\<rparr>], d_next := Suc (d_next d)\<rparr>)
     else (Inl IntegrityError, d))"

text \<open>Two rows without an email do not conflict (SQL's \<open>NULL\<close>).\<close>

definition user_conflict :: "db \<Rightarrow> user_row \<Rightarrow> bool" where
  "user_conflict d r \<longleftrightarrow> (\<exists>x \<in> set (d_users d).
     ur_username x = ur_username r \<or> (ur_email r \<noteq> None \<and> ur_email x = ur_email r))"

definition insert_user :: "user_row \<Rightarrow> uuid repo" where
  "insert_user r = (\<lambda>d.
     if \<not> user_conflict d r
     then (Inr (d_next d), d\<lparr>d_users := d_users d @ [r\<lparr>ur_id := d_next d\<rparr>], d_next := Suc (d_next d)\<rparr>)
     else (Inl IntegrityError, d))"

section \<open>\<open>bulk_create(..., ignore_conflicts=True)\<close>\<close>

text \<open>A row that breaks a uniqueness constraint is skipped; a foreign key to a missing row makes the
  whole statement fail, and no row is inserted.\<close>

definition insert_file_ignoring :: "db \<Rightarrow> file_row \<Rightarrow> db" where
  "insert_file_ignoring d r =
     (if file_conflict d r then d
      else d\<lparr>d_files := d_files d @ [r\<lparr>fr_id := d_next d\<rparr>], d_next := Suc (d_next d)\<rparr>)"

definition bulk_insert_files :: "file_row list \<Rightarrow> unit repo" where
  "bulk_insert_files rs = (\<lambda>d.
     if list_all (file_fk_ok d) rs then (Inr (), foldl insert_file_ignoring d rs)
     else (Inl IntegrityError, d))"

definition insert_bookmark_ignoring :: "db \<Rightarrow> bookmark_row \<Rightarrow> db" where
  "insert_bookmark_ignoring d r =
     (if (\<exists>x \<in> set (d_bookmarks d). kr_user x = kr_user r \<and> kr_file x = kr_file r) then d
      else d\<lparr>d_bookmarks := d_bookmarks d @ [r\<lparr>kr_id := d_next d\<rparr>], d_next := Suc (d_next d)\<rparr>)"

definition bulk_insert_bookmarks :: "bookmark_row list \<Rightarrow> unit repo" where
  "bulk_insert_bookmarks rs = (\<lambda>d.
     if list_all (\<lambda>r. has_user d (kr_user r) \<and> has_file d (kr_file r)) rs
     then (Inr (), foldl insert_bookmark_ignoring d rs)
     else (Inl IntegrityError, d))"

definition insert_favourite_ignoring :: "db \<Rightarrow> favourite_row \<Rightarrow> db" where
  "insert_favourite_ignoring d r =
     (if (\<exists>x \<in> set (d_favourites d). vr_user x = vr_user r \<and> vr_media_item x = vr_media_item r) then d
      else d\<lparr>d_favourites := d_favourites d @ [r\<lparr>vr_id := d_next d\<rparr>], d_next := Suc (d_next d)\<rparr>)"

definition bulk_insert_favourites :: "favourite_row list \<Rightarrow> unit repo" where
  "bulk_insert_favourites rs = (\<lambda>d.
     if list_all (\<lambda>r. has_user d (vr_user r) \<and> has_media d (vr_media_item r)) rs
     then (Inr (), foldl insert_favourite_ignoring d rs)
     else (Inl IntegrityError, d))"

section \<open>Deletion\<close>

definition delete_files :: "(file_row \<Rightarrow> bool) \<Rightarrow> db \<Rightarrow> db" where
  "delete_files P d =
     (let gone = fr_id ` set (filter P (d_files d))
      in d\<lparr>d_files := q_delete P (d_files d),
           d_links := q_delete (\<lambda>r. sr_file r \<in> gone) (d_links d),
           d_bookmarks := q_delete (\<lambda>r. kr_file r \<in> gone) (d_bookmarks d),
           d_assets := q_delete (\<lambda>r. asr_file r \<in> gone) (d_assets d)\<rparr>)"

definition blob_in_use :: "db \<Rightarrow> uuid \<Rightarrow> bool" where
  "blob_in_use d b \<longleftrightarrow>
     (\<exists>f \<in> set (d_files d). fr_blob f = Some b) \<or> (\<exists>m \<in> set (d_media d). ir_blob m = b)"

definition delete_blobs :: "(blob_row \<Rightarrow> bool) \<Rightarrow> unit repo" where
  "delete_blobs P = (\<lambda>d.
     let gone = br_id ` set (filter P (d_blobs d))
     in if (\<exists>b \<in> gone. blob_in_use d b) then (Inl IntegrityError, d)
        else (Inr (), d\<lparr>d_blobs := q_delete P (d_blobs d),
                        d_metadata := q_delete (\<lambda>r. mr_blob r \<in> gone) (d_metadata d)\<rparr>))"

definition delete_media :: "(media_item_row \<Rightarrow> bool) \<Rightarrow> db \<Rightarrow> db" where
  "delete_media P d =
     (let gone = ir_id ` set (filter P (d_media d))
      in d\<lparr>d_media := q_delete P (d_media d),
           d_albums := q_update (\<lambda>r. case lr_cover r of None \<Rightarrow> False | Some c \<Rightarrow> c \<in> gone) (\<lambda>r. r\<lparr>lr_cover := None\<rparr>) (d_albums d),
           d_album_items := q_delete (\<lambda>(a, m). m \<in> gone) (d_album_items d),
           d_favourites := q_delete (\<lambda>r. vr_media_item r \<in> gone) (d_favourites d)\<rparr>)"

definition delete_albums :: "(album_row \<Rightarrow> bool) \<Rightarrow> db \<Rightarrow> db" where
  "delete_albums P d =
     (let gone = lr_id ` set (filter P (d_albums d))
      in d\<lparr>d_albums := q_delete P (d_albums d),
           d_album_items := q_delete (\<lambda>(a, m). a \<in> gone) (d_album_items d)\<rparr>)"

section \<open>Transactions\<close>

text \<open>\<open>async with db.atomic()\<close>: an exception leaves the database as it was at the entry.\<close>

definition atomic_db :: "'a repo \<Rightarrow> 'a repo" where
  "atomic_db m = (\<lambda>d. case m d of (Inl e, d') \<Rightarrow> (Inl e, d) | (Inr x, d') \<Rightarrow> (Inr x, d'))"

text \<open>\<open>DoesNotExist\<close> turned into a domain exception.\<close>

definition or_missing :: "exn \<Rightarrow> query_error + 'a \<Rightarrow> exn + 'a" where
  "or_missing e r = (case r of Inr x \<Rightarrow> Inr x | Inl DoesNotExist \<Rightarrow> Inl e
                     | Inl MultipleObjectsReturned \<Rightarrow> Inl (QueryErr MultipleObjectsReturned))"

definition or_query_err :: "query_error + 'a \<Rightarrow> exn + 'a" where
  "or_query_err r = (case r of Inr x \<Rightarrow> Inr x | Inl e \<Rightarrow> Inl (QueryErr e))"

lemma or_missing_Inr [simp]: "or_missing e r = Inr x \<longleftrightarrow> r = Inr x"
  by (auto simp: or_missing_def split: sum.splits query_error.splits)

lemma or_query_err_Inr [simp]: "or_query_err r = Inr x \<longleftrightarrow> r = Inr x"
  by (auto simp: or_query_err_def split: sum.splits)

lemma or_missing_missing [simp]: "or_missing e (Inl DoesNotExist) = Inl e"
  by (simp add: or_missing_def)

lemma or_missing_found [simp]: "or_missing e (Inr x) = Inr x"
  by (simp add: or_missing_def)

lemma or_query_err_found [simp]: "or_query_err (Inr x) = Inr x"
  by (simp add: or_query_err_def)

section \<open>Well-formed databases\<close>

text \<open>What the constraints of the tables guarantee: primary keys are distinct and below the counter,
  foreign keys of files, blobs and media items point to rows, and the unique columns are unique.\<close>

definition ids_below :: "uuid \<Rightarrow> ('r \<Rightarrow> uuid) \<Rightarrow> 'r list \<Rightarrow> bool" where
  "ids_below n k t \<longleftrightarrow> distinct (map k t) \<and> (\<forall>r \<in> set t. k r < n)"

definition db_wf :: "db \<Rightarrow> bool" where
  "db_wf d \<longleftrightarrow>
     0 < d_next d
     \<and> ids_below (d_next d) fr_id (d_files d)
     \<and> ids_below (d_next d) br_id (d_blobs d)
     \<and> ids_below (d_next d) nr_id (d_namespaces d)
     \<and> ids_below (d_next d) jr_id (d_jobs d)
     \<and> ids_below (d_next d) ir_id (d_media d)
     \<and> distinct (map (\<lambda>f. (fr_path f, fr_ns f)) (d_files d))
     \<and> distinct (map br_storage_key (d_blobs d))
     \<and> distinct (map nr_path (d_namespaces d))
     \<and> (\<forall>n \<in> set (d_namespaces d). has_user d (nr_owner n))
     \<and> (\<forall>f \<in> set (d_files d). file_fk_ok d f)
     \<and> (\<forall>m \<in> set (d_media d). has_blob d (ir_blob m))"

lemma ids_below_insert:
  "ids_below n k t \<Longrightarrow> k r = n \<Longrightarrow> ids_below (Suc n) k (t @ [r])"
  by (auto simp: ids_below_def less_Suc_eq)

lemma ids_below_mono: "ids_below n k t \<Longrightarrow> n \<le> m \<Longrightarrow> ids_below m k t"
  by (fastforce simp: ids_below_def)

lemma ids_below_delete: "ids_below n k t \<Longrightarrow> ids_below n k (q_delete P t)"
  by (auto simp: ids_below_def distinct_map_q_delete)

lemma ids_below_alt: "ids_below n k t \<longleftrightarrow> distinct (map k t) \<and> (\<forall>i \<in> set (map k t). i < n)"
  by (simp add: ids_below_def)

lemma ids_below_cong: "map k t = map k t' \<Longrightarrow> ids_below n k t = ids_below n k t'"
  by (simp only: ids_below_alt)

lemma ids_below_update:
  assumes "ids_below n k t" "\<And>r. k (f r) = k r"
  shows "ids_below n k (q_update P f t)"
proof -
  have "map k (q_update P f t) = map k t" using assms(2) by (rule map_q_update)
  then show ?thesis using assms(1) unfolding ids_below_alt by simp
qed

lemma db_wf_empty: "db_wf empty_db"
  by (simp add: db_wf_def empty_db_def ids_below_def)

end
