(* ===== verification/External.thy ===== *)
theory External
  imports Database
begin

text \<open>
  What the program takes from outside \<open>src/\<close>: the functions of third-party packages and of the
  database engine, gathered in the record \<open>ext\<close> every operation that needs one takes as its first
  argument, and the settings of \<open>src/app/config.py\<close> the services read. No property depends on a
  particular value of these fields unless it says so in a hypothesis.
\<close>

text \<open>A value of an EXIF tag, and what \<open>Image.open\<close> tells about an image.\<close>

datatype exif_value = EInt int | EStr string | ERat int int

record image_info =
  im_format :: string
  im_animated :: bool
  im_width :: int
  im_height :: int

text \<open>A claim of a JSON Web Token: a string or a number.\<close>

datatype claim = JStr string | JInt int

record ext =
  x_sha256 :: "bytes \<Rightarrow> bytes"
  x_guess_mime :: "bytes \<Rightarrow> string option"
  x_filetype_mimes :: "string list"
  x_extension_mime :: "string \<Rightarrow> string option"
  x_posix_regex :: "string \<Rightarrow> string \<Rightarrow> bool"
  x_time_tag :: "datetime \<Rightarrow> string"
  x_make_password :: "string \<Rightarrow> string"
  x_check_password :: "string \<Rightarrow> string \<Rightarrow> bool"
  x_image_open :: "bytes \<Rightarrow> image_info option"
  x_webp :: "bytes \<Rightarrow> int \<Rightarrow> int \<Rightarrow> int \<Rightarrow> bytes"
  x_gif_frames :: "bytes \<Rightarrow> int \<Rightarrow> bytes"
  x_pdf_box :: "bytes \<Rightarrow> string \<Rightarrow> int \<times> int"
  x_pdf_webp :: "bytes \<Rightarrow> string \<Rightarrow> (int \<times> int) option \<Rightarrow> int \<Rightarrow> int \<Rightarrow> bytes"
  x_exif :: "bytes \<Rightarrow> (string \<times> exif_value) list"
  x_rational_str :: "int \<Rightarrow> int \<Rightarrow> string"
  x_strptime :: "string \<Rightarrow> int option"
  x_random :: "nat \<Rightarrow> nat"
  x_jwt_encode :: "(string \<times> claim) list \<Rightarrow> string"
  x_jwt_decode :: "datetime \<Rightarrow> string \<Rightarrow> (string \<times> claim) list option"
  x_claim_datetime :: "claim \<Rightarrow> datetime option"
  x_valid_email :: "string \<Rightarrow> bool"
  x_nfkc :: "string \<Rightarrow> string"
  x_nfkd_ascii :: "string \<Rightarrow> string"
  x_date_dir :: "datetime \<Rightarrow> string"

text \<open>\<open>x_sha256\<close>: \<open>hashlib.sha256(b).digest()\<close>; \<open>x_guess_mime\<close>: \<open>filetype.guess_mime\<close>;
  \<open>x_filetype_mimes\<close>: the MIME types of \<open>filetype.TYPES\<close>; \<open>x_extension_mime\<close>:
  \<open>mimetypes.guess_type(name, strict=False)[0]\<close>, which reads the system's type tables;
  \<open>x_posix_regex p s\<close>: the database's case-insensitive regular expression match;
  \<open>x_time_tag t\<close>: \<open>f"{t:%H%M%S%f}"\<close>; the next two are \<open>bcrypt\<close>; \<open>x_image_open\<close> up to
  \<open>x_gif_frames\<close> are Pillow (\<open>None\<close>: \<open>UnidentifiedImageError\<close> or \<open>DecompressionBombError\<close>), the \<open>x_pdf\<close>
  fields are PyMuPDF, \<open>x_exif\<close> is Pillow's merged EXIF dictionary under the names of
  \<open>ExifTags.TAGS\<close>, \<open>x_rational_str\<close> is \<open>str(IFDRational)\<close>, and \<open>x_strptime\<close> is
  \<open>datetime.strptime(s, "%Y:%m:%d %H:%M:%S").timestamp()\<close> in the local time zone. \<open>x_random k\<close> is the
  \<open>k\<close>-th number drawn from the operating system's generator; \<open>x_jwt_encode\<close> and \<open>x_jwt_decode\<close> are
  \<open>jose.jwt\<close> with the secret key (\<open>None\<close>: \<open>JWTError\<close>, among others when the token has expired at the
  given time); \<open>x_claim_datetime\<close> and \<open>x_valid_email\<close> are pydantic; the \<open>x_nfk\<close> fields are the
  normal forms of \<open>unicodedata\<close>, and \<open>x_date_dir t\<close> is \<open>f"{t:%Y}/{t:%m}/{t:%d}"\<close>.\<close>

record features =
  cfg_upload_max_size :: int
  cfg_max_file_size_to_thumbnail :: int
  cfg_thumbnail_sizes :: "int list"
  cfg_shared_links_enabled :: bool
  cfg_sign_up_enabled :: bool
  cfg_verification_required :: bool
  cfg_quota :: "int option"
  cfg_access_token_ttl :: int
  cfg_refresh_token_ttl :: int

end
