(* ===== verification/FileRepo.thy ===== *)
theory FileRepo
  imports External "HOL-Library.Product_Lexorder"
begin

text \<open>
  The repositories of the files component:
  \<open>src/app/infrastructure/database/tortoise/repositories/{file,namespace,shared_link}.py\<close>.
  Paths are passed as strings, as the repositories receive \<open>str(path)\<close>. Lookups by path compare
  case-insensitively (\<open>iexact\<close>, \<open>istartswith\<close>, \<open>Lower\<close>), writes by \<open>path__in\<close> compare exactly, as
  in the source; the unique index of the table is case-sensitive.
\<close>

section \<open>Reading rows\<close>

definition in_ns :: "db \<Rightarrow> string \<Rightarrow> file_row \<Rightarrow> bool" where
  "in_ns d ns_path r \<longleftrightarrow> (\<exists>n \<in> set (d_namespaces d). nr_id n = fr_ns r \<and> nr_path n = ns_path)"

definition iexact :: "string \<Rightarrow> string \<Rightarrow> bool" where
  "iexact x y \<longleftrightarrow> casefold x = casefold y"

definition istartswith :: "string \<Rightarrow> string \<Rightarrow> bool" where
  "istartswith x p \<longleftrightarrow> prefix (casefold p) (casefold x)"

definition file_fields :: "db \<Rightarrow> file_row \<Rightarrow> exn + (string \<times> string)" where
  "file_fields d r = (case fr_blob r of None \<Rightarrow> Inr (EMPTY_CONTENT_HASH, mt_folder)
     | Some b \<Rightarrow> (case filter (\<lambda>x. br_id x = b) (d_blobs d) of
          [] \<Rightarrow> Inl (PyErr AssertionError)
        | x # _ \<Rightarrow> Inr (br_chash x, br_media_type x)))"

definition row_ns_path :: "db \<Rightarrow> file_row \<Rightarrow> string" where
  "row_ns_path d r = (case filter (\<lambda>n. nr_id n = fr_ns r) (d_namespaces d) of [] \<Rightarrow> [] | n # _ \<Rightarrow> nr_path n)"

definition file_from_db :: "string option \<Rightarrow> db \<Rightarrow> file_row \<Rightarrow> exn + File" where
  "file_from_db ns_path d r = (case file_fields d r of Inl e \<Rightarrow> Inl e
     | Inr (chash, mediatype) \<Rightarrow> Inr
         \<lparr> f_id = fr_id r, f_blob_id = fr_blob r, f_owner_id = fr_owner r,
           f_ns_path = (case ns_path of Some p \<Rightarrow> if p = [] then row_ns_path d r else p
                        | None \<Rightarrow> row_ns_path d r),
           f_name = fr_name r, f_path = Path (fr_path r), f_chash = chash, f_size = fr_size r,
           f_modified_at = fr_modified_at r, f_mediatype = mediatype, f_shared = False \<rparr>)"

definition file_at :: "db \<Rightarrow> string \<Rightarrow> string \<Rightarrow> file_row \<Rightarrow> bool" where
  "file_at d ns_path path r \<longleftrightarrow> in_ns d ns_path r \<and> iexact (fr_path r) path"

section \<open>FileRepository\<close>

definition file_count_by_path_pattern :: "ext \<Rightarrow> string \<Rightarrow> string \<Rightarrow> nat repo" where
  "file_count_by_path_pattern x ns_path pattern =
     gets (\<lambda>d. length (filter (\<lambda>r. in_ns d ns_path r \<and> x_posix_regex x pattern (fr_path r)) (d_files d)))"

definition file_delete :: "string \<Rightarrow> string \<Rightarrow> File repo" where
  "file_delete ns_path path =
     bnd (query (\<lambda>d. or_missing (FileErr FileNotFound) (q_get (file_at d ns_path path) (d_files d)))) (\<lambda>obj.
     bnd (query (\<lambda>d. file_from_db (Some ns_path) d obj)) (\<lambda>file.
     andthen (modify (delete_files (\<lambda>r. fr_id r = fr_id obj)))
     (ret file)))"

definition namespace_row_get :: "string \<Rightarrow> namespace_row repo" where
  "namespace_row_get ns_path = query (\<lambda>d. or_query_err (q_get (\<lambda>n. nr_path n = ns_path) (d_namespaces d)))"

definition file_delete_all_with_prefix :: "string \<Rightarrow> string \<Rightarrow> unit repo" where
  "file_delete_all_with_prefix ns_path p =
     bnd (namespace_row_get ns_path) (\<lambda>ns.
       modify (delete_files (\<lambda>r. fr_ns r = nr_id ns \<and> istartswith (fr_path r) p)))"

text \<open>A query with no disjunct (\<open>Q()\<close>) restricts nothing.\<close>

definition any_of :: "('r \<Rightarrow> bool) list \<Rightarrow> 'r \<Rightarrow> bool" where
  "any_of ps r \<longleftrightarrow> ps = [] \<or> (\<exists>P \<in> set ps. P r)"

definition prefix_terms :: "db \<Rightarrow> string \<times> string list \<Rightarrow> exn + (file_row \<Rightarrow> bool) list" where
  "prefix_terms d item =
     (case filter (\<lambda>n. nr_path n = fst item) (d_namespaces d) of [] \<Rightarrow> Inl (PyErr KeyError)
      | n # _ \<Rightarrow> Inr (map (\<lambda>p r. fr_ns r = nr_id n \<and> istartswith (fr_path r) p) (snd item)))"

definition file_delete_all_with_prefix_batch :: "(string \<times> string list) list \<Rightarrow> unit repo" where
  "file_delete_all_with_prefix_batch items =
     (if items = [] then ret ()
      else bnd (query (\<lambda>d. map_result (prefix_terms d) items)) (\<lambda>terms.
             modify (delete_files (any_of (concat terms)))))"

definition file_delete_batch :: "string \<Rightarrow> string list \<Rightarrow> unit repo" where
  "file_delete_batch ns_path paths =
     bnd (namespace_row_get ns_path) (\<lambda>ns.
       modify (delete_files (\<lambda>r. fr_ns r = nr_id ns \<and> fr_path r \<in> set paths)))"

definition file_exists_at_path :: "string \<Rightarrow> string \<Rightarrow> bool repo" where
  "file_exists_at_path ns_path path = gets (\<lambda>d. \<exists>r \<in> set (d_files d). file_at d ns_path path r)"

definition file_exists_with_id :: "string \<Rightarrow> uuid \<Rightarrow> bool repo" where
  "file_exists_with_id ns_path file_id =
     gets (\<lambda>d. \<exists>r \<in> set (d_files d). in_ns d ns_path r \<and> fr_id r = file_id)"

definition file_get_by_id :: "uuid \<Rightarrow> File repo" where
  "file_get_by_id file_id =
     bnd (query (\<lambda>d. or_missing (FileErr FileNotFound) (q_get (\<lambda>r. fr_id r = file_id) (d_files d)))) (\<lambda>obj.
       query (\<lambda>d. file_from_db (Some (row_ns_path d obj)) d obj))"

definition by_lower_path :: "file_row list \<Rightarrow> file_row list" where
  "by_lower_path rs = sort_key (\<lambda>r. casefold (fr_path r)) rs"

definition file_get_by_id_batch :: "uuid list \<Rightarrow> File list repo" where
  "file_get_by_id_batch ids =
     query (\<lambda>d. map_result (file_from_db None d)
                  (by_lower_path (filter (\<lambda>r. fr_id r \<in> set ids) (d_files d))))"

definition file_get_by_path :: "string \<Rightarrow> string \<Rightarrow> File repo" where
  "file_get_by_path ns_path path =
     bnd (query (\<lambda>d. or_missing (FileErr FileNotFound) (q_get (file_at d ns_path path) (d_files d)))) (\<lambda>obj.
       query (\<lambda>d. file_from_db (Some ns_path) d obj))"

definition file_get_by_path_batch :: "string \<Rightarrow> string list \<Rightarrow> File list repo" where
  "file_get_by_path_batch ns_path paths =
     query (\<lambda>d. map_result (file_from_db (Some ns_path) d)
       (by_lower_path (filter (\<lambda>r. in_ns d ns_path r \<and> casefold (fr_path r) \<in> casefold ` set paths)
                         (d_files d))))"

definition file_incr_size_batch :: "string \<Rightarrow> string list \<Rightarrow> int \<Rightarrow> unit repo" where
  "file_incr_size_batch ns_path paths value =
     (if value = 0 then ret ()
      else bnd (namespace_row_get ns_path) (\<lambda>ns.
             modify (\<lambda>d. d\<lparr>d_files := q_update (\<lambda>r. fr_ns r = nr_id ns \<and> fr_path r \<in> set paths)
                                        (\<lambda>r. r\<lparr>fr_size := fr_size r + value\<rparr>) (d_files d)\<rparr>)))"

text \<open>\<open>re.escape\<close>: a backslash before every special character.\<close>

definition re_special :: "char \<Rightarrow> bool" where
  "re_special c \<longleftrightarrow> c \<in> set ''()[]{}?*+-|^$.&~# '' \<or> of_char c \<in> {92 :: nat, 9, 10, 11, 12, 13}"

definition re_escape :: "string \<Rightarrow> string" where
  "re_escape s = concat (map (\<lambda>c. if re_special c then [CHR 0x5C, c] else [c]) s)"

definition child_pattern :: "string \<Rightarrow> string" where
  "child_pattern p = ''^'' @ re_escape p @ ''[^/]+$''"

definition file_list_with_prefix :: "ext \<Rightarrow> string \<Rightarrow> string \<Rightarrow> File list repo" where
  "file_list_with_prefix x ns_path p =
     bnd (query (\<lambda>d. map_result (file_from_db (Some ns_path) d)
            (filter (\<lambda>r. in_ns d ns_path r \<and> x_posix_regex x (child_pattern p) (fr_path r)) (d_files d))))
     (\<lambda>results. ret (sort_key (\<lambda>f. (f_mediatype f \<noteq> mt_folder, casefold (f_name f))) results))"

definition file_list_all_with_prefix_batch :: "(string \<times> string list) list \<Rightarrow> File list repo" where
  "file_list_all_with_prefix_batch items =
     (if items = [] then ret []
      else query (\<lambda>d. map_result (file_from_db None d)
             (filter (any_of (concat (map (\<lambda>(ns_path, ps).
                 map (\<lambda>p r. in_ns d ns_path r \<and> istartswith (fr_path r) p) ps) items)))
               (d_files d))))"

text \<open>\<open>(path, namespace)\<close> is unique in the table; an update that breaks it fails.\<close>

definition update_files :: "(file_row \<Rightarrow> bool) \<Rightarrow> (file_row \<Rightarrow> file_row) \<Rightarrow> unit repo" where
  "update_files P f = (\<lambda>d.
     let t = q_update P f (d_files d)
     in if distinct (map (\<lambda>r. (fr_path r, fr_ns r)) t) then (Inr (), d\<lparr>d_files := t\<rparr>)
        else (Inl IntegrityError, d))"

definition replace_row_prefix ::
  "string \<Rightarrow> string \<Rightarrow> namespace_row option \<Rightarrow> file_row \<Rightarrow> file_row" where
  "replace_row_prefix at_prefix to_prefix to_ns r =
     (let to_path = replace_first at_prefix to_prefix (fr_path r);
          r' = r\<lparr>fr_path := to_path, fr_name := path_name (Path to_path)\<rparr>
      in case to_ns of None \<Rightarrow> r' | Some ns \<Rightarrow> r'\<lparr>fr_ns := nr_id ns, fr_owner := nr_owner ns\<rparr>)"

text \<open>The namespace a row moves to, when it is not the one it is in.\<close>

definition other_namespace :: "string \<Rightarrow> string \<Rightarrow> namespace_row option repo" where
  "other_namespace at_ns_path to_ns_path =
     (if to_ns_path \<noteq> at_ns_path then bnd (namespace_row_get to_ns_path) (\<lambda>ns. ret (Some ns)) else ret None)"

definition file_replace_path_prefix :: "string \<times> string \<Rightarrow> string \<times> string \<Rightarrow> unit repo" where
  "file_replace_path_prefix at to =
     (let (at_ns_path, at_prefix) = at; (to_ns_path, to_prefix) = to in
      bnd (other_namespace at_ns_path to_ns_path) (\<lambda>to_ns.
      bnd (gets (\<lambda>d. filter (\<lambda>r. in_ns d at_ns_path r \<and> istartswith (fr_path r) (at_prefix @ ''/''))
                       (d_files d))) (\<lambda>objs.
      update_files (\<lambda>r. fr_id r \<in> fr_id ` set objs) (replace_row_prefix at_prefix to_prefix to_ns))))"

definition file_save :: "File \<Rightarrow> File repo" where
  "file_save file =
     bnd (namespace_row_get (f_ns_path file)) (\<lambda>ns.
     bnd (try_else (insert_file
            \<lparr> fr_id = 0, fr_name = f_name file, fr_path = path_str (f_path file), fr_size = f_size file,
              fr_modified_at = f_modified_at file, fr_owner = nr_owner ns, fr_ns = nr_id ns,
              fr_blob = f_blob_id file, fr_deleted_at = None \<rparr>)
          (\<lambda>e. raise (if e = IntegrityError then FileErr FileAlreadyExists else e))) (\<lambda>id.
     file_get_by_id id))"

definition file_new_row :: "db \<Rightarrow> File \<Rightarrow> exn + file_row" where
  "file_new_row d f = (case filter (\<lambda>n. nr_path n = f_ns_path f) (d_namespaces d) of
       [] \<Rightarrow> Inl (PyErr KeyError)
     | ns # _ \<Rightarrow> Inr
         \<lparr> fr_id = 0, fr_name = f_name f, fr_path = path_str (f_path f), fr_size = f_size f,
           fr_modified_at = f_modified_at f, fr_owner = nr_owner ns, fr_ns = nr_id ns,
           fr_blob = f_blob_id f, fr_deleted_at = None \<rparr>)"

definition file_save_batch :: "File list \<Rightarrow> unit repo" where
  "file_save_batch files =
     (if files = [] then ret ()
      else bnd (query (\<lambda>d. map_result (file_new_row d) files)) bulk_insert_files)"

record FileUpdate =
  fu_ns_path :: "string option"
  fu_name :: "string option"
  fu_path :: "string option"
  fu_size :: "int option"

definition apply_update :: "FileUpdate \<Rightarrow> namespace_row option \<Rightarrow> file_row \<Rightarrow> file_row" where
  "apply_update u ns r = r
     \<lparr> fr_name := (case fu_name u of Some n \<Rightarrow> n | None \<Rightarrow> fr_name r),
       fr_path := (case fu_path u of Some p \<Rightarrow> p | None \<Rightarrow> fr_path r),
       fr_size := (case fu_size u of Some s \<Rightarrow> s | None \<Rightarrow> fr_size r),
       fr_ns := (case ns of Some n \<Rightarrow> nr_id n | None \<Rightarrow> fr_ns r),
       fr_owner := (case ns of Some n \<Rightarrow> nr_owner n | None \<Rightarrow> fr_owner r) \<rparr>"

definition file_update :: "File \<Rightarrow> FileUpdate \<Rightarrow> File repo" where
  "file_update file u =
     (let ns_path = (case fu_ns_path u of Some p \<Rightarrow> p | None \<Rightarrow> f_ns_path file) in
      bnd (other_namespace (f_ns_path file) ns_path) (\<lambda>ns.
      andthen (update_files (\<lambda>r. fr_id r = f_id file) (apply_update u ns))
      (bnd (query (\<lambda>d. or_query_err (q_get (\<lambda>r. fr_id r = f_id file) (d_files d)))) (\<lambda>obj.
       query (\<lambda>d. file_from_db (Some (row_ns_path d obj)) d obj)))))"

section \<open>NamespaceRepository\<close>

definition namespace_from_db :: "namespace_row \<Rightarrow> Namespace" where
  "namespace_from_db r = \<lparr> nsp_id = nr_id r, nsp_path = nr_path r, nsp_owner_id = nr_owner r \<rparr>"

definition namespace_get_by_owner_id :: "uuid \<Rightarrow> Namespace repo" where
  "namespace_get_by_owner_id owner_id =
     query (\<lambda>d. map_sum id namespace_from_db
       (or_missing NamespaceNotFound (q_get (\<lambda>n. nr_owner n = owner_id) (d_namespaces d))))"

definition namespace_get_by_path :: "string \<Rightarrow> Namespace repo" where
  "namespace_get_by_path path =
     query (\<lambda>d. map_sum id namespace_from_db
       (or_missing NamespaceNotFound (q_get (\<lambda>n. nr_path n = path) (d_namespaces d))))"

definition namespace_get_space_used_by_owner_id :: "uuid \<Rightarrow> int repo" where
  "namespace_get_space_used_by_owner_id owner_id =
     gets (\<lambda>d. sum_list (map fr_size (filter (\<lambda>r. fr_path r = ''.''
             \<and> (\<exists>n \<in> set (d_namespaces d). nr_id n = fr_ns r \<and> nr_owner n = owner_id)) (d_files d))))"

definition namespace_save :: "Namespace \<Rightarrow> Namespace repo" where
  "namespace_save ns =
     bnd (insert_namespace \<lparr> nr_id = 0, nr_path = nsp_path ns, nr_owner = nsp_owner_id ns \<rparr>) (\<lambda>id.
       ret (ns\<lparr>nsp_id := id\<rparr>))"

section \<open>SharedLinkRepository\<close>

definition shared_link_from_db :: "shared_link_row \<Rightarrow> SharedLink" where
  "shared_link_from_db r = \<lparr> sl_id = sr_id r, sl_file_id = sr_file r, sl_token = sr_token r,
     sl_created_at = sr_created_at r \<rparr>"

definition shared_link_delete :: "string \<Rightarrow> unit repo" where
  "shared_link_delete token = modify (\<lambda>d. d\<lparr>d_links := q_delete (\<lambda>r. sr_token r = token) (d_links d)\<rparr>)"

definition shared_link_get_by_file_id :: "uuid \<Rightarrow> SharedLink repo" where
  "shared_link_get_by_file_id file_id =
     query (\<lambda>d. map_sum id shared_link_from_db
       (or_missing SharedLinkNotFound (q_get (\<lambda>r. sr_file r = file_id) (d_links d))))"

definition shared_link_get_by_token :: "string \<Rightarrow> SharedLink repo" where
  "shared_link_get_by_token token =
     query (\<lambda>d. map_sum id shared_link_from_db
       (or_missing SharedLinkNotFound (q_get (\<lambda>r. sr_token r = token) (d_links d))))"

definition shared_link_list_by_ns :: "string \<Rightarrow> nat \<Rightarrow> nat \<Rightarrow> SharedLink list repo" where
  "shared_link_list_by_ns ns_path off lim =
     gets (\<lambda>d. map shared_link_from_db (page_of off lim (order_desc sr_created_at
       (filter (\<lambda>l. \<exists>r \<in> set (d_files d). fr_id r = sr_file l \<and> in_ns d ns_path r) (d_links d)))))"

definition shared_link_save :: "SharedLink \<Rightarrow> SharedLink repo" where
  "shared_link_save link = (\<lambda>d.
     case q_get (\<lambda>r. sr_file r = sl_file_id link) (d_links d) of
       Inr obj \<Rightarrow> (Inr (shared_link_from_db obj), d)
     | Inl MultipleObjectsReturned \<Rightarrow> (Inl (QueryErr MultipleObjectsReturned), d)
     | Inl DoesNotExist \<Rightarrow>
         bnd (try_else (insert_link \<lparr> sr_id = 0, sr_token = sl_token link,
                          sr_created_at = sl_created_at link, sr_file = sl_file_id link \<rparr>)
                (\<lambda>e. raise (if e = IntegrityError then FileErr FileNotFound else e)))
         (\<lambda>id. ret (link\<lparr>sl_id := id\<rparr>)) d)"

section \<open>Operations that only read\<close>

lemma file_get_by_path_batch_reads [simp]: "snd (file_get_by_path_batch n ps d) = d"
  by (simp add: file_get_by_path_batch_def)
lemma file_get_by_path_reads [simp]: "snd (file_get_by_path n p d) = d"
  unfolding file_get_by_path_def by (intro bnd_reads) simp_all
lemma namespace_get_by_path_reads [simp]: "snd (namespace_get_by_path p d) = d"
  by (simp add: namespace_get_by_path_def)

end
