(* ===== verification/FileTree.thy ===== *)
theory FileTree
  imports FileRepo
begin

text \<open>
  What the rows of the file table mean: in every namespace they form a tree of folders and files,
  and the size of a folder is the sum of the sizes of the files below it. The lemmas state how
  adding, removing and relocating rows, with the size updates the services make, keep that.
\<close>

section \<open>The invariant\<close>

definition comps :: "file_row \<Rightarrow> string list" where
  "comps r = pure_comps (fr_path r)"

definition row_ok :: "file_row \<Rightarrow> bool" where
  "row_ok r \<longleftrightarrow> good_comps (comps r) \<and> fr_path r = path_of (comps r)"

definition is_dir :: "file_row \<Rightarrow> bool" where
  "is_dir r \<longleftrightarrow> fr_blob r = None"

definition below :: "file_row \<Rightarrow> file_row \<Rightarrow> bool" where
  "below p r \<longleftrightarrow> fr_ns r = fr_ns p \<and> strict_prefix (comps p) (comps r)"

definition within :: "file_row \<Rightarrow> file_row \<Rightarrow> bool" where
  "within p r \<longleftrightarrow> fr_ns r = fr_ns p \<and> prefix (comps p) (comps r)"

definition parent_in :: "file_row list \<Rightarrow> uuid \<Rightarrow> string list \<Rightarrow> bool" where
  "parent_in fs n cs \<longleftrightarrow> cs = [] \<or> (\<exists>p \<in> set fs. is_dir p \<and> fr_ns p = n \<and> comps p = butlast cs)"

definition size_below :: "file_row list \<Rightarrow> file_row \<Rightarrow> int" where
  "size_below fs p = sum_list (map fr_size (filter (\<lambda>r. \<not> is_dir r \<and> below p r) fs))"

definition tree :: "file_row list \<Rightarrow> bool" where
  "tree fs \<longleftrightarrow> distinct (map (\<lambda>r. (fr_path r, fr_ns r)) fs)
     \<and> (\<forall>r \<in> set fs. row_ok r \<and> parent_in fs (fr_ns r) (comps r)
          \<and> (is_dir r \<longrightarrow> fr_size r = size_below fs r))"

text \<open>No two rows of a namespace differ only by case.\<close>

definition case_unique :: "file_row list \<Rightarrow> bool" where
  "case_unique fs \<longleftrightarrow> distinct (map (\<lambda>r. (casefold (fr_path r), fr_ns r)) fs)"

section \<open>Consequences\<close>

lemma treeD:
  assumes "tree fs"
  shows "distinct (map (\<lambda>r. (fr_path r, fr_ns r)) fs)"
    and "r \<in> set fs \<Longrightarrow> row_ok r"
    and "r \<in> set fs \<Longrightarrow> parent_in fs (fr_ns r) (comps r)"
    and "r \<in> set fs \<Longrightarrow> is_dir r \<Longrightarrow> fr_size r = size_below fs r"
  using assms by (auto simp: tree_def)

lemma tree_unique:
  assumes "tree fs" "r \<in> set fs" "x \<in> set fs" "fr_ns r = fr_ns x" "comps r = comps x"
  shows "r = x"
proof -
  have "fr_path r = fr_path x"
    using assms treeD(2) by (metis row_ok_def)
  then show ?thesis
    using treeD(1) [OF assms(1)] assms(2-4) by (auto simp: distinct_map inj_on_def)
qed

lemma strict_prefix_butlast: "strict_prefix cs ds \<Longrightarrow> prefix cs (butlast ds)"
  by (metis append_butlast_last_id prefix_order.less_le prefix_snoc strict_prefix_simps(1))

lemma tree_ancestor:
  assumes t: "tree fs"
  shows "r \<in> set fs \<Longrightarrow> strict_prefix cs (comps r) \<Longrightarrow>
     \<exists>p \<in> set fs. is_dir p \<and> fr_ns p = fr_ns r \<and> comps p = cs"
proof (induction "length (comps r)" arbitrary: r rule: less_induct)
  case less
  have "comps r \<noteq> []" using less.prems(2) by auto
  then obtain q where q: "q \<in> set fs" "is_dir q" "fr_ns q = fr_ns r" "comps q = butlast (comps r)"
    using treeD(3) [OF t less.prems(1)] by (auto simp: parent_in_def)
  have "prefix cs (comps q)" using less.prems(2) q(4) by (simp add: strict_prefix_butlast)
  then consider "comps q = cs" | "strict_prefix cs (comps q)" by (auto simp: strict_prefix_def)
  then show ?case
  proof cases
    case 1
    with q show ?thesis by blast
  next
    case 2
    have "length (comps q) < length (comps r)" using q(4) \<open>comps r \<noteq> []\<close> by simp
    from less.hyps [OF this q(1) 2] q(3) show ?thesis by auto
  qed
qed

lemma tree_ancestor_dir:
  assumes "tree fs" "r \<in> set fs" "x \<in> set fs" "fr_ns x = fr_ns r" "strict_prefix (comps x) (comps r)"
  shows "is_dir x"
  using tree_ancestor [OF assms(1,2,5)] tree_unique [OF assms(1)] assms(3,4) by metis

lemma nothing_below_file:
  "tree fs \<Longrightarrow> r \<in> set fs \<Longrightarrow> \<not> is_dir r \<Longrightarrow> x \<in> set fs \<Longrightarrow> \<not> below r x"
  by (auto simp: below_def dest: tree_ancestor_dir)

lemma below_within: "below p r \<Longrightarrow> within p r"
  by (auto simp: below_def within_def strict_prefix_def)

lemma within_cases: "within p r \<Longrightarrow> below p r \<or> (fr_ns r = fr_ns p \<and> comps r = comps p)"
  by (auto simp: below_def within_def strict_prefix_def)

lemma within_refl [simp]: "within r r"
  by (simp add: within_def)

lemma below_within_trans: "below p r \<Longrightarrow> within r x \<Longrightarrow> below p x"
  unfolding below_def within_def by (metis prefix_order.less_le_trans)

text \<open>The files at or below a row weigh what the row says.\<close>

lemma within_size:
  assumes "tree fs" "r \<in> set fs"
  shows "sum_list (map fr_size (filter (\<lambda>x. \<not> is_dir x \<and> within r x) fs)) = fr_size r"
proof (cases "is_dir r")
  case True
  have "(\<not> is_dir x \<and> within r x) = (\<not> is_dir x \<and> below r x)" if "x \<in> set fs" for x
    using that True within_cases below_within tree_unique [OF assms(1) assms(2) that] by metis
  then have "filter (\<lambda>x. \<not> is_dir x \<and> within r x) fs = filter (\<lambda>x. \<not> is_dir x \<and> below r x) fs"
    by (rule filter_cong_set)
  then show ?thesis using treeD(4) [OF assms True] by (simp add: size_below_def)
next
  case False
  have "distinct fs" using treeD(1) [OF assms(1)] by (simp add: distinct_map)
  moreover have "x = r" if "x \<in> set fs" "\<not> is_dir x \<and> within r x" for x
    using that within_cases nothing_below_file [OF assms False that(1)]
      tree_unique [OF assms(1) assms(2) that(1)] by metis
  ultimately have "filter (\<lambda>x. \<not> is_dir x \<and> within r x) fs = [r]"
    using assms(2) False by (intro filter_unique) auto
  then show ?thesis by simp
qed

text \<open>Seen from a folder outside the subtree of \<open>r\<close>: either the whole subtree lies below it, or
  nothing of it.\<close>

lemma within_below_iff:
  assumes "tree fs" "r \<in> set fs" "p \<in> set fs" "\<not> within r p" "x \<in> set fs" "within r x"
  shows "below p x \<longleftrightarrow> below p r"
proof
  assume "below p r"
  then show "below p x" using assms(6) by (rule below_within_trans)
next
  assume b: "below p x"
  have "prefix (comps p) (comps x)" "prefix (comps r) (comps x)" "fr_ns p = fr_ns r"
    using b assms(6) by (auto simp: below_def within_def)
  then have "prefix (comps p) (comps r) \<or> prefix (comps r) (comps p)"
    using prefix_same_cases by blast
  moreover have "\<not> prefix (comps r) (comps p)"
    using assms(4) \<open>fr_ns p = fr_ns r\<close> by (simp add: within_def)
  ultimately have "strict_prefix (comps p) (comps r)" by (auto simp: strict_prefix_def)
  with \<open>fr_ns p = fr_ns r\<close> show "below p r" by (simp add: below_def)
qed

lemma size_of_part:
  assumes "tree fs" "r \<in> set fs" "p \<in> set fs" "\<not> within r p"
  shows "sum_list (map fr_size (filter (\<lambda>x. (\<not> is_dir x \<and> below p x) \<and> within r x) fs))
       = (if below p r then fr_size r else 0)"
proof -
  have "filter (\<lambda>x. (\<not> is_dir x \<and> below p x) \<and> within r x) fs
      = filter (\<lambda>x. below p r \<and> \<not> is_dir x \<and> within r x) fs"
    by (rule filter_cong_set) (use within_below_iff [OF assms] in auto)
  then show ?thesis using within_size [OF assms(1,2)] by simp
qed

section \<open>Adding rows\<close>

definition fresh_path :: "file_row list \<Rightarrow> uuid \<Rightarrow> string list \<Rightarrow> bool" where
  "fresh_path fs n cs \<longleftrightarrow> \<not> (\<exists>x \<in> set fs. fr_ns x = n \<and> comps x = cs)"

lemma fresh_nothing_within:
  assumes "tree fs" "fresh_path fs n cs" "x \<in> set fs" "fr_ns x = n"
  shows "\<not> prefix cs (comps x)"
proof
  assume "prefix cs (comps x)"
  then consider "cs = comps x" | "strict_prefix cs (comps x)" by (auto simp: strict_prefix_def)
  then show False
    using assms(2-4) tree_ancestor [OF assms(1,3)] by cases (auto simp: fresh_path_def)
qed

lemma size_below_append:
  "size_below (fs @ [r]) p = size_below fs p + (if \<not> is_dir r \<and> below p r then fr_size r else 0)"
  by (simp add: size_below_def)

lemma parent_in_mono: "parent_in fs n cs \<Longrightarrow> set fs \<subseteq> set gs \<Longrightarrow> parent_in gs n cs"
  by (auto simp: parent_in_def)

lemma parent_in_snoc: "parent_in fs n cs \<Longrightarrow> parent_in (fs @ [r]) n cs"
  by (auto simp: parent_in_def)

lemma fresh_distinct:
  assumes "tree fs" "row_ok r" "fresh_path fs (fr_ns r) (comps r)"
  shows "distinct (map (\<lambda>r. (fr_path r, fr_ns r)) (fs @ [r]))"
proof -
  have "\<not> (fr_path r = fr_path x \<and> fr_ns r = fr_ns x)" if "x \<in> set fs" for x
    using that assms(3) by (auto simp: fresh_path_def comps_def)
  then show ?thesis using treeD(1) [OF assms(1)] by auto
qed

lemma tree_add_folder:
  assumes t: "tree fs" and ok: "row_ok r" and d: "is_dir r" "fr_size r = 0"
    and p: "parent_in fs (fr_ns r) (comps r)" and f: "fresh_path fs (fr_ns r) (comps r)"
  shows "tree (fs @ [r])"
proof -
  have "filter (\<lambda>x. \<not> is_dir x \<and> below r x) fs = []"
    using fresh_nothing_within [OF t f] by (auto simp: filter_empty_conv below_def strict_prefix_def)
  then have "size_below fs r = 0" by (simp add: size_below_def)
  then have "is_dir x \<longrightarrow> fr_size x = size_below (fs @ [r]) x" if "x \<in> set (fs @ [r])" for x
    using that d treeD(4) [OF t] by (auto simp: size_below_append)
  moreover have "parent_in (fs @ [r]) (fr_ns x) (comps x)" if "x \<in> set (fs @ [r])" for x
    using that p treeD(3) [OF t, of x] by (auto intro: parent_in_snoc)
  moreover have "row_ok x" if "x \<in> set (fs @ [r])" for x
    using that ok treeD(2) [OF t] by auto
  ultimately show ?thesis unfolding tree_def using fresh_distinct [OF t ok f] by simp
qed

section \<open>Changing sizes\<close>

text \<open>\<open>resize g fs\<close> adds \<open>g r\<close> to the size of every row \<open>r\<close>.\<close>

definition resize :: "(file_row \<Rightarrow> int) \<Rightarrow> file_row list \<Rightarrow> file_row list" where
  "resize g fs = map (\<lambda>r. r\<lparr>fr_size := fr_size r + g r\<rparr>) fs"

lemma resized_simps [simp]:
  "comps (r\<lparr>fr_size := z\<rparr>) = comps r" "is_dir (r\<lparr>fr_size := z\<rparr>) = is_dir r"
  "row_ok (r\<lparr>fr_size := z\<rparr>) = row_ok r" "below p (r\<lparr>fr_size := z\<rparr>) = below p r"
  "below (p\<lparr>fr_size := z\<rparr>) r = below p r" "within (p\<lparr>fr_size := z\<rparr>) r = within p r"
  "within p (r\<lparr>fr_size := z\<rparr>) = within p r"
  by (simp_all add: comps_def is_dir_def row_ok_def below_def within_def)

lemma size_below_resized [simp]: "size_below fs (p\<lparr>fr_size := z\<rparr>) = size_below fs p"
  by (simp add: size_below_def)

lemma size_below_resize:
  assumes "\<And>r. r \<in> set fs \<Longrightarrow> \<not> is_dir r \<Longrightarrow> g r = 0"
  shows "size_below (resize g fs) p = size_below fs p"
  using assms by (induction fs) (auto simp: size_below_def resize_def)

lemma parent_in_resize: "parent_in (resize g fs) n cs = parent_in fs n cs"
  by (simp add: parent_in_def resize_def)

lemma resize_is_dir_names:
  "map (\<lambda>r. (fr_path r, fr_ns r)) (resize g fs) = map (\<lambda>r. (fr_path r, fr_ns r)) fs"
  by (simp add: resize_def)

text \<open>The general form: if files keep their size and each folder is off by exactly \<open>g\<close>, resizing
  by \<open>g\<close> gives a tree.\<close>

lemma tree_resize:
  assumes "distinct (map (\<lambda>r. (fr_path r, fr_ns r)) fs)"
    and "\<And>r. r \<in> set fs \<Longrightarrow> row_ok r"
    and "\<And>r. r \<in> set fs \<Longrightarrow> parent_in fs (fr_ns r) (comps r)"
    and "\<And>r. r \<in> set fs \<Longrightarrow> \<not> is_dir r \<Longrightarrow> g r = 0"
    and "\<And>r. r \<in> set fs \<Longrightarrow> is_dir r \<Longrightarrow> fr_size r + g r = size_below fs r"
  shows "tree (resize g fs)"
proof -
  have "row_ok x \<and> parent_in (resize g fs) (fr_ns x) (comps x)
      \<and> (is_dir x \<longrightarrow> fr_size x = size_below (resize g fs) x)" if x: "x \<in> set (resize g fs)" for x
  proof -
    obtain r where r: "r \<in> set fs" "x = r\<lparr>fr_size := fr_size r + g r\<rparr>"
      using x by (auto simp: resize_def)
    have "size_below (resize g fs) x = size_below fs r"
      using size_below_resize [of fs g, OF assms(4)] by (simp add: r(2))
    then show ?thesis using assms(2,3,5) [OF r(1)] by (simp add: r(2) parent_in_resize)
  qed
  then show ?thesis using assms(1) by (simp add: tree_def resize_is_dir_names)
qed

definition ancestor_delta :: "uuid \<Rightarrow> string list \<Rightarrow> int \<Rightarrow> file_row \<Rightarrow> int" where
  "ancestor_delta n cs z r = (if fr_ns r = n \<and> strict_prefix (comps r) cs then z else 0)"

lemma tree_add_file:
  assumes t: "tree fs" and ok: "row_ok r" and d: "\<not> is_dir r" and ne: "comps r \<noteq> []"
    and p: "parent_in fs (fr_ns r) (comps r)" and f: "fresh_path fs (fr_ns r) (comps r)"
  shows "tree (resize (ancestor_delta (fr_ns r) (comps r) (fr_size r)) (fs @ [r]))"
proof (rule tree_resize)
  let ?g = "ancestor_delta (fr_ns r) (comps r) (fr_size r)"
  show "distinct (map (\<lambda>r. (fr_path r, fr_ns r)) (fs @ [r]))" by (rule fresh_distinct [OF t ok f])
  show "row_ok x" if "x \<in> set (fs @ [r])" for x using that ok treeD(2) [OF t] by auto
  show "parent_in (fs @ [r]) (fr_ns x) (comps x)" if "x \<in> set (fs @ [r])" for x
    using that p treeD(3) [OF t, of x] by (auto intro: parent_in_snoc)
  obtain q where q: "q \<in> set fs" "is_dir q" "fr_ns q = fr_ns r" "comps q = butlast (comps r)"
    using p ne by (auto simp: parent_in_def)
  show "?g x = 0" if "x \<in> set (fs @ [r])" "\<not> is_dir x" for x
  proof (rule ccontr)
    assume "?g x \<noteq> 0"
    then have x: "fr_ns x = fr_ns q" "strict_prefix (comps x) (comps r)"
      using q(3) by (auto simp: ancestor_delta_def split: if_splits)
    then have xin: "x \<in> set fs" using that(1) by auto
    have "prefix (comps x) (comps q)" using x(2) q(4) by (simp add: strict_prefix_butlast)
    then consider "comps x = comps q" | "strict_prefix (comps x) (comps q)"
      by (auto simp: strict_prefix_def)
    then show False
    proof cases
      case 1
      with x(1) have "x = q" by (intro tree_unique [OF t xin q(1)]) auto
      with that(2) q(2) show False by simp
    next
      case 2
      from tree_ancestor_dir [OF t q(1) xin x(1) 2] that(2) show False by simp
    qed
  qed
  show "fr_size x + ?g x = size_below (fs @ [r]) x" if "x \<in> set (fs @ [r])" "is_dir x" for x
    using that d treeD(4) [OF t] by (auto simp: size_below_append ancestor_delta_def below_def)
qed

section \<open>Removing a subtree\<close>

lemma size_below_remove:
  assumes "tree fs" "r \<in> set fs" "p \<in> set fs" "\<not> within r p"
  shows "size_below (filter (\<lambda>x. \<not> within r x) fs) p
       = size_below fs p - (if below p r then fr_size r else 0)"
proof -
  have "size_below fs p
      = sum_list (map fr_size (filter (\<lambda>x. (\<not> is_dir x \<and> below p x) \<and> within r x) fs))
      + sum_list (map fr_size (filter (\<lambda>x. (\<not> is_dir x \<and> below p x) \<and> \<not> within r x) fs))"
    unfolding size_below_def by (rule sum_list_filter_split)
  moreover have "filter (\<lambda>x. \<not> is_dir x \<and> below p x) (filter (\<lambda>x. \<not> within r x) fs)
      = filter (\<lambda>x. (\<not> is_dir x \<and> below p x) \<and> \<not> within r x) fs"
    by (simp add: conj_commute)
  ultimately show ?thesis
    using size_of_part [OF assms] by (simp add: size_below_def)
qed

lemma tree_remove:
  assumes t: "tree fs" and r: "r \<in> set fs"
  shows "tree (resize (ancestor_delta (fr_ns r) (comps r) (- fr_size r))
                 (filter (\<lambda>x. \<not> within r x) fs))"
proof (rule tree_resize)
  let ?fs = "filter (\<lambda>x. \<not> within r x) fs" and ?g = "ancestor_delta (fr_ns r) (comps r) (- fr_size r)"
  show "distinct (map (\<lambda>r. (fr_path r, fr_ns r)) ?fs)"
    using treeD(1) [OF t] by (rule distinct_map_filter)
  show "row_ok x" if "x \<in> set ?fs" for x using that treeD(2) [OF t] by auto
  show "parent_in ?fs (fr_ns x) (comps x)" if "x \<in> set ?fs" for x
  proof (cases "comps x = []")
    case True
    then show ?thesis by (simp add: parent_in_def)
  next
    case False
    from that have x: "x \<in> set fs" by simp
    obtain q where q: "q \<in> set fs" "is_dir q" "fr_ns q = fr_ns x" "comps q = butlast (comps x)"
      using False treeD(3) [OF t x] by (auto simp: parent_in_def)
    have "\<not> within r q"
    proof
      assume "within r q"
      then have "within r x"
        using q(3,4) by (auto simp: within_def) (metis prefix_order.trans prefixeq_butlast)
      with that show False by simp
    qed
    with q show ?thesis by (auto simp: parent_in_def)
  qed
  show "?g x = 0" if "x \<in> set ?fs" "\<not> is_dir x" for x
    using that tree_ancestor_dir [OF t r, of x] by (auto simp: ancestor_delta_def)
  show "fr_size x + ?g x = size_below ?fs x" if "x \<in> set ?fs" "is_dir x" for x
    using that treeD(4) [OF t, of x] size_below_remove [OF t r, of x]
    by (auto simp: ancestor_delta_def below_def)
qed

section \<open>Relocating a subtree\<close>

text \<open>\<open>relocated r n cs x y\<close>: the row \<open>y\<close> is what the row \<open>x\<close>, at or below \<open>r\<close>, becomes when \<open>r\<close>
  moves to the components \<open>cs\<close> of the namespace \<open>n\<close>.\<close>

definition relocated :: "file_row \<Rightarrow> uuid \<Rightarrow> string list \<Rightarrow> file_row \<Rightarrow> file_row \<Rightarrow> bool" where
  "relocated r n cs x y \<longleftrightarrow> row_ok y \<and> fr_size y = fr_size x \<and> fr_blob y = fr_blob x \<and> fr_ns y = n
     \<and> comps y = cs @ drop (length (comps r)) (comps x)"

definition relocate :: "(file_row \<Rightarrow> file_row) \<Rightarrow> file_row \<Rightarrow> file_row list \<Rightarrow> file_row list" where
  "relocate h r fs = map (\<lambda>x. if within r x then h x else x) fs"

lemma within_comps: "within r x \<Longrightarrow> comps x = comps r @ drop (length (comps r)) (comps x)"
  by (auto simp: within_def prefix_def)

lemma relocated_below:
  assumes "relocated r n cs p p'" "relocated r n cs x x'" "within r p" "within r x"
  shows "below p' x' \<longleftrightarrow> below p x"
proof -
  let ?s = "\<lambda>x. drop (length (comps r)) (comps x)"
  have "below p x \<longleftrightarrow> strict_prefix (comps p) (comps x)"
    using assms(3,4) by (auto simp: below_def within_def)
  also have "\<dots> \<longleftrightarrow> strict_prefix (comps r @ ?s p) (comps r @ ?s x)"
    using within_comps [OF assms(3)] within_comps [OF assms(4)] by simp
  also have "\<dots> \<longleftrightarrow> strict_prefix (cs @ ?s p) (cs @ ?s x)"
    by (simp add: strict_prefix_def)
  also have "\<dots> \<longleftrightarrow> below p' x'" using assms(1,2) by (simp add: relocated_def below_def)
  finally show ?thesis by simp
qed

text \<open>The setting of a move: \<open>r\<close> is a row of a tree, its destination \<open>cs\<close> lies in an existing folder
  that is not at or below \<open>r\<close>, and nothing outside the subtree of \<open>r\<close> has the destination's path.\<close>

definition move_ok :: "file_row list \<Rightarrow> file_row \<Rightarrow> uuid \<Rightarrow> string list \<Rightarrow> (file_row \<Rightarrow> file_row) \<Rightarrow> bool" where
  "move_ok fs r n cs h \<longleftrightarrow> tree fs \<and> r \<in> set fs \<and> cs \<noteq> [] \<and> comps r \<noteq> []
     \<and> (\<exists>q \<in> set fs. is_dir q \<and> fr_ns q = n \<and> comps q = butlast cs \<and> \<not> within r q)
     \<and> (\<forall>x \<in> set fs. fr_ns x = n \<and> comps x = cs \<longrightarrow> x = r)
     \<and> (\<forall>x \<in> set fs. within r x \<longrightarrow> relocated r n cs x (h x))
     \<and> distinct (map (\<lambda>x. (fr_path x, fr_ns x)) (relocate h r fs))"

lemma move_okD:
  assumes "move_ok fs r n cs h"
  shows "tree fs" "r \<in> set fs" "cs \<noteq> []" "comps r \<noteq> []"
    and "\<exists>q \<in> set fs. is_dir q \<and> fr_ns q = n \<and> comps q = butlast cs \<and> \<not> within r q"
    and "x \<in> set fs \<Longrightarrow> fr_ns x = n \<Longrightarrow> comps x = cs \<Longrightarrow> x = r"
    and "x \<in> set fs \<Longrightarrow> within r x \<Longrightarrow> relocated r n cs x (h x)"
    and "distinct (map (\<lambda>x. (fr_path x, fr_ns x)) (relocate h r fs))"
  using assms by (auto simp: move_ok_def)

text \<open>No row outside the subtree lies at or below the destination.\<close>

lemma move_dest_clear:
  assumes m: "move_ok fs r n cs h" and x: "x \<in> set fs" "fr_ns x = n" "prefix cs (comps x)"
  shows "within r x"
proof -
  note t = move_okD(1) [OF m]
  have "\<exists>y \<in> set fs. fr_ns y = n \<and> comps y = cs"
    using x tree_ancestor [OF t x(1), of cs] by (auto simp: strict_prefix_def)
  then have r: "fr_ns r = n" "comps r = cs" using move_okD(6) [OF m] by auto
  then show ?thesis using x by (simp add: within_def)
qed

text \<open>The ancestors of the destination are folders outside the subtree.\<close>

lemma move_dest_ancestor:
  assumes m: "move_ok fs r n cs h" and ds: "strict_prefix ds cs"
  shows "\<exists>q \<in> set fs. is_dir q \<and> fr_ns q = n \<and> comps q = ds \<and> \<not> within r q"
proof -
  note t = move_okD(1) [OF m]
  obtain q where q: "q \<in> set fs" "is_dir q" "fr_ns q = n" "comps q = butlast cs" "\<not> within r q"
    using move_okD(5) [OF m] by blast
  have "prefix ds (comps q)" using ds q(4) by (simp add: strict_prefix_butlast)
  then consider "comps q = ds" | "strict_prefix ds (comps q)" by (auto simp: strict_prefix_def)
  then show ?thesis
  proof cases
    case 1
    with q show ?thesis by blast
  next
    case 2
    obtain p where p: "p \<in> set fs" "is_dir p" "fr_ns p = fr_ns q" "comps p = ds"
      using tree_ancestor [OF t q(1) 2] by blast
    have "\<not> within r p"
      using q(5) p(3,4) 2 by (auto simp: within_def strict_prefix_def intro: prefix_order.trans)
    with p q(3) show ?thesis by blast
  qed
qed

lemma set_relocate:
  "set (relocate h r fs) = {x \<in> set fs. \<not> within r x} \<union> h ` {x \<in> set fs. within r x}"
  by (auto simp: relocate_def)

lemma size_below_relocate:
  "size_below (relocate h r fs) p
     = sum_list (map fr_size (filter (\<lambda>x. (\<not> is_dir x \<and> below p x) \<and> \<not> within r x) fs))
     + sum_list (map (\<lambda>x. fr_size (h x)) (filter (\<lambda>x. (\<not> is_dir (h x) \<and> below p (h x)) \<and> within r x) fs))"
  unfolding size_below_def relocate_def by (induction fs) auto

lemma size_below_split:
  assumes "tree fs" "r \<in> set fs" "p \<in> set fs" "\<not> within r p"
  shows "sum_list (map fr_size (filter (\<lambda>x. (\<not> is_dir x \<and> below p x) \<and> \<not> within r x) fs))
       = size_below fs p - (if below p r then fr_size r else 0)"
  using size_below_remove [OF assms] by (simp add: size_below_def conj_commute)

lemma moved_sizes_cong:
  assumes "move_ok fs r n cs h"
    and "\<And>x. x \<in> set fs \<Longrightarrow> within r x \<Longrightarrow> below p (h x) = Q x"
  shows "sum_list (map (\<lambda>x. fr_size (h x)) (filter (\<lambda>x. (\<not> is_dir (h x) \<and> below p (h x)) \<and> within r x) fs))
       = sum_list (map fr_size (filter (\<lambda>x. (\<not> is_dir x \<and> Q x) \<and> within r x) fs))"
proof -
  have "filter (\<lambda>x. (\<not> is_dir (h x) \<and> below p (h x)) \<and> within r x) fs
      = filter (\<lambda>x. (\<not> is_dir x \<and> Q x) \<and> within r x) fs"
    using assms(2) move_okD(7) [OF assms(1)]
    by (intro filter_cong_set) (auto simp: relocated_def is_dir_def)
  moreover have "map (\<lambda>x. fr_size (h x)) (filter (\<lambda>x. (\<not> is_dir x \<and> Q x) \<and> within r x) fs)
      = map fr_size (filter (\<lambda>x. (\<not> is_dir x \<and> Q x) \<and> within r x) fs)"
    using move_okD(7) [OF assms(1)] by (auto simp: relocated_def)
  ultimately show ?thesis by (simp only:)
qed

text \<open>The size of a folder that stays: what leaves from below it, and what arrives.\<close>

lemma size_below_stays:
  assumes m: "move_ok fs r n cs h" and p: "p \<in> set fs" "is_dir p" "\<not> within r p"
  shows "size_below (relocate h r fs) p
       = size_below fs p + ancestor_delta (fr_ns r) (comps r) (- fr_size r) p
         + ancestor_delta n cs (fr_size r) p"
proof -
  note t = move_okD(1) [OF m] and r = move_okD(2) [OF m]
  let ?Q = "fr_ns p = n \<and> strict_prefix (comps p) cs"
  have "below p (h x) = ?Q" if x: "x \<in> set fs" "within r x" for x
  proof -
    have h: "fr_ns (h x) = n" "prefix cs (comps (h x))"
      using move_okD(7) [OF m x] by (auto simp: relocated_def)
    show ?thesis
    proof
      assume ?Q
      then show "below p (h x)"
        using h unfolding below_def by (metis prefix_order.less_le_trans)
    next
      assume b: "below p (h x)"
      then have "fr_ns p = n" "prefix (comps p) (comps (h x))"
        using h by (auto simp: below_def strict_prefix_def)
      then have "prefix (comps p) cs \<or> prefix cs (comps p)"
        using h(2) prefix_same_cases by blast
      moreover have "\<not> prefix cs (comps p)"
        using move_dest_clear [OF m p(1)] p(3) \<open>fr_ns p = n\<close> by blast
      ultimately show ?Q using \<open>fr_ns p = n\<close> by (auto simp: strict_prefix_def)
    qed
  qed
  then have "sum_list (map (\<lambda>x. fr_size (h x)) (filter (\<lambda>x. (\<not> is_dir (h x) \<and> below p (h x)) \<and> within r x) fs))
      = sum_list (map fr_size (filter (\<lambda>x. (\<not> is_dir x \<and> ?Q) \<and> within r x) fs))"
    by (rule moved_sizes_cong [OF m])
  also have "\<dots> = ancestor_delta n cs (fr_size r) p"
  proof (cases ?Q)
    case True
    then show ?thesis using within_size [OF t r] by (simp add: ancestor_delta_def)
  next
    case False
    then have none: "filter (\<lambda>x. (\<not> is_dir x \<and> ?Q) \<and> within r x) fs = []"
      by (auto simp: filter_empty_conv)
    show ?thesis unfolding none using False by (auto simp: ancestor_delta_def)
  qed
  finally show ?thesis
    using size_below_split [OF t r p(1,3)] by (simp add: size_below_relocate ancestor_delta_def below_def)
qed

text \<open>The size of a folder that moves along.\<close>

lemma size_below_moves:
  assumes m: "move_ok fs r n cs h" and p: "p \<in> set fs" "within r p"
  shows "size_below (relocate h r fs) (h p) = size_below fs p"
proof -
  have hp: "relocated r n cs p (h p)" by (rule move_okD(7) [OF m p])
  have none: "filter (\<lambda>x. (\<not> is_dir x \<and> below (h p) x) \<and> \<not> within r x) fs = []"
  proof -
    have "within r x" if "x \<in> set fs" "below (h p) x" for x
    proof (rule move_dest_clear [OF m that(1)])
      show "fr_ns x = n" using that(2) hp by (simp add: below_def relocated_def)
      show "prefix cs (comps x)"
        using that(2) hp by (auto simp: below_def relocated_def strict_prefix_def prefix_def)
    qed
    then show ?thesis by (auto simp: filter_empty_conv)
  qed
  have "sum_list (map (\<lambda>x. fr_size (h x)) (filter (\<lambda>x. (\<not> is_dir (h x) \<and> below (h p) (h x)) \<and> within r x) fs))
      = sum_list (map fr_size (filter (\<lambda>x. (\<not> is_dir x \<and> below p x) \<and> within r x) fs))"
    by (rule moved_sizes_cong [OF m]) (use relocated_below [OF hp] move_okD(7) [OF m] p in blast)
  moreover have "filter (\<lambda>x. (\<not> is_dir x \<and> below p x) \<and> within r x) fs
      = filter (\<lambda>x. \<not> is_dir x \<and> below p x) fs"
  proof (rule filter_cong_set)
    fix x
    show "((\<not> is_dir x \<and> below p x) \<and> within r x) = (\<not> is_dir x \<and> below p x)"
      using p(2) by (auto simp: below_def within_def strict_prefix_def intro: prefix_order.trans)
  qed
  ultimately show ?thesis
    unfolding size_below_relocate none by (simp add: size_below_def)
qed

lemma relocate_parent_in:
  assumes m: "move_ok fs r n cs h" and y: "y \<in> set (relocate h r fs)"
  shows "parent_in (relocate h r fs) (fr_ns y) (comps y)"
proof -
  note t = move_okD(1) [OF m]
  from y consider (stay) "y \<in> set fs" "\<not> within r y" | (move) x where "x \<in> set fs" "within r x" "y = h x"
    by (auto simp: set_relocate)
  then show ?thesis
  proof cases
    case stay
    show ?thesis
    proof (cases "comps y = []")
      case False
      then obtain q where q: "q \<in> set fs" "is_dir q" "fr_ns q = fr_ns y" "comps q = butlast (comps y)"
        using treeD(3) [OF t stay(1)] by (auto simp: parent_in_def)
      have "\<not> within r q"
        using stay(2) q(3,4) by (auto simp: within_def) (metis prefix_order.trans prefixeq_butlast)
      with q show ?thesis by (auto simp: parent_in_def set_relocate)
    qed (simp add: parent_in_def)
  next
    case move
    have hx: "relocated r n cs x (h x)" by (rule move_okD(7) [OF m move(1,2)])
    show ?thesis
    proof (cases "comps x = comps r")
      case True
      then have c: "comps y = cs" "fr_ns y = n" using hx move(3) by (auto simp: relocated_def)
      obtain q where "q \<in> set fs" "is_dir q" "fr_ns q = n" "comps q = butlast cs" "\<not> within r q"
        using move_okD(5) [OF m] by blast
      with c show ?thesis by (auto simp: parent_in_def set_relocate)
    next
      case False
      then have s: "strict_prefix (comps r) (comps x)" "fr_ns x = fr_ns r"
        using move(2) by (auto simp: within_def strict_prefix_def)
      then have "comps x \<noteq> []" by auto
      then obtain q where q: "q \<in> set fs" "is_dir q" "fr_ns q = fr_ns x" "comps q = butlast (comps x)"
        using treeD(3) [OF t move(1)] by (auto simp: parent_in_def)
      have w: "within r q" using q(3,4) s by (simp add: within_def strict_prefix_butlast)
      have hq: "relocated r n cs q (h q)" by (rule move_okD(7) [OF m q(1) w])
      have "drop (length (comps r)) (comps x) \<noteq> []"
        using s(1) by (auto simp: strict_prefix_def prefix_def)
      then have "comps (h q) = butlast (comps y)"
        using hq hx q(4) move(3)
        by (simp add: relocated_def butlast_append butlast_drop)
      moreover have "is_dir (h q)" "fr_ns (h q) = fr_ns y"
        using hq hx q(2) move(3) by (auto simp: relocated_def is_dir_def)
      ultimately show ?thesis
        using q(1) w by (auto simp: parent_in_def set_relocate)
    qed
  qed
qed

text \<open>Relocating the subtree and moving its weight from the old ancestors to the new ones.\<close>

definition move_delta :: "file_row \<Rightarrow> uuid \<Rightarrow> string list \<Rightarrow> file_row \<Rightarrow> int" where
  "move_delta r n cs x = ancestor_delta (fr_ns r) (comps r) (- fr_size r) x + ancestor_delta n cs (fr_size r) x"

lemma move_delta_moved:
  assumes m: "move_ok fs r n cs h" and x: "x \<in> set fs" "within r x"
  shows "move_delta r n cs (h x) = 0"
proof -
  note t = move_okD(1) [OF m] and r = move_okD(2) [OF m]
  have hx: "fr_ns (h x) = n" "prefix cs (comps (h x))"
    using move_okD(7) [OF m x] by (auto simp: relocated_def)
  have "\<not> strict_prefix (comps (h x)) cs"
    using hx(2) by (auto simp: strict_prefix_def)
  moreover have "\<not> (fr_ns (h x) = fr_ns r \<and> strict_prefix (comps (h x)) (comps r))"
  proof
    assume a: "fr_ns (h x) = fr_ns r \<and> strict_prefix (comps (h x)) (comps r)"
    then have "strict_prefix cs (comps r)" using hx(2) by (metis prefix_order.le_less_trans)
    then obtain p where p: "p \<in> set fs" "fr_ns p = fr_ns r" "comps p = cs"
      using tree_ancestor [OF t r] by metis
    have "fr_ns r = n" using a hx(1) by metis
    with p have "p = r" using move_okD(6) [OF m p(1)] by metis
    with p(3) show False using \<open>strict_prefix cs (comps r)\<close> by simp
  qed
  ultimately show ?thesis unfolding move_delta_def ancestor_delta_def by presburger
qed

lemma tree_move:
  assumes m: "move_ok fs r n cs h"
  shows "tree (resize (move_delta r n cs) (relocate h r fs))"
proof (rule tree_resize)
  note t = move_okD(1) [OF m] and r = move_okD(2) [OF m]
  show "distinct (map (\<lambda>r. (fr_path r, fr_ns r)) (relocate h r fs))" by (rule move_okD(8) [OF m])
  show "row_ok x" if "x \<in> set (relocate h r fs)" for x
    using that treeD(2) [OF t] move_okD(7) [OF m] by (auto simp: set_relocate relocated_def)
  show "parent_in (relocate h r fs) (fr_ns x) (comps x)" if "x \<in> set (relocate h r fs)" for x
    by (rule relocate_parent_in [OF m that])
  show "move_delta r n cs y = 0" if y: "y \<in> set (relocate h r fs)" "\<not> is_dir y" for y
  proof -
    from y(1) consider (stay) "y \<in> set fs" "\<not> within r y" | (move) x where "x \<in> set fs" "within r x" "y = h x"
      by (auto simp: set_relocate)
    then show ?thesis
    proof cases
      case stay
      have "\<not> (fr_ns y = fr_ns r \<and> strict_prefix (comps y) (comps r))"
        using tree_ancestor_dir [OF t r stay(1)] y(2) by blast
      moreover have "\<not> (fr_ns y = n \<and> strict_prefix (comps y) cs)"
        using move_dest_ancestor [OF m, of "comps y"] tree_unique [OF t stay(1)] y(2) by metis
      ultimately show ?thesis unfolding move_delta_def ancestor_delta_def by presburger
    next
      case move
      then show ?thesis using move_delta_moved [OF m] by simp
    qed
  qed
  show "fr_size y + move_delta r n cs y = size_below (relocate h r fs) y"
    if y: "y \<in> set (relocate h r fs)" "is_dir y" for y
  proof -
    from y(1) consider (stay) "y \<in> set fs" "\<not> within r y" | (move) x where "x \<in> set fs" "within r x" "y = h x"
      by (auto simp: set_relocate)
    then show ?thesis
    proof cases
      case stay
      then show ?thesis
        using size_below_stays [OF m stay(1) y(2) stay(2)] treeD(4) [OF t stay(1) y(2)]
        by (simp add: move_delta_def)
    next
      case move
      have h: "relocated r n cs x (h x)" by (rule move_okD(7) [OF m move(1,2)])
      then have "is_dir x" using y(2) move(3) by (simp add: relocated_def is_dir_def)
      then show ?thesis
        using size_below_moves [OF m move(1,2)] treeD(4) [OF t move(1)] h move_delta_moved [OF m move(1,2)]
        by (simp add: move(3) relocated_def)
    qed
  qed
qed

end
