(* ===== verification/BlobRepo.thy ===== *)
theory BlobRepo
  imports FileRepo
begin

text \<open>
  The repositories of the blobs component:
  \<open>src/app/infrastructure/database/tortoise/repositories/{blob,blob_job,blob_metadata}.py\<close>.
\<close>

section \<open>BlobRepository\<close>

definition blob_from_db :: "blob_row \<Rightarrow> Blob" where
  "blob_from_db r = \<lparr> b_id = br_id r, b_storage_key = br_storage_key r, b_size = br_size r,
     b_chash = br_chash r, b_media_type = br_media_type r, b_created_at = br_created_at r \<rparr>"

definition blob_delete :: "uuid \<Rightarrow> unit repo" where
  "blob_delete blob_id = delete_blobs (\<lambda>r. br_id r = blob_id)"

definition blob_delete_all_with_prefix :: "string \<Rightarrow> unit repo" where
  "blob_delete_all_with_prefix p = delete_blobs (\<lambda>r. prefix p (br_storage_key r))"

definition blob_delete_batch :: "uuid list \<Rightarrow> unit repo" where
  "blob_delete_batch blob_ids = delete_blobs (\<lambda>r. br_id r \<in> set blob_ids)"

definition blob_exists_with_storage_key :: "string \<Rightarrow> bool repo" where
  "blob_exists_with_storage_key storage_key =
     gets (\<lambda>d. \<exists>r \<in> set (d_blobs d). br_storage_key r = storage_key)"

definition blob_get_by_id :: "uuid \<Rightarrow> Blob repo" where
  "blob_get_by_id blob_id =
     query (\<lambda>d. map_sum id blob_from_db
       (or_missing (BlobErr BlobNotFound) (q_get (\<lambda>r. br_id r = blob_id) (d_blobs d))))"

definition blob_get_by_id_batch :: "uuid list \<Rightarrow> Blob list repo" where
  "blob_get_by_id_batch blob_ids =
     gets (\<lambda>d. map blob_from_db (filter (\<lambda>r. br_id r \<in> set blob_ids) (d_blobs d)))"

text \<open>The column \<open>storage_key\<close> is unique; an update that breaks it fails.\<close>

definition update_blobs :: "(blob_row \<Rightarrow> bool) \<Rightarrow> (blob_row \<Rightarrow> blob_row) \<Rightarrow> unit repo" where
  "update_blobs P f = (\<lambda>d.
     let t = q_update P f (d_blobs d)
     in if distinct (map br_storage_key t) then (Inr (), d\<lparr>d_blobs := t\<rparr>)
        else (Inl IntegrityError, d))"

text \<open>SQL's \<open>REPLACE(storage_key, at, to)\<close> replaces every occurrence (and returns the column
  unchanged for an empty \<open>at\<close>).\<close>

definition blob_replace_storage_key_prefix :: "string \<Rightarrow> string \<Rightarrow> unit repo" where
  "blob_replace_storage_key_prefix at to =
     update_blobs (\<lambda>r. prefix at (br_storage_key r))
       (\<lambda>r. r\<lparr>br_storage_key := replace_all at to (br_storage_key r)\<rparr>)"

definition blob_save :: "Blob \<Rightarrow> Blob repo" where
  "blob_save blob =
     bnd (insert_blob \<lparr> br_id = 0, br_storage_key = b_storage_key blob, br_size = b_size blob,
            br_chash = b_chash blob, br_media_type = b_media_type blob,
            br_created_at = b_created_at blob \<rparr>)
     (\<lambda>id. ret (blob\<lparr>b_id := id\<rparr>))"

text \<open>\<open>BlobUpdate\<close> has the one field \<open>storage_key\<close>.\<close>

definition blob_update :: "uuid \<Rightarrow> string \<Rightarrow> unit repo" where
  "blob_update blob_id storage_key =
     update_blobs (\<lambda>r. br_id r = blob_id) (\<lambda>r. r\<lparr>br_storage_key := storage_key\<rparr>)"

section \<open>BlobJobRepository\<close>

definition blob_job_from_db :: "blob_job_row \<Rightarrow> BlobJob" where
  "blob_job_from_db r = \<lparr> bj_id = jr_id r, bj_payload = jr_data r, bj_created_at = jr_created_at r \<rparr>"

definition blob_job_delete_by_id_batch :: "uuid list \<Rightarrow> unit repo" where
  "blob_job_delete_by_id_batch ids = modify (\<lambda>d. d\<lparr>d_jobs := q_delete (\<lambda>r. jr_id r \<in> set ids) (d_jobs d)\<rparr>)"

definition blob_job_get_by_id_batch :: "uuid list \<Rightarrow> BlobJob list repo" where
  "blob_job_get_by_id_batch ids =
     gets (\<lambda>d. map blob_job_from_db (filter (\<lambda>r. jr_id r \<in> set ids) (d_jobs d)))"

definition blob_job_save_batch :: "BlobJob list \<Rightarrow> BlobJob list repo" where
  "blob_job_save_batch jobs =
     map_prog (\<lambda>job. bnd (insert_job \<lparr> jr_id = 0, jr_data = bj_payload job, jr_created_at = bj_created_at job \<rparr>)
                         (\<lambda>id. ret (job\<lparr>bj_id := id\<rparr>))) jobs"

section \<open>BlobMetadataRepository\<close>

definition blob_metadata_from_db :: "blob_metadata_row \<Rightarrow> BlobMetadata" where
  "blob_metadata_from_db r = \<lparr> bm_blob_id = mr_blob r, bm_data = mr_data r \<rparr>"

definition blob_metadata_get_by_blob_id :: "uuid \<Rightarrow> BlobMetadata repo" where
  "blob_metadata_get_by_blob_id blob_id =
     query (\<lambda>d. map_sum id blob_metadata_from_db
       (or_missing BlobMetadataNotFound (q_get (\<lambda>r. mr_blob r = blob_id) (d_metadata d))))"

definition blob_metadata_save :: "BlobMetadata \<Rightarrow> BlobMetadata repo" where
  "blob_metadata_save m =
     andthen (try_else (bnd (insert_metadata \<lparr> mr_id = 0, mr_data = bm_data m, mr_blob = bm_blob_id m \<rparr>)
                            (\<lambda>_. ret ()))
               (\<lambda>e. raise (if e = IntegrityError then BlobErr BlobNotFound else e)))
             (ret m)"

end
