(* ===== verification/Storage.thy ===== *)
theory Storage
  imports External
begin

text \<open>
  The object storage interface \<open>IStorage\<close> of \<open>src/app/app/infrastructure/storage.py\<close>: a record of
  operations over a storage state, and the contract its docstrings state, as the locale
  \<open>object_store\<close>. The services of the program are written against this interface; \<open>S3Storage\<close> and
  \<open>FileSystemStorage\<close> provide it in their own theories.
\<close>

record StorageFile =
  sf_name :: string
  sf_path :: string
  sf_size :: int
  sf_mtime :: datetime
  sf_is_dir :: bool

record DownloadBatchItem =
  db_key :: string
  db_is_dir :: bool
  db_archive_path :: "string option"

text \<open>One entry of a streamed ZIP archive (the archive format itself is the library's).\<close>

record StreamZipFile =
  zf_path :: string
  zf_modified_at :: datetime
  zf_content :: bytes

record 'b istorage =
  io_delete :: "string \<Rightarrow> ('b, exn, unit) prog"
  io_delete_batch :: "string list \<Rightarrow> ('b, exn, unit) prog"
  io_deletedir :: "string \<Rightarrow> ('b, exn, unit) prog"
  io_emptydir :: "string \<Rightarrow> ('b, exn, unit) prog"
  io_download :: "string \<Rightarrow> ('b, exn, bytes) prog"
  io_download_batch :: "DownloadBatchItem list \<Rightarrow> ('b, exn, StreamZipFile list) prog"
  io_downloaddir :: "string \<Rightarrow> string list option \<Rightarrow> ('b, exn, StreamZipFile list) prog"
  io_exists :: "string \<Rightarrow> ('b, exn, bool) prog"
  io_iterdir :: "string \<Rightarrow> ('b, exn, StorageFile list) prog"
  io_makedirs :: "string \<Rightarrow> ('b, exn, unit) prog"
  io_move :: "string \<Rightarrow> string \<Rightarrow> ('b, exn, unit) prog"
  io_movedir :: "string \<Rightarrow> string \<Rightarrow> ('b, exn, unit) prog"
  io_save :: "string \<Rightarrow> BlobContent \<Rightarrow> ('b, exn, StorageFile) prog"

text \<open>An upload whose announced size is its size.\<close>

definition content_ok :: "BlobContent \<Rightarrow> bool" where
  "content_ok c \<longleftrightarrow> c_size c = int (length (c_data c))"

text \<open>\<open>InMemoryBlobContent(content)\<close>.\<close>

definition InMemoryBlobContent :: "bytes \<Rightarrow> BlobContent" where
  "InMemoryBlobContent b = \<lparr> c_size = int (length b), c_data = b \<rparr>"

lemma content_ok_in_memory [simp]: "content_ok (InMemoryBlobContent b)"
  by (simp add: content_ok_def InMemoryBlobContent_def)

text \<open>Keys below a directory key.\<close>

definition under :: "string \<Rightarrow> string \<Rightarrow> bool" where
  "under dir k \<longleftrightarrow> prefix (normpath dir @ ''/'') k"

text \<open>The components a path names when resolved from a working directory, and \<open>os.path.relpath\<close>.\<close>

definition abs_comps :: "string list \<Rightarrow> string \<Rightarrow> string list" where
  "abs_comps cwd p = (if prefix ''/'' p then pure_comps p else norm_comps True [] (cwd @ split_on slash p))"

definition os_relpath :: "string list \<Rightarrow> string \<Rightarrow> string \<Rightarrow> string" where
  "os_relpath cwd path start =
     (let a = abs_comps cwd path; b = abs_comps cwd start; common = length (longest_common_prefix a b) in
      pure_str [] (replicate (length b - common) ''..'' @ drop common a))"

text \<open>\<open>_has_path\<close>, which both storages define: whether a key is one of the given paths or starts
  with one, up to case.\<close>

definition storage_has_path :: "string \<Rightarrow> string list option \<Rightarrow> bool" where
  "storage_has_path target paths = (case paths of None \<Rightarrow> True
     | Some ps \<Rightarrow> casefold target \<in> casefold ` set ps
                 \<or> (\<exists>p \<in> casefold ` set ps. prefix p (casefold target)))"

definition zip_entry :: "string \<Rightarrow> datetime \<Rightarrow> bytes \<Rightarrow> StreamZipFile" where
  "zip_entry path modified_at content = \<lparr> zf_path = path, zf_modified_at = modified_at, zf_content = content \<rparr>"

section \<open>The contract\<close>

text \<open>
  \<open>objects s k\<close> is the content stored at the normalised key \<open>k\<close>, and \<open>dir_at s k\<close> says that a
  directory is there (a move then goes into it). The laws constrain the runs that
  return; which keys an implementation can name at all (\<open>good_key\<close>) is its own business. The
  contract says nothing about a failed run other than that reading does not write.
\<close>

locale object_store =
  fixes S :: "'b istorage"
    and objects :: "'b \<Rightarrow> string \<Rightarrow> bytes option"
    and good_key :: "string \<Rightarrow> bool"
    and dir_at :: "'b \<Rightarrow> string \<Rightarrow> bool"
  assumes save_objects:
      "good_key k \<Longrightarrow> content_ok c \<Longrightarrow> io_save S k c s = (Inr f, s') \<Longrightarrow>
         objects s' = (objects s)(normpath k \<mapsto> c_data c) \<and> sf_size f = int (length (c_data c))"
    and delete_batch_objects:
      "(\<forall>k \<in> set ks. good_key k) \<Longrightarrow> io_delete_batch S ks s = (Inr u, s') \<Longrightarrow>
         objects s' = (\<lambda>k. if k \<in> normpath ` set ks then None else objects s k)"
    and deletedir_objects:
      "good_key d \<Longrightarrow> (\<forall>k. objects s k \<noteq> None \<and> under d k \<longrightarrow> good_key k) \<Longrightarrow> io_deletedir S d s = (Inr u, s') \<Longrightarrow>
         objects s' = (\<lambda>k. if under d k then None else objects s k)"
    and move_objects:
      "good_key a \<Longrightarrow> good_key t \<Longrightarrow> normpath t = t \<Longrightarrow> normpath a \<noteq> t \<Longrightarrow> \<not> dir_at s t \<Longrightarrow>
         io_move S a t s = (Inr u, s') \<Longrightarrow> objects s (normpath a) \<noteq> None \<and>
         objects s' = ((objects s)(t := objects s (normpath a)))(normpath a := None)"
    and move_missing:
      "good_key a \<Longrightarrow> good_key t \<Longrightarrow> normpath t = t \<Longrightarrow> objects s (normpath a) = None \<Longrightarrow>
         \<exists>e. fst (io_move S a t s) = Inl e"
    and download_objects:
      "good_key k \<Longrightarrow> objects s (normpath k) = Some b \<Longrightarrow> io_download S k s = (Inr b, s)"
    and download_missing:
      "good_key k \<Longrightarrow> objects s (normpath k) = None \<Longrightarrow>
         \<exists>e. io_download S k s = (Inl e, s)"
    and exists_objects:
      "good_key k \<Longrightarrow> objects s (normpath k) \<noteq> None \<Longrightarrow> io_exists S k s = (Inr True, s)"
    and exists_reads:
      "snd (io_exists S k s) = s"
    and makedirs_objects:
      "objects (snd (io_makedirs S k s)) = objects s"
begin

lemma save_then_download:
  assumes "good_key k" "content_ok c" "io_save S k c s = (Inr f, s')"
  shows "io_download S k s' = (Inr (c_data c), s')"
  using assms save_objects [OF assms] by (intro download_objects) auto

lemma save_keeps_others:
  assumes "good_key k" "content_ok c" "io_save S k c s = (Inr f, s')" "k' \<noteq> normpath k"
  shows "objects s' k' = objects s k'"
  using save_objects [OF assms(1-3)] assms(4) by simp

lemma delete_then_download:
  assumes "\<forall>k \<in> set ks. good_key k" "io_delete_batch S ks s = (Inr u, s')" "k \<in> set ks"
  shows "\<exists>e. io_download S k s' = (Inl e, s')"
  using assms delete_batch_objects [OF assms(1,2)] by (intro download_missing) auto

lemma move_then_download:
  assumes "good_key a" "good_key t" "normpath t = t" "normpath a \<noteq> t" "\<not> dir_at s t"
    and "io_move S a t s = (Inr u, s')" "objects s (normpath a) = Some b"
  shows "io_download S t s' = (Inr b, s')"
  using assms move_objects [OF assms(1-6)] by (intro download_objects) auto

text \<open>Moving twice along the same path fails: the job that moves a blob is not idempotent.\<close>

lemma move_twice_missing:
  assumes "good_key a" "good_key t" "normpath t = t" "normpath a \<noteq> t" "\<not> dir_at s t"
    and "io_move S a t s = (Inr u, s')"
  shows "\<exists>e. fst (io_move S a t s') = Inl e"
  using assms move_objects [OF assms] by (intro move_missing) auto

text \<open>Deleting twice is the same as deleting once.\<close>

lemma delete_batch_twice:
  assumes "\<forall>k \<in> set ks. good_key k" "io_delete_batch S ks s = (Inr u, s')"
    and "io_delete_batch S ks s' = (Inr v, s'')"
  shows "objects s'' = objects s'"
  using delete_batch_objects [OF assms(1,2)] delete_batch_objects [OF assms(1,3)] by auto

end

end
