(* ===== verification/World.thy ===== *)
theory World
  imports Storage
begin

text \<open>
  The state an operation of the application runs in and the collaborators it is given. The world
  holds the database, the two object storages, the cache, the queue of the worker, the background
  tasks and the current-user context; the environment holds the interfaces and settings passed to
  the services by \<open>src/app/infrastructure/context.py\<close>. The clock stands still during one operation.
\<close>

text \<open>Jobs by the name they are enqueued under (\<open>src/app/worker/main.py\<close>).\<close>

datatype worker_job =
    Job_process_blob_jobs "uuid list"
  | Job_process_blob_content uuid
  | Job_delete_immediately_batch string "string list"
  | Job_empty_trash string CurrentUser
  | Job_move_batch string "(string \<times> string) list" CurrentUser
  | Job_move_to_trash_batch string "string list" CurrentUser

text \<open>A coroutine given to \<open>taskgroups.schedule\<close>; it runs later, in a copy of the context of the
  caller.\<close>

datatype background_task =
    Task_file_action AuditTrailAction File
  | Task_user_action AuditTrailAction
  | Task_user_signed_in User
  | Task_send_code string string string

text \<open>What the program keeps in the cache, and the interface of the cache (\<open>app/cache.py\<close> names the
  backend: \<open>cashews\<close>, in memory or in Redis). \<open>ic_set now k v expire exist\<close> returns \<open>False\<close> and does
  nothing when \<open>exist = Some False\<close> and the key is there.\<close>

record DownloadMediaItem =
  dm_storage_key :: string
  dm_name :: string
  dm_media_type :: string
  dm_size :: int
  dm_modified_at :: datetime

datatype cache_value = CVStr string | CVInt int | CVFile File | CVItems "DownloadMediaItem list"

record 'b icache =
  ic_get :: "datetime \<Rightarrow> string \<Rightarrow> ('b, exn, cache_value option) prog"
  ic_set :: "datetime \<Rightarrow> string \<Rightarrow> cache_value \<Rightarrow> int option \<Rightarrow> bool option \<Rightarrow> ('b, exn, bool) prog"
  ic_exists :: "datetime \<Rightarrow> string \<Rightarrow> ('b, exn, bool) prog"
  ic_delete :: "datetime \<Rightarrow> string \<Rightarrow> ('b, exn, bool) prog"

record mail_message =
  ml_display_name :: string
  ml_to :: string
  ml_code :: string

record 'b world =
  w_db :: db
  w_default :: 'b
  w_media :: 'b
  w_cache :: 'b
  w_queue :: "worker_job list"
  w_tasks :: "(CurrentUser option \<times> background_task) list"
  w_mail :: "mail_message list"
  w_now :: datetime
  w_draws :: nat
  w_user :: "CurrentUser option"

record 'b env =
  e_ext :: ext
  e_default :: "'b istorage"
  e_media :: "'b istorage"
  e_cache :: "'b icache"
  e_features :: features

type_synonym ('b, 'a) app = "('b world, exn, 'a) prog"

section \<open>Access to the parts\<close>

definition in_db :: "'a repo \<Rightarrow> ('b, 'a) app" where
  "in_db m = (\<lambda>w. case m (w_db w) of (r, d) \<Rightarrow> (r, w\<lparr>w_db := d\<rparr>))"

definition in_default :: "('b, exn, 'a) prog \<Rightarrow> ('b, 'a) app" where
  "in_default m = (\<lambda>w. case m (w_default w) of (r, b) \<Rightarrow> (r, w\<lparr>w_default := b\<rparr>))"

definition in_media :: "('b, exn, 'a) prog \<Rightarrow> ('b, 'a) app" where
  "in_media m = (\<lambda>w. case m (w_media w) of (r, b) \<Rightarrow> (r, w\<lparr>w_media := b\<rparr>))"

definition in_cache :: "(datetime \<Rightarrow> ('b, exn, 'a) prog) \<Rightarrow> ('b, 'a) app" where
  "in_cache m = (\<lambda>w. case m (w_now w) (w_cache w) of (r, c) \<Rightarrow> (r, w\<lparr>w_cache := c\<rparr>))"

text \<open>One draw of the random generator.\<close>

definition draw :: "ext \<Rightarrow> ('b, nat) app" where
  "draw x = (\<lambda>w. (Inr (x_random x (w_draws w)), w\<lparr>w_draws := Suc (w_draws w)\<rparr>))"

definition enqueue :: "worker_job \<Rightarrow> ('b, unit) app" where
  "enqueue j = modify (\<lambda>w. w\<lparr>w_queue := w_queue w @ [j]\<rparr>)"

definition schedule :: "background_task \<Rightarrow> ('b, unit) app" where
  "schedule t = modify (\<lambda>w. w\<lparr>w_tasks := w_tasks w @ [(w_user w, t)]\<rparr>)"

definition now :: "('b, datetime) app" where
  "now = gets w_now"

text \<open>\<open>async with db.atomic()\<close>: an exception restores the database, and nothing else: what was put
  into a storage or into the queue inside the block stays.\<close>

definition atomic :: "('b, 'a) app \<Rightarrow> ('b, 'a) app" where
  "atomic m = (\<lambda>w. case m w of (Inl e, w') \<Rightarrow> (Inl e, w'\<lparr>w_db := w_db w\<rparr>) | (Inr x, w') \<Rightarrow> (Inr x, w'))"

lemma world_code [code]:
  "in_db g w = (case g (w_db w) of (r, d) \<Rightarrow> (r, w\<lparr>w_db := d\<rparr>))"
  "in_default m w = (case m (w_default w) of (r, b) \<Rightarrow> (r, w\<lparr>w_default := b\<rparr>))"
  "in_media m w = (case m (w_media w) of (r, b) \<Rightarrow> (r, w\<lparr>w_media := b\<rparr>))"
  "in_cache h w = (case h (w_now w) (w_cache w) of (r, c) \<Rightarrow> (r, w\<lparr>w_cache := c\<rparr>))"
  "atomic p w = (case p w of (Inl e, w') \<Rightarrow> (Inl e, w'\<lparr>w_db := w_db w\<rparr>) | (Inr x, w') \<Rightarrow> (Inr x, w'))"
  by (simp_all add: in_db_def in_default_def in_media_def in_cache_def atomic_def)

section \<open>Inversion and preservation\<close>

lemma in_db_Inr [prog_elims]:
  "in_db m w = (Inr x, w') \<longleftrightarrow> (\<exists>d. m (w_db w) = (Inr x, d) \<and> w' = w\<lparr>w_db := d\<rparr>)"
  by (auto simp: in_db_def split: prod.splits)

lemma in_db_run: "in_db m w = (r, w') \<longleftrightarrow> (\<exists>d. m (w_db w) = (r, d) \<and> w' = w\<lparr>w_db := d\<rparr>)"
  by (auto simp: in_db_def split: prod.splits)

lemma in_default_Inr [prog_elims]:
  "in_default m w = (Inr x, w') \<longleftrightarrow> (\<exists>b. m (w_default w) = (Inr x, b) \<and> w' = w\<lparr>w_default := b\<rparr>)"
  by (auto simp: in_default_def split: prod.splits)

lemma in_media_Inr [prog_elims]:
  "in_media m w = (Inr x, w') \<longleftrightarrow> (\<exists>b. m (w_media w) = (Inr x, b) \<and> w' = w\<lparr>w_media := b\<rparr>)"
  by (auto simp: in_media_def split: prod.splits)

lemma in_cache_Inr [prog_elims]:
  "in_cache m w = (Inr x, w') \<longleftrightarrow> (\<exists>c. m (w_now w) (w_cache w) = (Inr x, c) \<and> w' = w\<lparr>w_cache := c\<rparr>)"
  by (auto simp: in_cache_def split: prod.splits)

lemma draw_Inr [prog_elims]:
  "draw x w = (Inr r, w') \<longleftrightarrow> r = x_random x (w_draws w) \<and> w' = w\<lparr>w_draws := Suc (w_draws w)\<rparr>"
  by (auto simp: draw_def)

lemma enqueue_Inr [prog_elims]:
  "enqueue j w = (Inr x, w') \<longleftrightarrow> w' = w\<lparr>w_queue := w_queue w @ [j]\<rparr>"
  by (auto simp: enqueue_def modify_def)

lemma schedule_Inr [prog_elims]:
  "schedule t w = (Inr x, w') \<longleftrightarrow> w' = w\<lparr>w_tasks := w_tasks w @ [(w_user w, t)]\<rparr>"
  by (auto simp: schedule_def modify_def)

lemma now_Inr [prog_elims]: "now w = (Inr t, w') \<longleftrightarrow> t = w_now w \<and> w' = w"
  by (auto simp: now_def gets_def)

lemma atomic_Inr [prog_elims]: "atomic m w = (Inr x, w') \<longleftrightarrow> m w = (Inr x, w')"
  by (auto simp: atomic_def split: prod.splits sum.splits)

lemma atomic_Inl: "atomic m w = (Inl e, w') \<Longrightarrow> w_db w' = w_db w"
  by (auto simp: atomic_def split: prod.splits sum.splits)

text \<open>A predicate on the database is kept by a lifted repository operation that keeps it, and by
  every step that does not touch the database.\<close>

abbreviation db_keeps :: "(db \<Rightarrow> bool) \<Rightarrow> ('b, 'a) app \<Rightarrow> bool" where
  "db_keeps I m \<equiv> keeps (\<lambda>w. I (w_db w)) m"

lemma keeps_in_db [intro]: "keeps I m \<Longrightarrow> db_keeps I (in_db m)"
  unfolding keeps_def in_db_def by (simp add: case_prod_beta)

lemma keeps_in_default [intro, simp]: "db_keeps I (in_default m)"
  unfolding keeps_def in_default_def by (auto split: prod.splits)

lemma keeps_in_media [intro, simp]: "db_keeps I (in_media m)"
  unfolding keeps_def in_media_def by (auto split: prod.splits)

lemma keeps_in_cache [intro, simp]: "db_keeps I (in_cache m)"
  unfolding keeps_def in_cache_def by (auto split: prod.splits)

lemma keeps_draw [intro, simp]: "db_keeps I (draw x)"
  by (simp add: keeps_def draw_def)

lemma keeps_enqueue [intro, simp]: "db_keeps I (enqueue j)"
  by (simp add: keeps_def enqueue_def modify_def)

lemma keeps_schedule [intro, simp]: "db_keeps I (schedule t)"
  by (simp add: keeps_def schedule_def modify_def)

lemma keeps_now [intro, simp]: "keeps I now"
  by (simp add: now_def)

lemma keeps_atomic: "db_keeps I m \<Longrightarrow> db_keeps I (atomic m)"
  unfolding keeps_def atomic_def
  by (clarsimp split: prod.splits sum.splits) (metis snd_conv)

section \<open>Running a program step by step\<close>

text \<open>A step that only reads the database, followed by a continuation.\<close>

lemma bnd_in_db_read: "(\<And>d. snd (m d) = d) \<Longrightarrow>
  bnd (in_db m) k w = (case fst (m (w_db w)) of Inl e \<Rightarrow> (Inl e, w) | Inr x \<Rightarrow> k x w)"
  by (simp add: bnd_def in_db_def case_prod_beta)

lemma in_db_read: "(\<And>d. snd (m d) = d) \<Longrightarrow> in_db m w = (fst (m (w_db w)), w)"
  by (simp add: in_db_def case_prod_beta)

lemma bnd_of_result: "bnd (of_result r) k w = (case r of Inl e \<Rightarrow> (Inl e, w) | Inr x \<Rightarrow> k x w)"
  by (simp add: bnd_def of_result_def)

lemma bnd_now: "bnd now k w = k (w_now w) w"
  by (simp add: bnd_def now_def gets_def)

lemma andthen_in_db:
  "andthen (in_db m) k w = (case m (w_db w) of (Inl e, d) \<Rightarrow> (Inl e, w\<lparr>w_db := d\<rparr>)
     | (Inr x, d) \<Rightarrow> k (w\<lparr>w_db := d\<rparr>))"
  by (simp add: andthen_def bnd_def in_db_def split: prod.splits)

lemma in_db_reads: "(\<And>d. snd (m d) = d) \<Longrightarrow> snd (in_db m w) = w"
  by (simp add: in_db_read)

text \<open>A transaction either ends as its body does, or with the database it began with.\<close>

lemma triple_atomic:
  assumes "triple P m Q (\<lambda>_. True)" "\<And>w. P w \<Longrightarrow> I (w_db w)"
  shows "triple P (atomic m) Q (\<lambda>w. I (w_db w))"
proof (rule tripleI)
  show "Q x w'" if "P w" "atomic m w = (Inr x, w')" for w x w'
    using that tripleD [OF assms(1)] by (auto simp: atomic_Inr)
  show "I (w_db w')" if "P w" "atomic m w = (Inl e, w')" for w e w'
    using that atomic_Inl assms(2) by metis
qed

end
