(* ===== verification/Toolkit.thy ===== *)
theory Toolkit
  imports External
begin

text \<open>
  \<open>src/app/toolkit\<close>: the content hash, the media type guess, the thumbnail dispatch and the EXIF
  reader. The libraries they call are the fields of \<open>ext\<close>.
\<close>

section \<open>chash.py\<close>

definition DROPBOX_HASH_CHUNK_SIZE :: nat where
  "DROPBOX_HASH_CHUNK_SIZE = 4 * 1024 * 1024"

text \<open>The loop: read a chunk, append its digest, until a read returns nothing. The chunk size is a
  parameter so that small instances can be computed.\<close>

function block_hashes :: "ext \<Rightarrow> nat \<Rightarrow> bytes \<Rightarrow> bytes" where
  "block_hashes x n data =
     (if take n data = [] then [] else x_sha256 x (take n data) @ block_hashes x n (drop n data))"
  by pat_completeness auto
termination
  by (relation "measure (\<lambda>(x, n, data). length data)") (auto simp: neq_Nil_conv)

declare block_hashes.simps [simp del]

definition hexdigest :: "bytes \<Rightarrow> string" where
  "hexdigest b = concat (map (\<lambda>w. hex_string 2 (unat w)) b)"

definition chash_with :: "ext \<Rightarrow> nat \<Rightarrow> bytes \<Rightarrow> string" where
  "chash_with x n data =
     (let h = block_hashes x n data in if h = [] then EMPTY_CONTENT_HASH else hexdigest (x_sha256 x h))"

definition chash :: "ext \<Rightarrow> bytes \<Rightarrow> string" where
  "chash x data = chash_with x DROPBOX_HASH_CHUNK_SIZE data"

text \<open>A content of one block is hashed without counting to the size of a block.\<close>

lemma chash_code [code]:
  "chash x data =
     (if int (length data) \<le> 4194304
      then (let h = (if data = [] then [] else x_sha256 x data)
            in if h = [] then EMPTY_CONTENT_HASH else hexdigest (x_sha256 x h))
      else chash_with x DROPBOX_HASH_CHUNK_SIZE data)"
proof (cases "int (length data) \<le> 4194304")
  case True
  then have "length data \<le> DROPBOX_HASH_CHUNK_SIZE" by (simp add: DROPBOX_HASH_CHUNK_SIZE_def)
  moreover have "block_hashes x n [] = []" for n by (subst block_hashes.simps) simp
  ultimately have "block_hashes x DROPBOX_HASH_CHUNK_SIZE data = (if data = [] then [] else x_sha256 x data)"
    by (subst block_hashes.simps) simp
  then show ?thesis using True by (simp add: chash_def chash_with_def Let_def)
qed (simp add: chash_def)

text \<open>The specification: the digests of the successive blocks, concatenated, hashed again.\<close>

fun blocks :: "nat \<Rightarrow> nat \<Rightarrow> 'a list \<Rightarrow> 'a list list" where
  "blocks 0 n xs = []"
| "blocks (Suc k) n xs = take n xs # blocks k n (drop n xs)"

lemma block_hashes_blocks:
  assumes "0 < n"
  shows "block_hashes x n data =
           concat (map (x_sha256 x) (blocks ((length data + n - 1) div n) n data))"
proof (induction "length data" arbitrary: data rule: less_induct)
  case less
  show ?case
  proof (cases "data = []")
    case True
    then show ?thesis using assms by (subst block_hashes.simps) simp
  next
    case False
    then have l: "length (drop n data) < length data" using assms by simp
    have k: "(length data + n - 1) div n = Suc ((length (drop n data) + n - 1) div n)"
    proof (cases "length data \<le> n")
      case True
      have "length data + n - 1 = n + (length data - 1)" using False by (cases data) simp_all
      then have "(length data + n - 1) div n = (n + (length data - 1)) div n" by simp
      also have "\<dots> = Suc ((length data - 1) div n)" using assms by (subst div_add_self1) simp_all
      also have "(length data - 1) div n = 0" using True False assms
        by (simp add: div_less)
      finally show ?thesis using True assms by simp
    next
      case False
      then have "length data + n - 1 = n + (length data - n + n - 1)" by simp
      then have "(length data + n - 1) div n = (n + (length data - n + n - 1)) div n" by simp
      also have "\<dots> = Suc ((length data - n + n - 1) div n)"
        using assms by (subst div_add_self1) simp_all
      finally have "(length data + n - 1) div n = Suc ((length data - n + n - 1) div n)" .
      then show ?thesis by simp
    qed
    show ?thesis
      using False assms less [OF l] by (subst block_hashes.simps) (simp add: k [simplified])
  qed
qed

section \<open>mediatypes.py\<close>

definition mt_pdf :: string where "mt_pdf = ''application/pdf''"
definition mt_epub :: string where "mt_epub = ''application/epub+zip''"
definition mt_image_bmp :: string where "mt_image_bmp = ''image/bmp''"
definition mt_image_gif :: string where "mt_image_gif = ''image/gif''"
definition mt_image_heic :: string where "mt_image_heic = ''image/heic''"
definition mt_image_heif :: string where "mt_image_heif = ''image/heif''"
definition mt_image_jpeg :: string where "mt_image_jpeg = ''image/jpeg''"
definition mt_image_png :: string where "mt_image_png = ''image/png''"
definition mt_image_svg :: string where "mt_image_svg = ''image/svg+xml''"
definition mt_image_tiff :: string where "mt_image_tiff = ''image/tiff''"
definition mt_image_webp :: string where "mt_image_webp = ''image/webp''"

text \<open>\<open>SVG_RE.match\<close>. A regular expression is run as the list of the rests it can leave.\<close>

definition word_char :: "char \<Rightarrow> bool" where
  "word_char c \<longleftrightarrow> (let n = of_char c :: nat in
     (48 \<le> n \<and> n \<le> 57) \<or> (65 \<le> n \<and> n \<le> 90) \<or> n = 95 \<or> (97 \<le> n \<and> n \<le> 122)
     \<or> n \<in> {170, 178, 179, 181, 185, 186, 188, 189, 190} \<or> (192 \<le> n \<and> n \<noteq> 215 \<and> n \<noteq> 247))"

definition re_lit :: "string \<Rightarrow> string \<Rightarrow> string list" where
  "re_lit p s = (if prefix p s then [drop (length p) s] else [])"

fun re_many :: "(char \<Rightarrow> bool) \<Rightarrow> string \<Rightarrow> string list" where
  "re_many P [] = [[]]"
| "re_many P (c # s) = (c # s) # (if P c then re_many P s else [])"

definition re_then :: "(string \<Rightarrow> string list) \<Rightarrow> (string \<Rightarrow> string list) \<Rightarrow> string \<Rightarrow> string list" where
  "re_then m k s = concat (map k (m s))"

text \<open>\<open>\\b\<close> after a word character.\<close>

definition re_word_end :: "string \<Rightarrow> string list" where
  "re_word_end s = (case s of [] \<Rightarrow> [[]] | c # _ \<Rightarrow> if word_char c then [] else [s])"

definition re_xml_decl :: "string \<Rightarrow> string list" where
  "re_xml_decl = re_then (re_lit ''<?xml'') (re_then re_word_end
     (re_then (re_many (\<lambda>c. c \<noteq> CHR ''>'')) (re_then (re_lit ''>'') (re_many (\<lambda>c. c \<noteq> CHR ''<'')))))"

definition re_comment :: "string \<Rightarrow> string list" where
  "re_comment = re_then (re_lit ''<!--'') (re_then (re_many (\<lambda>_. True))
     (re_then (re_lit ''-->'') (re_many (\<lambda>c. c \<noteq> CHR ''<''))))"

fun re_comments :: "nat \<Rightarrow> string \<Rightarrow> string list" where
  "re_comments 0 s = [s]"
| "re_comments (Suc n) s = s # concat (map (re_comments n) (re_comment s))"

definition svg_match :: "string \<Rightarrow> bool" where
  "svg_match s \<longleftrightarrow>
     re_then (\<lambda>s. re_xml_decl s @ [s]) (re_then (re_comments (length s))
       (re_then (\<lambda>s. re_lit ''<svg'' s @ re_lit ''<!DOCTYPE svg'' s) re_word_end)) s \<noteq> []"

definition latin1 :: "bytes \<Rightarrow> string" where
  "latin1 b = map (\<lambda>w. char_of (unat w)) b"

text \<open>\<open>str.encode()\<close>.\<close>

definition utf8_char :: "char \<Rightarrow> bytes" where
  "utf8_char c = (let n = of_char c :: nat in
     if n < 128 then [of_nat n] else [of_nat (192 + n div 64), of_nat (128 + n mod 64)])"

definition utf8 :: "string \<Rightarrow> bytes" where
  "utf8 s = concat (map utf8_char s)"

definition guess_unsafe :: "ext \<Rightarrow> string \<Rightarrow> string" where
  "guess_unsafe x name = (case x_extension_mime x name of None \<Rightarrow> mt_octet_stream | Some m \<Rightarrow> m)"

definition guess :: "ext \<Rightarrow> bytes \<Rightarrow> string option \<Rightarrow> string" where
  "guess x data name =
     (let by_name =
        (case name of None \<Rightarrow> mt_octet_stream
         | Some n \<Rightarrow> (let mime = guess_unsafe x n
                     in if mime \<notin> set (x_filetype_mimes x) then mime else mt_octet_stream));
        by_content = (if svg_match (latin1 data) then mt_image_svg else by_name)
      in case x_guess_mime x data of None \<Rightarrow> by_content
         | Some m \<Rightarrow> if m = [] then by_content else m)"

text \<open>No library gives the marker the program reserves for folders.\<close>

definition mime_lib_ok :: "ext \<Rightarrow> bool" where
  "mime_lib_ok x \<longleftrightarrow> (\<forall>b. x_guess_mime x b \<noteq> Some mt_folder)
     \<and> (\<forall>n. x_extension_mime x n \<noteq> Some mt_folder)"

lemma guess_not_folder: "mime_lib_ok x \<Longrightarrow> guess x data name \<noteq> mt_folder"
  by (auto simp: mime_lib_ok_def guess_def guess_unsafe_def Let_def mt_octet_stream_def
      mt_folder_def mt_image_svg_def split: option.splits if_splits)

section \<open>thumbnails\<close>

definition thumbnail_images :: "string list" where
  "thumbnail_images = [mt_image_bmp, mt_image_gif, mt_image_heic, mt_image_heif, mt_image_jpeg,
     mt_image_png, mt_image_svg, mt_image_tiff, mt_image_webp]"

definition thumbnail_pdfs :: "string list" where
  "thumbnail_pdfs = [''application/pdf'', ''application/epub+zip'']"

definition thumbnail_is_supported :: "string \<Rightarrow> bool" where
  "thumbnail_is_supported mediatype \<longleftrightarrow> mediatype \<in> set (thumbnail_images @ thumbnail_pdfs)"

definition get_method :: "int \<Rightarrow> int" where
  "get_method sz = (if sz \<ge> 1920 then 0 else 2)"

definition get_quality :: "int \<Rightarrow> int" where
  "get_quality sz = (if sz \<ge> 1920 then 65 else 80)"

definition thumbnail_image :: "ext \<Rightarrow> bytes \<Rightarrow> int \<Rightarrow> exn + (bytes \<times> string)" where
  "thumbnail_image x content sz =
     (case x_image_open x content of None \<Rightarrow> Inl ThumbnailErr
      | Some im \<Rightarrow>
          if im_format im = ''GIF'' \<and> im_animated im
          then (if im_width im < sz \<and> im_height im < sz then Inr (content, mt_image_gif)
                else Inr (x_gif_frames x content sz, mt_image_webp))
          else Inr (x_webp x content sz (get_method sz) (get_quality sz), mt_image_webp))"

definition thumbnail_pdf :: "ext \<Rightarrow> bytes \<Rightarrow> int \<Rightarrow> string \<Rightarrow> exn + (bytes \<times> string)" where
  "thumbnail_pdf x content sz mediatype =
     (let (height, width) = x_pdf_box x content mediatype;
          original_size = max height width;
          factor = (if sz < original_size then Some (sz, original_size) else None)
      in Inr (x_pdf_webp x content mediatype factor (get_method sz) (get_quality sz), mt_image_webp))"

definition thumbnail_svg :: "bytes \<Rightarrow> exn + (bytes \<times> string)" where
  "thumbnail_svg content = Inr (content, mt_image_svg)"

definition thumbnail_for :: "ext \<Rightarrow> bytes \<Rightarrow> int \<Rightarrow> exn + (bytes \<times> string)" where
  "thumbnail_for x content sz =
     (let mediatype = guess x content None
      in if mediatype \<in> set thumbnail_pdfs then thumbnail_pdf x content sz mediatype
         else if mediatype = mt_image_svg then thumbnail_svg content
         else thumbnail_image x content sz)"

text \<open>A resized animated GIF is GIF data under the WebP media type.\<close>

lemma thumbnail_resized_gif:
  assumes "x_image_open x content = Some im" "im_format im = ''GIF''" "im_animated im"
    and "\<not> (im_width im < sz \<and> im_height im < sz)"
  shows "thumbnail_image x content sz = Inr (x_gif_frames x content sz, mt_image_webp)"
  using assms by (auto simp: thumbnail_image_def)

section \<open>metadata\<close>

definition exif_falsy :: "exif_value option \<Rightarrow> bool" where
  "exif_falsy v = (case v of None \<Rightarrow> True | Some (EInt n) \<Rightarrow> n = 0 | Some (EStr s) \<Rightarrow> s = []
                   | Some (ERat n d) \<Rightarrow> n = 0 \<and> d \<noteq> 0)"

definition int_str :: "int \<Rightarrow> string" where
  "int_str n = (if n < 0 then ''-'' @ digits_of (nat (- n)) else digits_of (nat n))"

text \<open>\<open>int(value)\<close>: the digits of a text, truncation towards zero of a rational.\<close>

definition digit_val :: "char \<Rightarrow> int" where
  "digit_val c = of_char c - 48"

definition is_digit :: "char \<Rightarrow> bool" where
  "is_digit c \<longleftrightarrow> (let n = of_char c :: nat in 48 \<le> n \<and> n \<le> 57)"

definition digits_val :: "string \<Rightarrow> int" where
  "digits_val s = foldl (\<lambda>n c. 10 * n + digit_val c) 0 s"

definition parse_int :: "string \<Rightarrow> exn + int" where
  "parse_int s =
     (let t = strip s; neg = (t \<noteq> [] \<and> hd t = CHR ''-'');
          ds = (if t \<noteq> [] \<and> (hd t = CHR ''-'' \<or> hd t = CHR ''+'') then tl t else t)
      in if ds \<noteq> [] \<and> list_all is_digit ds then Inr (if neg then - digits_val ds else digits_val ds)
         else Inl (PyErr ValueError))"

definition get_int_or_none :: "exif_value option \<Rightarrow> exn + int option" where
  "get_int_or_none v = (if exif_falsy v then Inr None else
     (case v of Some (EInt n) \<Rightarrow> Inr (Some n)
      | Some (ERat n d) \<Rightarrow> if d = 0 then Inl (PyErr ValueError) else Inr (Some (sgn n * sgn d * (\<bar>n\<bar> div \<bar>d\<bar>)))
      | Some (EStr s) \<Rightarrow> map_sum id Some (parse_int s)
      | None \<Rightarrow> Inr None))"

definition exif_str :: "ext \<Rightarrow> exif_value \<Rightarrow> string" where
  "exif_str x v = (case v of EInt n \<Rightarrow> int_str n | EStr s \<Rightarrow> s | ERat n d \<Rightarrow> x_rational_str x n d)"

definition strip_nul :: "string \<Rightarrow> string" where
  "strip_nul s = strip_chars (\<lambda>c. c = CHR 0x00) s"

definition get_str_or_none :: "ext \<Rightarrow> exif_value option \<Rightarrow> string option" where
  "get_str_or_none x v = (if exif_falsy v then None
     else (case v of Some y \<Rightarrow> Some (strip (strip_nul (exif_str x y))) | None \<Rightarrow> None))"

definition get_timestamp :: "ext \<Rightarrow> exif_value option \<Rightarrow> int option" where
  "get_timestamp x v = (if exif_falsy v then None
     else (case v of Some (EStr s) \<Rightarrow> x_strptime x (strip_nul s) | _ \<Rightarrow> None))"

text \<open>\<open>Fraction(n, d).limit_denominator(m)\<close>: the loop over the continued fraction, with the
  convergents \<open>p0/q0\<close> and \<open>p1/q1\<close>; the result is a numerator and a denominator.\<close>

function limit_loop :: "int \<Rightarrow> int \<Rightarrow> int \<Rightarrow> int \<Rightarrow> int \<Rightarrow> int \<Rightarrow> int \<Rightarrow> int \<times> int \<times> int \<times> int" where
  "limit_loop m p0 q0 p1 q1 n d =
     (if d \<le> 0 then (p0, q0, p1, q1)
      else let a = n div d; q2 = q0 + a * q1
           in if q2 > m then (p0, q0, p1, q1)
              else limit_loop m p1 q1 (p0 + a * p1) q2 d (n - a * d))"
  by pat_completeness auto
termination
  by (relation "measure (\<lambda>(m, p0, q0, p1, q1, n, d). nat d)")
     (auto simp: minus_div_mult_eq_mod)

declare limit_loop.simps [simp del]

definition limit_denominator :: "int \<Rightarrow> int \<Rightarrow> int \<Rightarrow> int \<times> int" where
  "limit_denominator m num den =
     (let g = gcd num den; n = num div g; d = den div g
      in if d \<le> m then (n, d)
         else (case limit_loop m 0 1 1 0 n d of (p0, q0, p1, q1) \<Rightarrow>
                let k = (m - q0) div q1; b2n = p0 + k * p1; b2d = q0 + k * q1
                in if \<bar>p1 * d - n * q1\<bar> * (b2d * d) \<le> \<bar>b2n * d - n * b2d\<bar> * (q1 * d)
                   then (p1, q1) else (b2n, b2d)))"

definition fraction_str :: "int \<times> int \<Rightarrow> string" where
  "fraction_str q = (if snd q = 1 then int_str (fst q) else int_str (fst q) @ ''/'' @ int_str (snd q))"

definition get_exposure :: "exif_value option \<Rightarrow> exn + string option" where
  "get_exposure v = (if exif_falsy v then Inr None
     else (case v of
         Some (ERat n d) \<Rightarrow> (if d = 0 then Inl (PyErr ZeroDivisionError)
           else Inr (Some (fraction_str (limit_denominator 8000 (sgn d * n) \<bar>d\<bar>))))
       | Some (EInt n) \<Rightarrow> Inr (Some (fraction_str (limit_denominator 8000 n 1)))
       | _ \<Rightarrow> Inl (PyErr AttributeError)))"

definition load_image_data :: "ext \<Rightarrow> bytes \<Rightarrow> exn + Exif option" where
  "load_image_data x content = (case x_image_open x content of None \<Rightarrow> Inr None
     | Some im \<Rightarrow>
        let width = im_width im; height = im_height im; raw_exif = x_exif x content; tag = map_of raw_exif
        in if raw_exif = [] then Inr None
           else (case get_int_or_none (tag ''FocalLengthIn35mmFilm'') of Inl e \<Rightarrow> Inl e
            | Inr focal_length_35mm \<Rightarrow>
              (case (if focal_length_35mm = None \<or> focal_length_35mm = Some 0
                     then get_int_or_none (tag ''FocalLength'') else Inr None) of Inl e \<Rightarrow> Inl e
               | Inr focal_length \<Rightarrow>
                 (case get_exposure (tag ''ExposureTime'') of Inl e \<Rightarrow> Inl e
                  | Inr exposure \<Rightarrow> Inr (Some
                     \<lparr> ex_make = get_str_or_none x (tag ''Make''), ex_model = get_str_or_none x (tag ''Model''),
                       ex_focal_length = focal_length, ex_focal_length_35mm = focal_length_35mm,
                       ex_fnumber = get_str_or_none x (tag ''FNumber''), ex_exposure = exposure,
                       ex_iso = get_str_or_none x (tag ''ISOSpeedRatings''),
                       ex_dt_original = get_timestamp x (tag ''DateTimeOriginal''),
                       ex_dt_digitized = get_timestamp x (tag ''DateTimeDigitized''),
                       ex_height = Some width, ex_width = Some height \<rparr>)))))"

definition metadata_images :: "string list" where
  "metadata_images = [mt_image_bmp, mt_image_heic, mt_image_heif, mt_image_jpeg, mt_image_png,
     mt_image_tiff, mt_image_webp]"

definition metadata_load :: "ext \<Rightarrow> bytes \<Rightarrow> exn + Exif option" where
  "metadata_load x content =
     (if guess x content None \<in> set metadata_images then load_image_data x content else Inr None)"

end
