(* ===== verification/Blobs.thy ===== *)
theory Blobs
  imports BlobRepo World Toolkit
begin

text \<open>
  \<open>src/app/app/blobs/services\<close>: \<open>BlobService\<close> (creation, and the delete and move jobs that are written
  to the database and carried out later by the worker), \<open>BlobMetadataService\<close>,
  \<open>BlobThumbnailService\<close> and \<open>BlobContentProcessor\<close>. The locks of the thumbnail service only order
  concurrent runs; a run of the model is one run alone.
\<close>

section \<open>BlobService\<close>

definition blob_create :: "'b env \<Rightarrow> string \<Rightarrow> BlobContent \<Rightarrow> ('b, Blob) app" where
  "blob_create E storage_key content =
     (let media_type = guess (e_ext E) (c_data content) (Some storage_key);
          content_hash = chash (e_ext E) (c_data content)
      in andthen (in_default (io_makedirs (e_default E) (dirname storage_key)))
         (bnd (in_default (io_save (e_default E) storage_key content)) (\<lambda>storage_file.
          bnd now (\<lambda>t.
          in_db (blob_save \<lparr> b_id = SENTINEL_ID, b_storage_key = storage_key,
                   b_size = sf_size storage_file, b_chash = content_hash,
                   b_media_type = media_type, b_created_at = t \<rparr>)))))"

text \<open>For evaluation: a blob is created when there is a world.\<close>

lemma blob_create_code [code]:
  "blob_create E storage_key content w =
     (let media_type = guess (e_ext E) (c_data content) (Some storage_key);
          content_hash = chash (e_ext E) (c_data content)
      in andthen (in_default (io_makedirs (e_default E) (dirname storage_key)))
         (bnd (in_default (io_save (e_default E) storage_key content)) (\<lambda>storage_file.
          bnd now (\<lambda>t.
          in_db (blob_save \<lparr> b_id = SENTINEL_ID, b_storage_key = storage_key,
                   b_size = sf_size storage_file, b_chash = content_hash,
                   b_media_type = media_type, b_created_at = t \<rparr>)))) w)"
  by (simp add: blob_create_def)

text \<open>The four ways to schedule work share their shape: save the jobs, enqueue their ids.\<close>

definition save_and_enqueue :: "blob_job_payload list \<Rightarrow> ('b, unit) app" where
  "save_and_enqueue ps =
     bnd now (\<lambda>t.
     bnd (in_db (blob_job_save_batch
            (map (\<lambda>p. \<lparr> bj_id = SENTINEL_ID, bj_payload = p, bj_created_at = t \<rparr>) ps))) (\<lambda>jobs.
     enqueue (Job_process_blob_jobs (map bj_id jobs))))"

definition blob_service_delete_all_with_prefix :: "string \<Rightarrow> ('b, unit) app" where
  "blob_service_delete_all_with_prefix p = save_and_enqueue [BlobJobDeletePrefix p]"

definition blob_service_delete_batch :: "uuid list \<Rightarrow> ('b, unit) app" where
  "blob_service_delete_batch blob_ids =
     (if blob_ids = [] then ret ()
      else bnd (in_db (blob_get_by_id_batch blob_ids)) (\<lambda>blobs.
             if blobs = [] then ret ()
             else save_and_enqueue (map (\<lambda>b. BlobJobDelete (b_id b) (b_storage_key b)) blobs)))"

definition blob_service_move :: "uuid \<Rightarrow> string \<Rightarrow> ('b, unit) app" where
  "blob_service_move blob_id storage_key =
     bnd (in_db (blob_get_by_id blob_id)) (\<lambda>blob.
       if b_storage_key blob = storage_key then ret ()
       else bnd (in_db (blob_exists_with_storage_key storage_key)) (\<lambda>taken.
         andthen (guard (\<not> taken) (BlobErr BlobAlreadyExists))
           (save_and_enqueue [BlobJobMove blob_id (b_storage_key blob) storage_key])))"

definition blob_service_move_with_prefix :: "string \<Rightarrow> string \<Rightarrow> ('b, unit) app" where
  "blob_service_move_with_prefix p to_prefix = save_and_enqueue [BlobJobMovePrefix p to_prefix]"

definition blob_service_download :: "'b env \<Rightarrow> string \<Rightarrow> ('b, bytes) app" where
  "blob_service_download E storage_key = in_default (io_download (e_default E) storage_key)"

definition blob_service_download_batch ::
  "'b env \<Rightarrow> DownloadBatchItem list \<Rightarrow> ('b, StreamZipFile list) app" where
  "blob_service_download_batch E items = in_default (io_download_batch (e_default E) items)"

definition blob_service_download_with_prefix :: "'b env \<Rightarrow> string \<Rightarrow> ('b, StreamZipFile list) app" where
  "blob_service_download_with_prefix E p = in_default (io_downloaddir (e_default E) p None)"

definition blob_service_get_by_id :: "uuid \<Rightarrow> ('b, Blob) app" where
  "blob_service_get_by_id blob_id = in_db (blob_get_by_id blob_id)"

definition blob_service_get_by_id_batch :: "uuid list \<Rightarrow> ('b, Blob list) app" where
  "blob_service_get_by_id_batch blob_ids = in_db (blob_get_by_id_batch blob_ids)"

fun delete_parts :: "BlobJob list \<Rightarrow> (uuid \<times> uuid \<times> string) list" where
  "delete_parts [] = []"
| "delete_parts (j # js) = (case bj_payload j of
     BlobJobDelete blob_id storage_key \<Rightarrow> (bj_id j, blob_id, storage_key) # delete_parts js
   | _ \<Rightarrow> delete_parts js)"

definition process_delete_jobs :: "'b env \<Rightarrow> BlobJob list \<Rightarrow> ('b, unit) app" where
  "process_delete_jobs E jobs =
     (let parts = delete_parts jobs in
      if parts = [] then ret ()
      else andthen (in_default (io_delete_batch (e_default E) (map (\<lambda>(_, _, k). k) parts)))
           (atomic (andthen (in_db (blob_delete_batch (map (\<lambda>(_, b, _). b) parts)))
                            (in_db (blob_job_delete_by_id_batch (map (\<lambda>(j, _, _). j) parts))))))"

definition process_delete_prefix_jobs :: "'b env \<Rightarrow> BlobJob list \<Rightarrow> ('b, unit) app" where
  "process_delete_prefix_jobs E jobs = for_each jobs (\<lambda>job. case bj_payload job of
     BlobJobDeletePrefix p \<Rightarrow>
       andthen (in_default (io_deletedir (e_default E) p))
         (atomic (andthen (in_db (blob_delete_all_with_prefix p))
                          (in_db (blob_job_delete_by_id_batch [bj_id job]))))
   | _ \<Rightarrow> ret ())"

definition process_move_jobs :: "'b env \<Rightarrow> BlobJob list \<Rightarrow> ('b, unit) app" where
  "process_move_jobs E jobs = for_each jobs (\<lambda>job. case bj_payload job of
     BlobJobMove blob_id at to \<Rightarrow>
       andthen (in_default (io_move (e_default E) at to))
         (atomic (andthen (in_db (blob_update blob_id to))
                          (in_db (blob_job_delete_by_id_batch [bj_id job]))))
   | _ \<Rightarrow> ret ())"

definition process_move_prefix_jobs :: "'b env \<Rightarrow> BlobJob list \<Rightarrow> ('b, unit) app" where
  "process_move_prefix_jobs E jobs = for_each jobs (\<lambda>job. case bj_payload job of
     BlobJobMovePrefix at to \<Rightarrow>
       andthen (in_default (io_movedir (e_default E) at to))
         (atomic (andthen (in_db (blob_replace_storage_key_prefix at to))
                          (in_db (blob_job_delete_by_id_batch [bj_id job]))))
   | _ \<Rightarrow> ret ())"

definition blob_service_process_blob_jobs :: "'b env \<Rightarrow> uuid list \<Rightarrow> ('b, unit) app" where
  "blob_service_process_blob_jobs E ids =
     bnd (in_db (blob_job_get_by_id_batch ids)) (\<lambda>jobs.
       if jobs = [] then ret ()
       else andthen (process_delete_jobs E jobs)
            (andthen (process_delete_prefix_jobs E jobs)
            (andthen (process_move_jobs E jobs)
                     (process_move_prefix_jobs E jobs))))"

section \<open>BlobMetadataService\<close>

definition blob_metadata_service_get_by_blob_id :: "uuid \<Rightarrow> ('b, BlobMetadata) app" where
  "blob_metadata_service_get_by_blob_id blob_id = in_db (blob_metadata_get_by_blob_id blob_id)"

definition blob_metadata_track :: "'b env \<Rightarrow> uuid \<Rightarrow> bytes \<Rightarrow> ('b, unit) app" where
  "blob_metadata_track E blob_id content =
     bnd (of_result (metadata_load (e_ext E) content)) (\<lambda>data. case data of
       None \<Rightarrow> ret ()
     | Some exif \<Rightarrow> andthen (in_db (blob_metadata_save \<lparr> bm_blob_id = blob_id, bm_data = exif \<rparr>)) (ret ()))"

section \<open>BlobThumbnailService\<close>

definition thumbnail_storage_key :: "string \<Rightarrow> int \<Rightarrow> string" where
  "thumbnail_storage_key content_hash sz =
     foldl os_join ''thumbnails''
       [take 2 content_hash, take 2 (drop 2 content_hash), take 2 (drop 4 content_hash),
        content_hash @ ''_'' @ int_str sz @ ''.webp'']"

fun generate_sizes :: "'b env \<Rightarrow> string \<Rightarrow> bytes \<Rightarrow> int list \<Rightarrow> ('b, unit) app" where
  "generate_sizes E ch content [] = ret ()"
| "generate_sizes E ch content (sz # sizes) =
     (let path = thumbnail_storage_key ch sz in
      bnd (in_media (io_exists (e_media E) path)) (\<lambda>there.
        if there then generate_sizes E ch content sizes
        else (case thumbnail_for (e_ext E) content sz of
            Inl e \<Rightarrow> if e = ThumbnailErr then ret () else raise e
          | Inr (thumb, _) \<Rightarrow>
              andthen (in_media (io_makedirs (e_media E) (dirname path)))
              (andthen (bnd (in_media (io_save (e_media E) path (InMemoryBlobContent thumb))) (\<lambda>_. ret ()))
                 (generate_sizes E ch content sizes)))))"

definition thumbnail_generate :: "'b env \<Rightarrow> string \<Rightarrow> bytes \<Rightarrow> int list \<Rightarrow> ('b, unit) app" where
  "thumbnail_generate E ch content sizes =
     (if int (length content) > cfg_max_file_size_to_thumbnail (e_features E) then ret ()
      else if \<not> thumbnail_is_supported (guess (e_ext E) content None) then ret ()
      else if ch = [] then ret ()
      else generate_sizes E ch content sizes)"

text \<open>\<open>MediaType(value)\<close> raises \<open>ValueError\<close> on a value the enumeration lacks.\<close>

definition MediaType_values :: "string list" where
  "MediaType_values = [mt_epub, mt_folder, mt_octet_stream, mt_pdf, mt_image_bmp, mt_image_gif,
     mt_image_heic, mt_image_heif, ''image/x-icon'', mt_image_jpeg, mt_image_png, mt_image_svg,
     mt_image_tiff, mt_image_webp, ''text/plain'']"

definition thumbnailer_thumbnail :: "'b env \<Rightarrow> uuid \<Rightarrow> string \<Rightarrow> int \<Rightarrow> ('b, bytes \<times> string) app" where
  "thumbnailer_thumbnail E blob_id content_hash sz =
     (let storage_key = thumbnail_storage_key content_hash sz in
      andthen (guard (content_hash \<noteq> []) (BlobErr BlobThumbnailUnavailable))
      (bnd (in_media (io_exists (e_media E) storage_key)) (\<lambda>there.
        if there
        then bnd (in_media (io_download (e_media E) storage_key)) (\<lambda>thumb.
               let mt = guess (e_ext E) thumb None
               in andthen (guard (mt \<in> set MediaType_values) (PyErr ValueError)) (ret (thumb, mt)))
        else bnd (blob_service_get_by_id blob_id) (\<lambda>blob.
             andthen (guard (b_size blob \<le> cfg_max_file_size_to_thumbnail (e_features E))
                        (BlobErr BlobThumbnailUnavailable))
             (bnd (blob_service_download E (b_storage_key blob)) (\<lambda>content.
              case thumbnail_for (e_ext E) content sz of
                Inl e \<Rightarrow> raise (if e = ThumbnailErr then BlobErr BlobThumbnailUnavailable else e)
              | Inr (thumb, mediatype) \<Rightarrow>
                  andthen (in_media (io_makedirs (e_media E) (dirname storage_key)))
                  (andthen (bnd (in_media (io_save (e_media E) storage_key (InMemoryBlobContent thumb))) (\<lambda>_. ret ()))
                     (ret (thumb, mediatype)))))))))"

section \<open>BlobContentProcessor\<close>

definition content_process :: "'b env \<Rightarrow> uuid \<Rightarrow> ('b, unit) app" where
  "content_process E blob_id =
     bnd (blob_service_get_by_id blob_id) (\<lambda>blob.
     bnd (blob_service_download E (b_storage_key blob)) (\<lambda>content.
     andthen (thumbnail_generate E (b_chash blob) content (cfg_thumbnail_sizes (e_features E)))
       (blob_metadata_track E (b_id blob) content)))"

definition content_process_async :: "uuid \<Rightarrow> ('b, unit) app" where
  "content_process_async blob_id = enqueue (Job_process_blob_content blob_id)"

end
