(* ===== verification/FileCore.thy ===== *)
theory FileCore
  imports Blobs
begin

text \<open>
  \<open>FileCoreService\<close> of \<open>src/app/app/files/services/file/filecore.py\<close>, operation by operation.
  \<open>AnyPath\<close> arguments are strings; \<open>Path(path)\<close> is \<^theory_text>\<open>Path\<close>.
\<close>

definition storage_key_of :: "uuid \<Rightarrow> string \<Rightarrow> string" where
  "storage_key_of owner_id path = os_join (os_join (uuid_str owner_id) ''files'') path"

definition new_folder :: "string \<Rightarrow> uuid \<Rightarrow> datetime \<Rightarrow> path \<Rightarrow> File" where
  "new_folder ns_path owner t p = \<lparr> f_id = SENTINEL_ID, f_blob_id = None, f_owner_id = owner,
     f_ns_path = ns_path, f_name = path_name p, f_path = p, f_chash = EMPTY_CONTENT_HASH, f_size = 0,
     f_modified_at = t, f_mediatype = mt_folder, f_shared = False \<rparr>"

text \<open>\<open>list.index\<close> on paths: the position of the first equal element.\<close>

definition path_index :: "path list \<Rightarrow> path \<Rightarrow> nat option" where
  "path_index ps p =
     (let n = length (takeWhile (\<lambda>q. \<not> path_eq q p) ps) in if n < length ps then Some n else None)"

definition folder_chain :: "path \<Rightarrow> path list" where
  "folder_chain p = rev (path_parents p) @ [p]"

text \<open>The part of the chain that is not there yet, given the existing part (sorted by path).\<close>

definition missing_folders :: "path \<Rightarrow> File list \<Rightarrow> exn + path list" where
  "missing_folders p parents =
     (let paths = folder_chain p in
      if parents = [] then Inr paths
      else if \<exists>f \<in> set parents. \<not> is_folder f then Inl (FileErr NotADirectory)
      else if path_eq (f_path (last parents)) p then Inl (FileErr FileAlreadyExists)
      else (case path_index paths (f_path (last parents)) of None \<Rightarrow> Inl (PyErr ValueError)
            | Some index \<Rightarrow>
               (case with_restored_casing p (path_str (f_path (last parents))) of
                  None \<Rightarrow> Inl (PyErr ValueError)
                | Some restored \<Rightarrow> Inr (drop (Suc index) (butlast paths @ [restored])))))"

definition filecore_create_folder :: "string \<Rightarrow> string \<Rightarrow> ('b, File) app" where
  "filecore_create_folder ns_path path =
     (let p = Path path in
      bnd (in_db (file_get_by_path_batch ns_path (map path_str (folder_chain p)))) (\<lambda>parents.
      bnd (of_result (missing_folders p parents)) (\<lambda>missing.
      bnd (in_db (namespace_get_by_path ns_path)) (\<lambda>namespace.
      bnd now (\<lambda>t.
      andthen (in_db (file_save_batch (map (new_folder ns_path (nsp_owner_id namespace) t) missing)))
        (in_db (file_get_by_path ns_path (path_str p))))))))"

definition numbered_pattern :: "path \<Rightarrow> string" where
  "numbered_pattern p = path_stem p @ '' '' @ [CHR 0x5C] @ ''('' @ [CHR 0x5C] @ ''d+'' @ [CHR 0x5C] @ '')''
     @ path_suffix p @ ''$''"

definition filecore_get_available_path :: "ext \<Rightarrow> string \<Rightarrow> string \<Rightarrow> ('b, path) app" where
  "filecore_get_available_path x ns_path path =
     (let p = Path path in
      bnd (in_db (file_exists_at_path ns_path (path_str p))) (\<lambda>taken.
        if \<not> taken then ret p
        else bnd (in_db (file_count_by_path_pattern x ns_path (numbered_pattern p))) (\<lambda>count.
               ret (with_stem p (path_stem p @ '' ('' @ digits_of (count + 1) @ '')'')))))"

text \<open>The two halves of \<open>create_file\<close>: make sure of the parent folder; store the content and save the
  row under the name that was picked.\<close>

definition filecore_ensure_parent :: "string \<Rightarrow> path \<Rightarrow> ('b, unit) app" where
  "filecore_ensure_parent ns_path parent_path =
     bnd (attempt (in_db (file_get_by_path ns_path (path_str parent_path)))) (\<lambda>r. case r of
         Inl e \<Rightarrow> if e = FileErr FileNotFound
                   then bnd (filecore_create_folder ns_path (path_str parent_path)) (\<lambda>_. ret ())
                   else raise e
       | Inr parent \<Rightarrow> guard (is_folder parent) (FileErr NotADirectory))"

definition filecore_save_new :: "string \<Rightarrow> File \<Rightarrow> ('b, File) app" where
  "filecore_save_new ns_path new_file =
     atomic
       (bnd (in_db (file_save new_file)) (\<lambda>file.
        andthen (in_db (file_incr_size_batch ns_path
                   (map path_str (path_parents (f_path new_file))) (f_size file)))
          (ret file)))"

definition filecore_store :: "'b env \<Rightarrow> string \<Rightarrow> path \<Rightarrow> BlobContent \<Rightarrow> datetime option \<Rightarrow> ('b, File) app" where
  "filecore_store E ns_path next_path content modified_at =
     bnd (in_db (namespace_get_by_path ns_path)) (\<lambda>namespace.
     bnd (blob_create E (storage_key_of (nsp_owner_id namespace) (path_str next_path)) content) (\<lambda>blob.
     bnd now (\<lambda>t.
     filecore_save_new ns_path
       \<lparr> f_id = SENTINEL_ID, f_blob_id = Some (b_id blob), f_owner_id = nsp_owner_id namespace,
         f_ns_path = ns_path, f_name = path_name next_path, f_path = next_path,
         f_chash = b_chash blob, f_size = b_size blob,
         f_modified_at = (case modified_at of Some m \<Rightarrow> m | None \<Rightarrow> t),
         f_mediatype = b_media_type blob, f_shared = False \<rparr>)))"

definition filecore_create_file ::
  "'b env \<Rightarrow> string \<Rightarrow> string \<Rightarrow> BlobContent \<Rightarrow> datetime option \<Rightarrow> ('b, File) app" where
  "filecore_create_file E ns_path path content modified_at =
     andthen (filecore_ensure_parent ns_path (path_parent (Path path)))
       (bnd (filecore_get_available_path (e_ext E) ns_path (path_str (Path path))) (\<lambda>next_path.
        filecore_store E ns_path next_path content modified_at))"

definition filecore_delete :: "string \<Rightarrow> string \<Rightarrow> ('b, File) app" where
  "filecore_delete ns_path path =
     atomic
       (bnd (in_db (file_delete ns_path path)) (\<lambda>file.
        andthen
          (if is_folder file
           then bnd (in_db (namespace_get_by_path (f_ns_path file))) (\<lambda>namespace.
                andthen (in_db (file_delete_all_with_prefix ns_path (path @ ''/'')))
                  (blob_service_delete_all_with_prefix
                    (storage_key_of (nsp_owner_id namespace) (path_str (f_path file)) @ ''/'')))
           else ret ())
        (andthen
          (case f_blob_id file of None \<Rightarrow> ret () | Some b \<Rightarrow> blob_service_delete_batch [b])
        (andthen (in_db (file_incr_size_batch ns_path (map path_str (path_parents (f_path file))) (- f_size file)))
          (ret file)))))"

text \<open>The content is read lazily: the result names the storage key it will be read from.\<close>

definition filecore_download :: "uuid \<Rightarrow> ('b, File \<times> string) app" where
  "filecore_download file_id =
     bnd (in_db (file_get_by_id file_id)) (\<lambda>file.
     andthen (guard (\<not> is_folder file) (FileErr IsADirectory))
     (case f_blob_id file of None \<Rightarrow> raise (PyErr AssertionError)
      | Some b \<Rightarrow> bnd (blob_service_get_by_id b) (\<lambda>blob. ret (file, b_storage_key blob))))"

definition filecore_download_batch ::
  "'b env \<Rightarrow> DownloadBatchItem list \<Rightarrow> ('b, StreamZipFile list) app" where
  "filecore_download_batch E items = blob_service_download_batch E items"

definition filecore_download_folder :: "'b env \<Rightarrow> uuid \<Rightarrow> string \<Rightarrow> ('b, StreamZipFile list) app" where
  "filecore_download_folder E owner_id path =
     blob_service_download_with_prefix E (storage_key_of owner_id path)"

definition filecore_empty_folder :: "string \<Rightarrow> string \<Rightarrow> ('b, unit) app" where
  "filecore_empty_folder ns_path path =
     bnd (in_db (file_get_by_path ns_path path)) (\<lambda>file.
       if f_size file = 0 then ret ()
       else
         (let paths = map path_str (path_parents (f_path file)) @ [path] in
          bnd (in_db (namespace_get_by_path (f_ns_path file))) (\<lambda>namespace.
          atomic
            (andthen (in_db (file_delete_all_with_prefix ns_path (path @ ''/'')))
            (andthen (in_db (file_incr_size_batch ns_path paths (- f_size file)))
              (blob_service_delete_all_with_prefix
                (storage_key_of (nsp_owner_id namespace) (path_str (f_path file)) @ ''/'')))))))"

definition filecore_exists_with_id :: "string \<Rightarrow> uuid \<Rightarrow> ('b, bool) app" where
  "filecore_exists_with_id ns_path file_id = in_db (file_exists_with_id ns_path file_id)"

definition filecore_exists_at_path :: "string \<Rightarrow> string \<Rightarrow> ('b, bool) app" where
  "filecore_exists_at_path ns_path path = in_db (file_exists_at_path ns_path path)"

definition filecore_get_by_id :: "uuid \<Rightarrow> ('b, File) app" where
  "filecore_get_by_id file_id = in_db (file_get_by_id file_id)"

definition filecore_get_by_id_batch :: "uuid list \<Rightarrow> ('b, File list) app" where
  "filecore_get_by_id_batch ids = in_db (file_get_by_id_batch ids)"

definition filecore_get_by_path :: "string \<Rightarrow> string \<Rightarrow> ('b, File) app" where
  "filecore_get_by_path ns_path path = in_db (file_get_by_path ns_path path)"

definition filecore_list_folder :: "ext \<Rightarrow> string \<Rightarrow> string \<Rightarrow> ('b, File list) app" where
  "filecore_list_folder x ns_path path =
     bnd (filecore_get_by_path ns_path path) (\<lambda>folder.
     andthen (guard (is_folder folder) (FileErr NotADirectory))
       (in_db (file_list_with_prefix x ns_path (if path = ''.'' then [] else path @ ''/''))))"

text \<open>Differences of sets of paths: sets compare by \<open>==\<close> on paths.\<close>

definition paths_minus :: "path list \<Rightarrow> path list \<Rightarrow> path list" where
  "paths_minus ps qs = filter (\<lambda>p. \<not> (\<exists>q \<in> set qs. path_eq p q)) ps"

definition filecore_move_file :: "File \<Rightarrow> string \<Rightarrow> path \<Rightarrow> ('b, File) app" where
  "filecore_move_file file to_ns_path to_path =
     (let at_ns_path = f_ns_path file; at_path = f_path file; sz = f_size file;
          same = (at_ns_path = to_ns_path);
          to_decrease = (if same then paths_minus (path_parents at_path) (path_parents to_path)
                         else path_parents at_path);
          to_increase = (if same then paths_minus (path_parents to_path) (path_parents at_path)
                         else path_parents to_path);
          u = \<lparr> fu_ns_path = Some to_ns_path, fu_name = Some (path_name to_path),
                fu_path = Some (path_str to_path), fu_size = None \<rparr> in
      bnd (in_db (namespace_get_by_path to_ns_path)) (\<lambda>to_namespace.
      bnd (if is_folder file \<and> \<not> same then in_db (namespace_get_by_path at_ns_path)
           else ret to_namespace) (\<lambda>at_namespace.
      atomic
        (bnd (in_db (file_update file u)) (\<lambda>updated_file.
         andthen
           (case f_blob_id file of None \<Rightarrow> ret ()
            | Some b \<Rightarrow> blob_service_move b (storage_key_of (nsp_owner_id to_namespace) (path_str to_path)))
         (andthen
           (if is_folder file
            then andthen (blob_service_move_with_prefix
                    (storage_key_of (nsp_owner_id at_namespace) (path_str (f_path file)) @ ''/'')
                    (storage_key_of (nsp_owner_id to_namespace) (path_str to_path) @ ''/''))
                 (in_db (file_replace_path_prefix (at_ns_path, path_str at_path) (to_ns_path, path_str to_path)))
            else ret ())
         (andthen (in_db (file_incr_size_batch at_ns_path (map path_str to_decrease) (- sz)))
         (andthen (in_db (file_incr_size_batch to_ns_path (map path_str to_increase) sz))
            (ret updated_file)))))))))"

text \<open>\<open>files.get(p)\<close> on a dictionary keyed by path, filled in the order of the list.\<close>

definition file_lookup :: "File list \<Rightarrow> path \<Rightarrow> File option" where
  "file_lookup fs p = (case filter (\<lambda>f. path_eq (f_path f) p) fs of [] \<Rightarrow> None | gs \<Rightarrow> Some (last gs))"

definition filecore_move :: "string \<times> string \<Rightarrow> string \<times> string \<Rightarrow> ('b, File) app" where
  "filecore_move at to =
     (let at_ns_path = fst at; at_path = Path (snd at); to_ns_path = fst to; to_path = Path (snd to);
          case_changed = (path_eq at_path to_path \<and> path_str at_path \<noteq> path_str to_path) in
      andthen (guard (\<not> (at_ns_path = to_ns_path \<and> \<not> case_changed
                          \<and> is_relative_to to_path (path_str at_path))) (FileErr MalformedPath))
      (bnd (in_db (file_get_by_path at_ns_path (path_str at_path))) (\<lambda>file.
       bnd (in_db (file_get_by_path_batch to_ns_path [path_str to_path, path_str (path_parent to_path)])) (\<lambda>files.
       case file_lookup files (path_parent to_path) of
         None \<Rightarrow> raise (FileErr MissingParent)
       | Some next_parent \<Rightarrow>
           andthen (guard (is_folder next_parent) (FileErr NotADirectory))
           (andthen (guard (path_eq at_path to_path \<or> file_lookup files to_path = None)
                       (FileErr FileAlreadyExists))
             (filecore_move_file file to_ns_path (path_div (f_path next_parent) (path_name to_path))))))))"

end
