(* ===== verification/FileInvariant.thy ===== *)
theory FileInvariant
  imports FileTree FileCore
begin

text \<open>
  The repository operations as functions on the file table, and the database invariant of the files
  component: the constraints of the tables, the tree of every namespace, and the rule that no blob
  carries the media type reserved for folders.
\<close>

section \<open>The invariant of the database\<close>

definition no_folder_blobs :: "db \<Rightarrow> bool" where
  "no_folder_blobs d \<longleftrightarrow> (\<forall>b \<in> set (d_blobs d). br_media_type b \<noteq> mt_folder)"

definition db_tree :: "db \<Rightarrow> bool" where
  "db_tree d \<longleftrightarrow> db_wf d \<and> tree (d_files d) \<and> no_folder_blobs d"

lemma db_treeD:
  assumes "db_tree d"
  shows "db_wf d" "tree (d_files d)" "no_folder_blobs d"
  using assms by (auto simp: db_tree_def)

lemma db_wfD:
  assumes "db_wf d"
  shows "0 < d_next d" "ids_below (d_next d) fr_id (d_files d)" "ids_below (d_next d) br_id (d_blobs d)"
    "ids_below (d_next d) nr_id (d_namespaces d)" "ids_below (d_next d) jr_id (d_jobs d)"
    "ids_below (d_next d) ir_id (d_media d)"
    "distinct (map (\<lambda>f. (fr_path f, fr_ns f)) (d_files d))" "distinct (map br_storage_key (d_blobs d))"
    "distinct (map nr_path (d_namespaces d))"
    "n \<in> set (d_namespaces d) \<Longrightarrow> has_user d (nr_owner n)"
    "f \<in> set (d_files d) \<Longrightarrow> file_fk_ok d f"
    "m \<in> set (d_media d) \<Longrightarrow> has_blob d (ir_blob m)"
  using assms by (auto simp: db_wf_def)

text \<open>Namespaces: looking one up by path names the same rows as joining on the path.\<close>

lemma namespace_row_get_Inr:
  "namespace_row_get ns_path d = (Inr ns, d') \<longleftrightarrow>
     filter (\<lambda>n. nr_path n = ns_path) (d_namespaces d) = [ns] \<and> d' = d"
  by (simp add: namespace_row_get_def query_Inr q_get_Inr_iff)

lemma in_ns_iff:
  assumes "db_wf d" "filter (\<lambda>n. nr_path n = ns_path) (d_namespaces d) = [ns]"
  shows "in_ns d ns_path r \<longleftrightarrow> fr_ns r = nr_id ns"
proof -
  have "{n \<in> set (d_namespaces d). nr_path n = ns_path} = {ns}"
    using arg_cong [OF assms(2), of set] by simp
  then have "n \<in> set (d_namespaces d) \<and> nr_path n = ns_path \<longleftrightarrow> n = ns" for n by blast
  then show ?thesis unfolding in_ns_def by metis
qed

lemma in_ns_same:
  assumes "db_wf d" "in_ns d ns_path r"
  shows "in_ns d ns_path x \<longleftrightarrow> fr_ns x = fr_ns r"
proof -
  obtain n where n: "n \<in> set (d_namespaces d)" "nr_id n = fr_ns r" "nr_path n = ns_path"
    using assms(2) by (auto simp: in_ns_def)
  have inj: "inj_on nr_path (set (d_namespaces d))"
    using db_wfD(9) [OF assms(1)] by (simp add: distinct_map)
  have "m = n" if "m \<in> set (d_namespaces d)" "nr_path m = ns_path" for m
    using inj_onD [OF inj _ that(1) n(1)] that(2) n(3) by simp
  with n have "in_ns d ns_path x \<longleftrightarrow> nr_id n = fr_ns x"
    unfolding in_ns_def by metis
  with n(2) show ?thesis by auto
qed

text \<open>Reading a row.\<close>

lemma file_from_db_Inr:
  assumes "file_from_db np d r = Inr f"
  shows "f_id f = fr_id r" "f_blob_id f = fr_blob r" "f_owner_id f = fr_owner r" "f_name f = fr_name r"
    "f_path f = Path (fr_path r)" "f_size f = fr_size r" "f_modified_at f = fr_modified_at r"
    "np = Some p \<Longrightarrow> p \<noteq> [] \<Longrightarrow> f_ns_path f = p"
  using assms by (auto simp: file_from_db_def split: sum.splits prod.splits option.splits)

lemma is_folder_iff:
  assumes "no_folder_blobs d" "file_from_db np d r = Inr f"
  shows "is_folder f \<longleftrightarrow> is_dir r"
  using assms
  by (auto simp: file_from_db_def file_fields_def is_folder_def is_dir_def no_folder_blobs_def
      split: sum.splits option.splits list.splits prod.splits dest!: filter_eq_ConsD)

lemma file_from_db_total:
  assumes "db_wf d" "r \<in> set (d_files d)"
  shows "\<exists>f. file_from_db np d r = Inr f"
proof (cases "fr_blob r")
  case None
  then show ?thesis by (simp add: file_from_db_def file_fields_def)
next
  case (Some b)
  then have "has_blob d b" using db_wfD(11) [OF assms] by (simp add: file_fk_ok_def)
  then have "filter (\<lambda>x. br_id x = b) (d_blobs d) \<noteq> []"
    by (auto simp: has_blob_def filter_empty_conv)
  with Some show ?thesis
    by (cases "filter (\<lambda>x. br_id x = b) (d_blobs d)") (auto simp: file_from_db_def file_fields_def)
qed

lemma row_path [simp]: "row_ok r \<Longrightarrow> Path (fr_path r) = MkPath (fr_path r)"
  by (metis Path_path_of row_ok_def)

section \<open>Effects of the repository operations\<close>

lemma delete_files_simps [simp]:
  "d_files (delete_files P d) = filter (\<lambda>r. \<not> P r) (d_files d)"
  "d_namespaces (delete_files P d) = d_namespaces d" "d_blobs (delete_files P d) = d_blobs d"
  "d_jobs (delete_files P d) = d_jobs d" "d_next (delete_files P d) = d_next d"
  "d_users (delete_files P d) = d_users d" "d_media (delete_files P d) = d_media d"
  by (simp_all add: delete_files_def q_delete_def Let_def)

lemma in_ns_cong: "d_namespaces d' = d_namespaces d \<Longrightarrow> in_ns d' = in_ns d"
  by (simp add: fun_eq_iff in_ns_def)

lemma in_ns_delete_files [simp]: "in_ns (delete_files P d) = in_ns d"
  by (rule in_ns_cong) simp

lemma file_delete_Inr:
  assumes "file_delete ns_path path d = (Inr f, d')"
  shows "\<exists>obj. filter (file_at d ns_path path) (d_files d) = [obj]
     \<and> file_from_db (Some ns_path) d obj = Inr f
     \<and> d' = delete_files (\<lambda>r. fr_id r = fr_id obj) d"
  using assms by (auto simp: file_delete_def prog_elims q_get_Inr_iff)

lemma file_get_by_path_Inr:
  assumes "file_get_by_path ns_path path d = (Inr f, d')"
  shows "d' = d \<and> (\<exists>obj. filter (file_at d ns_path path) (d_files d) = [obj]
     \<and> file_from_db (Some ns_path) d obj = Inr f)"
  using assms by (auto simp: file_get_by_path_def prog_elims q_get_Inr_iff)

lemma file_delete_all_with_prefix_Inr:
  assumes "db_wf d" "file_delete_all_with_prefix ns_path p d = (Inr u, d')"
  shows "d' = delete_files (\<lambda>r. in_ns d ns_path r \<and> istartswith (fr_path r) p) d"
  using assms by (auto simp: file_delete_all_with_prefix_def prog_elims namespace_row_get_Inr in_ns_iff)

lemma resize_zero: "(\<And>r. r \<in> set fs \<Longrightarrow> g r = 0) \<Longrightarrow> resize g fs = fs"
  by (simp add: resize_def map_idI)

lemma resize_cong: "(\<And>r. r \<in> set fs \<Longrightarrow> g r = h r) \<Longrightarrow> resize g fs = resize h fs"
  by (simp add: resize_def)

lemma q_update_resize:
  "q_update P (\<lambda>r. r\<lparr>fr_size := fr_size r + v\<rparr>) fs = resize (\<lambda>r. if P r then v else 0) fs"
  by (simp add: q_update_def resize_def)

lemma file_incr_size_batch_Inr:
  assumes "db_wf d" "file_incr_size_batch ns_path paths v d = (Inr u, d')"
  shows "d' = d\<lparr>d_files := resize (\<lambda>r. if in_ns d ns_path r \<and> fr_path r \<in> set paths then v else 0) (d_files d)\<rparr>"
proof (cases "v = 0")
  case True
  then have "d' = d" using assms(2) by (simp add: file_incr_size_batch_def ret_Inr)
  then show ?thesis by (simp add: True resize_zero)
next
  case False
  with assms obtain ns where "filter (\<lambda>n. nr_path n = ns_path) (d_namespaces d) = [ns]"
    and d': "d' = d\<lparr>d_files := q_update (\<lambda>r. fr_ns r = nr_id ns \<and> fr_path r \<in> set paths)
                     (\<lambda>r. r\<lparr>fr_size := fr_size r + v\<rparr>) (d_files d)\<rparr>"
    by (auto simp: file_incr_size_batch_def prog_elims namespace_row_get_Inr)
  then show ?thesis using in_ns_iff [OF assms(1)] by (simp add: q_update_resize)
qed

text \<open>The rows whose path is among the parents of a path are its ancestors.\<close>

lemma parents_strings:
  assumes "good_comps cs"
  shows "set (map path_str (path_parents (MkPath (path_of cs)))) = {path_of ds |ds. strict_prefix ds cs}"
  using set_path_parents [OF assms] by (simp add: path_str_def)

lemma row_in_parents:
  assumes "row_ok r" "good_comps cs"
  shows "fr_path r \<in> set (map path_str (path_parents (MkPath (path_of cs)))) \<longleftrightarrow> strict_prefix (comps r) cs"
proof -
  have "good_comps ds" if "strict_prefix ds cs" for ds
    using that assms(2) by (auto simp: strict_prefix_def intro: good_comps_prefix)
  then show ?thesis
    unfolding parents_strings [OF assms(2)] using assms(1) path_of_inj by (auto simp: row_ok_def)
qed

section \<open>The constraints of the tables are kept\<close>

lemma file_fk_ok_cong:
  "d_users d' = d_users d \<Longrightarrow> d_namespaces d' = d_namespaces d \<Longrightarrow> d_blobs d' = d_blobs d \<Longrightarrow>
     file_fk_ok d' = file_fk_ok d"
  by (auto simp: fun_eq_iff file_fk_ok_def has_user_def has_namespace_def has_blob_def split: option.splits)

lemma db_wf_delete_files [simp]: "db_wf d \<Longrightarrow> db_wf (delete_files P d)"
  unfolding db_wf_def file_fk_ok_cong [of "delete_files P d" d, simplified]
  by (auto simp: has_user_def has_blob_def distinct_map_filter ids_below_def)

lemma db_wf_files:
  assumes "db_wf d" "map fr_id fs = map fr_id (d_files d)"
    and "distinct (map (\<lambda>f. (fr_path f, fr_ns f)) fs)" "\<And>f. f \<in> set fs \<Longrightarrow> file_fk_ok d f"
  shows "db_wf (d\<lparr>d_files := fs\<rparr>)"
proof -
  have "ids_below (d_next d) fr_id fs"
    using db_wfD(2) [OF assms(1)] ids_below_cong [OF assms(2)] by simp
  moreover have "file_fk_ok (d\<lparr>d_files := fs\<rparr>) = file_fk_ok d" by (rule file_fk_ok_cong) simp_all
  moreover have "has_user (d\<lparr>d_files := fs\<rparr>) = has_user d" "has_blob (d\<lparr>d_files := fs\<rparr>) = has_blob d"
    by (simp_all add: has_user_def has_blob_def fun_eq_iff)
  ultimately show ?thesis
    using assms(1,3,4) unfolding db_wf_def by simp
qed

lemma file_fk_ok_resized [simp]: "file_fk_ok d (r\<lparr>fr_size := z\<rparr>) = file_fk_ok d r"
  by (simp add: file_fk_ok_def)

lemma db_wf_resize:
  assumes "db_wf d"
  shows "db_wf (d\<lparr>d_files := resize g (d_files d)\<rparr>)"
  by (rule db_wf_files [OF assms])
     (use db_wfD(7,11) [OF assms] in \<open>auto simp: resize_def comp_def\<close>)

text \<open>Saving jobs touches the job table and the counter, and cannot fail.\<close>

definition only_jobs :: "db \<Rightarrow> db \<Rightarrow> bool" where
  "only_jobs d d' \<longleftrightarrow> (\<exists>js n. d' = d\<lparr>d_jobs := js, d_next := n\<rparr> \<and> d_next d \<le> n \<and> ids_below n jr_id js)"

lemma only_jobsD:
  assumes "only_jobs d d'"
  shows "d_files d' = d_files d" "d_namespaces d' = d_namespaces d" "d_blobs d' = d_blobs d"
    "d_users d' = d_users d" "d_media d' = d_media d" "d_metadata d' = d_metadata d"
  using assms by (auto simp: only_jobs_def)

lemma only_jobs_trans:
  assumes "only_jobs d d'" "only_jobs d' d''"
  shows "only_jobs d d''"
proof -
  obtain js n where 1: "d' = d\<lparr>d_jobs := js, d_next := n\<rparr>" "d_next d \<le> n"
    using assms(1) by (auto simp: only_jobs_def)
  obtain js' n' where 2: "d'' = d'\<lparr>d_jobs := js', d_next := n'\<rparr>" "d_next d' \<le> n'" "ids_below n' jr_id js'"
    using assms(2) by (auto simp: only_jobs_def)
  show ?thesis unfolding only_jobs_def
    using 1 2 by (intro exI [of _ js'] exI [of _ n']) simp
qed

lemma only_jobs_refl: "db_wf d \<Longrightarrow> only_jobs d d"
  using db_wfD(5) [of d] by (auto simp: only_jobs_def intro!: exI [of _ "d_jobs d"] exI [of _ "d_next d"])

lemma db_wf_only_jobs:
  assumes "db_wf d" "only_jobs d d'"
  shows "db_wf d'"
proof -
  obtain js n where d': "d' = d\<lparr>d_jobs := js, d_next := n\<rparr>" "d_next d \<le> n" "ids_below n jr_id js"
    using assms(2) by (auto simp: only_jobs_def)
  have "file_fk_ok d' = file_fk_ok d" by (rule file_fk_ok_cong; simp add: d'(1))
  moreover have "has_user d' = has_user d" "has_blob d' = has_blob d"
    by (simp_all add: d'(1) has_user_def has_blob_def fun_eq_iff)
  ultimately show ?thesis
    using assms(1) d'(2,3) unfolding db_wf_def by (simp add: d'(1) ids_below_mono [OF _ d'(2)])
qed

lemma insert_job_only_jobs:
  assumes "db_wf d"
  shows "\<exists>d'. insert_job r d = (Inr (d_next d), d') \<and> only_jobs d d'"
proof -
  let ?js = "d_jobs d @ [r\<lparr>jr_id := d_next d\<rparr>]"
  have "ids_below (Suc (d_next d)) jr_id ?js"
    using db_wfD(5) [OF assms] by (intro ids_below_insert) auto
  then show ?thesis
    by (auto simp: insert_job_def only_jobs_def intro!: exI [of _ ?js] exI [of _ "Suc (d_next d)"])
qed

lemma blob_job_save_batch_only_jobs:
  "db_wf d \<Longrightarrow> \<exists>ids d'. blob_job_save_batch jobs d = (Inr (map2 (\<lambda>j i. j\<lparr>bj_id := i\<rparr>) jobs ids), d')
      \<and> length ids = length jobs \<and> only_jobs d d'"
proof (induction jobs arbitrary: d)
  case Nil
  then show ?case by (auto simp: blob_job_save_batch_def ret_def only_jobs_refl)
next
  case (Cons j jobs)
  let ?r = "\<lparr> jr_id = 0, jr_data = bj_payload j, jr_created_at = bj_created_at j \<rparr>"
  obtain d1 where d1: "insert_job ?r d = (Inr (d_next d), d1)" "only_jobs d d1"
    using insert_job_only_jobs [OF Cons.prems] by blast
  have "db_wf d1" by (rule db_wf_only_jobs [OF Cons.prems d1(2)])
  from Cons.IH [OF this] obtain ids d2
    where d2: "blob_job_save_batch jobs d1 = (Inr (map2 (\<lambda>j i. j\<lparr>bj_id := i\<rparr>) jobs ids), d2)"
      "length ids = length jobs" "only_jobs d1 d2" by blast
  have "blob_job_save_batch (j # jobs) d
      = (Inr (map2 (\<lambda>j i. j\<lparr>bj_id := i\<rparr>) (j # jobs) (d_next d # ids)), d2)"
    using d1(1) d2(1) by (simp add: blob_job_save_batch_def bnd_def ret_def)
  moreover have "only_jobs d d2" using d1(2) d2(3) by (rule only_jobs_trans)
  ultimately show ?case using d2(2)
    by (intro exI [of _ "d_next d # ids"] exI [of _ d2]) auto
qed

lemma save_and_enqueue_runs:
  assumes "db_wf (w_db w)"
  shows "\<exists>ids d'. save_and_enqueue ps w =
      (Inr (), w\<lparr>w_db := d', w_queue := w_queue w @ [Job_process_blob_jobs ids]\<rparr>)
      \<and> length ids = length ps \<and> only_jobs (w_db w) d'"
proof -
  let ?jobs = "map (\<lambda>p. \<lparr> bj_id = SENTINEL_ID, bj_payload = p, bj_created_at = w_now w \<rparr>) ps"
  obtain ids d' where d': "blob_job_save_batch ?jobs (w_db w) = (Inr (map2 (\<lambda>j i. j\<lparr>bj_id := i\<rparr>) ?jobs ids), d')"
    "length ids = length ?jobs" "only_jobs (w_db w) d'"
    using blob_job_save_batch_only_jobs [OF assms] by blast
  then show ?thesis
    by (intro exI [of _ "map bj_id (map2 (\<lambda>j i. j\<lparr>bj_id := i\<rparr>) ?jobs ids)"] exI [of _ d'])
       (simp add: save_and_enqueue_def bnd_def now_def gets_def in_db_def enqueue_def modify_def)
qed

lemma save_and_enqueue_Inr:
  assumes "db_wf (w_db w)" "save_and_enqueue ps w = (Inr u, w')"
  shows "only_jobs (w_db w) (w_db w')" "w_default w' = w_default w" "w_cache w' = w_cache w"
  using save_and_enqueue_runs [OF assms(1), of ps] assms(2) by auto

end
