(* ===== verification/FileCoreProps.thy ===== *)
theory FileCoreProps
  imports FileInvariant
begin

text \<open>
  What the operations of \<open>FileCoreService\<close> do to the database invariant: every run, returning or
  raising, leaves the trees of the namespaces intact and the folder sizes exact.
\<close>

section \<open>Deletion\<close>

lemma filter_singleton:
  assumes "filter P xs = [y]"
  shows "y \<in> set xs" "P y" "x \<in> set xs \<Longrightarrow> P x \<Longrightarrow> x = y"
proof -
  have "{x \<in> set xs. P x} = {y}" using arg_cong [OF assms, of set] by simp
  then have "x \<in> set xs \<and> P x \<longleftrightarrow> x = y" for x by blast
  then show "y \<in> set xs" "P y" "x \<in> set xs \<Longrightarrow> P x \<Longrightarrow> x = y" by blast+
qed

lemma within_iff:
  assumes "tree fs" "r \<in> set fs" "x \<in> set fs"
  shows "within r x \<longleftrightarrow> x = r \<or> below r x"
  using within_cases [of r x] below_within [of r x] tree_unique [OF assms] within_refl by metis

text \<open>If a row is the only one with its path up to case, the rows whose path starts (up to case)
  with that path and a slash are the rows below it.\<close>

lemma istartswith_below:
  assumes t: "tree fs" and o: "r \<in> set fs" "comps r \<noteq> []" and x: "x \<in> set fs" "fr_ns x = fr_ns r"
    and u: "\<And>y. y \<in> set fs \<Longrightarrow> fr_ns y = fr_ns r \<Longrightarrow> casefold (fr_path y) = casefold (fr_path r) \<Longrightarrow> y = r"
    and p: "casefold path = casefold (fr_path r)"
  shows "istartswith (fr_path x) (path @ ''/'') \<longleftrightarrow> below r x"
proof -
  have rok: "good_comps (comps r)" "fr_path r = path_of (comps r)"
    and xok: "good_comps (comps x)" "fr_path x = path_of (comps x)"
    using treeD(2) [OF t o(1)] treeD(2) [OF t x(1)] by (auto simp: row_ok_def)
  have "istartswith (fr_path x) (path @ ''/'')
      \<longleftrightarrow> prefix (path_of (map casefold (comps r)) @ ''/'') (path_of (map casefold (comps x)))"
    using p rok(2) xok(2) by (simp add: istartswith_def casefold_path_of)
  also have "\<dots> \<longleftrightarrow> strict_prefix (map casefold (comps r)) (map casefold (comps x))"
    using rok(1) xok(1) o(2) by (intro prefix_path_of) auto
  also have "\<dots> \<longleftrightarrow> below r x"
  proof
    assume s: "strict_prefix (map casefold (comps r)) (map casefold (comps x))"
    let ?ds = "take (length (comps r)) (comps x)"
    have len: "length (comps r) < length (comps x)"
      using s prefix_length_less by fastforce
    have eq: "map casefold ?ds = map casefold (comps r)"
      using s by (metis take_map length_map prefix_order.less_imp_le append_eq_conv_conj prefix_def)
    have sp: "strict_prefix ?ds (comps x)"
      using len by (metis length_take min.absorb4 nat_neq_iff prefix_order.le_neq_trans take_is_prefix)
    obtain y where y: "y \<in> set fs" "fr_ns y = fr_ns x" "comps y = ?ds"
      using tree_ancestor [OF t x(1) sp] by blast
    have "fr_path y = path_of ?ds" using treeD(2) [OF t y(1)] y(3) by (simp add: row_ok_def)
    then have "casefold (fr_path y) = casefold (fr_path r)"
      using eq rok(2) by (simp only: casefold_path_of)
    then have "y = r" using u [OF y(1)] y(2) x(2) by simp
    with y(3) sp x(2) show "below r x" by (simp add: below_def)
  next
    assume "below r x"
    then obtain es where "comps x = comps r @ es" "es \<noteq> []"
      by (auto simp: below_def strict_prefix_def prefix_def)
    then show "strict_prefix (map casefold (comps r)) (map casefold (comps x))"
      by (simp add: strict_prefix_def)
  qed
  finally show ?thesis .
qed

lemma blob_service_delete_batch_Inr:
  assumes "db_wf (w_db w)" "blob_service_delete_batch bs w = (Inr u, w')"
  shows "only_jobs (w_db w) (w_db w') \<and> w_default w' = w_default w"
  using assms only_jobs_refl [OF assms(1)] save_and_enqueue_Inr [OF assms(1)]
  by (auto simp: blob_service_delete_batch_def prog_elims blob_get_by_id_batch_def split: if_splits)

lemma blob_service_delete_prefix_Inr:
  assumes "db_wf (w_db w)" "blob_service_delete_all_with_prefix p w = (Inr u, w')"
  shows "only_jobs (w_db w) (w_db w') \<and> w_default w' = w_default w"
  using assms save_and_enqueue_Inr [OF assms(1)] by (auto simp: blob_service_delete_all_with_prefix_def)

text \<open>The state after a successful deletion, in terms of the row that was deleted.\<close>

lemma filecore_delete_effect:
  assumes I: "db_tree (w_db w)" and home: "path \<noteq> ''.''"
    and run: "filecore_delete ns_path path w = (Inr f, w')"
  shows "\<exists>r \<in> set (d_files (w_db w)). file_at (w_db w) ns_path path r
      \<and> file_from_db (Some ns_path) (w_db w) r = Inr f
      \<and> d_files (w_db w') = resize (ancestor_delta (fr_ns r) (comps r) (- fr_size r))
                              (filter (\<lambda>x. \<not> within r x) (d_files (w_db w)))
      \<and> db_wf (w_db w') \<and> d_blobs (w_db w') = d_blobs (w_db w)
      \<and> w_default w' = w_default w"
proof -
  let ?d = "w_db w" and ?fs = "d_files (w_db w)"
  note wf = db_treeD(1) [OF I] and t = db_treeD(2) [OF I]
  obtain d1 w2 w3 u2 u3 u4 where
      1: "file_delete ns_path path ?d = (Inr f, d1)"
    and 2: "(if is_folder f
           then bnd (in_db (namespace_get_by_path (f_ns_path f))) (\<lambda>namespace.
                andthen (in_db (file_delete_all_with_prefix ns_path (path @ ''/'')))
                  (blob_service_delete_all_with_prefix
                    (storage_key_of (nsp_owner_id namespace) (path_str (f_path f)) @ ''/'')))
           else ret ()) (w\<lparr>w_db := d1\<rparr>) = (Inr u2, w2)"
    and 3: "(case f_blob_id f of None \<Rightarrow> ret () | Some b \<Rightarrow> blob_service_delete_batch [b]) w2 = (Inr u3, w3)"
    and 4: "in_db (file_incr_size_batch ns_path (map path_str (path_parents (f_path f))) (- f_size f)) w3 = (Inr u4, w')"
    using run unfolding filecore_delete_def by (auto simp: prog_elims)
  obtain r where r: "filter (file_at ?d ns_path path) ?fs = [r]"
      "file_from_db (Some ns_path) ?d r = Inr f" "d1 = delete_files (\<lambda>x. fr_id x = fr_id r) ?d"
    using file_delete_Inr [OF 1] by blast
  note rin = filter_singleton(1) [OF r(1)] and rat = filter_singleton(2) [OF r(1)]
    and runique = filter_singleton(3) [OF r(1)]
  have rns: "in_ns ?d ns_path r" "casefold path = casefold (fr_path r)"
    using rat by (auto simp: file_at_def iexact_def)
  have rok: "good_comps (comps r)" "fr_path r = path_of (comps r)"
    using treeD(2) [OF t rin] by (auto simp: row_ok_def)
  have ne: "comps r \<noteq> []" using home rns(2) rok(2) by (auto simp: path_of_def)
  have u: "y = r" if "y \<in> set ?fs" "fr_ns y = fr_ns r" "casefold (fr_path y) = casefold (fr_path r)" for y
    using that rns in_ns_same [OF wf rns(1), of y] by (intro runique) (auto simp: file_at_def iexact_def)
  have ids: "fr_id x = fr_id r \<longleftrightarrow> x = r" if "x \<in> set ?fs" for x
    using that rin db_wfD(2) [OF wf] by (auto simp: ids_below_def distinct_map inj_on_def)
  have dir: "is_folder f \<longleftrightarrow> is_dir r" by (rule is_folder_iff [OF db_treeD(3) [OF I] r(2)])
  have wf1: "db_wf d1" by (simp add: r(3) wf)
  \<comment> \<open>the subtree is gone\<close>
  have w2: "d_files (w_db w2) = filter (\<lambda>x. \<not> within r x) ?fs \<and> db_wf (w_db w2)
      \<and> d_blobs (w_db w2) = d_blobs ?d \<and> d_namespaces (w_db w2) = d_namespaces ?d
      \<and> w_default w2 = w_default w"
  proof (cases "is_dir r")
    case True
    with 2 dir obtain ns k d2 where ns: "namespace_get_by_path (f_ns_path f) d1 = (Inr ns, d1)"
        and d2: "file_delete_all_with_prefix ns_path (path @ ''/'') d1 = (Inr (), d2)"
        and w2: "blob_service_delete_all_with_prefix k (w\<lparr>w_db := d2\<rparr>) = (Inr u2, w2)"
      by (auto simp: prog_elims namespace_get_by_path_def)
    have d2': "d2 = delete_files (\<lambda>x. in_ns ?d ns_path x \<and> istartswith (fr_path x) (path @ ''/'')) d1"
      using file_delete_all_with_prefix_Inr [OF wf1 d2] by (simp add: r(3))
    have "d_files d2 = filter (\<lambda>x. \<not> within r x) ?fs"
    proof -
      have "(fr_id x \<noteq> fr_id r \<and> \<not> (in_ns ?d ns_path x \<and> istartswith (fr_path x) (path @ ''/'')))
          = (\<not> within r x)" if x: "x \<in> set ?fs" for x
      proof (cases "fr_ns x = fr_ns r")
        case True
        have "istartswith (fr_path x) (path @ ''/'') \<longleftrightarrow> below r x"
          by (rule istartswith_below [OF t rin ne x True u rns(2)])
        then show ?thesis
          using True unfolding in_ns_same [OF wf rns(1), of x] ids [OF x] within_iff [OF t rin x] by simp
      next
        case False
        then show ?thesis
          unfolding in_ns_same [OF wf rns(1), of x] ids [OF x] by (auto simp: within_def)
      qed
      then have "filter (\<lambda>x. fr_id x \<noteq> fr_id r \<and> \<not> (in_ns ?d ns_path x \<and> istartswith (fr_path x) (path @ ''/''))) ?fs
          = filter (\<lambda>x. \<not> within r x) ?fs"
        by (rule filter_cong_set)
      then show ?thesis by (simp add: d2' r(3) conj_commute)
    qed
    moreover have "db_wf d2" by (simp add: d2' wf1)
    moreover have "only_jobs d2 (w_db w2) \<and> w_default w2 = w_default w"
      using blob_service_delete_prefix_Inr [OF _ w2] \<open>db_wf d2\<close> by simp
    moreover have "d_blobs d2 = d_blobs ?d" "d_namespaces d2 = d_namespaces ?d"
      by (simp_all add: d2' r(3))
    ultimately show ?thesis using only_jobsD [of d2 "w_db w2"] db_wf_only_jobs by auto
  next
    case False
    with 2 dir have w2: "w2 = w\<lparr>w_db := d1\<rparr>" by (simp add: ret_Inr)
    have "(fr_id x \<noteq> fr_id r) = (\<not> within r x)" if x: "x \<in> set ?fs" for x
      using nothing_below_file [OF t rin False x] by (simp add: ids [OF x] within_iff [OF t rin x])
    then have "filter (\<lambda>x. fr_id x \<noteq> fr_id r) ?fs = filter (\<lambda>x. \<not> within r x) ?fs"
      by (rule filter_cong_set)
    then show ?thesis using wf1 by (simp add: w2 r(3))
  qed
  \<comment> \<open>the blob's deletion is only scheduled\<close>
  have w3: "only_jobs (w_db w2) (w_db w3) \<and> w_default w3 = w_default w2"
    using 3 w2 only_jobs_refl blob_service_delete_batch_Inr [of w2] by (auto simp: ret_Inr split: option.splits)
  have wf3: "db_wf (w_db w3)" using w2 w3 db_wf_only_jobs by blast
  note o3 = only_jobsD [OF conjunct1 [OF w3]]
  \<comment> \<open>the ancestors lose the size\<close>
  obtain d4 where d4: "file_incr_size_batch ns_path (map path_str (path_parents (f_path f))) (- f_size f) (w_db w3) = (Inr u4, d4)"
      "w' = w3\<lparr>w_db := d4\<rparr>"
    using 4 by (auto simp: in_db_Inr)
  have in3: "in_ns (w_db w3) ns_path x \<longleftrightarrow> fr_ns x = fr_ns r" for x
    using in_ns_same [OF wf rns(1), of x] in_ns_cong [of "w_db w3" ?d] o3 w2 by simp
  have f: "f_path f = MkPath (path_of (comps r))" "f_size f = fr_size r"
    using file_from_db_Inr [OF r(2)] rok row_path [of r] treeD(2) [OF t rin] by auto
  let ?gone = "filter (\<lambda>x. \<not> within r x) ?fs"
  have gone: "d_files (w_db w3) = ?gone" using o3 w2 by simp
  have d4': "d4 = (w_db w3)\<lparr>d_files := resize (\<lambda>x. if in_ns (w_db w3) ns_path x
      \<and> fr_path x \<in> set (map path_str (path_parents (f_path f))) then - f_size f else 0) (d_files (w_db w3))\<rparr>"
    by (rule file_incr_size_batch_Inr [OF wf3 d4(1)])
  have "resize (\<lambda>x. if in_ns (w_db w3) ns_path x \<and> fr_path x \<in> set (map path_str (path_parents (f_path f)))
            then - f_size f else 0) ?gone = resize (ancestor_delta (fr_ns r) (comps r) (- fr_size r)) ?gone"
    unfolding in3 f
    by (rule resize_cong) (use row_in_parents [OF _ rok(1)] treeD(2) [OF t] in \<open>auto simp: ancestor_delta_def\<close>)
  then have "d_files d4 = resize (ancestor_delta (fr_ns r) (comps r) (- fr_size r)) ?gone"
    by (simp add: d4' gone)
  moreover have "db_wf d4" unfolding d4' by (rule db_wf_resize [OF wf3])
  moreover have "d_blobs d4 = d_blobs ?d" using o3 w2 by (simp add: d4')
  ultimately show ?thesis using rin rat r(2) d4(2) w2 w3 by auto
qed

theorem filecore_delete_tree:
  assumes "db_tree (w_db w)" "path \<noteq> ''.''"
  shows "db_tree (w_db (snd (filecore_delete ns_path path w)))"
proof (cases "filecore_delete ns_path path w")
  case (Pair res w')
  show ?thesis
  proof (cases res)
    case (Inl e)
    then have "w_db w' = w_db w" using Pair unfolding filecore_delete_def by (simp add: atomic_Inl)
    then show ?thesis using assms(1) Pair by simp
  next
    case (Inr f)
    with Pair obtain r where "r \<in> set (d_files (w_db w))"
      "d_files (w_db w') = resize (ancestor_delta (fr_ns r) (comps r) (- fr_size r))
                              (filter (\<lambda>x. \<not> within r x) (d_files (w_db w)))"
      "db_wf (w_db w')" "d_blobs (w_db w') = d_blobs (w_db w)"
      using filecore_delete_effect [OF assms] by blast
    then show ?thesis
      using tree_remove [OF db_treeD(2) [OF assms(1)]] db_treeD(3) [OF assms(1)] Pair
      by (simp add: db_tree_def no_folder_blobs_def)
  qed
qed

section \<open>The chain of folders of a path\<close>

lemma folder_chain_path_of:
  assumes "good_comps cs"
  shows "folder_chain (MkPath (path_of cs)) = map (\<lambda>k. MkPath (path_of (take k cs))) [0..<Suc (length cs)]"
proof -
  have "map raw (path_parents (MkPath (path_of cs))) = map raw (map (\<lambda>k. MkPath (path_of (take k cs))) (rev [0..<length cs]))"
    using path_parents_path_of [OF assms] by simp
  then have "path_parents (MkPath (path_of cs)) = map (\<lambda>k. MkPath (path_of (take k cs))) (rev [0..<length cs])"
    by (rule map_injective) (simp add: inj_on_def path.expand)
  then show ?thesis by (simp add: folder_chain_def rev_map)
qed

lemma path_eq_take:
  assumes "good_comps cs" "j \<le> length cs" "k \<le> length cs"
  shows "path_eq (MkPath (path_of (take j cs))) (MkPath (path_of (take k cs))) \<longleftrightarrow> j = k"
proof -
  have "path_eq (MkPath (path_of (take j cs))) (MkPath (path_of (take k cs)))
      \<longleftrightarrow> map casefold (take j cs) = map casefold (take k cs)"
    using assms(1) by (simp add: path_eq_def casefold_path_of_eq good_comps_take)
  also have "\<dots> \<longleftrightarrow> j = k"
    using assms(2,3) by (metis length_map length_take min.absorb2)
  finally show ?thesis .
qed

lemma path_index_chain:
  assumes "good_comps cs" "k \<le> length cs"
  shows "path_index (folder_chain (MkPath (path_of cs))) (MkPath (path_of (take k cs))) = Some k"
proof -
  let ?g = "\<lambda>j. MkPath (path_of (take j cs))"
  have "takeWhile (\<lambda>q. \<not> path_eq q (?g k)) (map ?g ([0..<k] @ k # [Suc k..<Suc (length cs)])) = map ?g [0..<k]"
    using assms path_eq_take [OF assms(1) _ assms(2)]
    by (subst map_append, subst takeWhile_append2) auto
  moreover have "[0..<Suc (length cs)] = [0..<k] @ k # [Suc k..<Suc (length cs)]"
    using assms(2) by (metis le_imp_less_Suc less_imp_le_nat upt_add_eq_append upt_conv_Cons
        le_add_diff_inverse zero_le)
  ultimately show ?thesis
    using assms unfolding path_index_def folder_chain_path_of [OF assms(1)] by (simp add: Let_def)
qed

lemma restored_same:
  assumes "good_comps cs" "k \<le> length cs"
  shows "with_restored_casing (MkPath (path_of cs)) (path_of (take k cs)) = Some (MkPath (path_of cs))"
proof (cases "k = 0")
  case True
  then show ?thesis by (simp add: with_restored_casing_def is_relative_to_def path_of_def Path_def
        normpath_def initial_slashes_def)
next
  case False
  let ?ds = "take k cs"
  have g: "good_comps ?ds" using assms(1) by (rule good_comps_take)
  have ne: "?ds \<noteq> []" using False assms(2) by auto
  have pre: "prefix (path_of ?ds) (path_of cs)"
  proof (cases "k = length cs")
    case True
    then show ?thesis by simp
  next
    case False
    then have "strict_prefix ?ds cs"
      using assms(2) by (metis append_take_drop_id drop_eq_Nil le_neq_implies_less nat_less_le
          not_le prefixI strict_prefix_def append_self_conv)
    then have "prefix (path_of ?ds @ ''/'') (path_of cs)" using prefix_path_of [OF g assms(1) ne] by simp
    then show ?thesis by (metis append_prefixD)
  qed
  then have whole: "path_of ?ds @ drop (length (path_of ?ds)) (path_of cs) = path_of cs"
    by (auto simp: prefix_def)
  have "is_relative_to (MkPath (path_of cs)) (path_of ?ds)"
  proof (cases "k = length cs")
    case True
    then show ?thesis by (simp add: is_relative_to_def path_eq_str_def)
  next
    case False
    then have "strict_prefix (map casefold ?ds) (map casefold cs)"
      using assms(2) by (simp add: take_map [symmetric]) (metis append_take_drop_id length_map
          length_take min.absorb4 nat_less_le nat_neq_iff prefixI prefix_order.le_neq_trans)
    then have "prefix (path_of (map casefold ?ds) @ ''/'') (path_of (map casefold cs))"
      using prefix_path_of [of "map casefold ?ds" "map casefold cs"] g assms(1) ne by simp
    then show ?thesis by (simp add: is_relative_to_def g casefold_path_of)
  qed
  moreover have "path_of ?ds \<noteq> ''.''"
    using path_of_inj [OF g, of "[]"] ne by (simp add: path_of_def)
  ultimately show ?thesis using whole assms(1) g by (simp add: with_restored_casing_def)
qed
section \<open>Creating folders\<close>

lemma create_folder_run:
  "filecore_create_folder ns_path path w =
    (case fst (file_get_by_path_batch ns_path (map path_str (folder_chain (Path path))) (w_db w)) of
       Inl e \<Rightarrow> (Inl e, w)
     | Inr parents \<Rightarrow> (case missing_folders (Path path) parents of
         Inl e \<Rightarrow> (Inl e, w)
       | Inr missing \<Rightarrow> (case fst (namespace_get_by_path ns_path (w_db w)) of
           Inl e \<Rightarrow> (Inl e, w)
         | Inr namespace \<Rightarrow>
            (case file_save_batch (map (new_folder ns_path (nsp_owner_id namespace) (w_now w)) missing) (w_db w) of
               (Inl e, d) \<Rightarrow> (Inl e, w\<lparr>w_db := d\<rparr>)
             | (Inr u, d) \<Rightarrow> (fst (file_get_by_path ns_path (path_str (Path path)) d), w\<lparr>w_db := d\<rparr>)))))"
  unfolding filecore_create_folder_def Let_def
  by (simp add: bnd_in_db_read bnd_of_result bnd_now andthen_in_db in_db_read split: sum.splits)
     (auto simp: in_db_read split: prod.splits sum.splits)

text \<open>The stored paths that equal the path or one of its parents up to case, equal it exactly.\<close>

definition casing_ok :: "db \<Rightarrow> string \<Rightarrow> string list \<Rightarrow> bool" where
  "casing_ok d ns_path cs \<longleftrightarrow> (\<forall>x \<in> set (d_files d). in_ns d ns_path x \<longrightarrow>
     (\<forall>k \<in> {..length cs}. casefold (fr_path x) = casefold (path_of (take k cs)) \<longrightarrow>
        fr_path x = path_of (take k cs)))"

text \<open>The part of the chain up to length \<open>m\<close> is there, and all rows on the chain are folders.\<close>

definition chain_inv :: "uuid \<Rightarrow> string list \<Rightarrow> nat \<Rightarrow> db \<Rightarrow> bool" where
  "chain_inv n cs m d \<longleftrightarrow> db_tree d \<and> good_comps cs
     \<and> (\<forall>x \<in> set (d_files d). fr_ns x = n \<and> prefix (comps x) cs \<longrightarrow> is_dir x)
     \<and> (\<forall>k < m. k \<le> length cs \<longrightarrow> (\<exists>x \<in> set (d_files d). fr_ns x = n \<and> comps x = take k cs))"

definition chain_row :: "uuid \<Rightarrow> string list \<Rightarrow> nat \<Rightarrow> file_row \<Rightarrow> bool" where
  "chain_row n cs k r \<longleftrightarrow> fr_path r = path_of (take k cs) \<and> fr_ns r = n \<and> fr_blob r = None \<and> fr_size r = 0"

lemma db_tree_insert:
  assumes d: "db_tree d" and r: "file_fk_ok d r" "\<not> file_conflict d r"
    and t: "tree (d_files d @ [r\<lparr>fr_id := d_next d\<rparr>])"
  shows "db_tree (d\<lparr>d_files := d_files d @ [r\<lparr>fr_id := d_next d\<rparr>], d_next := Suc (d_next d)\<rparr>)"
proof -
  let ?r = "r\<lparr>fr_id := d_next d\<rparr>"
  let ?d = "d\<lparr>d_files := d_files d @ [?r], d_next := Suc (d_next d)\<rparr>"
  note wf = db_treeD(1) [OF d]
  have fk: "file_fk_ok ?d = file_fk_ok d" by (rule file_fk_ok_cong) simp_all
  have "file_fk_ok d ?r" using r(1) by (simp add: file_fk_ok_def)
  moreover have "ids_below (Suc (d_next d)) fr_id (d_files d @ [?r])"
    using db_wfD(2) [OF wf] by (rule ids_below_insert) simp
  moreover have "has_user ?d = has_user d" "has_blob ?d = has_blob d"
    by (simp_all add: has_user_def has_blob_def fun_eq_iff)
  moreover have "distinct (map (\<lambda>f. (fr_path f, fr_ns f)) (d_files d @ [?r]))"
    using treeD(1) [OF t] .
  ultimately have "db_wf ?d"
    using wf unfolding db_wf_def fk by (auto intro: ids_below_mono)
  then show ?thesis using t db_treeD(3) [OF d] by (simp add: db_tree_def no_folder_blobs_def)
qed

lemma chain_row_comps:
  assumes "chain_row n cs k r" "good_comps cs"
  shows "comps r = take k cs" "row_ok r" "is_dir r"
  using assms by (simp_all add: chain_row_def comps_def row_ok_def is_dir_def good_comps_take)

lemma chain_step:
  assumes inv: "chain_inv n cs k d" and k: "k \<le> length cs"
    and r: "chain_row n cs k r" "file_fk_ok d r"
  shows "chain_inv n cs (Suc k) (insert_file_ignoring d r)"
proof -
  have d: "db_tree d" and g: "good_comps cs" using inv by (auto simp: chain_inv_def)
  note t = db_treeD(2) [OF d]
  let ?r = "r\<lparr>fr_id := d_next d\<rparr>"
  have r': "chain_row n cs k ?r" using r(1) by (simp add: chain_row_def)
  note c = chain_row_comps [OF r' g]
  show ?thesis
  proof (cases "file_conflict d r")
    case True
    then obtain x where "x \<in> set (d_files d)" "fr_path x = fr_path r" "fr_ns x = fr_ns r"
      by (auto simp: file_conflict_def)
    then have "\<exists>x \<in> set (d_files d). fr_ns x = n \<and> comps x = take k cs"
      using r(1) g by (auto simp: chain_row_def comps_def good_comps_take)
    then show ?thesis using True inv by (auto simp: insert_file_ignoring_def chain_inv_def less_Suc_eq)
  next
    case False
    have fresh: "fresh_path (d_files d) n (take k cs)"
      using False r(1) treeD(2) [OF t] by (auto simp: fresh_path_def file_conflict_def chain_row_def row_ok_def)
    have par: "parent_in (d_files d) n (take k cs)"
    proof (cases "k = 0")
      case True
      then show ?thesis by (simp add: parent_in_def)
    next
      case False
      then obtain x where x: "x \<in> set (d_files d)" "fr_ns x = n" "comps x = take (k - 1) cs"
        using inv k unfolding chain_inv_def by (metis diff_less le_diff_conv less_imp_le_nat
            less_numeral_extra(1) not_gr_zero order_less_le_trans zero_less_diff diff_le_self order_trans)
      then have "is_dir x" using inv by (auto simp: chain_inv_def take_is_prefix)
      moreover have "butlast (take k cs) = take (k - 1) cs"
        using k by (simp add: butlast_take)
      ultimately show ?thesis using x by (auto simp: parent_in_def)
    qed
    have "tree (d_files d @ [?r])"
      using t c r(1) par fresh by (intro tree_add_folder) (auto simp: chain_row_def)
    then have "db_tree (insert_file_ignoring d r)"
      using db_tree_insert [OF d r(2) False] False by (simp add: insert_file_ignoring_def)
    then show ?thesis
      using False inv c r(1)
      by (auto simp: insert_file_ignoring_def chain_inv_def less_Suc_eq chain_row_def)
  qed
qed

lemma insert_file_ignoring_fk [simp]: "file_fk_ok (insert_file_ignoring d r) = file_fk_ok d"
  by (rule file_fk_ok_cong) (simp_all add: insert_file_ignoring_def)

lemma chain_steps:
  assumes "chain_inv n cs m d" "m + j \<le> Suc (length cs)"
    and "\<And>k. chain_row n cs k (f k)" "\<And>k. file_fk_ok d (f k)"
  shows "chain_inv n cs (m + j) (foldl insert_file_ignoring d (map f [m..<m + j]))
       \<and> file_fk_ok (foldl insert_file_ignoring d (map f [m..<m + j])) = file_fk_ok d"
  using assms(2)
proof (induction j)
  case 0
  then show ?case using assms(1) by simp
next
  case (Suc j)
  then have IH: "chain_inv n cs (m + j) (foldl insert_file_ignoring d (map f [m..<m + j]))"
    "file_fk_ok (foldl insert_file_ignoring d (map f [m..<m + j])) = file_fk_ok d" by auto
  have "chain_inv n cs (Suc (m + j)) (insert_file_ignoring (foldl insert_file_ignoring d (map f [m..<m + j])) (f (m + j)))"
    by (rule chain_step [OF IH(1)]) (use Suc.prems assms(3,4) IH(2) in auto)
  then show ?case using IH(2) by simp
qed

lemma namespace_get_by_path_Inr:
  assumes "fst (namespace_get_by_path ns_path d) = Inr namespace"
  shows "\<exists>ns. filter (\<lambda>n. nr_path n = ns_path) (d_namespaces d) = [ns] \<and> namespace = namespace_from_db ns"
  using assms by (auto simp: namespace_get_by_path_def query_def q_get_Inr_iff map_sum_def
      or_missing_def split: sum.splits query_error.splits)

lemma batch_rows:
  assumes "fst (file_get_by_path_batch ns_path ps d) = Inr fs"
  shows "\<And>x. x \<in> set (d_files d) \<Longrightarrow> in_ns d ns_path x \<Longrightarrow> casefold (fr_path x) \<in> casefold ` set ps \<Longrightarrow>
           \<exists>f \<in> set fs. file_from_db (Some ns_path) d x = Inr f"
    and "\<And>f. f \<in> set fs \<Longrightarrow> \<exists>x \<in> set (d_files d). in_ns d ns_path x \<and> casefold (fr_path x) \<in> casefold ` set ps
           \<and> file_from_db (Some ns_path) d x = Inr f"
proof -
  have run: "map_result (file_from_db (Some ns_path) d)
      (by_lower_path (filter (\<lambda>r. in_ns d ns_path r \<and> casefold (fr_path r) \<in> casefold ` set ps) (d_files d))) = Inr fs"
    using assms by (simp add: file_get_by_path_batch_def query_def)
  show "\<exists>f \<in> set fs. file_from_db (Some ns_path) d x = Inr f"
    if "x \<in> set (d_files d)" "in_ns d ns_path x" "casefold (fr_path x) \<in> casefold ` set ps" for x
    using map_result_Inr_in [OF run, of x] that by (simp add: by_lower_path_def)
  show "\<exists>x \<in> set (d_files d). in_ns d ns_path x \<and> casefold (fr_path x) \<in> casefold ` set ps
           \<and> file_from_db (Some ns_path) d x = Inr f" if "f \<in> set fs" for f
    using map_result_Inr_set [OF run that] by (auto simp: by_lower_path_def)
qed

lemma chain_strings:
  assumes "good_comps cs"
  shows "set (map path_str (folder_chain (MkPath (path_of cs)))) = (\<lambda>k. path_of (take k cs)) ` {..length cs}"
  unfolding folder_chain_path_of [OF assms]
  by (simp add: path_str_def image_image atLeast0LessThan lessThan_Suc_atMost del: upt_Suc)

lemma strict_prefix_take:
  assumes "j < k" "k \<le> length cs"
  shows "strict_prefix (take j cs) (take k cs)"
proof -
  have "take k cs = take j cs @ take (k - j) (drop j cs)"
    using assms(1) by (metis le_add_diff_inverse less_imp_le_nat take_add)
  moreover have "take (k - j) (drop j cs) \<noteq> []" using assms by simp
  ultimately show ?thesis by (simp add: strict_prefix_def)
qed

lemma missing_folders_chain:
  assumes d: "db_tree d" and g: "good_comps cs" and ok: "casing_ok d ns_path cs"
    and ns: "filter (\<lambda>n. nr_path n = ns_path) (d_namespaces d) = [ns]"
    and batch: "fst (file_get_by_path_batch ns_path (map path_str (folder_chain (MkPath (path_of cs)))) d) = Inr parents"
    and mf: "missing_folders (MkPath (path_of cs)) parents = Inr missing"
  shows "\<exists>m \<le> length cs. missing = map (\<lambda>k. MkPath (path_of (take k cs))) [m..<Suc (length cs)]
      \<and> chain_inv (nr_id ns) cs m d"
proof -
  note wf = db_treeD(1) [OF d] and t = db_treeD(2) [OF d]
  have inns: "in_ns d ns_path x \<longleftrightarrow> fr_ns x = nr_id ns" for x by (rule in_ns_iff [OF wf ns])
  have onchain: "casefold (fr_path x) \<in> casefold ` set (map path_str (folder_chain (MkPath (path_of cs))))"
    if "x \<in> set (d_files d)" "prefix (comps x) cs" for x
  proof -
    have "fr_path x = path_of (take (length (comps x)) cs)"
      using that treeD(2) [OF t that(1)] by (auto simp: row_ok_def prefix_def)
    moreover have "length (comps x) \<le> length cs" using that(2) by (rule prefix_length_le)
    ultimately show ?thesis unfolding chain_strings [OF g] by blast
  qed
  show ?thesis
  proof (cases "parents = []")
    case True
    then have "chain_inv (nr_id ns) cs 0 d"
      using batch_rows(1) [OF batch] onchain d g inns unfolding chain_inv_def by fastforce
    moreover have "missing = map (\<lambda>k. MkPath (path_of (take k cs))) [0..<Suc (length cs)]"
      using mf True folder_chain_path_of [OF g] by (simp add: missing_folders_def)
    ultimately show ?thesis by blast
  next
    case False
    then have lastin: "last parents \<in> set parents" by simp
    obtain q where q: "q \<in> set (d_files d)" "in_ns d ns_path q"
        "casefold (fr_path q) \<in> casefold ` set (map path_str (folder_chain (MkPath (path_of cs))))"
        "file_from_db (Some ns_path) d q = Inr (last parents)"
      using batch_rows(2) [OF batch lastin] by blast
    obtain k where k: "k \<le> length cs" "casefold (fr_path q) = casefold (path_of (take k cs))"
      using q(3) unfolding chain_strings [OF g] by auto
    have qp: "fr_path q = path_of (take k cs)"
      using ok q(1,2) k by (auto simp: casing_ok_def)
    then have qc: "comps q = take k cs" by (simp add: comps_def good_comps_take [OF g])
    have lp: "f_path (last parents) = MkPath (path_of (take k cs))"
      using file_from_db_Inr(5) [OF q(4)] row_path [OF treeD(2) [OF t q(1)]] qp by simp
    have dirs: "\<forall>f \<in> set parents. is_folder f"
      and neq: "\<not> path_eq (f_path (last parents)) (MkPath (path_of cs))"
      using mf False by (auto simp: missing_folders_def Let_def split: if_splits)
    have klt: "k < length cs"
      using neq path_eq_take [OF g k(1) order_refl] k(1) lp by auto
    have "missing = drop (Suc k) (butlast (folder_chain (MkPath (path_of cs))) @ [MkPath (path_of cs)])"
      using mf False dirs neq path_index_chain [OF g k(1)] restored_same [OF g k(1)]
      by (auto simp: missing_folders_def Let_def lp path_str_def)
    also have "butlast (folder_chain (MkPath (path_of cs))) @ [MkPath (path_of cs)] = folder_chain (MkPath (path_of cs))"
      by (simp add: folder_chain_def)
    also have "drop (Suc k) (folder_chain (MkPath (path_of cs))) = map (\<lambda>k. MkPath (path_of (take k cs))) [Suc k..<Suc (length cs)]"
      unfolding folder_chain_path_of [OF g] by (simp add: drop_map)
    finally have miss: "missing = map (\<lambda>k. MkPath (path_of (take k cs))) [Suc k..<Suc (length cs)]" .
    have "is_dir x" if x: "x \<in> set (d_files d)" "fr_ns x = nr_id ns" "prefix (comps x) cs" for x
    proof -
      obtain f where "f \<in> set parents" "file_from_db (Some ns_path) d x = Inr f"
        using batch_rows(1) [OF batch x(1) _ onchain [OF x(1,3)]] x(2) inns by blast
      then show ?thesis using dirs is_folder_iff [OF db_treeD(3) [OF d]] by blast
    qed
    moreover have "\<exists>x \<in> set (d_files d). fr_ns x = nr_id ns \<and> comps x = take j cs" if "j < Suc k" for j
    proof (cases "j = k")
      case True
      then show ?thesis using q(1,2) qc inns by blast
    next
      case False
      then have "strict_prefix (take j cs) (comps q)"
        using that k(1) unfolding qc by (intro strict_prefix_take) auto
      then show ?thesis using tree_ancestor [OF t q(1)] q(2) inns by metis
    qed
    ultimately have "chain_inv (nr_id ns) cs (Suc k) d"
      using d g by (auto simp: chain_inv_def)
    then show ?thesis using miss klt by (intro exI [of _ "Suc k"]) auto
  qed
qed

lemma file_new_row_folder:
  assumes "filter (\<lambda>n. nr_path n = ns_path) (d_namespaces d) = [ns]"
  shows "file_new_row d (new_folder ns_path owner t p) = Inr
    \<lparr> fr_id = 0, fr_name = path_name p, fr_path = raw p, fr_size = 0, fr_modified_at = t,
      fr_owner = nr_owner ns, fr_ns = nr_id ns, fr_blob = None, fr_deleted_at = None \<rparr>"
  using assms by (simp add: file_new_row_def new_folder_def path_str_def)

text \<open>Saving the missing part of a chain completes the chain.\<close>

lemma save_chain:
  assumes inv: "chain_inv (nr_id ns) cs m d" and m: "m \<le> length cs"
    and ns: "filter (\<lambda>n. nr_path n = ns_path) (d_namespaces d) = [ns]"
    and run: "file_save_batch (map (new_folder ns_path owner t)
        (map (\<lambda>k. MkPath (path_of (take k cs))) [m..<Suc (length cs)])) d = (res, d')"
  shows "chain_inv (nr_id ns) cs (case res of Inl e \<Rightarrow> m | Inr u \<Rightarrow> Suc (length cs)) d'
       \<and> (res = Inr () \<longrightarrow> d_blobs d' = d_blobs d \<and> d_namespaces d' = d_namespaces d)"
proof -
  let ?row = "\<lambda>k. \<lparr> fr_id = 0, fr_name = path_name (MkPath (path_of (take k cs))),
      fr_path = path_of (take k cs), fr_size = 0, fr_modified_at = t,
      fr_owner = nr_owner ns, fr_ns = nr_id ns, fr_blob = None, fr_deleted_at = None \<rparr>"
  have wf: "db_wf d" using inv by (simp add: chain_inv_def db_treeD)
  have nsin: "ns \<in> set (d_namespaces d)" using ns by (rule filter_singleton)
  have fk: "file_fk_ok d (?row k)" for k
    using nsin db_wfD(10) [OF wf nsin] by (auto simp: file_fk_ok_def has_namespace_def)
  have rows: "map_result (file_new_row d) (map (new_folder ns_path owner t)
        (map (\<lambda>k. MkPath (path_of (take k cs))) [m..<Suc (length cs)])) = Inr (map ?row [m..<Suc (length cs)])"
  proof -
    have "map_result (file_new_row d) (map (\<lambda>k. new_folder ns_path owner t (MkPath (path_of (take k cs)))) ks)
        = Inr (map ?row ks)" for ks
      by (induction ks) (simp_all add: file_new_row_folder [OF ns])
    then show ?thesis by (simp add: comp_def del: upt_Suc)
  qed
  have ne: "[m..<Suc (length cs)] \<noteq> []" using m by simp
  have "file_save_batch (map (new_folder ns_path owner t)
        (map (\<lambda>k. MkPath (path_of (take k cs))) [m..<Suc (length cs)])) d
      = (Inr (), foldl insert_file_ignoring d (map ?row [m..<Suc (length cs)]))"
    using rows ne fk
    by (simp add: file_save_batch_def bnd_def query_def bulk_insert_files_def list_all_iff del: upt_Suc)
  then have res: "res = Inr ()" "d' = foldl insert_file_ignoring d (map ?row [m..<Suc (length cs)])"
    using run by (auto simp del: upt_Suc)
  have "m + (Suc (length cs) - m) = Suc (length cs)" using m by simp
  then have "chain_inv (nr_id ns) cs (Suc (length cs)) d'"
    using chain_steps [OF inv, of "Suc (length cs) - m" ?row] fk res(2)
    by (simp add: chain_row_def del: upt_Suc)
  moreover have "d_blobs (foldl insert_file_ignoring d rs) = d_blobs d
      \<and> d_namespaces (foldl insert_file_ignoring d rs) = d_namespaces d" for rs
    by (induction rs arbitrary: d) (simp_all add: insert_file_ignoring_def)
  ultimately show ?thesis using res by (simp del: upt_Suc)
qed

text \<open>Creating a folder: whatever the outcome, the trees stay intact; when it returns, the whole
  chain of folders is there.\<close>

lemma create_folder_tree:
  assumes d: "db_tree (w_db w)" and p: "Path path = MkPath (path_of cs)" "good_comps cs"
    and ok: "casing_ok (w_db w) ns_path cs"
    and run: "filecore_create_folder ns_path path w = (res, w')"
  shows "db_tree (w_db w')"
    and "res = Inr f \<Longrightarrow> \<exists>ns. filter (\<lambda>n. nr_path n = ns_path) (d_namespaces (w_db w)) = [ns]
           \<and> chain_inv (nr_id ns) cs (Suc (length cs)) (w_db w') \<and> d_blobs (w_db w') = d_blobs (w_db w)
           \<and> d_namespaces (w_db w') = d_namespaces (w_db w)
           \<and> w' = w\<lparr>w_db := w_db w'\<rparr>"
proof -
  have "db_tree (w_db w') \<and> (\<forall>f. res = Inr f \<longrightarrow>
      (\<exists>ns. filter (\<lambda>n. nr_path n = ns_path) (d_namespaces (w_db w)) = [ns]
           \<and> chain_inv (nr_id ns) cs (Suc (length cs)) (w_db w') \<and> d_blobs (w_db w') = d_blobs (w_db w)
           \<and> d_namespaces (w_db w') = d_namespaces (w_db w)
           \<and> w' = w\<lparr>w_db := w_db w'\<rparr>))"
  proof (cases "\<exists>e. res = Inl e \<and> w' = w")
    case True
    then show ?thesis using d by auto
  next
    case False
    obtain parents missing namespace where
        1: "fst (file_get_by_path_batch ns_path (map path_str (folder_chain (Path path))) (w_db w)) = Inr parents"
      and 2: "missing_folders (Path path) parents = Inr missing"
      and 3: "fst (namespace_get_by_path ns_path (w_db w)) = Inr namespace"
      and 4: "(res, w') = (case file_save_batch (map (new_folder ns_path (nsp_owner_id namespace) (w_now w)) missing) (w_db w) of
               (Inl e, d) \<Rightarrow> (Inl e, w\<lparr>w_db := d\<rparr>)
             | (Inr u, d) \<Rightarrow> (fst (file_get_by_path ns_path (path_str (Path path)) d), w\<lparr>w_db := d\<rparr>))"
      using run False unfolding create_folder_run by (auto split: sum.splits)
    obtain ns where ns: "filter (\<lambda>n. nr_path n = ns_path) (d_namespaces (w_db w)) = [ns]"
      using namespace_get_by_path_Inr [OF 3] by blast
    obtain m where m: "m \<le> length cs" "missing = map (\<lambda>k. MkPath (path_of (take k cs))) [m..<Suc (length cs)]"
        "chain_inv (nr_id ns) cs m (w_db w)"
      using missing_folders_chain [OF d p(2) ok ns] 1 2 unfolding p(1) by blast
    obtain r2 d' where s: "file_save_batch (map (new_folder ns_path (nsp_owner_id namespace) (w_now w)) missing) (w_db w) = (r2, d')"
      by fastforce
    have c: "chain_inv (nr_id ns) cs (case r2 of Inl e \<Rightarrow> m | Inr u \<Rightarrow> Suc (length cs)) d'
       \<and> (r2 = Inr () \<longrightarrow> d_blobs d' = d_blobs (w_db w) \<and> d_namespaces d' = d_namespaces (w_db w))"
      by (rule save_chain [OF m(3,1) ns]) (use s m(2) in simp)
    have w': "w' = w\<lparr>w_db := d'\<rparr>" and r2: "res = Inr f \<Longrightarrow> r2 = Inr ()" for f
      using 4 s by (auto split: sum.splits)
    show ?thesis using c w' r2 ns by (auto simp: chain_inv_def simp del: upt_Suc split: sum.splits)
  qed
  then show "db_tree (w_db w')"
    and "res = Inr f \<Longrightarrow> \<exists>ns. filter (\<lambda>n. nr_path n = ns_path) (d_namespaces (w_db w)) = [ns]
           \<and> chain_inv (nr_id ns) cs (Suc (length cs)) (w_db w') \<and> d_blobs (w_db w') = d_blobs (w_db w)
           \<and> d_namespaces (w_db w') = d_namespaces (w_db w)
           \<and> w' = w\<lparr>w_db := w_db w'\<rparr>" by auto
qed

end
