(* ===== verification/FileCreate.thy ===== *)
theory FileCreate
  imports FileCoreProps
begin

text \<open>
  \<open>FileCoreService.create_file\<close>: the name it picks, the row it adds and the sizes it updates.
\<close>

section \<open>Available names\<close>

lemma splitext_append: "fst (splitext p) @ snd (splitext p) = p"
  by (auto simp: splitext_def Let_def)

lemma path_splitext_append: "fst (path_splitext p) @ snd (path_splitext p) = p"
proof -
  have "fst (splitext p) = fst (splitext (fst (splitext p))) @ snd (splitext (fst (splitext p)))"
    using splitext_append by metis
  then show ?thesis
    using splitext_append [of p] by (auto simp: path_splitext_def Let_def split: prod.splits)
qed

lemma digits_of_no_slash: "slash \<notin> set (digits_of n)"
proof (induction n rule: digits_of.induct)
  case (1 n)
  have "char_of (48 + m) \<noteq> slash" if "m < 10" for m :: nat
  proof -
    have "m \<in> {0..<10}" using that by simp
    then show ?thesis by (auto simp: char_of_eq_iff atLeastLessThan_nat_numeral)
  qed
  then have d: "char_of (48 + n mod 10) \<noteq> slash" "n < 10 \<Longrightarrow> char_of (48 + n) \<noteq> slash" by simp_all
  show ?case
  proof (cases "n < 10")
    case True
    then show ?thesis using d(2) by (subst digits_of.simps) auto
  next
    case False
    then show ?thesis using 1 d(1) by (subst digits_of.simps) auto
  qed
qed

lemma with_stem_path_of:
  assumes "good_comps (cs @ [c])"
  shows "\<exists>c'. good_comps (cs @ [c'])
     \<and> with_stem (MkPath (path_of (cs @ [c])))
         (path_stem (MkPath (path_of (cs @ [c]))) @ '' ('' @ digits_of n @ '')'') = MkPath (path_of (cs @ [c']))"
proof -
  let ?p = "MkPath (path_of (cs @ [c]))"
  let ?c = "(path_stem ?p @ '' ('' @ digits_of n @ '')'') @ path_suffix ?p"
  have split: "path_stem ?p @ path_suffix ?p = c"
    using path_splitext_append [of c] path_name_path_of [OF assms]
    by (simp add: path_stem_def path_suffix_def)
  have "slash \<notin> set c" using assms by (simp add: good_comp_def)
  then have "slash \<notin> set (path_stem ?p)" "slash \<notin> set (path_suffix ?p)"
    using split by (metis Un_iff set_append)+
  then have "slash \<notin> set ?c" using digits_of_no_slash by auto
  moreover have "length ?c > 2" by simp
  then have "?c \<noteq> [] \<and> ?c \<noteq> ''.'' \<and> ?c \<noteq> ''..''" by fastforce
  ultimately have "good_comp ?c" unfolding good_comp_def by blast
  then have g: "good_comps (cs @ [?c])" using assms by simp
  have "with_stem ?p (path_stem ?p @ '' ('' @ digits_of n @ '')'') = MkPath (path_of (cs @ [?c]))"
    unfolding with_stem_def path_parent_path_of [OF assms] by (rule path_div_path_of [OF g])
  with g show ?thesis by blast
qed

lemma filecore_get_available_path_reads [simp]: "snd (filecore_get_available_path x ns_path path w) = w"
  unfolding filecore_get_available_path_def Let_def
  by (intro bnd_reads) (simp_all add: in_db_reads file_exists_at_path_def file_count_by_path_pattern_def
      ret_def bnd_reads)

lemma available_path_same_folder:
  assumes "Path path = MkPath (path_of (cs @ [c]))" "good_comps (cs @ [c])"
    and "fst (filecore_get_available_path x ns_path path w) = Inr p"
  shows "\<exists>c'. good_comps (cs @ [c']) \<and> p = MkPath (path_of (cs @ [c']))"
proof -
  have "p = Path path \<or> (\<exists>n. p = with_stem (Path path) (path_stem (Path path) @ '' ('' @ digits_of n @ '')''))"
    using assms(3)
    by (auto simp: filecore_get_available_path_def Let_def bnd_def in_db_def file_exists_at_path_def
        file_count_by_path_pattern_def gets_def ret_def split: if_splits)
  then show ?thesis
    using assms(1,2) with_stem_path_of [OF assms(2)] by auto
qed

section \<open>New rows\<close>

lemma db_wf_insert_blob:
  assumes "db_wf d" "insert_blob r d = (res, d')"
  shows "db_wf d'"
    and "d_files d' = d_files d" "d_namespaces d' = d_namespaces d" "d_users d' = d_users d"
    and "d_blobs d' = d_blobs d \<or> d_blobs d' = d_blobs d @ [r\<lparr>br_id := d_next d\<rparr>]"
    and "res = Inr i \<Longrightarrow> d_blobs d' = d_blobs d @ [r\<lparr>br_id := d_next d\<rparr>] \<and> i = d_next d"
proof -
  have "db_wf d' \<and> d_files d' = d_files d \<and> d_namespaces d' = d_namespaces d \<and> d_users d' = d_users d
      \<and> (d_blobs d' = d_blobs d \<or> d_blobs d' = d_blobs d @ [r\<lparr>br_id := d_next d\<rparr>])
      \<and> (\<forall>i. res = Inr i \<longrightarrow> d_blobs d' = d_blobs d @ [r\<lparr>br_id := d_next d\<rparr>] \<and> i = d_next d)"
  proof (cases "br_storage_key r \<in> br_storage_key ` set (d_blobs d)")
    case True
    then show ?thesis using assms by (auto simp: insert_blob_def)
  next
    case False
    let ?r = "r\<lparr>br_id := d_next d\<rparr>"
    let ?d = "d\<lparr>d_blobs := d_blobs d @ [?r], d_next := Suc (d_next d)\<rparr>"
    have d': "d' = ?d" "res = Inr (d_next d)" using assms(2) False by (auto simp: insert_blob_def)
    have hb: "has_blob d b \<Longrightarrow> has_blob ?d b" for b by (auto simp: has_blob_def)
    have fk: "file_fk_ok d f \<Longrightarrow> file_fk_ok ?d f" for f
      using hb by (auto simp: file_fk_ok_def has_user_def has_namespace_def split: option.splits)
    have hu: "has_user ?d = has_user d" by (simp add: has_user_def fun_eq_iff)
    note wf = assms(1)
    have ids: "ids_below (Suc (d_next d)) br_id (d_blobs d @ [?r])"
      using db_wfD(3) [OF wf] by (rule ids_below_insert) simp
    have keys: "distinct (map br_storage_key (d_blobs d @ [?r]))"
      using db_wfD(8) [OF wf] False by simp
    have "db_wf ?d"
      unfolding db_wf_def hu
      using ids keys fk hb db_wfD [OF wf] by (simp add: ids_below_mono [OF _ le_SucI [OF order_refl]])
    then show ?thesis using d' by simp
  qed
  then show "db_wf d'"
    and "d_files d' = d_files d" "d_namespaces d' = d_namespaces d" "d_users d' = d_users d"
    and "d_blobs d' = d_blobs d \<or> d_blobs d' = d_blobs d @ [r\<lparr>br_id := d_next d\<rparr>]"
    and "res = Inr i \<Longrightarrow> d_blobs d' = d_blobs d @ [r\<lparr>br_id := d_next d\<rparr>] \<and> i = d_next d" by auto
qed

text \<open>Storing a blob adds at most one row, of a media type that is not the folders'.\<close>

lemma blob_create_triple:
  assumes "mime_lib_ok (e_ext E)"
  shows "triple (\<lambda>w. db_tree (w_db w) \<and> d_files (w_db w) = fs \<and> d_namespaces (w_db w) = nss)
     (blob_create E key content)
     (\<lambda>b w. db_tree (w_db w) \<and> d_files (w_db w) = fs \<and> d_namespaces (w_db w) = nss)
     (\<lambda>w. db_tree (w_db w))"
proof -
  let ?P = "\<lambda>w. db_tree (w_db w) \<and> d_files (w_db w) = fs \<and> d_namespaces (w_db w) = nss"
  have def: "triple ?P (in_default m) (\<lambda>_. ?P) (\<lambda>w. db_tree (w_db w))" for m
    by (rule tripleI) (auto simp: in_default_def split: prod.splits)
  have now: "triple ?P now (\<lambda>_. ?P) (\<lambda>w. db_tree (w_db w))"
    by (rule tripleI) (auto simp: now_def gets_def)
  have save: "triple ?P (in_db (blob_save b)) (\<lambda>_. ?P) (\<lambda>w. db_tree (w_db w))"
    if b: "b_media_type b \<noteq> mt_folder" for b
  proof -
    let ?r = "\<lparr> br_id = 0, br_storage_key = b_storage_key b, br_size = b_size b,
            br_chash = b_chash b, br_media_type = b_media_type b, br_created_at = b_created_at b \<rparr>"
    have keep: "db_tree d' \<and> d_files d' = d_files d \<and> d_namespaces d' = d_namespaces d"
      if d: "db_tree d" "insert_blob ?r d = (res, d')" for d res d'
    proof -
      note i = db_wf_insert_blob [OF db_treeD(1) [OF d(1)] d(2)]
      have "no_folder_blobs d'"
        using i(5) db_treeD(3) [OF d(1)] b by (auto simp: no_folder_blobs_def)
      then show ?thesis using i d(1) by (simp add: db_tree_def)
    qed
    have shape: "\<exists>res'. insert_blob ?r d = (res', d')" if "blob_save b d = (res, d')" for d d' res
      using that by (auto simp: blob_save_def bnd_def ret_def split: prod.splits sum.splits)
    show ?thesis
      by (rule tripleI) (auto simp: in_db_run dest!: shape dest: keep)
  qed
  show ?thesis
    unfolding blob_create_def Let_def
    by (intro triple_andthen [OF def] triple_bnd [OF def] triple_bnd [OF now] save)
       (simp add: guess_not_folder [OF assms])
qed

text \<open>Saving a file and adding its size to the folders above it.\<close>

lemma file_save_Inr:
  assumes d: "db_wf d" and run: "file_save file d = (Inr f, d')"
  shows "\<exists>ns r. filter (\<lambda>n. nr_path n = f_ns_path file) (d_namespaces d) = [ns]
     \<and> r = \<lparr> fr_id = d_next d, fr_name = f_name file, fr_path = raw (f_path file), fr_size = f_size file,
              fr_modified_at = f_modified_at file, fr_owner = nr_owner ns, fr_ns = nr_id ns,
              fr_blob = f_blob_id file, fr_deleted_at = None \<rparr>
     \<and> file_fk_ok d r \<and> \<not> file_conflict d r
     \<and> d' = d\<lparr>d_files := d_files d @ [r], d_next := Suc (d_next d)\<rparr>
     \<and> file_from_db (Some (row_ns_path d' r)) d' r = Inr f"
proof -
  obtain ns i d1 where ns: "filter (\<lambda>n. nr_path n = f_ns_path file) (d_namespaces d) = [ns]"
    and ins: "insert_file \<lparr> fr_id = 0, fr_name = f_name file, fr_path = raw (f_path file), fr_size = f_size file,
              fr_modified_at = f_modified_at file, fr_owner = nr_owner ns, fr_ns = nr_id ns,
              fr_blob = f_blob_id file, fr_deleted_at = None \<rparr> d = (Inr i, d1)"
    and get: "file_get_by_id i d1 = (Inr f, d')"
    using run
    by (auto simp: file_save_def prog_elims namespace_row_get_Inr path_str_def)
  let ?r = "\<lparr> fr_id = d_next d, fr_name = f_name file, fr_path = raw (f_path file), fr_size = f_size file,
              fr_modified_at = f_modified_at file, fr_owner = nr_owner ns, fr_ns = nr_id ns,
              fr_blob = f_blob_id file, fr_deleted_at = None \<rparr>"
  have i: "i = d_next d" "d1 = d\<lparr>d_files := d_files d @ [?r], d_next := Suc (d_next d)\<rparr>"
      "file_fk_ok d ?r" "\<not> file_conflict d ?r"
    using ins by (auto simp: insert_file_def file_fk_ok_def file_conflict_def split: if_splits)
  obtain obj where obj: "filter (\<lambda>r. fr_id r = i) (d_files d1) = [obj]" "d' = d1"
      "file_from_db (Some (row_ns_path d1 obj)) d1 obj = Inr f"
    using get by (auto simp: file_get_by_id_def prog_elims q_get_Inr_iff)
  have "?r \<in> set (d_files d1)" "fr_id ?r = i" using i by simp_all
  then have "?r = obj" by (rule filter_singleton(3) [OF obj(1)])
  then show ?thesis using ns i obj by blast
qed

lemma tree_insert_sized:
  assumes d: "db_tree d" and r: "row_ok r" "fr_blob r = Some b" "comps r \<noteq> []"
    and par: "parent_in (d_files d) (fr_ns r) (comps r)"
    and fk: "file_fk_ok d r" "\<not> file_conflict d r" and i: "fr_id r = d_next d"
    and d1: "d1 = d\<lparr>d_files := d_files d @ [r], d_next := Suc (d_next d)\<rparr>"
  shows "db_tree (d1\<lparr>d_files := resize (ancestor_delta (fr_ns r) (comps r) (fr_size r)) (d_files d1)\<rparr>)"
    and "db_wf d1"
proof -
  note wf = db_treeD(1) [OF d] and t = db_treeD(2) [OF d]
  let ?d1 = "d\<lparr>d_files := d_files d @ [r], d_next := Suc (d_next d)\<rparr>"
  let ?g = "ancestor_delta (fr_ns r) (comps r) (fr_size r)"
  have fresh: "fresh_path (d_files d) (fr_ns r) (comps r)"
    using fk(2) r(1) treeD(2) [OF t] by (auto simp: fresh_path_def file_conflict_def row_ok_def)
  show wf1: "db_wf d1" unfolding d1
  proof -
    have "file_fk_ok ?d1 = file_fk_ok d" by (rule file_fk_ok_cong) simp_all
    moreover have "has_user ?d1 = has_user d" "has_blob ?d1 = has_blob d"
      by (simp_all add: has_user_def has_blob_def fun_eq_iff)
    moreover have "ids_below (Suc (d_next d)) fr_id (d_files d @ [r])"
      using db_wfD(2) [OF wf] i by (rule ids_below_insert)
    ultimately show "db_wf ?d1"
      using wf fk(1) fresh_distinct [OF t r(1) fresh] unfolding db_wf_def
      by (auto intro: ids_below_mono)
  qed
  then have "db_wf (d1\<lparr>d_files := resize ?g (d_files d1)\<rparr>)" by (rule db_wf_resize)
  moreover have "tree (resize ?g (d_files d @ [r]))"
    using t r par fresh by (intro tree_add_file) (auto simp: is_dir_def)
  ultimately show "db_tree (d1\<lparr>d_files := resize ?g (d_files d1)\<rparr>)"
    using db_treeD(3) [OF d] by (simp add: db_tree_def no_folder_blobs_def d1)
qed

text \<open>After the first step of \<open>create_file\<close> the folder that will hold the file is there.\<close>

definition has_folder :: "db \<Rightarrow> string \<Rightarrow> string list \<Rightarrow> bool" where
  "has_folder d ns_path cs \<longleftrightarrow>
     (\<exists>q \<in> set (d_files d). is_dir q \<and> in_ns d ns_path q \<and> comps q = cs)"

lemma ensure_parent:
  assumes g: "good_comps cs" and p: "parent = MkPath (path_of cs)"
  shows "triple (\<lambda>w. db_tree (w_db w) \<and> casing_ok (w_db w) ns_path cs)
     (filecore_ensure_parent ns_path parent)
     (\<lambda>_ w. db_tree (w_db w) \<and> has_folder (w_db w) ns_path cs)
     (\<lambda>w. db_tree (w_db w))"
    (is "triple ?P _ ?Q ?E")
  unfolding filecore_ensure_parent_def
proof (rule triple_bnd)
  let ?m = "attempt (in_db (file_get_by_path ns_path (path_str parent)))"
  let ?R = "\<lambda>r w. ?P w \<and> r = fst (file_get_by_path ns_path (path_str parent) (w_db w))"
  show "triple ?P ?m ?R ?E"
    by (rule tripleI) (auto simp: attempt_def in_db_read)
  show "triple (?R r) (case r of
            Inl e \<Rightarrow> if e = FileErr FileNotFound
                      then bnd (filecore_create_folder ns_path (path_str parent)) (\<lambda>_. ret ())
                      else raise e
          | Inr q \<Rightarrow> guard (is_folder q) (FileErr NotADirectory)) ?Q ?E" for r
  proof (cases r)
    case (Inr q)
    have "has_folder (w_db w) ns_path cs" if w: "?R r w" "is_folder q" for w
    proof -
      have get: "file_get_by_path ns_path (path_str parent) (w_db w) = (Inr q, w_db w)"
        using w(1) Inr by (metis file_get_by_path_reads prod.collapse)
      obtain obj where obj: "filter (file_at (w_db w) ns_path (path_str parent)) (d_files (w_db w)) = [obj]"
          "file_from_db (Some ns_path) (w_db w) obj = Inr q"
        using file_get_by_path_Inr [OF get] by blast
      have o: "obj \<in> set (d_files (w_db w))" "in_ns (w_db w) ns_path obj"
          "casefold (fr_path obj) = casefold (path_of cs)"
        using filter_singleton(1,2) [OF obj(1)] p by (auto simp: file_at_def iexact_def path_str_def)
      then have "fr_path obj = path_of cs"
        using w(1) by (auto simp: casing_ok_def dest!: bspec [of _ _ obj] bspec [of _ _ "length cs"])
      then have "comps obj = cs" by (simp add: comps_def g)
      moreover have "is_dir obj"
        using is_folder_iff [OF db_treeD(3) obj(2)] w by blast
      ultimately show ?thesis using o by (auto simp: has_folder_def)
    qed
    then show ?thesis unfolding Inr sum.case by (intro triple_guard) (auto simp: Inr)
  next
    case (Inl e)
    have "triple (?R r) (bnd (filecore_create_folder ns_path (path_str parent)) (\<lambda>_. ret ())) ?Q ?E"
    proof (rule triple_bnd [where R = "\<lambda>_. ?Q ()"])
      have P: "Path (path_str parent) = MkPath (path_of cs)" using p g by (simp add: path_str_def)
      show "triple (?R r) (filecore_create_folder ns_path (path_str parent)) (\<lambda>_. ?Q ()) ?E"
      proof (rule tripleI)
        fix w f w' assume w: "?R r w" and run: "filecore_create_folder ns_path (path_str parent) w = (Inr f, w')"
        note c = create_folder_tree [OF _ P g _ run]
        obtain ns where ns: "filter (\<lambda>n. nr_path n = ns_path) (d_namespaces (w_db w)) = [ns]"
            "chain_inv (nr_id ns) cs (Suc (length cs)) (w_db w')" "d_namespaces (w_db w') = d_namespaces (w_db w)"
          using c(2) w by blast
        have t: "db_tree (w_db w')" using c(1) w by blast
        obtain q where q: "q \<in> set (d_files (w_db w'))" "fr_ns q = nr_id ns" "comps q = cs"
          using ns(2) unfolding chain_inv_def by (metis lessI order_refl take_all)
        then have "is_dir q" using ns(2) by (auto simp: chain_inv_def)
        moreover have "in_ns (w_db w') ns_path q"
          using in_ns_iff [OF db_treeD(1) [OF t], of ns_path ns q] ns(1,3) q(2) by simp
        ultimately show "?Q () w'" using t q by (auto simp: has_folder_def)
      next
        fix w e w' assume "?R r w" and "filecore_create_folder ns_path (path_str parent) w = (Inl e, w')"
        then show "?E w'" using create_folder_tree(1) [OF _ P g] by blast
      qed
    qed (auto intro: triple_ret)
    then show ?thesis using Inl by (auto intro: triple_raise)
  qed
qed

lemma store_file_triple:
  assumes g: "good_comps (cs @ [c])" and F: "f_ns_path F = ns_path" "f_blob_id F = Some b"
    "f_path F = MkPath (path_of (cs @ [c]))"
  shows "triple (\<lambda>w. db_tree (w_db w) \<and> has_folder (w_db w) ns_path cs)
     (filecore_save_new ns_path F)
     (\<lambda>f w. db_tree (w_db w) \<and> f_blob_id f = Some b \<and> f_path f = f_path F \<and> f_size f = f_size F
        \<and> (\<exists>r \<in> set (d_files (w_db w)). fr_id r = f_id f \<and> in_ns (w_db w) ns_path r
              \<and> fr_blob r = Some b \<and> comps r = cs @ [c] \<and> fr_size r = f_size F))
     (\<lambda>w. db_tree (w_db w))"
    (is "triple ?P _ ?Q _")
  unfolding filecore_save_new_def
proof (rule triple_atomic)
  show "triple ?P (bnd (in_db (file_save F)) (\<lambda>file.
        andthen (in_db (file_incr_size_batch ns_path (map path_str (path_parents (f_path F))) (f_size file)))
          (ret file))) ?Q (\<lambda>_. True)"
  proof (rule tripleI)
    fix w f w'
    assume P: "?P w" and run: "bnd (in_db (file_save F)) (\<lambda>file.
        andthen (in_db (file_incr_size_batch ns_path (map path_str (path_parents (f_path F))) (f_size file)))
          (ret file)) w = (Inr f, w')"
    let ?d = "w_db w" and ?cs = "cs @ [c]"
    note wf = db_treeD(1) [OF conjunct1 [OF P]] and t = db_treeD(2) [OF conjunct1 [OF P]]
    obtain d1 d2 u where save: "file_save F ?d = (Inr f, d1)"
      and incr: "file_incr_size_batch ns_path (map path_str (path_parents (f_path F))) (f_size f) d1 = (Inr u, d2)"
      and w': "w' = w\<lparr>w_db := d2\<rparr>"
      using run by (auto simp: prog_elims)
    obtain ns r where ns: "filter (\<lambda>n. nr_path n = ns_path) (d_namespaces ?d) = [ns]"
      and r: "r = \<lparr> fr_id = d_next ?d, fr_name = f_name F, fr_path = raw (f_path F), fr_size = f_size F,
              fr_modified_at = f_modified_at F, fr_owner = nr_owner ns, fr_ns = nr_id ns,
              fr_blob = f_blob_id F, fr_deleted_at = None \<rparr>"
      and fk: "file_fk_ok ?d r" "\<not> file_conflict ?d r"
      and d1: "d1 = ?d\<lparr>d_files := d_files ?d @ [r], d_next := Suc (d_next ?d)\<rparr>"
      and f: "file_from_db (Some (row_ns_path d1 r)) d1 r = Inr f"
      using file_save_Inr [OF wf save] F(1) by auto
    have rp: "fr_path r = path_of ?cs" "fr_ns r = nr_id ns" "fr_blob r = Some b" "fr_size r = f_size F"
        "fr_id r = d_next ?d"
      using r F by simp_all
    have rc: "comps r = ?cs" "row_ok r" using rp(1) g by (simp_all add: comps_def row_ok_def)
    have inns: "in_ns ?d ns_path x \<longleftrightarrow> fr_ns x = nr_id ns" for x by (rule in_ns_iff [OF wf ns])
    have par: "parent_in (d_files ?d) (fr_ns r) (comps r)"
      using P inns rp(2) rc(1) by (auto simp: has_folder_def parent_in_def)
    let ?g = "ancestor_delta (fr_ns r) (comps r) (fr_size r)"
    have t1: "db_tree (d1\<lparr>d_files := resize ?g (d_files d1)\<rparr>)" "db_wf d1"
      using tree_insert_sized [OF conjunct1 [OF P] rc(2) rp(3) _ par fk rp(5) d1] rc(1) by auto
    have fs: "f_size f = f_size F" "f_id f = fr_id r" "f_blob_id f = Some b" "f_path f = f_path F"
      using file_from_db_Inr [OF f] rp row_path [OF rc(2)] F(3) by simp_all
    have in1: "in_ns d1 ns_path x \<longleftrightarrow> fr_ns x = nr_id ns" for x
      using inns in_ns_cong [of d1 ?d] d1 by simp
    have ok1: "row_ok x" if "x \<in> set (d_files d1)" for x
      using that treeD(2) [OF t] rc(2) by (auto simp: d1)
    have "d2 = d1\<lparr>d_files := resize (\<lambda>x. if in_ns d1 ns_path x \<and>
        fr_path x \<in> set (map path_str (path_parents (f_path F))) then f_size f else 0) (d_files d1)\<rparr>"
      by (rule file_incr_size_batch_Inr [OF t1(2) incr])
    also have "resize (\<lambda>x. if in_ns d1 ns_path x \<and> fr_path x \<in> set (map path_str (path_parents (f_path F)))
        then f_size f else 0) (d_files d1) = resize ?g (d_files d1)"
      unfolding in1 F(3) fs(1)
      by (rule resize_cong) (use row_in_parents [OF ok1 g] rp rc in \<open>auto simp: ancestor_delta_def\<close>)
    finally have d2: "d2 = d1\<lparr>d_files := resize ?g (d_files d1)\<rparr>" .
    have "?g r = 0" by (simp add: ancestor_delta_def)
    then have "r \<in> set (d_files d2)" unfolding d2 d1 by (simp add: resize_def)
    moreover have "in_ns d2 ns_path r"
      using in1 [of r] in_ns_cong [of d2 d1] rp(2) by (simp add: d2)
    ultimately show "?Q f w'" using t1(1) fs rp rc d2 w' by auto
  qed simp
qed simp

lemma reads_triple: "(\<And>s. snd (m s) = s) \<Longrightarrow> triple P m (\<lambda>x s. P s \<and> fst (m s) = Inr x) P"
  by (rule triple_read) auto

text \<open>What is known of the file a run of \<open>create_file\<close> returns.\<close>

definition created_in :: "db \<Rightarrow> string \<Rightarrow> string list \<Rightarrow> File \<Rightarrow> bool" where
  "created_in d ns_path cs f \<longleftrightarrow> (\<exists>r \<in> set (d_files d). fr_id r = f_id f \<and> in_ns d ns_path r
     \<and> \<not> is_dir r \<and> fr_blob r = f_blob_id f \<and> fr_size r = f_size f
     \<and> comps r \<noteq> [] \<and> butlast (comps r) = cs \<and> f_path f = MkPath (path_of (comps r)))"

lemma store_triple:
  assumes mime: "mime_lib_ok (e_ext E)" and np: "good_comps (cs @ [c])" "np = MkPath (path_of (cs @ [c]))"
  shows "triple (\<lambda>w. db_tree (w_db w) \<and> has_folder (w_db w) ns_path cs)
     (filecore_store E ns_path np content modified_at)
     (\<lambda>f w. db_tree (w_db w) \<and> created_in (w_db w) ns_path cs f) (\<lambda>w. db_tree (w_db w))"
    (is "triple ?R _ ?Q ?E")
proof (rule triple_fix, elim conjE)
  fix w0 :: "'a world"
  assume w0: "db_tree (w_db w0)" "has_folder (w_db w0) ns_path cs"
  let ?S = "\<lambda>w. db_tree (w_db w) \<and> d_files (w_db w) = d_files (w_db w0) \<and> d_namespaces (w_db w) = d_namespaces (w_db w0)"
  have SR: "?R w" if "?S w" for w
    using that w0 in_ns_cong [of "w_db w" "w_db w0"] by (auto simp: has_folder_def)
  have ns: "triple (\<lambda>w. w = w0) (in_db (namespace_get_by_path ns_path)) (\<lambda>_. ?S) ?E"
    by (rule triple_read) (use w0 in \<open>auto simp: in_db_reads\<close>)
  have now: "triple ?S now (\<lambda>_. ?S) ?E" by (rule triple_read) (auto simp: now_def)
  have save: "triple ?S (filecore_save_new ns_path F) ?Q ?E"
    if F: "f_ns_path F = ns_path" "f_blob_id F = Some b" "f_path F = np" for F b
  proof (rule triple_conseq [OF store_file_triple [OF np(1) F(1,2)]])
    show "f_path F = MkPath (path_of (cs @ [c]))" using F(3) np(2) by simp
    show "?Q f w" if "db_tree (w_db w) \<and> f_blob_id f = Some b \<and> f_path f = f_path F \<and> f_size f = f_size F
        \<and> (\<exists>r \<in> set (d_files (w_db w)). fr_id r = f_id f \<and> in_ns (w_db w) ns_path r
              \<and> fr_blob r = Some b \<and> comps r = cs @ [c] \<and> fr_size r = f_size F)" for f w
      using that F(3) np(2) by (auto simp: created_in_def is_dir_def)
  qed (use SR in blast)+
  show "triple (\<lambda>w. w = w0) (filecore_store E ns_path np content modified_at) ?Q ?E"
    unfolding filecore_store_def
    by (rule triple_bnd [OF ns], rule triple_bnd [OF blob_create_triple [OF mime]],
        rule triple_bnd [OF now], rule save) simp_all
qed

lemma create_file_triple:
  assumes mime: "mime_lib_ok (e_ext E)" and p: "Path path = MkPath (path_of (cs @ [c]))" "good_comps (cs @ [c])"
  shows "triple (\<lambda>w. db_tree (w_db w) \<and> casing_ok (w_db w) ns_path cs)
     (filecore_create_file E ns_path path content modified_at)
     (\<lambda>f w. db_tree (w_db w) \<and> created_in (w_db w) ns_path cs f) (\<lambda>w. db_tree (w_db w))"
    (is "triple ?P _ ?Q ?E")
proof -
  have gp: "good_comps cs" using p(2) by simp
  have par: "path_parent (Path path) = MkPath (path_of cs)" unfolding p(1) by (rule path_parent_path_of [OF p(2)])
  have pp: "Path (path_str (Path path)) = MkPath (path_of (cs @ [c]))"
    using Path_path_of [OF p(2)] by (simp add: p(1) path_str_def)
  let ?R = "\<lambda>w. db_tree (w_db w) \<and> has_folder (w_db w) ns_path cs"
  let ?G = "\<lambda>np. \<exists>c'. good_comps (cs @ [c']) \<and> np = MkPath (path_of (cs @ [c']))"
  have avail: "triple ?R (filecore_get_available_path (e_ext E) ns_path (path_str (Path path)))
      (\<lambda>np w. ?R w \<and> ?G np) ?E"
    by (rule triple_read) (use available_path_same_folder [OF pp p(2)] in auto)
  have store: "triple (\<lambda>w. ?R w \<and> ?G np) (filecore_store E ns_path np content modified_at) ?Q ?E" for np
  proof (cases "?G np")
    case True
    then obtain c' where "good_comps (cs @ [c'])" "np = MkPath (path_of (cs @ [c']))" by blast
    then show ?thesis by (rule triple_conseq [OF store_triple [OF mime]]) auto
  next
    case False
    then show ?thesis unfolding triple_def by blast
  qed
  show ?thesis
    unfolding filecore_create_file_def
    by (rule triple_andthen [OF ensure_parent [OF gp par]], rule triple_bnd [OF avail store])
qed

end
