(* ===== verification/FileMove.thy ===== *)
theory FileMove
  imports FileCreate
begin

text \<open>
  \<open>FileCoreService.move\<close>: the guards, the rows it renames and the sizes it carries from the old
  folders to the new ones.
\<close>

section \<open>Rows under a new name\<close>

lemma update_files_Inr:
  "update_files P f d = (Inr u, d') \<longleftrightarrow>
     distinct (map (\<lambda>r. (fr_path r, fr_ns r)) (q_update P f (d_files d)))
     \<and> d' = d\<lparr>d_files := q_update P f (d_files d)\<rparr>"
  by (auto simp: update_files_def Let_def)

definition target_ns :: "db \<Rightarrow> string \<Rightarrow> string \<Rightarrow> namespace_row option \<Rightarrow> bool" where
  "target_ns d at_ns to_ns ns \<longleftrightarrow> (if to_ns = at_ns then ns = None
     else \<exists>n. filter (\<lambda>n. nr_path n = to_ns) (d_namespaces d) = [n] \<and> ns = Some n)"

lemma other_namespace_Inr [prog_elims]:
  "other_namespace at_ns to_ns d = (Inr ns, d') \<longleftrightarrow> d' = d \<and> target_ns d at_ns to_ns ns"
  by (auto simp: other_namespace_def target_ns_def prog_elims namespace_row_get_Inr)

lemma file_update_Inr:
  assumes "file_update file u d = (Inr f, d')" "fu_ns_path u = Some to_ns"
  shows "\<exists>ns. target_ns d (f_ns_path file) to_ns ns
     \<and> distinct (map (\<lambda>r. (fr_path r, fr_ns r)) (q_update (\<lambda>r. fr_id r = f_id file) (apply_update u ns) (d_files d)))
     \<and> d' = d\<lparr>d_files := q_update (\<lambda>r. fr_id r = f_id file) (apply_update u ns) (d_files d)\<rparr>"
  using assms by (auto simp: file_update_def Let_def prog_elims update_files_Inr)

lemma file_replace_path_prefix_Inr:
  assumes "file_replace_path_prefix (at_ns, at_p) (to_ns, to_p) d = (Inr u, d')"
    and "P = (\<lambda>r. fr_id r \<in> fr_id ` set (filter (\<lambda>r. in_ns d at_ns r \<and> istartswith (fr_path r) (at_p @ ''/'')) (d_files d)))"
  shows "\<exists>ns. target_ns d at_ns to_ns ns
     \<and> distinct (map (\<lambda>r. (fr_path r, fr_ns r)) (q_update P (replace_row_prefix at_p to_p ns) (d_files d)))
     \<and> d' = d\<lparr>d_files := q_update P (replace_row_prefix at_p to_p ns) (d_files d)\<rparr>"
  using assms by (auto simp: file_replace_path_prefix_def prog_elims update_files_Inr)

text \<open>What a row of the moved subtree becomes: the row itself gets the new path, a row below it
  gets the new prefix.\<close>

definition moved_row :: "file_row \<Rightarrow> string list \<Rightarrow> namespace_row option \<Rightarrow> FileUpdate \<Rightarrow> file_row \<Rightarrow> file_row" where
  "moved_row r cs ns u x =
     (if comps x = comps r then apply_update u ns x
      else replace_row_prefix (path_of (comps r)) (path_of cs) ns x)"

lemma path_of_append:
  "cs \<noteq> [] \<Longrightarrow> ds \<noteq> [] \<Longrightarrow> path_of (cs @ ds) = path_of cs @ ''/'' @ path_of ds"
  by (simp add: path_of_def join_with_append)

lemma replace_prefix_comps:
  assumes "good_comps (comps r)" "comps r \<noteq> []" "good_comps cs" "cs \<noteq> []" "row_ok x" "below r x"
  shows "replace_first (path_of (comps r)) (path_of cs) (fr_path x)
       = path_of (cs @ drop (length (comps r)) (comps x))"
proof -
  obtain es where es: "comps x = comps r @ es" "es \<noteq> []"
    using assms(6) by (auto simp: below_def strict_prefix_def prefix_def)
  then have "fr_path x = path_of (comps r) @ (''/'' @ path_of es)"
    using assms(2,5) by (simp add: row_ok_def path_of_append)
  then show ?thesis using es assms(4) by (simp add: path_of_append)
qed

lemma moved_row_relocated:
  assumes g: "good_comps cs" "cs \<noteq> []" and r: "row_ok r" "comps r \<noteq> []"
    and x: "row_ok x" "within r x"
    and u: "fu_path u = Some (path_of cs)" "fu_size u = None"
    and ns: "case ns of None \<Rightarrow> fr_ns r = n | Some m \<Rightarrow> nr_id m = n"
  shows "relocated r n cs x (moved_row r cs ns u x)"
proof (cases "comps x = comps r")
  case True
  have "fr_ns x = fr_ns r" using x(2) by (simp add: within_def)
  then show ?thesis
    using True g u ns by (auto simp: moved_row_def relocated_def apply_update_def row_ok_def comps_def split: option.splits)
next
  case False
  then have b: "below r x" using within_cases [OF x(2)] by simp
  have gr: "good_comps (comps r)" "good_comps (comps x)" using r(1) x(1) by (simp_all add: row_ok_def)
  let ?cs = "cs @ drop (length (comps r)) (comps x)"
  have gc: "good_comps ?cs" using g(1) gr(2) by (simp add: good_comps_drop)
  have p: "fr_path (moved_row r cs ns u x) = path_of ?cs"
    using False replace_prefix_comps [OF gr(1) r(2) g x(1) b]
    by (simp add: moved_row_def replace_row_prefix_def Let_def split: option.splits)
  have "comps (moved_row r cs ns u x) = ?cs" using gc unfolding comps_def p by simp
  moreover have "fr_ns (moved_row r cs ns u x) = n" "fr_size (moved_row r cs ns u x) = fr_size x"
      "fr_blob (moved_row r cs ns u x) = fr_blob x"
    using False ns b by (auto simp: moved_row_def replace_row_prefix_def Let_def below_def split: option.splits)
  ultimately show ?thesis using p gc by (simp add: relocated_def row_ok_def)
qed

lemma target_ns_cong: "d_namespaces d' = d_namespaces d \<Longrightarrow> target_ns d' = target_ns d"
  by (simp add: fun_eq_iff target_ns_def)

lemma target_ns_unique: "target_ns d a t ns \<Longrightarrow> target_ns d a t ns' \<Longrightarrow> ns' = ns"
  by (auto simp: target_ns_def split: if_splits)

lemma apply_update_id [simp]: "fr_id (apply_update u ns x) = fr_id x"
  by (simp add: apply_update_def)

lemma replace_row_prefix_id [simp]: "fr_id (replace_row_prefix a t ns x) = fr_id x"
  by (simp add: replace_row_prefix_def Let_def split: option.splits)

lemma q_update_q_update:
  "q_update P g (q_update Q f fs) = map (\<lambda>x. let y = (if Q x then f x else x) in if P y then g y else y) fs"
  by (simp add: q_update_def Let_def)

text \<open>Renaming the row, then the rows whose path starts with the old path: together, the subtree
  is relocated.\<close>

lemma move_rows_folder:
  assumes d: "db_tree d" and r: "r \<in> set (d_files d)" "comps r \<noteq> []" "in_ns d at_ns r"
    and uniq: "\<And>y. y \<in> set (d_files d) \<Longrightarrow> fr_ns y = fr_ns r \<Longrightarrow> casefold (fr_path y) = casefold (fr_path r) \<Longrightarrow> y = r"
    and ns: "target_ns d at_ns to_ns ns"
    and d2: "d_files d2 = q_update (\<lambda>x. fr_id x = fr_id r) (apply_update u ns) (d_files d)"
            "d_namespaces d2 = d_namespaces d"
    and self: "\<not> (in_ns d at_ns (apply_update u ns r) \<and> istartswith (fr_path (apply_update u ns r)) (path_of (comps r) @ ''/''))"
    and run: "file_replace_path_prefix (at_ns, path_of (comps r)) (to_ns, path_of cs) d2 = (Inr v, d3)"
  shows "d3 = d2\<lparr>d_files := relocate (moved_row r cs ns u) r (d_files d)\<rparr>"
    and "distinct (map (\<lambda>x. (fr_path x, fr_ns x)) (relocate (moved_row r cs ns u) r (d_files d)))"
proof -
  let ?fs = "d_files d" and ?m = "\<lambda>x. if fr_id x = fr_id r then apply_update u ns x else x"
  let ?Q = "\<lambda>x. in_ns d2 at_ns x \<and> istartswith (fr_path x) (path_of (comps r) @ ''/'')"
  let ?P = "\<lambda>x. fr_id x \<in> fr_id ` set (filter ?Q (d_files d2))"
  note wf = db_treeD(1) [OF d] and t = db_treeD(2) [OF d]
  have fs2: "d_files d2 = map ?m ?fs" by (simp add: d2(1) q_update_def)
  have rp: "fr_path r = path_of (comps r)" using treeD(2) [OF t r(1)] by (simp add: row_ok_def)
  have cp: "casefold (path_of (comps r)) = casefold (fr_path r)" by (rule arg_cong [OF rp [symmetric]])
  have idm: "fr_id (?m x) = fr_id x" for x by simp
  have inj: "inj_on fr_id (set ?fs)" using db_wfD(2) [OF wf] by (simp add: ids_below_def distinct_map)
  have ids: "fr_id x = fr_id r \<longleftrightarrow> x = r" if "x \<in> set ?fs" for x using inj that r(1) by (auto dest: inj_onD)
  have inns: "in_ns d2 at_ns = in_ns d at_ns" using in_ns_cong [OF d2(2)] by simp
  have PQ: "?P (?m x) \<longleftrightarrow> ?Q (?m x)" if x: "x \<in> set ?fs" for x
  proof
    assume "?P (?m x)"
    then obtain x' where x': "x' \<in> set ?fs" "?Q (?m x')" "fr_id (?m x') = fr_id (?m x)"
      unfolding fs2 by (auto simp only: set_filter set_map)
    have "x' = x" using x'(1,3) inj x idm by (metis inj_onD)
    show "?Q (?m x)" using x'(2) unfolding \<open>x' = x\<close> .
  next
    assume "?Q (?m x)"
    then show "?P (?m x)" using x unfolding fs2 by auto
  qed
  have Q: "?Q (?m x) \<longleftrightarrow> below r x" if x: "x \<in> set ?fs" for x
  proof (cases "x = r")
    case True
    then show ?thesis using self inns by (simp add: below_def)
  next
    case False
    then have m: "?m x = x" using ids [OF x] by simp
    show ?thesis
    proof (cases "fr_ns x = fr_ns r")
      case True
      have "istartswith (fr_path x) (path_of (comps r) @ ''/'') \<longleftrightarrow> below r x"
        by (rule istartswith_below [OF t r(1,2) x True uniq cp])
      then show ?thesis using True in_ns_same [OF wf r(3), of x] by (simp add: m inns)
    next
      case False
      then show ?thesis using in_ns_same [OF wf r(3), of x] by (simp add: m inns below_def)
    qed
  qed
  have all: "q_update ?P (replace_row_prefix (path_of (comps r)) (path_of cs) ns) (d_files d2)
      = relocate (moved_row r cs ns u) r ?fs"
    unfolding q_update_q_update relocate_def
      arg_cong [OF d2(1), of "q_update ?P (replace_row_prefix (path_of (comps r)) (path_of cs) ns)"]
  proof (rule map_cong [OF refl])
    fix x assume x: "x \<in> set ?fs"
    have c: "comps x = comps r \<and> within r x \<longleftrightarrow> x = r"
      using within_iff [OF t r(1) x] tree_unique [OF t r(1) x] by (auto simp: below_def within_def)
    show "(let y = ?m x in if ?P y then replace_row_prefix (path_of (comps r)) (path_of cs) ns y else y)
        = (if within r x then moved_row r cs ns u x else x)"
      using PQ [OF x] Q [OF x] ids [OF x] within_iff [OF t r(1) x] c
      by (auto simp: Let_def moved_row_def below_def)
  qed
  obtain ns' where ns': "target_ns d2 at_ns to_ns ns'"
      "distinct (map (\<lambda>r. (fr_path r, fr_ns r)) (q_update ?P (replace_row_prefix (path_of (comps r)) (path_of cs) ns') (d_files d2)))"
      "d3 = d2\<lparr>d_files := q_update ?P (replace_row_prefix (path_of (comps r)) (path_of cs) ns') (d_files d2)\<rparr>"
    using file_replace_path_prefix_Inr [OF run refl] by blast
  have "ns' = ns" using ns'(1) ns target_ns_cong [OF d2(2)] target_ns_unique by metis
  then have both: "d3 = d2\<lparr>d_files := relocate (moved_row r cs ns u) r ?fs\<rparr>"
    "distinct (map (\<lambda>x. (fr_path x, fr_ns x)) (relocate (moved_row r cs ns u) r ?fs))"
    using ns'(2,3) all by simp_all
  show "d3 = d2\<lparr>d_files := relocate (moved_row r cs ns u) r (d_files d)\<rparr>" by (rule both(1))
  show "distinct (map (\<lambda>x. (fr_path x, fr_ns x)) (relocate (moved_row r cs ns u) r (d_files d)))" by (rule both(2))
qed

lemma move_rows_file:
  assumes d: "db_tree d" and r: "r \<in> set (d_files d)" "\<not> is_dir r"
  shows "q_update (\<lambda>x. fr_id x = fr_id r) (apply_update u ns) (d_files d)
       = relocate (moved_row r cs ns u) r (d_files d)"
  unfolding q_update_def relocate_def
proof (rule map_cong [OF refl])
  fix x assume x: "x \<in> set (d_files d)"
  note t = db_treeD(2) [OF d]
  have "inj_on fr_id (set (d_files d))"
    using db_wfD(2) [OF db_treeD(1) [OF d]] by (simp add: ids_below_def distinct_map)
  then have "fr_id x = fr_id r \<longleftrightarrow> x = r" using x r(1) by (auto dest: inj_onD)
  moreover have "within r x \<longleftrightarrow> x = r"
    using within_iff [OF t r(1) x] nothing_below_file [OF t r x] by simp
  ultimately show "(if fr_id x = fr_id r then apply_update u ns x else x)
      = (if within r x then moved_row r cs ns u x else x)"
    by (simp add: moved_row_def)
qed

section \<open>Sizes on a move\<close>

lemma in_path_parents:
  assumes "good_comps cs"
  shows "p \<in> set (path_parents (MkPath (path_of cs))) \<longleftrightarrow> (\<exists>ds. strict_prefix ds cs \<and> p = MkPath (path_of ds))"
proof -
  have "p \<in> set (path_parents (MkPath (path_of cs))) \<longleftrightarrow> raw p \<in> raw ` set (path_parents (MkPath (path_of cs)))"
    by (metis image_iff path.expand)
  then show ?thesis using set_path_parents [OF assms] by (auto simp: path.expand)
qed

definition caseless_above :: "string list \<Rightarrow> string list \<Rightarrow> bool" where
  "caseless_above as cs \<longleftrightarrow> (\<exists>ds. strict_prefix ds cs \<and> map casefold ds = map casefold as)"

lemma row_in_paths_minus:
  assumes "row_ok x" "good_comps as" "good_comps cs"
  shows "fr_path x \<in> set (map path_str (paths_minus (path_parents (MkPath (path_of as))) (path_parents (MkPath (path_of cs)))))
     \<longleftrightarrow> strict_prefix (comps x) as \<and> \<not> caseless_above (comps x) cs"
proof -
  have gp: "good_comps ds" if "strict_prefix ds es" "good_comps es" for ds es
    using that by (auto simp: strict_prefix_def intro: good_comps_prefix)
  have gx: "good_comps (comps x)" "fr_path x = path_of (comps x)" using assms(1) by (simp_all add: row_ok_def)
  have "fr_path x \<in> set (map path_str (paths_minus (path_parents (MkPath (path_of as))) (path_parents (MkPath (path_of cs)))))
     \<longleftrightarrow> (\<exists>ds. strict_prefix ds as \<and> fr_path x = path_of ds
            \<and> \<not> (\<exists>es. strict_prefix es cs \<and> path_eq (MkPath (path_of ds)) (MkPath (path_of es))))"
  proof -
    let ?P = "path_parents (MkPath (path_of as))" and ?Q = "path_parents (MkPath (path_of cs))"
    have Q: "(\<exists>q \<in> set ?Q. path_eq p q) \<longleftrightarrow> (\<exists>es. strict_prefix es cs \<and> path_eq p (MkPath (path_of es)))" for p
      using in_path_parents [OF assms(3)] by metis
    have "fr_path x \<in> set (map path_str (paths_minus ?P ?Q))
        \<longleftrightarrow> (\<exists>p \<in> set ?P. fr_path x = raw p \<and> \<not> (\<exists>q \<in> set ?Q. path_eq p q))"
      by (auto simp: paths_minus_def path_str_def)
    then show ?thesis unfolding Q using in_path_parents [OF assms(2)] by (metis path.sel)
  qed
  also have "\<dots> \<longleftrightarrow> strict_prefix (comps x) as \<and> \<not> (\<exists>es. strict_prefix es cs
            \<and> path_eq (MkPath (path_of (comps x))) (MkPath (path_of es)))"
    using gx gp assms(2) path_of_inj by metis
  also have "\<dots> \<longleftrightarrow> strict_prefix (comps x) as \<and> \<not> caseless_above (comps x) cs"
    unfolding caseless_above_def path_eq_def path.sel
    using gp [OF _ assms(3)] casefold_path_of_eq gx(1) by metis
  finally show ?thesis .
qed

text \<open>A row outside the moved subtree, above one end of the move, is above the other end up to case
  only if it is above it exactly.\<close>

lemma case_unique_row:
  assumes "case_unique fs" "tree fs" "x \<in> set fs" "q \<in> set fs" "fr_ns x = fr_ns q"
    and "map casefold (comps x) = map casefold (comps q)"
  shows "x = q"
proof -
  have "casefold (fr_path x) = casefold (fr_path q)"
    using treeD(2) [OF assms(2)] assms(3,4,6) by (metis casefold_path_of row_ok_def)
  then show ?thesis
    using assms(1,3-5) by (auto simp: case_unique_def distinct_map inj_on_def)
qed

lemma relocate_above:
  assumes m: "move_ok fs r n cs h" and x: "x \<in> set (relocate h r fs)" "fr_ns x = n"
    and up: "strict_prefix (comps x) cs \<or> (fr_ns r = n \<and> strict_prefix (comps x) (comps r))"
  shows "x \<in> set fs"
proof (rule ccontr)
  assume "x \<notin> set fs"
  then obtain y where y: "y \<in> set fs" "within r y" "x = h y" using x(1) by (auto simp: set_relocate)
  have h: "prefix cs (comps x)" "fr_ns x = n" using move_okD(7) [OF m y(1,2)] y(3) by (auto simp: relocated_def)
  have "move_delta r n cs x = 0" using move_delta_moved [OF m y(1,2)] y(3) by simp
  have "\<not> strict_prefix (comps x) cs" using h(1) by (auto simp: strict_prefix_def)
  then have r: "fr_ns r = n" "strict_prefix (comps x) (comps r)" using up by auto
  then have s: "strict_prefix cs (comps r)" using h(1) by (metis prefix_order.le_less_trans)
  then obtain p where p: "p \<in> set fs" "fr_ns p = fr_ns r" "comps p = cs"
    using tree_ancestor [OF move_okD(1,2) [OF m]] by metis
  then have "p = r" using move_okD(6) [OF m p(1)] r(1) by simp
  then show False using p(3) s by simp
qed

lemma move_delta_same:
  assumes m: "move_ok fs r n cs h" and cu: "case_unique fs" and n: "fr_ns r = n"
    and x: "x \<in> set (relocate h r fs)"
  shows "(if fr_ns x = n \<and> strict_prefix (comps x) (comps r) \<and> \<not> caseless_above (comps x) cs then - fr_size r else 0)
       + (if fr_ns x = n \<and> strict_prefix (comps x) cs \<and> \<not> caseless_above (comps x) (comps r) then fr_size r else 0)
       = move_delta r n cs x"
proof -
  note t = move_okD(1) [OF m] and r = move_okD(2) [OF m]
  have 1: "caseless_above (comps x) cs \<longleftrightarrow> strict_prefix (comps x) cs"
    if a: "fr_ns x = n" "strict_prefix (comps x) (comps r)"
  proof
    assume "caseless_above (comps x) cs"
    then obtain ds where ds: "strict_prefix ds cs" "map casefold ds = map casefold (comps x)"
      by (auto simp: caseless_above_def)
    obtain q where q: "q \<in> set fs" "fr_ns q = n" "comps q = ds" using move_dest_ancestor [OF m ds(1)] by blast
    have "x \<in> set fs" using relocate_above [OF m x] a n by simp
    then have "x = q" using case_unique_row [OF cu t _ q(1)] a(1) q(2,3) ds(2) by simp
    then show "strict_prefix (comps x) cs" using q(3) ds(1) by simp
  qed (auto simp: caseless_above_def)
  have 2: "caseless_above (comps x) (comps r) \<longleftrightarrow> strict_prefix (comps x) (comps r)"
    if a: "fr_ns x = n" "strict_prefix (comps x) cs"
  proof
    assume "caseless_above (comps x) (comps r)"
    then obtain ds where ds: "strict_prefix ds (comps r)" "map casefold ds = map casefold (comps x)"
      by (auto simp: caseless_above_def)
    obtain q where q: "q \<in> set fs" "fr_ns q = fr_ns r" "comps q = ds" using tree_ancestor [OF t r ds(1)] by blast
    have "x \<in> set fs" using relocate_above [OF m x] a by simp
    then have "x = q" using case_unique_row [OF cu t _ q(1)] a(1) n q(2,3) ds(2) by simp
    then show "strict_prefix (comps x) (comps r)" using q(3) ds(1) by simp
  qed (auto simp: caseless_above_def)
  show ?thesis
    using 1 2 n by (auto simp: move_delta_def ancestor_delta_def)
qed

lemma resize_resize:
  assumes "\<And>r z. g2 (r\<lparr>fr_size := z\<rparr>) = g2 r"
  shows "resize g2 (resize g1 fs) = resize (\<lambda>r. g1 r + g2 r) fs"
  by (simp add: resize_def assms comp_def add.assoc)

section \<open>The transaction\<close>


lemma file_ns_path:
  assumes "db_wf d" "in_ns d ns_path r" "file_from_db (Some ns_path) d r = Inr f"
  shows "f_ns_path f = ns_path"
proof (cases "ns_path = []")
  case True
  obtain n where n: "n \<in> set (d_namespaces d)" "nr_id n = fr_ns r" "nr_path n = ns_path"
    using assms(2) by (auto simp: in_ns_def)
  have inj: "inj_on nr_id (set (d_namespaces d))"
    using db_wfD(4) [OF assms(1)] by (simp add: ids_below_def distinct_map)
  have "m = n" if "m \<in> set (filter (\<lambda>n. nr_id n = fr_ns r) (d_namespaces d))" for m
    using that n by (intro inj_onD [OF inj]) auto
  moreover have "filter (\<lambda>n. nr_id n = fr_ns r) (d_namespaces d) \<noteq> []" using n by (auto simp: filter_empty_conv)
  ultimately have "row_ns_path d r = ns_path"
    using n(3) by (cases "filter (\<lambda>n. nr_id n = fr_ns r) (d_namespaces d)") (auto simp: row_ns_path_def)
  then show ?thesis using assms(3) True
    by (auto simp: file_from_db_def split: sum.splits prod.splits)
next
  case False
  then show ?thesis using file_from_db_Inr(8) [OF assms(3) refl] by simp
qed

lemma blob_service_move_Inr:
  assumes "db_wf (w_db w)" "blob_service_move b k w = (Inr u, w')"
  shows "only_jobs (w_db w) (w_db w')"
  using assms only_jobs_refl [OF assms(1)] save_and_enqueue_Inr [OF assms(1)]
  by (auto simp: blob_service_move_def prog_elims blob_get_by_id_def blob_exists_with_storage_key_def
      split: if_splits)

lemma move_prefix_Inr:
  assumes "db_wf (w_db w)" "blob_service_move_with_prefix p q w = (Inr u, w')"
  shows "only_jobs (w_db w) (w_db w')"
  using assms save_and_enqueue_Inr [OF assms(1)] by (auto simp: blob_service_move_with_prefix_def)

lemma only_jobs_files: "only_jobs d d' \<Longrightarrow> only_jobs (d\<lparr>d_files := fs\<rparr>) (d'\<lparr>d_files := fs\<rparr>)"
  unfolding only_jobs_def by (elim exE) (rule exI, rule exI, auto intro: db.equality)

lemma db_wf_update:
  assumes wf: "db_wf d" and ns: "target_ns d at_ns to_ns ns"
    and fs: "map fr_id fs = map fr_id (d_files d)" "distinct (map (\<lambda>f. (fr_path f, fr_ns f)) fs)"
    and rows: "\<And>f. f \<in> set fs \<Longrightarrow> \<exists>x \<in> set (d_files d). fr_blob f = fr_blob x \<and>
       (case ns of None \<Rightarrow> fr_ns f = fr_ns x \<and> fr_owner f = fr_owner x
        | Some n \<Rightarrow> fr_ns f = fr_ns x \<and> fr_owner f = fr_owner x \<or> fr_ns f = nr_id n \<and> fr_owner f = nr_owner n)"
  shows "db_wf (d\<lparr>d_files := fs\<rparr>)"
proof (rule db_wf_files [OF wf fs])
  fix f assume "f \<in> set fs"
  then obtain x where x: "x \<in> set (d_files d)" "fr_blob f = fr_blob x"
    "case ns of None \<Rightarrow> fr_ns f = fr_ns x \<and> fr_owner f = fr_owner x
        | Some n \<Rightarrow> fr_ns f = fr_ns x \<and> fr_owner f = fr_owner x \<or> fr_ns f = nr_id n \<and> fr_owner f = nr_owner n"
    using rows by blast
  note fk = db_wfD(11) [OF wf x(1)]
  show "file_fk_ok d f"
  proof (cases ns)
    case None
    then show ?thesis using fk x by (simp add: file_fk_ok_def)
  next
    case (Some n)
    then have "filter (\<lambda>n. nr_path n = to_ns) (d_namespaces d) = [n]"
      using ns by (auto simp: target_ns_def split: if_splits)
    then have "n \<in> set (d_namespaces d)" by (rule filter_singleton)
    then show ?thesis using Some fk x db_wfD(10) [OF wf]
      by (auto simp: file_fk_ok_def has_namespace_def)
  qed
qed

text \<open>The body of the transaction: rename, schedule the blob work, carry the sizes.\<close>

lemma move_file_rows:
  assumes d: "db_tree (w_db w)" and r: "r \<in> set (d_files (w_db w))" "comps r \<noteq> []" "in_ns (w_db w) at_ns r"
    and f: "file_from_db (Some at_ns) (w_db w) r = Inr file"
    and uniq: "\<And>y. y \<in> set (d_files (w_db w)) \<Longrightarrow> fr_ns y = fr_ns r \<Longrightarrow>
                 casefold (fr_path y) = casefold (fr_path r) \<Longrightarrow> y = r"
    and cs: "good_comps cs" "cs \<noteq> []" and u: "fu_path u = Some (path_of cs)" "fu_size u = None" "fu_ns_path u = Some to_ns"
    and out: "at_ns = to_ns \<Longrightarrow> \<not> strict_prefix (map casefold (comps r)) (map casefold cs)"
    and 1: "file_update file u (w_db w) = (Inr g, d1)"
    and 2: "only_jobs d1 (w_db w2)"
    and 3: "(if is_folder file
            then andthen (blob_service_move_with_prefix p q)
                 (in_db (file_replace_path_prefix (at_ns, path_str (f_path file)) (to_ns, path_of cs)))
            else ret ()) w2 = (Inr v, w3)"
  shows "\<exists>ns. target_ns (w_db w) at_ns to_ns ns
     \<and> d_files (w_db w3) = relocate (moved_row r cs ns u) r (d_files (w_db w))
     \<and> distinct (map (\<lambda>x. (fr_path x, fr_ns x)) (d_files (w_db w3)))
     \<and> db_wf (w_db w3) \<and> d_blobs (w_db w3) = d_blobs (w_db w) \<and> d_namespaces (w_db w3) = d_namespaces (w_db w)"
proof -
  let ?d = "w_db w" and ?fs = "d_files (w_db w)"
  note wf = db_treeD(1) [OF d] and t = db_treeD(2) [OF d]
  have fid: "f_id file = fr_id r" "f_path file = MkPath (path_of (comps r))" "f_ns_path file = at_ns"
    using file_from_db_Inr(1,5) [OF f] file_ns_path [OF wf r(3) f] treeD(2) [OF t r(1)] row_path
    by (auto simp: row_ok_def)
  have fold: "is_folder file \<longleftrightarrow> is_dir r" by (rule is_folder_iff [OF db_treeD(3) [OF d] f])
  obtain ns where ns: "target_ns ?d at_ns to_ns ns"
    and d1: "d1 = ?d\<lparr>d_files := q_update (\<lambda>x. fr_id x = fr_id r) (apply_update u ns) ?fs\<rparr>"
    and dist1: "distinct (map (\<lambda>x. (fr_path x, fr_ns x)) (q_update (\<lambda>x. fr_id x = fr_id r) (apply_update u ns) ?fs))"
    using file_update_Inr [OF 1 u(3)] fid by auto
  have wf1: "db_wf d1" unfolding d1
    by (rule db_wf_update [OF wf ns _ dist1])
       (auto simp: q_update_def apply_update_def split: option.splits if_splits)
  have wf2: "db_wf (w_db w2)" by (rule db_wf_only_jobs [OF wf1 2])
  note o2 = only_jobsD [OF 2]
  show ?thesis
  proof (cases "is_dir r")
    case False
    then have "w3 = w2" using 3 fold by (simp add: ret_Inr)
    then show ?thesis
      using ns dist1 wf2 o2 move_rows_file [OF d r(1) False] by (auto simp: d1)
  next
    case True
    have folder: "is_folder file" using True fold by simp
    obtain v' w2' where bm: "blob_service_move_with_prefix p q w2 = (Inr v', w2')"
      and rest: "in_db (file_replace_path_prefix (at_ns, path_of (comps r)) (to_ns, path_of cs)) w2' = (Inr v, w3)"
      using 3 unfolding if_P [OF folder] fid(2) path_str_def path.sel unfolding andthen_Inr by blast
    have jobs: "only_jobs (w_db w2) (w_db w2')" by (rule move_prefix_Inr [OF wf2 bm])
    obtain d3 where rep: "file_replace_path_prefix (at_ns, path_of (comps r)) (to_ns, path_of cs) (w_db w2') = (Inr v, d3)"
      and w3: "w3 = w2'\<lparr>w_db := d3\<rparr>"
      using rest unfolding in_db_Inr by blast
    note o3 = only_jobsD [OF jobs]
    have files2: "d_files (w_db w2') = q_update (\<lambda>x. fr_id x = fr_id r) (apply_update u ns) ?fs"
        "d_namespaces (w_db w2') = d_namespaces ?d"
      using o2 o3 by (simp_all add: d1)
    have self: "\<not> (in_ns ?d at_ns (apply_update u ns r) \<and> istartswith (fr_path (apply_update u ns r)) (path_of (comps r) @ ''/''))"
    proof
      assume a: "in_ns ?d at_ns (apply_update u ns r) \<and> istartswith (fr_path (apply_update u ns r)) (path_of (comps r) @ ''/'')"
      have gr: "good_comps (comps r)" using treeD(2) [OF t r(1)] by (simp add: row_ok_def)
      have "strict_prefix (map casefold (comps r)) (map casefold cs)"
        using a u(1) gr cs(1) r(2) prefix_path_of [of "map casefold (comps r)" "map casefold cs"]
        by (simp add: istartswith_def apply_update_def casefold_path_of)
      then have "at_ns \<noteq> to_ns" using out by blast
      then obtain n where n: "filter (\<lambda>n. nr_path n = to_ns) (d_namespaces ?d) = [n]" "ns = Some n"
        using ns by (auto simp: target_ns_def)
      have "in_ns ?d to_ns (apply_update u ns r)"
        using in_ns_iff [OF wf n(1)] n(2) by (simp add: apply_update_def)
      with a obtain n1 n2 where n12: "n1 \<in> set (d_namespaces ?d)" "n2 \<in> set (d_namespaces ?d)"
          "nr_id n1 = nr_id n2" "nr_path n1 = at_ns" "nr_path n2 = to_ns"
        unfolding in_ns_def by metis
      have "inj_on nr_id (set (d_namespaces ?d))"
        using db_wfD(4) [OF wf] by (simp add: ids_below_def distinct_map)
      from inj_onD [OF this n12(3,1,2)] n12(4,5) \<open>at_ns \<noteq> to_ns\<close> show False by simp
    qed
    have rows1: "d3 = w_db w2'\<lparr>d_files := relocate (moved_row r cs ns u) r ?fs\<rparr>"
      by (rule move_rows_folder(1) [OF d r _ ns files2 self rep]) (rule uniq)
    have rows2: "distinct (map (\<lambda>x. (fr_path x, fr_ns x)) (relocate (moved_row r cs ns u) r ?fs))"
      by (rule move_rows_folder(2) [OF d r _ ns files2 self rep]) (rule uniq)
    have "d_files d3 = relocate (moved_row r cs ns u) r ?fs" by (simp add: rows1)
    moreover have "db_wf d3"
    proof -
      have "db_wf (?d\<lparr>d_files := relocate (moved_row r cs ns u) r ?fs\<rparr>)"
        by (rule db_wf_update [OF wf ns _ rows2])
           (auto simp: relocate_def moved_row_def apply_update_def replace_row_prefix_def Let_def
             split: option.splits if_splits)
      moreover have "only_jobs (?d\<lparr>d_files := relocate (moved_row r cs ns u) r ?fs\<rparr>) d3"
        using only_jobs_files [OF only_jobs_trans [OF 2 jobs], of "relocate (moved_row r cs ns u) r ?fs"]
        by (simp add: rows1 d1)
      ultimately show ?thesis by (rule db_wf_only_jobs)
    qed
    ultimately show ?thesis using ns rows2 w3 o2 o3 rows1 by (auto simp: d1)
  qed
qed

section \<open>The effect of a move on the tree\<close>

lemma carried_sizes:
  fixes at_path to_path :: path
  assumes m: "move_ok fs r n cs h" and g: "good_comps cs" and same: "same \<Longrightarrow> fr_ns r = n \<and> case_unique fs"
    and x: "x \<in> set (relocate h r fs)"
    and dec: "to_decrease = (if same then paths_minus (path_parents at_path) (path_parents to_path)
                         else path_parents at_path)"
    and inc: "to_increase = (if same then paths_minus (path_parents to_path) (path_parents at_path)
                         else path_parents to_path)"
    and p: "at_path = MkPath (path_of (comps r))" "to_path = MkPath (path_of cs)"
  shows "(if fr_ns x = fr_ns r \<and> fr_path x \<in> set (map path_str to_decrease) then - fr_size r else 0)
       + (if fr_ns x = n \<and> fr_path x \<in> set (map path_str to_increase) then fr_size r else 0)
       = move_delta r n cs x"
proof -
  note t = move_okD(1) [OF m] and r = move_okD(2) [OF m]
  have gr: "good_comps (comps r)" using treeD(2) [OF t r] by (simp add: row_ok_def)
  have ok: "row_ok x" using x treeD(2) [OF t] move_okD(7) [OF m] by (auto simp: set_relocate relocated_def)
  show ?thesis
  proof (cases same)
    case True
    then have s: "fr_ns r = n" "case_unique fs" using same by auto
    show ?thesis
      using move_delta_same [OF m s(2,1) x] True s(1)
      unfolding dec inc p by (simp only: row_in_paths_minus [OF ok gr g] row_in_paths_minus [OF ok g gr] if_True)
  next
    case False
    then show ?thesis
      unfolding dec inc p by (simp add: row_in_parents [OF ok gr] row_in_parents [OF ok g] move_delta_def ancestor_delta_def
        del: set_map)
  qed
qed

text \<open>What a move that succeeds has run.\<close>

lemma filecore_move_file_Inr:
  fixes to_path :: path
  assumes run: "filecore_move_file file to_ns to_path w = (Inr g, w')"
    and same: "same = (f_ns_path file = to_ns)"
    and dec: "dec = (if same then paths_minus (path_parents (f_path file)) (path_parents to_path)
                         else path_parents (f_path file))"
    and inc: "inc = (if same then paths_minus (path_parents to_path) (path_parents (f_path file))
                         else path_parents to_path)"
  shows "\<exists>g1 d1 v1 w2 p q k v2 w3 v3 d4 v4 d5.
     file_update file \<lparr> fu_ns_path = Some to_ns, fu_name = Some (path_name to_path),
                fu_path = Some (path_str to_path), fu_size = None \<rparr> (w_db w) = (Inr g1, d1)
   \<and> (case f_blob_id file of None \<Rightarrow> ret () | Some b \<Rightarrow> blob_service_move b k) (w\<lparr>w_db := d1\<rparr>) = (Inr v1, w2)
   \<and> (if is_folder file
            then andthen (blob_service_move_with_prefix p q)
                 (in_db (file_replace_path_prefix (f_ns_path file, path_str (f_path file)) (to_ns, path_str to_path)))
            else ret ()) w2 = (Inr v2, w3)
   \<and> file_incr_size_batch (f_ns_path file) (map path_str dec) (- f_size file) (w_db w3) = (Inr v3, d4)
   \<and> file_incr_size_batch to_ns (map path_str inc) (f_size file) d4 = (Inr v4, d5)
   \<and> w_db w' = d5"
proof -
  obtain ns w1 where n: "in_db (namespace_get_by_path to_ns) w = (Inr ns, w1)"
    and rest: "bnd (if is_folder file \<and> \<not> same then in_db (namespace_get_by_path (f_ns_path file)) else ret ns)
      (\<lambda>at_namespace.
      atomic
        (bnd (in_db (file_update file \<lparr> fu_ns_path = Some to_ns, fu_name = Some (path_name to_path),
                fu_path = Some (path_str to_path), fu_size = None \<rparr>)) (\<lambda>updated_file.
         andthen
           (case f_blob_id file of None \<Rightarrow> ret ()
            | Some b \<Rightarrow> blob_service_move b (storage_key_of (nsp_owner_id ns) (path_str to_path)))
         (andthen
           (if is_folder file
            then andthen (blob_service_move_with_prefix
                    (storage_key_of (nsp_owner_id at_namespace) (path_str (f_path file)) @ ''/'')
                    (storage_key_of (nsp_owner_id ns) (path_str to_path) @ ''/''))
                 (in_db (file_replace_path_prefix (f_ns_path file, path_str (f_path file)) (to_ns, path_str to_path)))
            else ret ())
         (andthen (in_db (file_incr_size_batch (f_ns_path file) (map path_str dec) (- f_size file)))
         (andthen (in_db (file_incr_size_batch to_ns (map path_str inc) (f_size file)))
            (ret updated_file))))))) w1 = (Inr g, w')"
    using run unfolding filecore_move_file_def Let_def bnd_Inr [of "in_db (namespace_get_by_path to_ns)"] dec inc same
    by blast
  have w1: "w1 = w" using n by (simp add: in_db_read)
  from rest obtain ns2 w1' where n2: "(if is_folder file \<and> \<not> same then in_db (namespace_get_by_path (f_ns_path file)) else ret ns) w = (Inr ns2, w1')"
     and rest: "atomic
        (bnd (in_db (file_update file \<lparr> fu_ns_path = Some to_ns, fu_name = Some (path_name to_path),
                fu_path = Some (path_str to_path), fu_size = None \<rparr>)) (\<lambda>updated_file.
         andthen
           (case f_blob_id file of None \<Rightarrow> ret ()
            | Some b \<Rightarrow> blob_service_move b (storage_key_of (nsp_owner_id ns) (path_str to_path)))
         (andthen
           (if is_folder file
            then andthen (blob_service_move_with_prefix
                    (storage_key_of (nsp_owner_id ns2) (path_str (f_path file)) @ ''/'')
                    (storage_key_of (nsp_owner_id ns) (path_str to_path) @ ''/''))
                 (in_db (file_replace_path_prefix (f_ns_path file, path_str (f_path file)) (to_ns, path_str to_path)))
            else ret ())
         (andthen (in_db (file_incr_size_batch (f_ns_path file) (map path_str dec) (- f_size file)))
         (andthen (in_db (file_incr_size_batch to_ns (map path_str inc) (f_size file)))
            (ret updated_file)))))) w1' = (Inr g, w')"
    unfolding w1 bnd_Inr [of "if _ then _ else _"] by blast
  have w1': "w1' = w" using n2 by (auto simp: in_db_read ret_Inr split: if_splits)
  from rest [unfolded w1'] obtain g1 s1 v1 s2 v2 s3 v3 s4 v4 s5 where
    1: "in_db (file_update file \<lparr> fu_ns_path = Some to_ns, fu_name = Some (path_name to_path),
                fu_path = Some (path_str to_path), fu_size = None \<rparr>) w = (Inr g1, s1)"
    and 2: "(case f_blob_id file of None \<Rightarrow> ret ()
            | Some b \<Rightarrow> blob_service_move b (storage_key_of (nsp_owner_id ns) (path_str to_path))) s1 = (Inr v1, s2)"
    and 3: "(if is_folder file
            then andthen (blob_service_move_with_prefix
                    (storage_key_of (nsp_owner_id ns2) (path_str (f_path file)) @ ''/'')
                    (storage_key_of (nsp_owner_id ns) (path_str to_path) @ ''/''))
                 (in_db (file_replace_path_prefix (f_ns_path file, path_str (f_path file)) (to_ns, path_str to_path)))
            else ret ()) s2 = (Inr v2, s3)"
    and 4: "in_db (file_incr_size_batch (f_ns_path file) (map path_str dec) (- f_size file)) s3 = (Inr v3, s4)"
    and 5: "in_db (file_incr_size_batch to_ns (map path_str inc) (f_size file)) s4 = (Inr v4, s5)"
    and s5: "g = g1 \<and> w' = s5"
    unfolding bnd_Inr andthen_Inr atomic_Inr ret_Inr [of _ _ g] by (elim exE conjE) (rule that, (assumption | rule conjI)+)
  obtain d1 where d1: "file_update file \<lparr> fu_ns_path = Some to_ns, fu_name = Some (path_name to_path),
                fu_path = Some (path_str to_path), fu_size = None \<rparr> (w_db w) = (Inr g1, d1)"
    and s1: "s1 = w\<lparr>w_db := d1\<rparr>" using 1 unfolding in_db_Inr by (elim exE conjE) (rule that)
  obtain d4 where d4: "file_incr_size_batch (f_ns_path file) (map path_str dec) (- f_size file) (w_db s3) = (Inr v3, d4)"
    and s4: "s4 = s3\<lparr>w_db := d4\<rparr>" using 4 unfolding in_db_Inr by (elim exE conjE) (rule that)
  obtain d5 where d5: "file_incr_size_batch to_ns (map path_str inc) (f_size file) d4 = (Inr v4, d5)"
    and "w_db s5 = d5" using 5 unfolding in_db_Inr s4 world.simps by (elim exE conjE) (rule that, (assumption | simp)+)
  then have "w_db w' = d5" using s5 by simp
  note last = this
  show ?thesis by (intro exI conjI) (rule d1, rule 2 [unfolded s1], rule 3, rule d4, rule d5, rule last)
qed

lemma strict_prefix_butlastI: "prefix as (butlast cs) \<Longrightarrow> cs \<noteq> [] \<Longrightarrow> strict_prefix as cs"
  by (cases cs rule: rev_cases) (auto simp: strict_prefix_def dest: prefix_length_le)

lemma strict_prefix_map: "strict_prefix as cs \<Longrightarrow> strict_prefix (map f as) (map f cs)"
  by (auto simp: strict_prefix_def prefix_def)

lemma db_wf_file_update:
  assumes wf: "db_wf d" and run: "file_update file u d = (Inr g, d')" and ns: "fu_ns_path u = Some to_ns"
  shows "db_wf d'"
proof -
  obtain ns where ns: "target_ns d (f_ns_path file) to_ns ns"
    and dist: "distinct (map (\<lambda>x. (fr_path x, fr_ns x)) (q_update (\<lambda>x. fr_id x = f_id file) (apply_update u ns) (d_files d)))"
    and d1: "d' = d\<lparr>d_files := q_update (\<lambda>x. fr_id x = f_id file) (apply_update u ns) (d_files d)\<rparr>"
    using file_update_Inr [OF run ns] by blast
  show ?thesis unfolding d1
    by (rule db_wf_update [OF wf ns _ dist])
       (auto simp: q_update_def apply_update_def split: option.splits if_splits)
qed

lemma in_ns_path_unique:
  assumes wf: "db_wf d" and "in_ns d p x" "in_ns d q x"
  shows "p = q"
proof -
  obtain m n where mn: "m \<in> set (d_namespaces d)" "n \<in> set (d_namespaces d)" "nr_id m = nr_id n" "nr_path m = p" "nr_path n = q"
    using assms(2,3) unfolding in_ns_def by metis
  have "inj_on nr_id (set (d_namespaces d))"
    using db_wfD(4) [OF wf] by (simp add: ids_below_def distinct_map)
  from inj_onD [OF this mn(3,1,2)] show ?thesis using mn(4,5) by metis
qed

lemma move_file_tree:
  assumes d: "db_tree (w_db w)" and cu: "case_unique (d_files (w_db w))"
    and r: "r \<in> set (d_files (w_db w))" "comps r \<noteq> []" "in_ns (w_db w) at_ns r"
    and f: "file_from_db (Some at_ns) (w_db w) r = Inr file"
    and q: "q \<in> set (d_files (w_db w))" "in_ns (w_db w) to_ns q" "is_dir q" "comps q = butlast cs"
    and cs: "good_comps cs" "cs \<noteq> []"
    and out: "at_ns = to_ns \<Longrightarrow> \<not> strict_prefix (map casefold (comps r)) (map casefold cs)"
    and run: "filecore_move_file file to_ns (MkPath (path_of cs)) w = (Inr g, w')"
  shows "db_tree (w_db w')"
proof -
  let ?d = "w_db w" and ?fs = "d_files (w_db w)"
  let ?u = "\<lparr> fu_ns_path = Some to_ns, fu_name = Some (path_name (MkPath (path_of cs))),
                fu_path = Some (path_of cs), fu_size = None \<rparr>"
  note wf = db_treeD(1) [OF d] and t = db_treeD(2) [OF d]
  have fid: "f_path file = MkPath (path_of (comps r))" "f_ns_path file = at_ns" "f_size file = fr_size r"
    using file_from_db_Inr(1-7) [OF f] file_ns_path [OF wf r(3) f] treeD(2) [OF t r(1)] row_path
    by (auto simp: row_ok_def)
  define same where "same = (at_ns = to_ns)"
  define dec where "dec = (if same then paths_minus (path_parents (f_path file)) (path_parents (MkPath (path_of cs)))
                         else path_parents (f_path file))"
  define inc where "inc = (if same then paths_minus (path_parents (MkPath (path_of cs))) (path_parents (f_path file))
                         else path_parents (MkPath (path_of cs)))"
  obtain g1 d1 v1 w2 p1 q1 k v2 w3 v3 d4 v4 d5 where
    1: "file_update file ?u ?d = (Inr g1, d1)"
    and 2: "(case f_blob_id file of None \<Rightarrow> ret ()
            | Some b \<Rightarrow> blob_service_move b k) (w\<lparr>w_db := d1\<rparr>) = (Inr v1, w2)"
    and 3: "(if is_folder file
            then andthen (blob_service_move_with_prefix p1 q1)
                 (in_db (file_replace_path_prefix (at_ns, path_str (f_path file)) (to_ns, path_of cs)))
            else ret ()) w2 = (Inr v2, w3)"
    and 4: "file_incr_size_batch at_ns (map path_str dec) (- f_size file) (w_db w3) = (Inr v3, d4)"
    and 5: "file_incr_size_batch to_ns (map path_str inc) (f_size file) d4 = (Inr v4, d5)"
    and w': "w_db w' = d5"
    using filecore_move_file_Inr [OF run same_def [folded fid(2)] dec_def inc_def] unfolding fid(2) path_str_def path.sel by blast
  have only: "only_jobs d1 (w_db w2)" if "db_wf d1"
  proof (cases "f_blob_id file")
    case None
    then show ?thesis using 2 only_jobs_refl [OF that] by (auto simp: ret_Inr)
  next
    case (Some b)
    then show ?thesis using blob_service_move_Inr [of "w\<lparr>w_db := d1\<rparr>"] 2 that by simp
  qed
  have wf1: "db_wf d1"
    by (rule db_wf_file_update [OF wf 1]) simp
  have uniq: "y = r" if "y \<in> set ?fs" "fr_ns y = fr_ns r" "casefold (fr_path y) = casefold (fr_path r)" for y
    using cu that r(1) by (auto simp: case_unique_def distinct_map inj_on_def)
  obtain ns where ns: "target_ns ?d at_ns to_ns ns"
    and rows: "d_files (w_db w3) = relocate (moved_row r cs ns ?u) r ?fs"
      "distinct (map (\<lambda>x. (fr_path x, fr_ns x)) (d_files (w_db w3)))"
    and w3: "db_wf (w_db w3)" "d_blobs (w_db w3) = d_blobs ?d" "d_namespaces (w_db w3) = d_namespaces ?d"
  proof -
    have "\<exists>ns. target_ns ?d at_ns to_ns ns
     \<and> d_files (w_db w3) = relocate (moved_row r cs ns ?u) r ?fs
     \<and> distinct (map (\<lambda>x. (fr_path x, fr_ns x)) (d_files (w_db w3)))
     \<and> db_wf (w_db w3) \<and> d_blobs (w_db w3) = d_blobs ?d \<and> d_namespaces (w_db w3) = d_namespaces ?d"
      by (rule move_file_rows [OF d r f _ cs _ _ _ _ 1 only [OF wf1] 3]) (use uniq out in auto)
    then show ?thesis using that by blast
  qed
  define n where "n = (case ns of None \<Rightarrow> fr_ns r | Some m \<Rightarrow> nr_id m)"
  have in_to: "in_ns ?d to_ns x \<longleftrightarrow> fr_ns x = n" for x
    using ns in_ns_same [OF wf r(3), of x] in_ns_iff [OF wf, of to_ns]
    by (auto simp: n_def target_ns_def split: if_splits)
  have in_at: "in_ns ?d at_ns x \<longleftrightarrow> fr_ns x = fr_ns r" for x by (rule in_ns_same [OF wf r(3)])
  have same_n: "same \<longleftrightarrow> fr_ns r = n"
    using in_at in_to r(3) q(2) in_ns_path_unique [OF wf] unfolding same_def by metis
  have m: "move_ok ?fs r n cs (moved_row r cs ns ?u)"
  proof -
    have dest: "\<exists>q \<in> set ?fs. is_dir q \<and> fr_ns q = n \<and> comps q = butlast cs \<and> \<not> within r q"
    proof -
      have "\<not> within r q"
      proof
        assume w: "within r q"
        then have "same" using q(2) in_to same_n by (simp add: within_def)
        moreover have "strict_prefix (comps r) cs"
          using w q(4) cs(2) by (simp add: within_def strict_prefix_butlastI)
        ultimately show False using out strict_prefix_map unfolding same_def by blast
      qed
      then show ?thesis using q in_to by blast
    qed
    have clear: "x = r" if "x \<in> set ?fs" "fr_ns x = n" "comps x = cs" for x
    proof (cases "within r x")
      case True
      then have s: "same" "prefix (comps r) cs" using that same_n by (auto simp: within_def)
      have "comps r = cs" using s out strict_prefix_map unfolding same_def strict_prefix_def by blast
      then show ?thesis
        using tree_unique [OF t that(1) r(1)] that True by (simp add: within_def)
    next
      case False
      let ?h = "moved_row r cs ns ?u"
      have "relocated r n cs r (?h r)"
        by (rule moved_row_relocated [OF cs _ r(2)])
           (use treeD(2) [OF t] r(1) in \<open>auto simp: n_def within_def split: option.splits\<close>)
      then have key: "fr_path (?h r) = fr_path x" "fr_ns (?h r) = fr_ns x"
        using that treeD(2) [OF t that(1)] by (auto simp: relocated_def row_ok_def)
      have "x \<in> set (relocate ?h r ?fs)" "?h r \<in> set (relocate ?h r ?fs)"
        using that(1) False r(1) by (auto simp: set_relocate within_def)
      moreover have "inj_on (\<lambda>x. (fr_path x, fr_ns x)) (set (relocate ?h r ?fs))"
        using rows by (simp add: distinct_map)
      ultimately have "x = ?h r" using key by (auto dest: inj_onD)
      then have "fr_id x = fr_id r" by (simp add: moved_row_def)
      then show ?thesis
        using db_wfD(2) [OF wf] that(1) r(1) by (auto simp: ids_below_def distinct_map dest: inj_onD)
    qed
    have "relocated r n cs x (moved_row r cs ns ?u x)" if "x \<in> set ?fs" "within r x" for x
      by (rule moved_row_relocated [OF cs _ r(2) _ that(2)])
         (use treeD(2) [OF t] r(1) that(1) in \<open>auto simp: n_def split: option.splits\<close>)
    then show ?thesis
      unfolding move_ok_def using t r cs(2) dest clear rows by auto
  qed
  let ?g1 = "\<lambda>x. if in_ns (w_db w3) at_ns x \<and> fr_path x \<in> set (map path_str dec) then - fr_size r else 0"
  let ?g2 = "\<lambda>x. if in_ns (w_db w3) to_ns x \<and> fr_path x \<in> set (map path_str inc) then fr_size r else 0"
  have d4: "d4 = (w_db w3)\<lparr>d_files := resize ?g1 (d_files (w_db w3))\<rparr>"
    using file_incr_size_batch_Inr [OF w3(1) 4] unfolding fid(3) .
  have wf4: "db_wf d4" unfolding d4 by (rule db_wf_resize [OF w3(1)])
  have "in_ns d4 = in_ns (w_db w3)" by (rule in_ns_cong) (simp add: d4)
  then have d5: "d5 = d4\<lparr>d_files := resize ?g2 (d_files d4)\<rparr>"
    using file_incr_size_batch_Inr [OF wf4 5] unfolding fid(3) by simp
  have ins: "in_ns (w_db w3) = in_ns ?d" by (rule in_ns_cong) (rule w3(3))
  have "d_files d5 = resize (\<lambda>x. ?g1 x + ?g2 x) (d_files (w_db w3))"
    unfolding d5 d4 by (simp add: resize_resize in_ns_def)
  also have "\<dots> = resize (move_delta r n cs) (relocate (moved_row r cs ns ?u) r ?fs)"
    unfolding rows(1)
  proof (rule resize_cong)
    fix x assume x: "x \<in> set (relocate (moved_row r cs ns ?u) r ?fs)"
    show "?g1 x + ?g2 x = move_delta r n cs x"
      unfolding ins in_at in_to
      by (rule carried_sizes [OF m cs(1) _ x dec_def inc_def fid(1) refl]) (use same_n cu in blast)
  qed
  finally have "tree (d_files d5)" using tree_move [OF m] by simp
  moreover have "db_wf d5" unfolding d5 by (rule db_wf_resize [OF wf4])
  ultimately show ?thesis
    using db_treeD(3) [OF d] w3(2) by (simp add: db_tree_def no_folder_blobs_def w' d5 d4)
qed

lemma andthen_guard [simp]: "andthen (guard b e) k s = (if b then k s else (Inl e, s))"
  by (simp add: prog_simps)

lemma filecore_move_file_Inl:
  assumes "filecore_move_file file to_ns to_path w = (Inl e, w')"
  shows "w_db w' = w_db w"
proof (cases "is_folder file \<and> \<not> f_ns_path file = to_ns")
  case True
  then show ?thesis
    using assms unfolding filecore_move_file_def Let_def if_P [OF True]
    by (auto simp: bnd_in_db_read split: sum.splits dest!: atomic_Inl)
next
  case False
  then show ?thesis
    using assms unfolding filecore_move_file_def Let_def if_not_P [OF False]
    by (auto simp: bnd_in_db_read split: sum.splits dest!: atomic_Inl)
qed

lemma filecore_move_Inl:
  assumes "filecore_move at to w = (Inl e, w')"
  shows "w_db w' = w_db w"
  using assms unfolding filecore_move_def Let_def
  by (auto simp: bnd_in_db_read raise_def split: sum.splits if_splits option.splits
      dest: filecore_move_file_Inl)

lemma by_lower_path_mem: "x \<in> set (by_lower_path rs) \<longleftrightarrow> x \<in> set rs"
  by (simp add: by_lower_path_def)

lemma file_lookup_Some:
  assumes "file_lookup fs p = Some f"
  shows "f \<in> set fs" "path_eq (f_path f) p"
proof -
  let ?gs = "filter (\<lambda>f. path_eq (f_path f) p) fs"
  have "?gs \<noteq> []" "f = last ?gs" using assms by (auto simp: file_lookup_def split: list.splits)
  then have "f \<in> set ?gs" by (metis last_in_set)
  then show "f \<in> set fs" "path_eq (f_path f) p" by auto
qed

text \<open>A move that succeeds keeps the tree of folders and their sizes, whatever is moved where.\<close>

lemma filecore_move_Inr_tree:
  assumes d: "db_tree (w_db w)" and cu: "case_unique (d_files (w_db w))"
    and at: "Path at = MkPath (path_of as)" "good_comps as" "as \<noteq> []"
    and to: "Path to = MkPath (path_of (ts @ [t']))" "good_comps (ts @ [t'])"
    and run: "filecore_move (at_ns, at) (to_ns, to) w = (Inr g, w')"
  shows "db_tree (w_db w')"
proof -
  let ?d = "w_db w" and ?fs = "d_files (w_db w)"
  note wf = db_treeD(1) [OF d] and t = db_treeD(2) [OF d]
  obtain F files p where
    guard: "at_ns = to_ns \<Longrightarrow> path_eq (Path at) (Path to) \<and> path_str (Path at) \<noteq> path_str (Path to)
              \<or> \<not> is_relative_to (Path to) (path_str (Path at))"
    and file_row: "fst (file_get_by_path at_ns (path_str (Path at)) ?d) = Inr F"
    and files: "fst (file_get_by_path_batch to_ns [path_str (Path to), path_str (path_parent (Path to))] ?d) = Inr files"
    and p: "file_lookup files (path_parent (Path to)) = Some p" "is_folder p"
    and move: "filecore_move_file F to_ns (path_div (f_path p) (path_name (Path to))) w = (Inr g, w')"
    using run unfolding filecore_move_def Let_def fst_conv snd_conv
    by (auto simp: bnd_in_db_read raise_def split: sum.splits option.splits if_splits)
  obtain r where r: "filter (file_at ?d at_ns (path_of as)) ?fs = [r]" "file_from_db (Some at_ns) ?d r = Inr F"
    using file_get_by_path_Inr [of at_ns "path_of as" ?d F ?d] file_row at(1)
    by (auto simp: path_str_def prod_eq_iff)
  note rin = filter_singleton(1) [OF r(1)] and rat = filter_singleton(2) [OF r(1)]
  have rns: "in_ns ?d at_ns r" and rp: "casefold (path_of as) = casefold (fr_path r)"
    using rat by (auto simp: file_at_def iexact_def)
  have rok: "good_comps (comps r)" "fr_path r = path_of (comps r)"
    using treeD(2) [OF t rin] by (auto simp: row_ok_def)
  have ras: "map casefold (comps r) = map casefold as"
    using rp casefold_path_of_eq [OF at(2) rok(1)] rok(2) by simp
  obtain q where q: "q \<in> set ?fs" "in_ns ?d to_ns q" "file_from_db (Some to_ns) ?d q = Inr p"
    using file_lookup_Some(1) [OF p(1)] files
    by (auto simp: file_get_by_path_batch_def query_def by_lower_path_mem dest!: map_result_Inr_set)
  have qok: "good_comps (comps q)" "fr_path q = path_of (comps q)"
    using treeD(2) [OF t q(1)] by (auto simp: row_ok_def)
  have qp: "f_path p = MkPath (path_of (comps q))" using file_from_db_Inr(5) [OF q(3)] qok by simp
  have gts: "good_comps ts" "good_comp t'" using to(2) by auto
  have "casefold (path_of (comps q)) = casefold (path_of ts)"
    using file_lookup_Some(2) [OF p(1)] qp to path_parent_path_of [OF to(2)] by (simp add: path_eq_def)
  then have qts: "map casefold (comps q) = map casefold ts"
    using casefold_path_of_eq [OF qok(1) gts(1)] by simp
  let ?cs = "comps q @ [t']"
  have cs: "good_comps ?cs" using qok(1) gts by simp
  have dest: "path_div (f_path p) (path_name (Path to)) = MkPath (path_of ?cs)"
    unfolding qp to(1) path_name_path_of [OF to(2)] by (rule path_div_path_of [OF cs])
  have out: "\<not> strict_prefix (map casefold (comps r)) (map casefold ?cs)" if "at_ns = to_ns"
  proof
    assume a: "strict_prefix (map casefold (comps r)) (map casefold ?cs)"
    have mc: "map casefold ?cs = map casefold (ts @ [t'])" using qts by simp
    have "is_relative_to (Path to) (path_str (Path at))"
      using a prefix_path_of [of "map casefold as" "map casefold (ts @ [t'])"] at to(2)
      unfolding mc ras is_relative_to_def to(1) at(1) path_str_def path.sel normpath_path_of [OF at(2)]
      by (simp only: casefold_path_of good_comps_casefold) simp
    moreover have "\<not> path_eq (Path at) (Path to)"
      using a casefold_path_of_eq [OF at(2) to(2)] at(1) to(1) mc ras
      by (simp add: path_eq_def strict_prefix_def)
    ultimately show False using guard [OF that] by blast
  qed
  have "comps r \<noteq> []" using ras at(3) by auto
  then show ?thesis
    by (rule move_file_tree [OF d cu rin _ rns r(2) q(1,2) _ _ cs _ _ move [unfolded dest]])
       (use is_folder_iff [OF db_treeD(3) [OF d] q(3)] p(2) out in auto)
qed

theorem filecore_move_tree:
  assumes "db_tree (w_db w)" "case_unique (d_files (w_db w))"
    and "Path at = MkPath (path_of as)" "good_comps as" "as \<noteq> []"
    and "Path to = MkPath (path_of (ts @ [t]))" "good_comps (ts @ [t])"
  shows "db_tree (w_db (snd (filecore_move (at_ns, at) (to_ns, to) w)))"
proof (cases "filecore_move (at_ns, at) (to_ns, to) w")
  case (Pair res w')
  then show ?thesis
    using filecore_move_Inr_tree [OF assms] filecore_move_Inl assms(1) by (cases res) fastforce+
qed

end
