(* ===== verification/Users.thy ===== *)
theory Users
  imports World
begin

text \<open>
  Accounts: \<open>UserRepository\<close>, \<open>AccountRepository\<close> and \<open>BookmarkRepository\<close> under
  \<open>src/app/infrastructure/database/tortoise/repositories\<close>, \<open>UserService\<close> and \<open>BookmarkService\<close> under
  \<open>src/app/app/users/services\<close>, and \<open>src/app/toolkit/security.py\<close>.
\<close>

section \<open>UserRepository\<close>

definition user_from_db :: "user_row \<Rightarrow> User" where
  "user_from_db r = \<lparr> u_id = ur_id r, u_username = ur_username r, u_password = ur_password r,
     u_email = ur_email r, u_email_verified = ur_email_verified r, u_display_name = ur_display_name r,
     u_active = ur_active r, u_superuser = ur_superuser r, u_created_at = ur_created_at r,
     u_last_login_at = ur_last_login_at r \<rparr>"

definition user_exists_with_email :: "string \<Rightarrow> bool repo" where
  "user_exists_with_email email = gets (\<lambda>d. \<exists>r \<in> set (d_users d). ur_email r = Some email)"

text \<open>\<open>get(**fields)\<close> at the three fields its callers give.\<close>

definition user_get :: "(user_row \<Rightarrow> bool) \<Rightarrow> User repo" where
  "user_get P = query (\<lambda>d. map_sum id user_from_db (or_missing (UserErr UserNotFound) (q_get P (d_users d))))"

definition user_get_by_id :: "uuid \<Rightarrow> User repo" where
  "user_get_by_id user_id = user_get (\<lambda>r. ur_id r = user_id)"

definition user_get_by_username :: "string \<Rightarrow> User repo" where
  "user_get_by_username username = user_get (\<lambda>r. ur_username r = username)"

definition user_get_by_email :: "string \<Rightarrow> User repo" where
  "user_get_by_email email = user_get (\<lambda>r. ur_email r = Some email)"

definition user_save :: "User \<Rightarrow> User repo" where
  "user_save user =
     bnd (try_else (insert_user \<lparr> ur_id = 0, ur_username = u_username user, ur_password = u_password user,
            ur_email = u_email user, ur_email_verified = u_email_verified user,
            ur_display_name = u_display_name user, ur_created_at = u_created_at user,
            ur_last_login_at = u_last_login_at user, ur_active = u_active user,
            ur_superuser = u_superuser user \<rparr>)
          (\<lambda>e. raise (if e = IntegrityError then UserErr UserAlreadyExists else e)))
       (\<lambda>id. ret (user\<lparr>u_id := id\<rparr>))"

record UserUpdate =
  uu_email :: "string option"
  uu_email_verified :: "bool option"
  uu_last_login_at :: "datetime option"

definition apply_user_update :: "UserUpdate \<Rightarrow> user_row \<Rightarrow> user_row" where
  "apply_user_update u r =
     r\<lparr>ur_email := (case uu_email u of None \<Rightarrow> ur_email r | Some e \<Rightarrow> Some e),
       ur_email_verified := (case uu_email_verified u of None \<Rightarrow> ur_email_verified r | Some b \<Rightarrow> b),
       ur_last_login_at := (case uu_last_login_at u of None \<Rightarrow> ur_last_login_at r | Some t \<Rightarrow> Some t)\<rparr>"

text \<open>An \<open>UPDATE\<close> that breaks the uniqueness of the emails raises \<open>IntegrityError\<close>; nothing catches it.\<close>

definition update_users :: "(user_row \<Rightarrow> bool) \<Rightarrow> (user_row \<Rightarrow> user_row) \<Rightarrow> unit repo" where
  "update_users P f = (\<lambda>d.
     let us = q_update P f (d_users d);
         emails = filter (\<lambda>e. e \<noteq> None) (map ur_email us)
     in if distinct emails then (Inr (), d\<lparr>d_users := us\<rparr>) else (Inl IntegrityError, d))"

definition user_update :: "uuid \<Rightarrow> UserUpdate \<Rightarrow> User repo" where
  "user_update user_id u =
     andthen (guard (\<not> (uu_email u = None \<and> uu_email_verified u = None \<and> uu_last_login_at u = None))
                (PyErr AssertionError))
     (andthen (update_users (\<lambda>r. ur_id r = user_id) (apply_user_update u))
       (query (\<lambda>d. map_sum id user_from_db (or_query_err (q_get (\<lambda>r. ur_id r = user_id) (d_users d))))))"

section \<open>AccountRepository and BookmarkRepository\<close>

definition account_from_db :: "account_row \<Rightarrow> Account" where
  "account_from_db r = \<lparr> ac_id = ar_id r, ac_user_id = ar_user r, ac_storage_quota = ar_storage_quota r \<rparr>"

definition account_get_by_user_id :: "uuid \<Rightarrow> Account repo" where
  "account_get_by_user_id user_id =
     query (\<lambda>d. map_sum id account_from_db
       (or_missing (UserErr UserNotFound) (q_get (\<lambda>r. ar_user r = user_id) (d_accounts d))))"

definition account_save :: "Account \<Rightarrow> Account repo" where
  "account_save account =
     bnd (insert_account \<lparr> ar_id = 0, ar_user = ac_user_id account, ar_storage_quota = ac_storage_quota account \<rparr>)
       (\<lambda>id. ret (account\<lparr>ac_id := id\<rparr>))"

definition bookmark_delete_batch :: "uuid \<Rightarrow> uuid list \<Rightarrow> unit repo" where
  "bookmark_delete_batch user_id file_ids =
     modify (\<lambda>d. d\<lparr>d_bookmarks := q_delete (\<lambda>r. kr_user r = user_id \<and> kr_file r \<in> set file_ids) (d_bookmarks d)\<rparr>)"

definition bookmark_list_all :: "uuid \<Rightarrow> Bookmark list repo" where
  "bookmark_list_all user_id =
     gets (\<lambda>d. map (\<lambda>r. \<lparr> bk_user_id = user_id, bk_file_id = kr_file r \<rparr>)
       (sort_key kr_id (filter (\<lambda>r. kr_user r = user_id) (d_bookmarks d))))"

definition bookmark_save_batch :: "Bookmark list \<Rightarrow> Bookmark list repo" where
  "bookmark_save_batch bookmarks =
     andthen (bulk_insert_bookmarks
                (map (\<lambda>b. \<lparr> kr_id = 0, kr_user = bk_user_id b, kr_file = bk_file_id b \<rparr>) bookmarks))
       (ret bookmarks)"

section \<open>security.py\<close>

text \<open>\<open>str.isdigit\<close> also holds of the three superscript digits of Latin-1.\<close>

definition is_strong_password :: "string \<Rightarrow> bool" where
  "is_strong_password password \<longleftrightarrow>
     length password \<ge> 8
     \<and> (\<exists>c \<in> set password. let n = of_char c :: nat in 48 \<le> n \<and> n \<le> 57 \<or> n \<in> {178, 179, 185})
     \<and> (\<exists>c \<in> set password. 65 \<le> (of_char c :: nat) \<and> (of_char c :: nat) \<le> 90)
     \<and> (\<exists>c \<in> set password. 97 \<le> (of_char c :: nat) \<and> (of_char c :: nat) \<le> 122)"

text \<open>\<open>secrets.choice(string.digits)\<close>, \<open>n\<close> times.\<close>

fun make_otp_code :: "ext \<Rightarrow> nat \<Rightarrow> ('b, string) app" where
  "make_otp_code x 0 = ret []"
| "make_otp_code x (Suc n) =
     bnd (draw x) (\<lambda>r. bnd (make_otp_code x n) (\<lambda>cs. ret (char_of (48 + r mod 10) # cs)))"

text \<open>\<open>secrets.compare_digest\<close> on two strings accepts ASCII only.\<close>

definition is_ascii :: "string \<Rightarrow> bool" where
  "is_ascii s \<longleftrightarrow> (\<forall>c \<in> set s. (of_char c :: nat) < 128)"

definition compare_digest_str :: "string \<Rightarrow> string \<Rightarrow> exn + bool" where
  "compare_digest_str a b = (if is_ascii a \<and> is_ascii b then Inr (a = b) else Inl (PyErr TypeError))"

section \<open>UserService\<close>

definition verify_email_key :: "uuid \<Rightarrow> string" where
  "verify_email_key user_id = ''otp:verify_email:'' @ uuid_str user_id"

definition email_update_email_key :: "uuid \<Rightarrow> string" where
  "email_update_email_key user_id = ''email_update:'' @ uuid_str user_id @ '':email''"

definition email_update_code_key :: "uuid \<Rightarrow> string" where
  "email_update_code_key user_id = ''email_update:'' @ uuid_str user_id @ '':code''"

definition cached_str :: "cache_value option \<Rightarrow> string" where
  "cached_str v = (case v of Some (CVStr s) \<Rightarrow> s | _ \<Rightarrow> [])"

definition send_email_verification_code :: "string \<Rightarrow> string \<Rightarrow> string \<Rightarrow> ('b, unit) app" where
  "send_email_verification_code display_name email code =
     modify (\<lambda>w. w\<lparr>w_mail := w_mail w @ [\<lparr> ml_display_name = display_name, ml_to = email, ml_code = code \<rparr>]\<rparr>)"

definition user_change_email_complete :: "'b env \<Rightarrow> uuid \<Rightarrow> string \<Rightarrow> ('b, bool) app" where
  "user_change_email_complete E user_id code =
     bnd (in_cache (\<lambda>t. ic_get (e_cache E) t (email_update_email_key user_id))) (\<lambda>email.
     bnd (in_cache (\<lambda>t. ic_get (e_cache E) t (email_update_code_key user_id))) (\<lambda>expected.
     andthen (guard (cached_str email \<noteq> []) (UserServiceErr EmailUpdateNotStarted))
       (if cached_str expected = [] then ret False
        else bnd (of_result (compare_digest_str code (cached_str expected))) (\<lambda>verified.
          if verified
          then bnd (in_db (user_update user_id
                 \<lparr> uu_email = Some (cached_str email), uu_email_verified = Some True, uu_last_login_at = None \<rparr>))
                 (\<lambda>_. ret True)
          else ret False))))"

definition user_change_email_resend_code :: "'b env \<Rightarrow> uuid \<Rightarrow> ('b, unit) app" where
  "user_change_email_resend_code E user_id =
     bnd (in_cache (\<lambda>t. ic_get (e_cache E) t (email_update_email_key user_id))) (\<lambda>email.
     andthen (guard (cached_str email \<noteq> []) (UserServiceErr EmailUpdateNotStarted))
     (bnd (make_otp_code (e_ext E) 6) (\<lambda>code.
      bnd (in_cache (\<lambda>t. ic_set (e_cache E) t (email_update_code_key user_id) (CVStr code) (Some 120) (Some False)))
       (\<lambda>done.
      andthen (guard done (UserServiceErr OTPCodeAlreadySent))
      (bnd (in_db (user_get_by_id user_id)) (\<lambda>user.
       schedule (Task_send_code (u_display_name user) (cached_str email) code)))))))"

definition user_change_email_start :: "'b env \<Rightarrow> uuid \<Rightarrow> string \<Rightarrow> ('b, unit) app" where
  "user_change_email_start E user_id email =
     bnd (in_db (user_exists_with_email email)) (\<lambda>taken.
     andthen (guard (\<not> taken) (UserErr UserAlreadyExists))
     (bnd (in_cache (\<lambda>t. ic_set (e_cache E) t (email_update_email_key user_id) (CVStr email) (Some 600) (Some False)))
       (\<lambda>done.
      andthen (guard done (UserServiceErr EmailUpdateAlreadyStarted))
        (user_change_email_resend_code E user_id))))"

definition user_service_create ::
  "'b env \<Rightarrow> string \<Rightarrow> string \<Rightarrow> string option \<Rightarrow> string \<Rightarrow> bool \<Rightarrow> int option \<Rightarrow> ('b, User) app" where
  "user_service_create E username password email display_name superuser storage_quota =
     atomic
       (bnd now (\<lambda>t.
        bnd (in_db (user_save \<lparr> u_id = SENTINEL_ID, u_username = casefold username,
               u_password = x_make_password (e_ext E) password, u_email = email, u_email_verified = False,
               u_display_name = display_name, u_active = True, u_superuser = superuser,
               u_created_at = t, u_last_login_at = None \<rparr>)) (\<lambda>user.
        bnd (in_db (account_save \<lparr> ac_id = SENTINEL_ID, ac_user_id = u_id user,
               ac_storage_quota = storage_quota \<rparr>)) (\<lambda>_.
        ret user))))"

definition user_get_account :: "uuid \<Rightarrow> ('b, Account) app" where
  "user_get_account user_id = in_db (account_get_by_user_id user_id)"

definition user_service_get_by_id :: "uuid \<Rightarrow> ('b, User) app" where
  "user_service_get_by_id user_id = in_db (user_get_by_id user_id)"

definition user_service_get_by_username :: "string \<Rightarrow> ('b, User) app" where
  "user_service_get_by_username username = in_db (user_get_by_username (strip (casefold username)))"

definition user_signin :: "'b env \<Rightarrow> string \<Rightarrow> string \<Rightarrow> ('b, User) app" where
  "user_signin E email_or_username password =
     (let login = strip (casefold email_or_username) in
      bnd (in_db (if x_valid_email (e_ext E) login then user_get_by_email login
                  else user_get_by_username login)) (\<lambda>user.
      andthen (guard (x_check_password (e_ext E) password (u_password user)) (UserErr InvalidCredentials))
      (bnd now (\<lambda>t.
       bnd (in_db (user_update (u_id user)
              \<lparr> uu_email = None, uu_email_verified = None, uu_last_login_at = Some t \<rparr>)) (\<lambda>_.
       ret user)))))"

definition user_verify_email_send_code :: "'b env \<Rightarrow> uuid \<Rightarrow> ('b, unit) app" where
  "user_verify_email_send_code E user_id =
     bnd (in_db (user_get_by_id user_id)) (\<lambda>user.
     case u_email user of None \<Rightarrow> raise (UserErr UserEmailIsMissing)
     | Some email \<Rightarrow>
       andthen (guard (email \<noteq> []) (UserErr UserEmailIsMissing))
       (andthen (guard (\<not> u_email_verified user) (UserErr UserEmailAlreadyVerified))
       (bnd (make_otp_code (e_ext E) 6) (\<lambda>code.
        bnd (in_cache (\<lambda>t. ic_set (e_cache E) t (verify_email_key user_id) (CVStr code) (Some 120) (Some False)))
         (\<lambda>done.
        andthen (guard done (UserServiceErr OTPCodeAlreadySent))
          (schedule (Task_send_code (u_display_name user) email code)))))))"

definition user_verify_email_complete :: "'b env \<Rightarrow> uuid \<Rightarrow> string \<Rightarrow> ('b, bool) app" where
  "user_verify_email_complete E user_id code =
     bnd (in_cache (\<lambda>t. ic_get (e_cache E) t (verify_email_key user_id))) (\<lambda>expected.
       if cached_str expected = [] then ret False
       else if code = cached_str expected
       then bnd (in_db (user_update user_id
              \<lparr> uu_email = None, uu_email_verified = Some True, uu_last_login_at = None \<rparr>)) (\<lambda>_. ret True)
       else ret False)"

section \<open>BookmarkService\<close>

definition bookmark_add_batch :: "uuid \<Rightarrow> uuid list \<Rightarrow> ('b, unit) app" where
  "bookmark_add_batch user_id file_ids =
     bnd (in_db (bookmark_save_batch
            (map (\<lambda>f. \<lparr> bk_user_id = user_id, bk_file_id = f \<rparr>) file_ids))) (\<lambda>_. ret ())"

definition bookmark_list_bookmarks :: "uuid \<Rightarrow> ('b, Bookmark list) app" where
  "bookmark_list_bookmarks user_id = in_db (bookmark_list_all user_id)"

definition bookmark_remove_batch :: "uuid \<Rightarrow> uuid list \<Rightarrow> ('b, unit) app" where
  "bookmark_remove_batch user_id file_ids = in_db (bookmark_delete_batch user_id file_ids)"

end
