(* ===== verification/Auth.thy ===== *)
theory Auth
  imports Users
begin

text \<open>
  Sessions and the audit trail: \<open>src/app/app/auth\<close> (the tokens of \<open>domain/tokens.py\<close> and
  \<open>TokenService\<close>, whose repository is the cache) and \<open>src/app/app/audit\<close> with its repository.
\<close>

section \<open>Random tokens\<close>

text \<open>\<open>uuid.uuid4().hex\<close> and \<open>secrets.token_hex(16)\<close>: 32 hexadecimal digits of one draw;
  \<open>secrets.token_urlsafe(16)\<close>: 16 bytes in 22 characters of the URL-safe base 64.\<close>

definition token_hex :: "ext \<Rightarrow> ('b, string) app" where
  "token_hex x = bnd (draw x) (\<lambda>r. ret (hex_string 32 r))"

definition base64_char :: "nat \<Rightarrow> char" where
  "base64_char n = (if n < 26 then char_of (65 + n) else if n < 52 then char_of (71 + n)
     else if n < 62 then char_of (n - 4) else if n = 62 then CHR 0x2D else CHR 0x5F)"

fun base64_string :: "nat \<Rightarrow> nat \<Rightarrow> string" where
  "base64_string 0 n = []"
| "base64_string (Suc k) n = base64_string k (n div 64) @ [base64_char (n mod 64)]"

definition token_urlsafe :: "ext \<Rightarrow> nat \<Rightarrow> ('b, string) app" where
  "token_urlsafe x nbytes =
     (let chars = (nbytes * 8 + 5) div 6 in
      bnd (draw x) (\<lambda>r. ret (base64_string chars (r mod 2 ^ (nbytes * 8) * 2 ^ (chars * 6 - nbytes * 8)))))"

section \<open>Tokens\<close>

record AccessToken =
  tk_sub :: string
  tk_exp :: datetime

record RefreshToken =
  rt_sub :: string
  rt_exp :: datetime
  rt_family_id :: string
  rt_token_id :: string

text \<open>A \<open>datetime\<close> claim becomes a whole number of seconds.\<close>

definition claim_of_datetime :: "datetime \<Rightarrow> claim" where
  "claim_of_datetime t = JInt (t div 1000000)"

definition claim_str :: "(string \<times> claim) list \<Rightarrow> string \<Rightarrow> string option" where
  "claim_str p k = (case map_of p k of Some (JStr s) \<Rightarrow> Some s | _ \<Rightarrow> None)"

definition claim_time :: "ext \<Rightarrow> (string \<times> claim) list \<Rightarrow> string \<Rightarrow> datetime option" where
  "claim_time x p k = (case map_of p k of Some c \<Rightarrow> x_claim_datetime x c | None \<Rightarrow> None)"

definition access_encode :: "ext \<Rightarrow> AccessToken \<Rightarrow> string" where
  "access_encode x t = x_jwt_encode x [(''sub'', JStr (tk_sub t)), (''exp'', claim_of_datetime (tk_exp t))]"

text \<open>A payload that lacks a field or has one of the wrong type is a \<open>ValidationError\<close>.\<close>

definition access_decode :: "ext \<Rightarrow> string \<Rightarrow> ('b, AccessToken) app" where
  "access_decode x token = bnd now (\<lambda>t. of_result (
     case x_jwt_decode x t token of None \<Rightarrow> Inl (TokenErr InvalidToken)
     | Some p \<Rightarrow> (case (claim_str p ''sub'', claim_time x p ''exp'') of
           (Some s, Some e) \<Rightarrow> Inr \<lparr> tk_sub = s, tk_exp = e \<rparr>
         | _ \<Rightarrow> Inl (TokenErr InvalidToken))))"

definition access_build :: "'b env \<Rightarrow> string \<Rightarrow> ('b, AccessToken) app" where
  "access_build E user_id = bnd now (\<lambda>t.
     ret \<lparr> tk_sub = user_id, tk_exp = t + cfg_access_token_ttl (e_features E) \<rparr>)"

definition refresh_encode :: "ext \<Rightarrow> RefreshToken \<Rightarrow> string" where
  "refresh_encode x t = x_jwt_encode x [(''sub'', JStr (rt_sub t)), (''exp'', claim_of_datetime (rt_exp t)),
     (''family_id'', JStr (rt_family_id t)), (''token_id'', JStr (rt_token_id t))]"

definition refresh_decode :: "ext \<Rightarrow> string \<Rightarrow> ('b, RefreshToken) app" where
  "refresh_decode x token = bnd now (\<lambda>t. of_result (
     case x_jwt_decode x t token of None \<Rightarrow> Inl (TokenErr InvalidToken)
     | Some p \<Rightarrow> (case (claim_str p ''sub'', claim_time x p ''exp'', claim_str p ''family_id'', claim_str p ''token_id'') of
           (Some s, Some e, Some f, Some i) \<Rightarrow>
             Inr \<lparr> rt_sub = s, rt_exp = e, rt_family_id = f, rt_token_id = i \<rparr>
         | _ \<Rightarrow> Inl (TokenErr InvalidToken))))"

definition refresh_build :: "'b env \<Rightarrow> string \<Rightarrow> ('b, RefreshToken) app" where
  "refresh_build E user_id =
     bnd now (\<lambda>t. bnd (token_hex (e_ext E)) (\<lambda>family. bnd (token_hex (e_ext E)) (\<lambda>token_id.
       ret \<lparr> rt_sub = user_id, rt_exp = t + cfg_refresh_token_ttl (e_features E),
             rt_family_id = family, rt_token_id = token_id \<rparr>)))"

definition refresh_rotate :: "ext \<Rightarrow> RefreshToken \<Rightarrow> ('b, RefreshToken) app" where
  "refresh_rotate x t = bnd (token_hex x) (\<lambda>token_id. ret (t\<lparr>rt_token_id := token_id\<rparr>))"

section \<open>TokenService\<close>

record Tokens =
  tok_access :: string
  tok_refresh :: string

definition token_create :: "'b env \<Rightarrow> string \<Rightarrow> ('b, Tokens) app" where
  "token_create E user_id =
     bnd (access_build E user_id) (\<lambda>access_token.
     bnd (refresh_build E user_id) (\<lambda>refresh_token.
     bnd (in_cache (\<lambda>t. ic_set (e_cache E) t (rt_family_id refresh_token)
            (CVStr (rt_token_id refresh_token)) None None)) (\<lambda>_.
     ret \<lparr> tok_access = access_encode (e_ext E) access_token,
           tok_refresh = refresh_encode (e_ext E) refresh_token \<rparr>)))"

definition token_rotate :: "'b env \<Rightarrow> string \<Rightarrow> ('b, Tokens) app" where
  "token_rotate E encoded_refresh_token =
     bnd (refresh_decode (e_ext E) encoded_refresh_token) (\<lambda>refresh_token.
     bnd (access_build E (rt_sub refresh_token)) (\<lambda>access_token.
     bnd (in_cache (\<lambda>t. ic_get (e_cache E) t (rt_family_id refresh_token))) (\<lambda>stored.
     case stored of
       None \<Rightarrow> raise (TokenErr InvalidToken)
     | Some token_id \<Rightarrow>
         if token_id \<noteq> CVStr (rt_token_id refresh_token)
         then bnd (in_cache (\<lambda>t. ic_delete (e_cache E) t (rt_family_id refresh_token))) (\<lambda>_.
              raise (TokenErr ReusedToken))
         else bnd (refresh_rotate (e_ext E) refresh_token) (\<lambda>rotated.
              bnd (in_cache (\<lambda>t. ic_set (e_cache E) t (rt_family_id rotated)
                     (CVStr (rt_token_id rotated)) None None)) (\<lambda>_.
              ret \<lparr> tok_access = access_encode (e_ext E) access_token,
                    tok_refresh = refresh_encode (e_ext E) rotated \<rparr>)))))"

section \<open>AuditTrailRepository and AuditTrailService\<close>

definition audit_action_get_or_create :: "AuditTrailAction \<Rightarrow> uuid repo" where
  "audit_action_get_or_create a = (\<lambda>d.
     case q_get (\<lambda>r. aar_name r = a) (d_actions d) of
       Inr r \<Rightarrow> (Inr (aar_id r), d)
     | Inl DoesNotExist \<Rightarrow> insert_action a d
     | Inl e \<Rightarrow> (Inl (QueryErr e), d))"

definition audit_trail_save :: "AuditTrail \<Rightarrow> AuditTrail repo" where
  "audit_trail_save trail =
     bnd (audit_action_get_or_create (at_action trail)) (\<lambda>action.
     bnd (insert_trail \<lparr> atr_id = 0, atr_created_at = at_created_at trail, atr_action = action,
            atr_user = map_option au_id (at_user trail) \<rparr>) (\<lambda>id.
     andthen (case at_asset trail of None \<Rightarrow> ret ()
              | Some asset \<Rightarrow> insert_asset \<lparr> asr_trail = id, asr_file = af_id asset \<rparr>)
       (ret (trail\<lparr>at_id := id\<rparr>))))"

text \<open>\<open>current_user_ctx.get()\<close> raises \<open>LookupError\<close> outside a context.\<close>

definition current_user_ctx :: "('b, CurrentUser) app" where
  "current_user_ctx = (\<lambda>w. (case w_user w of None \<Rightarrow> Inl (PyErr LookupError) | Some u \<Rightarrow> Inr u, w))"

definition track_file_action :: "AuditTrailAction \<Rightarrow> File \<Rightarrow> ('b, unit) app" where
  "track_file_action action f =
     bnd current_user_ctx (\<lambda>user. bnd now (\<lambda>t.
     bnd (in_db (audit_trail_save \<lparr> at_id = SENTINEL_ID, at_action = action,
            at_user = Some \<lparr> au_id = cu_id user, au_username = cu_username user \<rparr>,
            at_asset = Some \<lparr> af_id = f_id f, af_name = f_name f, af_path = path_str (f_path f) \<rparr>,
            at_created_at = t \<rparr>)) (\<lambda>_. ret ())))"

definition track_user_action :: "AuditTrailAction \<Rightarrow> ('b, unit) app" where
  "track_user_action action =
     bnd current_user_ctx (\<lambda>user. bnd now (\<lambda>t.
     bnd (in_db (audit_trail_save \<lparr> at_id = SENTINEL_ID, at_action = action,
            at_user = Some \<lparr> au_id = cu_id user, au_username = cu_username user \<rparr>,
            at_asset = None, at_created_at = t \<rparr>)) (\<lambda>_. ret ())))"

definition audit_user_signed_in :: "User \<Rightarrow> ('b, unit) app" where
  "audit_user_signed_in user = bnd now (\<lambda>t.
     bnd (in_db (audit_trail_save \<lparr> at_id = SENTINEL_ID, at_action = Act_user_signed_in,
            at_user = Some \<lparr> au_id = u_id user, au_username = u_username user \<rparr>,
            at_asset = None, at_created_at = t \<rparr>)) (\<lambda>_. ret ()))"

section \<open>Background tasks\<close>

text \<open>A scheduled coroutine runs in the context of its caller, after the caller; its exception is
  dropped.\<close>

definition run_task :: "background_task \<Rightarrow> ('b, unit) app" where
  "run_task t = (case t of
     Task_file_action action f \<Rightarrow> track_file_action action f
   | Task_user_action action \<Rightarrow> track_user_action action
   | Task_user_signed_in user \<Rightarrow> audit_user_signed_in user
   | Task_send_code display_name email code \<Rightarrow> send_email_verification_code display_name email code)"

definition run_background :: "CurrentUser option \<times> background_task \<Rightarrow> ('b, unit) app" where
  "run_background ct = (\<lambda>w.
     case attempt (run_task (snd ct)) (w\<lparr>w_user := fst ct\<rparr>) of (_, w') \<Rightarrow> (Inr (), w'\<lparr>w_user := w_user w\<rparr>))"

definition run_background_tasks :: "('b, unit) app" where
  "run_background_tasks = (\<lambda>w. for_each (w_tasks w) run_background (w\<lparr>w_tasks := []\<rparr>))"

end
