(* ===== verification/FileServices.thy ===== *)
theory FileServices
  imports FileMove Auth
begin

text \<open>
  \<open>FileService\<close>, \<open>NamespaceService\<close> and \<open>SharingService\<close> (\<open>src/app/app/files/services\<close>), and the use
  cases on files: \<open>NamespaceUseCase\<close> and \<open>SharingUseCase\<close> (\<open>src/app/app/files/usecases\<close>).
\<close>

section \<open>FileService\<close>

definition file_service_create_file ::
  "'b env \<Rightarrow> string \<Rightarrow> string \<Rightarrow> BlobContent \<Rightarrow> datetime option \<Rightarrow> ('b, File) app" where
  "file_service_create_file E ns_path path content modified_at =
     bnd (filecore_get_available_path (e_ext E) ns_path path) (\<lambda>p.
       filecore_create_file E ns_path (path_str p) content modified_at)"

text \<open>A download hands out a stream, here the storage key it will read; the content is read when the
  response is sent.\<close>

definition file_service_download :: "string \<Rightarrow> string \<Rightarrow> ('b, File \<times> string) app" where
  "file_service_download ns_path path =
     bnd (filecore_get_by_path ns_path path) (\<lambda>f.
     bnd (filecore_download (f_id f)) (\<lambda>(_, content). ret (f, content)))"

definition read_stream :: "'b env \<Rightarrow> ('b, File \<times> string) app \<Rightarrow> ('b, File \<times> bytes) app" where
  "read_stream E m = bnd m (\<lambda>(f, key). bnd (blob_service_download E key) (\<lambda>content. ret (f, content)))"

definition file_service_get_by_id :: "string \<Rightarrow> uuid \<Rightarrow> ('b, File) app" where
  "file_service_get_by_id ns_path file_id =
     bnd (filecore_get_by_id file_id) (\<lambda>f.
     andthen (guard (f_ns_path f = ns_path) (FileErr FileNotFound)) (ret f))"

definition file_service_get_by_id_batch :: "string \<Rightarrow> uuid list \<Rightarrow> ('b, File list) app" where
  "file_service_get_by_id_batch ns_path ids =
     bnd (filecore_get_by_id_batch ids) (\<lambda>fs. ret (filter (\<lambda>f. f_ns_path f = ns_path) fs))"

definition file_service_move :: "string \<Rightarrow> string \<Rightarrow> string \<Rightarrow> ('b, File) app" where
  "file_service_move ns_path at_path to_path = filecore_move (ns_path, at_path) (ns_path, to_path)"

section \<open>NamespaceService and SharingService\<close>

definition namespace_create :: "string \<Rightarrow> uuid \<Rightarrow> ('b, Namespace) app" where
  "namespace_create path owner_id =
     bnd (in_db (namespace_save \<lparr> nsp_id = SENTINEL_ID, nsp_path = path, nsp_owner_id = owner_id \<rparr>)) (\<lambda>namespace.
     bnd (filecore_create_folder (nsp_path namespace) ''.'') (\<lambda>_.
     bnd (filecore_create_folder (nsp_path namespace) ''Trash'') (\<lambda>_.
     ret namespace)))"

definition sharing_create_link :: "'b env \<Rightarrow> uuid \<Rightarrow> ('b, SharedLink) app" where
  "sharing_create_link E file_id =
     bnd (token_urlsafe (e_ext E) 16) (\<lambda>token. bnd now (\<lambda>t.
     in_db (shared_link_save \<lparr> sl_id = SENTINEL_ID, sl_file_id = file_id, sl_token = token,
              sl_created_at = t \<rparr>)))"

definition sharing_get_link_by_file_id :: "uuid \<Rightarrow> ('b, SharedLink) app" where
  "sharing_get_link_by_file_id file_id = in_db (shared_link_get_by_file_id file_id)"

definition sharing_get_link_by_token :: "string \<Rightarrow> ('b, SharedLink) app" where
  "sharing_get_link_by_token token = in_db (shared_link_get_by_token token)"

definition sharing_list_links_by_ns :: "string \<Rightarrow> nat \<Rightarrow> nat \<Rightarrow> ('b, SharedLink list) app" where
  "sharing_list_links_by_ns ns_path off lim = in_db (shared_link_list_by_ns ns_path off lim)"

definition sharing_revoke_link :: "string \<Rightarrow> ('b, unit) app" where
  "sharing_revoke_link token = in_db (shared_link_delete token)"

section \<open>NamespaceUseCase\<close>

definition special_path :: "string \<Rightarrow> bool" where
  "special_path path \<longleftrightarrow> path_eq (Path path) (Path ''.'') \<or> path_eq (Path path) (Path ''Trash'')"

definition ns_add_file ::
  "'b env \<Rightarrow> string \<Rightarrow> string \<Rightarrow> BlobContent \<Rightarrow> datetime option \<Rightarrow> ('b, File) app" where
  "ns_add_file E ns_path path content modified_at =
     (let p = Path path in
      andthen (guard (\<not> is_relative_to p ''trash'') (FileErr MalformedPath))
      (andthen (guard (c_size content \<le> cfg_upload_max_size (e_features E)) (FileErr FileTooLarge))
      (bnd (in_db (namespace_get_by_path ns_path)) (\<lambda>ns.
       bnd (user_get_account (nsp_owner_id ns)) (\<lambda>account.
       andthen
         (case ac_storage_quota account of None \<Rightarrow> ret ()
          | Some quota \<Rightarrow>
              bnd (in_db (namespace_get_space_used_by_owner_id (nsp_owner_id ns))) (\<lambda>used.
                guard (used + c_size content \<le> quota) (UserErr StorageQuotaExceeded)))
       (bnd (file_service_create_file E ns_path (path_str p) content modified_at) (\<lambda>f.
        case f_blob_id f of None \<Rightarrow> raise (PyErr AssertionError)
        | Some b \<Rightarrow>
            andthen (content_process_async b)
            (andthen (schedule (Task_file_action Act_file_added f)) (ret f)))))))))"

definition ns_create_folder :: "string \<Rightarrow> string \<Rightarrow> ('b, File) app" where
  "ns_create_folder ns_path path =
     andthen (guard (\<not> special_path path) (PyErr AssertionError))
     (bnd (filecore_create_folder ns_path path) (\<lambda>folder.
      andthen (schedule (Task_file_action Act_folder_created folder)) (ret folder)))"

definition ns_delete_item :: "string \<Rightarrow> string \<Rightarrow> ('b, File) app" where
  "ns_delete_item ns_path path =
     andthen (guard (\<not> special_path path) (PyErr AssertionError)) (filecore_delete ns_path path)"

definition ns_download_by_id :: "uuid \<Rightarrow> ('b, string) app" where
  "ns_download_by_id file_id = bnd (filecore_download file_id) (\<lambda>(_, chunks). ret chunks)"

definition ns_empty_trash :: "string \<Rightarrow> ('b, unit) app" where
  "ns_empty_trash ns_path =
     andthen (filecore_empty_folder ns_path ''trash'') (schedule (Task_user_action Act_trash_emptied))"

definition ns_get_file_metadata :: "string \<Rightarrow> uuid \<Rightarrow> ('b, BlobMetadata) app" where
  "ns_get_file_metadata ns_path file_id =
     bnd (file_service_get_by_id ns_path file_id) (\<lambda>f.
     case f_blob_id f of None \<Rightarrow> raise (PyErr AssertionError)
     | Some b \<Rightarrow> blob_metadata_service_get_by_blob_id b)"

definition ns_get_file_thumbnail :: "'b env \<Rightarrow> string \<Rightarrow> uuid \<Rightarrow> int \<Rightarrow> ('b, File \<times> bytes \<times> string) app" where
  "ns_get_file_thumbnail E ns_path file_id sz =
     bnd (file_service_get_by_id ns_path file_id) (\<lambda>f.
     case f_blob_id f of None \<Rightarrow> raise (PyErr AssertionError)
     | Some b \<Rightarrow> bnd (thumbnailer_thumbnail E b (f_chash f) sz) (\<lambda>thumb. ret (f, thumb)))"

definition ns_list_folder :: "ext \<Rightarrow> string \<Rightarrow> string \<Rightarrow> ('b, File list) app" where
  "ns_list_folder x ns_path path =
     bnd (filecore_list_folder x ns_path path) (\<lambda>files.
       if path = ''.''
       then ret (filter (\<lambda>f. \<not> (path_eq (f_path f) (Path ''.'') \<or> path_eq (f_path f) (Path ''trash''))) files)
       else ret files)"

definition ns_move_item :: "string \<Rightarrow> string \<Rightarrow> string \<Rightarrow> ('b, File) app" where
  "ns_move_item ns_path path next_path =
     andthen (guard (\<not> special_path path) (PyErr AssertionError))
     (bnd (file_service_move ns_path path next_path) (\<lambda>f.
      andthen (schedule (Task_file_action Act_file_moved f)) (ret f)))"

definition trash_path :: "string \<Rightarrow> path" where
  "trash_path path = path_div (Path ''Trash'') (path_name (Path path))"

definition ns_move_item_to_trash :: "ext \<Rightarrow> string \<Rightarrow> string \<Rightarrow> ('b, File) app" where
  "ns_move_item_to_trash x ns_path path =
     (let next_path = trash_path path in
      bnd (filecore_exists_at_path ns_path (path_str next_path)) (\<lambda>taken.
      bnd now (\<lambda>t.
      let next_path' = (if taken
            then with_stem next_path (path_stem next_path @ '' '' @ x_time_tag x t) else next_path) in
      bnd (file_service_move ns_path path (path_str next_path')) (\<lambda>f.
      andthen (schedule (Task_file_action Act_file_trashed f)) (ret f)))))"

section \<open>SharingUseCase\<close>

definition share_create_link :: "'b env \<Rightarrow> string \<Rightarrow> uuid \<Rightarrow> ('b, SharedLink) app" where
  "share_create_link E ns_path file_id =
     andthen
       (if cfg_shared_links_enabled (e_features E) then ret ()
        else bnd (user_service_get_by_username ns_path) (\<lambda>user.
               guard (u_superuser user) (FileErr FileActionNotAllowed)))
     (bnd (file_service_get_by_id ns_path file_id) (\<lambda>f. sharing_create_link E (f_id f)))"

definition share_get_link :: "string \<Rightarrow> uuid \<Rightarrow> ('b, SharedLink) app" where
  "share_get_link ns_path file_id =
     bnd (file_service_get_by_id ns_path file_id) (\<lambda>f. sharing_get_link_by_file_id (f_id f))"

definition share_get_link_thumbnail :: "'b env \<Rightarrow> string \<Rightarrow> int \<Rightarrow> ('b, File \<times> bytes \<times> string) app" where
  "share_get_link_thumbnail E token sz =
     bnd (sharing_get_link_by_token token) (\<lambda>link.
     bnd (filecore_get_by_id (sl_file_id link)) (\<lambda>f.
     case f_blob_id f of None \<Rightarrow> raise (PyErr AssertionError)
     | Some b \<Rightarrow> bnd (thumbnailer_thumbnail E b (f_chash f) sz) (\<lambda>thumb. ret (f, thumb))))"

definition share_get_shared_item :: "string \<Rightarrow> ('b, File) app" where
  "share_get_shared_item token =
     bnd (sharing_get_link_by_token token) (\<lambda>link. filecore_get_by_id (sl_file_id link))"

definition share_list_shared_links :: "string \<Rightarrow> ('b, SharedLink list) app" where
  "share_list_shared_links ns_path = sharing_list_links_by_ns ns_path 0 50"

definition share_revoke_link :: "string \<Rightarrow> ('b, unit) app" where
  "share_revoke_link token = sharing_revoke_link token"

end
