(* ===== verification/AuthUseCases.thy ===== *)
theory AuthUseCases
  imports FileServices
begin

text \<open>
  \<open>AuthUseCase\<close> (\<open>src/app/app/auth/usecases/auth.py\<close>) and \<open>UserUseCase\<close>
  (\<open>src/app/app/users/usecases/user.py\<close>): signing in and up, the change of email, bookmarks.
\<close>

section \<open>AuthUseCase\<close>

definition auth_signin :: "'b env \<Rightarrow> string \<Rightarrow> string \<Rightarrow> ('b, Tokens) app" where
  "auth_signin E email_or_username password =
     bnd (try_else (user_signin E email_or_username password)
            (\<lambda>e. raise (if e = UserErr UserNotFound then UserErr InvalidCredentials else e))) (\<lambda>user.
     andthen (schedule (Task_user_signed_in user))
       (token_create E (uuid_str (u_id user))))"

definition auth_signup :: "'b env \<Rightarrow> string \<Rightarrow> string \<Rightarrow> string \<Rightarrow> ('b, Tokens) app" where
  "auth_signup E email password display_name =
     atomic
       (bnd (user_service_create E email password (Some email) display_name False (cfg_quota (e_features E))) (\<lambda>user.
        bnd (namespace_create (u_username user) (u_id user)) (\<lambda>_.
        token_create E (uuid_str (u_id user)))))"

section \<open>UserUseCase\<close>

definition uc_add_bookmark_batch :: "uuid \<Rightarrow> uuid list \<Rightarrow> ('b, unit) app" where
  "uc_add_bookmark_batch user_id file_ids =
     bnd (in_db (namespace_get_by_owner_id user_id)) (\<lambda>namespace.
     bnd (file_service_get_by_id_batch (nsp_path namespace) file_ids) (\<lambda>files.
     bookmark_add_batch user_id (map f_id files)))"

definition change_email_completed_key :: "uuid \<Rightarrow> string" where
  "change_email_completed_key user_id = ''change_email:'' @ uuid_str user_id @ '':completed''"

definition uc_change_email_complete :: "'b env \<Rightarrow> uuid \<Rightarrow> string \<Rightarrow> ('b, bool) app" where
  "uc_change_email_complete E user_id code =
     bnd (user_change_email_complete E user_id code) (\<lambda>completed.
     bnd (in_cache (\<lambda>t. ic_set (e_cache E) t (change_email_completed_key user_id) (CVInt 1) (Some 21600) None)) (\<lambda>_.
     ret completed))"

definition uc_change_email_start :: "'b env \<Rightarrow> uuid \<Rightarrow> string \<Rightarrow> ('b, unit) app" where
  "uc_change_email_start E user_id email =
     bnd (in_cache (\<lambda>t. ic_exists (e_cache E) t (change_email_completed_key user_id))) (\<lambda>recent.
     andthen (guard (\<not> recent) EmailUpdateLimitReached)
       (user_change_email_start E user_id email))"

definition uc_create_superuser :: "'b env \<Rightarrow> string \<Rightarrow> string \<Rightarrow> ('b, User) app" where
  "uc_create_superuser E username password =
     atomic
       (bnd (user_service_create E username password None [] True None) (\<lambda>user.
        bnd (namespace_create (u_username user) (u_id user)) (\<lambda>_. ret user)))"

record AccountSpaceUsage =
  asu_used :: int
  asu_quota :: "int option"

definition uc_get_account_space_usage :: "uuid \<Rightarrow> ('b, AccountSpaceUsage) app" where
  "uc_get_account_space_usage user_id =
     bnd (user_get_account user_id) (\<lambda>account.
     bnd (in_db (namespace_get_space_used_by_owner_id user_id)) (\<lambda>used.
     ret \<lparr> asu_used = used, asu_quota = ac_storage_quota account \<rparr>))"

end
