(* ===== verification/PhotoRepo.thy ===== *)
theory PhotoRepo
  imports World
begin

text \<open>
  The repositories of the photos component
  (\<open>src/app/infrastructure/database/tortoise/repositories/{album,media_item,media_item_favourite}.py\<close>),
  the model \<open>Album\<close> with the slug its validator fills in (\<open>src/app/app/photos/domain/album.py\<close>) and
  \<open>src/app/contrib/slugify.py\<close>.
\<close>

section \<open>slugify\<close>

text \<open>\<open>\w\<close> and \<open>\s\<close> of a \<open>str\<close> pattern on the characters of Latin-1.\<close>

definition slug_word :: "char \<Rightarrow> bool" where
  "slug_word c \<longleftrightarrow> (let n = of_char c :: nat in
     (48 \<le> n \<and> n \<le> 57) \<or> (65 \<le> n \<and> n \<le> 90) \<or> n = 95 \<or> (97 \<le> n \<and> n \<le> 122)
     \<or> n \<in> {170, 178, 179, 181, 185, 186, 188, 189, 190} \<or> (192 \<le> n \<and> n \<noteq> 215 \<and> n \<noteq> 247))"

definition slug_space :: "char \<Rightarrow> bool" where
  "slug_space c \<longleftrightarrow> is_space c \<or> c = CHR 0x85 \<or> c = CHR 0xA0"

text \<open>\<open>re.sub(r"[-\s]+", "-", value)\<close>.\<close>

fun dash_runs :: "bool \<Rightarrow> string \<Rightarrow> string" where
  "dash_runs inside [] = []"
| "dash_runs inside (c # cs) =
     (if c = CHR 0x2D \<or> slug_space c
      then (if inside then dash_runs True cs else CHR 0x2D # dash_runs True cs)
      else c # dash_runs False cs)"

definition slugify :: "ext \<Rightarrow> string \<Rightarrow> bool \<Rightarrow> string" where
  "slugify x value allow_unicode =
     (let v = (if allow_unicode then x_nfkc x value else x_nfkd_ascii x value);
          kept = filter (\<lambda>c. slug_word c \<or> slug_space c \<or> c = CHR 0x2D) (casefold v)
      in strip_chars (\<lambda>c. c = CHR 0x2D \<or> c = CHR 0x5F) (dash_runs False kept))"

section \<open>AlbumRepository\<close>

text \<open>Building an \<open>Album\<close> with an empty slug fills the slug in from the title.\<close>

definition mk_album :: "ext \<Rightarrow> Album \<Rightarrow> Album" where
  "mk_album x a = (if al_slug a = [] then a\<lparr>al_slug := slugify x (al_title a) True\<rparr> else a)"

definition album_from_db :: "ext \<Rightarrow> album_row \<Rightarrow> Album" where
  "album_from_db x r = mk_album x \<lparr> al_id = lr_id r, al_owner_id = lr_owner r, al_title = lr_title r,
     al_slug = lr_slug r, al_cover = lr_cover r, al_items_count = lr_items_count r,
     al_created_at = lr_created_at r \<rparr>"

definition album_row_get :: "uuid \<Rightarrow> string \<Rightarrow> album_row repo" where
  "album_row_get owner_id slug =
     query (\<lambda>d. or_missing AlbumNotFound (q_get (\<lambda>r. lr_owner r = owner_id \<and> lr_slug r = slug) (d_albums d)))"

text \<open>\<open>obj.save(update_fields=...)\<close>: an \<open>UPDATE\<close> of one row, under the constraints of the table.\<close>

definition album_row_save :: "album_row \<Rightarrow> unit repo" where
  "album_row_save r = (\<lambda>d.
     let t = q_update (\<lambda>y. lr_id y = lr_id r) (\<lambda>_. r) (d_albums d)
     in if distinct (map (\<lambda>y. (lr_owner y, lr_slug y)) t)
           \<and> (case lr_cover r of None \<Rightarrow> True | Some m \<Rightarrow> has_media d m)
        then (Inr (), d\<lparr>d_albums := t\<rparr>)
        else (Inl IntegrityError, d))"

text \<open>\<open>obj.items.add(*items)\<close> inserts the pairs that are not there; \<open>obj.items.remove()\<close> without an
  item is an error.\<close>

definition album_items_add :: "uuid \<Rightarrow> uuid list \<Rightarrow> unit repo" where
  "album_items_add album ms = modify (\<lambda>d. d\<lparr>d_album_items := d_album_items d @
     map (\<lambda>m. (album, m)) (filter (\<lambda>m. (album, m) \<notin> set (d_album_items d)) ms)\<rparr>)"

definition album_items_remove :: "uuid \<Rightarrow> uuid list \<Rightarrow> unit repo" where
  "album_items_remove album ms =
     andthen (guard (ms \<noteq> []) OperationalError)
       (modify (\<lambda>d. d\<lparr>d_album_items := q_delete (\<lambda>(a, m). a = album \<and> m \<in> set ms) (d_album_items d)\<rparr>))"

definition media_ids_in :: "uuid list \<Rightarrow> uuid list repo" where
  "media_ids_in ids = gets (\<lambda>d. map ir_id (filter (\<lambda>r. ir_id r \<in> set ids) (d_media d)))"

definition album_add_items :: "ext \<Rightarrow> uuid \<Rightarrow> string \<Rightarrow> uuid list \<Rightarrow> Album repo" where
  "album_add_items x owner_id slug media_item_ids =
     bnd (album_row_get owner_id slug) (\<lambda>obj.
     bnd (media_ids_in media_item_ids) (\<lambda>items.
     andthen (album_items_add (lr_id obj) items)
     (let obj' = obj\<lparr>lr_items_count := lr_items_count obj + int (length media_item_ids)\<rparr> in
      andthen (album_row_save obj') (ret (album_from_db x obj')))))"

definition album_count_by_slug_pattern :: "ext \<Rightarrow> uuid \<Rightarrow> string \<Rightarrow> nat repo" where
  "album_count_by_slug_pattern x owner_id pattern =
     gets (\<lambda>d. length (filter (\<lambda>r. lr_owner r = owner_id \<and> x_posix_regex x pattern (lr_slug r)) (d_albums d)))"

definition album_delete :: "ext \<Rightarrow> uuid \<Rightarrow> string \<Rightarrow> Album repo" where
  "album_delete x owner_id slug =
     bnd (album_row_get owner_id slug) (\<lambda>obj.
     andthen (modify (delete_albums (\<lambda>r. lr_id r = lr_id obj))) (ret (album_from_db x obj)))"

definition album_exists_with_slug :: "uuid \<Rightarrow> string \<Rightarrow> bool repo" where
  "album_exists_with_slug owner_id slug =
     gets (\<lambda>d. \<exists>r \<in> set (d_albums d). lr_owner r = owner_id \<and> lr_slug r = slug)"

definition album_get_by_slug :: "ext \<Rightarrow> uuid \<Rightarrow> string \<Rightarrow> Album repo" where
  "album_get_by_slug x owner_id slug = bnd (album_row_get owner_id slug) (\<lambda>obj. ret (album_from_db x obj))"

definition album_list_by_owner_id :: "ext \<Rightarrow> uuid \<Rightarrow> nat \<Rightarrow> nat \<Rightarrow> Album list repo" where
  "album_list_by_owner_id x owner_id off lim =
     gets (\<lambda>d. map (album_from_db x) (page_of off lim
       (sort_key lr_title (filter (\<lambda>r. lr_owner r = owner_id) (d_albums d)))))"

text \<open>The correlated subquery: the items of the album that are not deleted, latest first.\<close>

definition cover_candidate :: "db \<Rightarrow> uuid \<Rightarrow> uuid option" where
  "cover_candidate d album =
     (case order_desc ir_modified_at (sort_key ir_id
             (filter (\<lambda>r. (album, ir_id r) \<in> set (d_album_items d) \<and> ir_deleted_at r = None) (d_media d))) of
        [] \<Rightarrow> None | r # _ \<Rightarrow> Some (ir_id r))"

definition album_list_cover_candidates :: "uuid list \<Rightarrow> (uuid \<times> uuid) list repo" where
  "album_list_cover_candidates album_ids =
     gets (\<lambda>d. List.map_filter (\<lambda>r. map_option (Pair (lr_id r)) (cover_candidate d (lr_id r)))
       (sort_key lr_id (filter (\<lambda>r. lr_id r \<in> set album_ids) (d_albums d))))"

definition album_list_ids_by_cover_ids :: "uuid \<Rightarrow> uuid list \<Rightarrow> uuid list repo" where
  "album_list_ids_by_cover_ids owner_id cover_ids =
     gets (\<lambda>d. map lr_id (filter (\<lambda>r. lr_owner r = owner_id \<and> (\<exists>c \<in> set cover_ids. lr_cover r = Some c))
       (d_albums d)))"

section \<open>MediaItemRepository\<close>

definition taken_at_of :: "db \<Rightarrow> blob_row \<Rightarrow> datetime option" where
  "taken_at_of d b =
     (case filter (\<lambda>m. mr_blob m = br_id b) (d_metadata d) of
        [] \<Rightarrow> None
      | m # _ \<Rightarrow> map_option (\<lambda>t. t * 1000000) (ex_dt_original (mr_data m)))"

definition media_item_from_db :: "db \<Rightarrow> media_item_row \<Rightarrow> exn + MediaItem" where
  "media_item_from_db d r =
     (case filter (\<lambda>b. br_id b = ir_blob r) (d_blobs d) of
        [] \<Rightarrow> Inl (PyErr AttributeError)
      | b # _ \<Rightarrow> Inr \<lparr> mi_id = ir_id r, mi_owner_id = ir_owner r, mi_blob_id = ir_blob r, mi_name = ir_name r,
          mi_media_type = br_media_type b, mi_size = br_size b, mi_chash = br_chash b,
          mi_taken_at = taken_at_of d b, mi_created_at = ir_created_at r, mi_modified_at = ir_modified_at r,
          mi_deleted_at = ir_deleted_at r \<rparr>)"

definition media_item_count :: "uuid \<Rightarrow> (nat \<times> nat) repo" where
  "media_item_count owner_id = gets (\<lambda>d.
     let base = filter (\<lambda>r. ir_owner r = owner_id) (d_media d)
     in (length (filter (\<lambda>r. ir_deleted_at r = None) base), length (filter (\<lambda>r. ir_deleted_at r \<noteq> None) base)))"

definition media_item_delete_batch :: "uuid list \<Rightarrow> unit repo" where
  "media_item_delete_batch ids = modify (delete_media (\<lambda>r. ir_id r \<in> set ids))"

definition media_item_get_by_id :: "uuid \<Rightarrow> MediaItem repo" where
  "media_item_get_by_id i = query (\<lambda>d.
     case or_missing MediaItemNotFound (q_get (\<lambda>r. ir_id r = i) (d_media d)) of
       Inl e \<Rightarrow> Inl e | Inr r \<Rightarrow> media_item_from_db d r)"

definition media_item_get_by_id_batch :: "uuid list \<Rightarrow> MediaItem list repo" where
  "media_item_get_by_id_batch ids = query (\<lambda>d. map_result (media_item_from_db d)
     (order_desc ir_modified_at (filter (\<lambda>r. ir_id r \<in> set ids) (d_media d))))"

definition media_item_get_for_owner :: "uuid \<Rightarrow> uuid \<Rightarrow> MediaItem repo" where
  "media_item_get_for_owner owner_id i = query (\<lambda>d.
     case or_missing MediaItemNotFound (q_get (\<lambda>r. ir_id r = i \<and> ir_owner r = owner_id) (d_media d)) of
       Inl e \<Rightarrow> Inl e | Inr r \<Rightarrow> media_item_from_db d r)"

definition media_item_list_by_owner :: "uuid \<Rightarrow> bool \<Rightarrow> nat \<Rightarrow> nat \<Rightarrow> MediaItem list repo" where
  "media_item_list_by_owner owner_id only_favourites off lim = query (\<lambda>d.
     let favourite_ids = map vr_media_item (filter (\<lambda>v. vr_user v = owner_id) (d_favourites d))
     in map_result (media_item_from_db d) (page_of off lim (order_desc ir_modified_at
          (filter (\<lambda>r. ir_owner r = owner_id \<and> ir_deleted_at r = None
                     \<and> (only_favourites \<longrightarrow> ir_id r \<in> set favourite_ids)) (d_media d)))))"

definition deleted_rows :: "db \<Rightarrow> uuid \<Rightarrow> media_item_row list" where
  "deleted_rows d owner_id = order_desc (\<lambda>r. the (ir_deleted_at r))
     (filter (\<lambda>r. ir_owner r = owner_id \<and> ir_deleted_at r \<noteq> None) (d_media d))"

definition media_item_list_deleted :: "uuid \<Rightarrow> nat \<Rightarrow> nat \<Rightarrow> MediaItem list repo" where
  "media_item_list_deleted owner_id off lim = query (\<lambda>d.
     map_result (media_item_from_db d) (page_of off lim (deleted_rows d owner_id)))"

definition media_item_save :: "MediaItem \<Rightarrow> MediaItem repo" where
  "media_item_save item =
     bnd (insert_media \<lparr> ir_id = 0, ir_owner = mi_owner_id item, ir_blob = mi_blob_id item,
            ir_name = mi_name item, ir_created_at = mi_created_at item,
            ir_modified_at = mi_modified_at item, ir_deleted_at = mi_deleted_at item \<rparr>)
       (\<lambda>id. ret (item\<lparr>mi_id := id\<rparr>))"

definition media_item_set_deleted_at_batch :: "uuid \<Rightarrow> uuid list \<Rightarrow> datetime option \<Rightarrow> MediaItem list repo" where
  "media_item_set_deleted_at_batch owner_id ids deleted_at =
     andthen (modify (\<lambda>d. d\<lparr>d_media := q_update (\<lambda>r. ir_id r \<in> set ids \<and> ir_owner r = owner_id)
                (\<lambda>r. r\<lparr>ir_deleted_at := deleted_at\<rparr>) (d_media d)\<rparr>))
       (query (\<lambda>d. map_result (media_item_from_db d)
          (order_desc ir_modified_at (filter (\<lambda>r. ir_id r \<in> set ids \<and> ir_owner r = owner_id) (d_media d)))))"

section \<open>AlbumRepository: items and covers\<close>

definition album_list_items :: "uuid \<Rightarrow> string \<Rightarrow> nat \<Rightarrow> nat \<Rightarrow> MediaItem list repo" where
  "album_list_items owner_id slug off lim = query (\<lambda>d.
     map_result (media_item_from_db d) (page_of off lim (order_desc ir_modified_at
       (filter (\<lambda>r. ir_deleted_at r = None
          \<and> (\<exists>a \<in> set (d_albums d). lr_owner a = owner_id \<and> lr_slug a = slug
               \<and> (lr_id a, ir_id r) \<in> set (d_album_items d))) (d_media d)))))"

definition album_remove_items :: "ext \<Rightarrow> uuid \<Rightarrow> string \<Rightarrow> uuid list \<Rightarrow> Album repo" where
  "album_remove_items x owner_id slug media_item_ids =
     bnd (album_row_get owner_id slug) (\<lambda>obj.
     bnd (media_ids_in media_item_ids) (\<lambda>items.
     andthen (album_items_remove (lr_id obj) items)
     (let obj' = obj\<lparr>lr_items_count := lr_items_count obj - int (length media_item_ids)\<rparr> in
      andthen (album_row_save obj') (ret (album_from_db x obj')))))"

definition album_save :: "Album \<Rightarrow> Album repo" where
  "album_save a =
     bnd (insert_album \<lparr> lr_id = 0, lr_title = al_title a, lr_slug = al_slug a, lr_owner = al_owner_id a,
            lr_created_at = al_created_at a, lr_items_count = al_items_count a, lr_cover = None \<rparr>)
       (\<lambda>id. ret (a\<lparr>al_id := id\<rparr>))"

definition album_set_cover :: "ext \<Rightarrow> uuid \<Rightarrow> string \<Rightarrow> uuid option \<Rightarrow> Album repo" where
  "album_set_cover x owner_id slug media_item_id =
     bnd (album_row_get owner_id slug) (\<lambda>obj.
     let obj' = obj\<lparr>lr_cover := media_item_id\<rparr> in
     andthen (album_row_save obj') (ret (album_from_db x obj')))"

definition album_set_cover_batch :: "(uuid \<times> uuid option) list \<Rightarrow> unit repo" where
  "album_set_cover_batch covers = (\<lambda>d.
     let cover_of = map_of (rev covers);
         t = q_update (\<lambda>r. cover_of (lr_id r) \<noteq> None) (\<lambda>r. r\<lparr>lr_cover := the (cover_of (lr_id r))\<rparr>) (d_albums d)
     in if (\<forall>r \<in> set t. case lr_cover r of None \<Rightarrow> True | Some m \<Rightarrow> has_media d m)
        then (Inr (), d\<lparr>d_albums := t\<rparr>) else (Inl IntegrityError, d))"

definition album_update :: "ext \<Rightarrow> Album \<Rightarrow> string \<Rightarrow> string \<Rightarrow> Album repo" where
  "album_update x entity title slug =
     bnd (album_row_get (al_owner_id entity) (al_slug entity)) (\<lambda>obj.
     let obj' = obj\<lparr>lr_title := title, lr_slug := slug\<rparr> in
     andthen (album_row_save obj') (ret (album_from_db x obj')))"

section \<open>MediaItemFavouriteRepository\<close>

definition favourite_add_batch :: "uuid \<Rightarrow> uuid list \<Rightarrow> unit repo" where
  "favourite_add_batch user_id media_item_ids =
     (if media_item_ids = [] then ret ()
      else bulk_insert_favourites
             (map (\<lambda>m. \<lparr> vr_id = 0, vr_user = user_id, vr_media_item = m \<rparr>) media_item_ids))"

definition favourite_list_ids :: "uuid \<Rightarrow> uuid list repo" where
  "favourite_list_ids user_id =
     gets (\<lambda>d. map vr_media_item (sort_key vr_id (filter (\<lambda>v. vr_user v = user_id) (d_favourites d))))"

definition favourite_remove_batch :: "uuid \<Rightarrow> uuid list \<Rightarrow> unit repo" where
  "favourite_remove_batch user_id media_item_ids =
     (if media_item_ids = [] then ret ()
      else modify (\<lambda>d. d\<lparr>d_favourites :=
             q_delete (\<lambda>v. vr_user v = user_id \<and> vr_media_item v \<in> set media_item_ids) (d_favourites d)\<rparr>))"

end
