(* ===== verification/Photos.thy ===== *)
theory Photos
  imports PhotoRepo Blobs Auth
begin

text \<open>
  \<open>AlbumService\<close> and \<open>MediaItemService\<close> (\<open>src/app/app/photos/services\<close>), \<open>AlbumUseCase\<close> and
  \<open>MediaItemUseCase\<close> (\<open>src/app/app/photos/usecases\<close>).
\<close>

section \<open>AlbumService\<close>

definition slug_pattern :: "string \<Rightarrow> string" where
  "slug_pattern slug = casefold (slug @ ''-[0-9]+$'')"

definition album_get_available_slug :: "ext \<Rightarrow> uuid \<Rightarrow> string \<Rightarrow> ('b, string) app" where
  "album_get_available_slug x owner_id slug =
     bnd (in_db (album_exists_with_slug owner_id slug)) (\<lambda>taken.
       if \<not> taken then ret slug
       else bnd (in_db (album_count_by_slug_pattern x owner_id (slug_pattern slug))) (\<lambda>count.
              ret (slug @ ''-'' @ digits_of (count + 1))))"

definition album_service_create :: "ext \<Rightarrow> string \<Rightarrow> uuid \<Rightarrow> datetime \<Rightarrow> ('b, Album) app" where
  "album_service_create x title owner_id created_at =
     bnd (album_get_available_slug x owner_id (slugify x title True)) (\<lambda>slug.
     in_db (album_save (mk_album x \<lparr> al_id = SENTINEL_ID, al_owner_id = owner_id, al_title = title,
       al_slug = slug, al_cover = None, al_items_count = 0, al_created_at = created_at \<rparr>)))"

definition album_reassign_covers :: "uuid list \<Rightarrow> ('b, unit) app" where
  "album_reassign_covers album_ids =
     (if album_ids = [] then ret ()
      else bnd (in_db (album_list_cover_candidates album_ids)) (\<lambda>candidate_rows.
             in_db (album_set_cover_batch (map (\<lambda>a. (a, map_of (rev candidate_rows) a)) album_ids))))"

definition album_rename :: "ext \<Rightarrow> uuid \<Rightarrow> string \<Rightarrow> string \<Rightarrow> ('b, Album) app" where
  "album_rename x owner_id slug new_title =
     bnd (in_db (album_get_by_slug x owner_id slug)) (\<lambda>album.
       if al_title album = new_title then ret album
       else bnd (album_get_available_slug x owner_id (slugify x new_title False)) (\<lambda>new_slug.
              in_db (album_update x album new_title new_slug)))"

section \<open>AlbumUseCase\<close>

definition album_uc_add_album_items :: "ext \<Rightarrow> uuid \<Rightarrow> string \<Rightarrow> uuid list \<Rightarrow> ('b, Album) app" where
  "album_uc_add_album_items x owner_id slug media_item_ids =
     atomic
       (bnd (in_db (album_add_items x owner_id slug media_item_ids)) (\<lambda>album.
          case (al_cover album, media_item_ids) of
            (None, m # _) \<Rightarrow> in_db (album_set_cover x owner_id slug (Some m))
          | _ \<Rightarrow> ret album))"

definition album_uc_create :: "ext \<Rightarrow> string \<Rightarrow> uuid \<Rightarrow> ('b, Album) app" where
  "album_uc_create x title owner_id = bnd now (\<lambda>t. album_service_create x title owner_id t)"

definition album_uc_remove_album_items :: "ext \<Rightarrow> uuid \<Rightarrow> string \<Rightarrow> uuid list \<Rightarrow> ('b, Album) app" where
  "album_uc_remove_album_items x owner_id slug media_item_ids =
     atomic
       (bnd (in_db (album_remove_items x owner_id slug media_item_ids)) (\<lambda>album.
          case al_cover album of
            Some c \<Rightarrow>
              if c \<in> set media_item_ids
              then andthen (album_reassign_covers [al_id album]) (in_db (album_get_by_slug x owner_id slug))
              else ret album
          | None \<Rightarrow> ret album))"

definition album_uc_remove_cover :: "ext \<Rightarrow> uuid \<Rightarrow> string \<Rightarrow> ('b, Album) app" where
  "album_uc_remove_cover x owner_id slug = in_db (album_set_cover x owner_id slug None)"

section \<open>MediaItemService\<close>

text \<open>The last eight digits of a \<open>uuid7().hex\<close> are random.\<close>

definition media_storage_key :: "ext \<Rightarrow> uuid \<Rightarrow> string \<Rightarrow> ('b, string) app" where
  "media_storage_key x owner_id name =
     bnd now (\<lambda>t. bnd (draw x) (\<lambda>r.
       ret (uuid_str owner_id @ ''/photos/'' @ x_date_dir x t @ ''/'' @ hex_string 8 r @ ''_'' @ name)))"

fun download_items :: "MediaItem list \<Rightarrow> Blob list \<Rightarrow> DownloadMediaItem list" where
  "download_items [] blobs = []"
| "download_items (i # is) blobs =
     (case filter (\<lambda>b. b_id b = mi_blob_id i) blobs of
        [] \<Rightarrow> download_items is blobs
      | bs \<Rightarrow> \<lparr> dm_storage_key = b_storage_key (last bs), dm_name = mi_name i, dm_media_type = mi_media_type i,
               dm_size = mi_size i, dm_modified_at = mi_modified_at i \<rparr> # download_items is blobs)"

definition media_get_download_items :: "uuid \<Rightarrow> uuid list \<Rightarrow> ('b, DownloadMediaItem list) app" where
  "media_get_download_items owner_id media_item_ids =
     bnd (in_db (media_item_get_by_id_batch (remdups media_item_ids))) (\<lambda>all_items.
     let items = filter (\<lambda>i. mi_owner_id i = owner_id) all_items in
     andthen (guard (items \<noteq> []) MediaItemNotFound)
     (bnd (blob_service_get_by_id_batch (map mi_blob_id items)) (\<lambda>blobs.
      let result = download_items items blobs in
      andthen (guard (result \<noteq> []) MediaItemNotFound) (ret result))))"

definition media_service_create :: "'b env \<Rightarrow> uuid \<Rightarrow> string \<Rightarrow> BlobContent \<Rightarrow> ('b, MediaItem) app" where
  "media_service_create E owner_id name content =
     bnd (media_storage_key (e_ext E) owner_id name) (\<lambda>storage_key.
     bnd (blob_create E storage_key content) (\<lambda>blob.
     bnd now (\<lambda>t.
     in_db (media_item_save \<lparr> mi_id = SENTINEL_ID, mi_owner_id = owner_id, mi_blob_id = b_id blob,
       mi_name = name, mi_media_type = b_media_type blob, mi_size = b_size blob, mi_chash = b_chash blob,
       mi_taken_at = None, mi_created_at = t, mi_modified_at = t, mi_deleted_at = None \<rparr>))))"

definition download_cache_key :: "string \<Rightarrow> string" where
  "download_cache_key key = ''photos:media_item:download:'' @ key"

definition media_create_download_session :: "'b env \<Rightarrow> uuid \<Rightarrow> uuid list \<Rightarrow> ('b, string \<times> nat) app" where
  "media_create_download_session E owner_id media_item_ids =
     bnd (media_get_download_items owner_id media_item_ids) (\<lambda>items.
     andthen (guard (items \<noteq> []) MediaItemNotFound)
     (bnd (token_urlsafe (e_ext E) 32) (\<lambda>key.
      bnd (in_cache (\<lambda>t. ic_set (e_cache E) t (download_cache_key key) (CVItems items) (Some 60) None)) (\<lambda>_.
      ret (key, length items)))))"

definition media_get_download_session :: "'b env \<Rightarrow> string \<Rightarrow> ('b, DownloadMediaItem list option) app" where
  "media_get_download_session E key =
     bnd (in_cache (\<lambda>t. ic_get (e_cache E) t (download_cache_key key))) (\<lambda>v.
     case v of
       Some (CVItems items) \<Rightarrow>
         bnd (in_cache (\<lambda>t. ic_delete (e_cache E) t (download_cache_key key))) (\<lambda>_. ret (Some items))
     | _ \<Rightarrow> ret None)"

definition media_delete_batch :: "uuid \<Rightarrow> uuid list \<Rightarrow> ('b, MediaItem list) app" where
  "media_delete_batch owner_id ids =
     bnd now (\<lambda>t. in_db (media_item_set_deleted_at_batch owner_id ids (Some t)))"

definition media_delete_permanently :: "uuid list \<Rightarrow> ('b, unit) app" where
  "media_delete_permanently ids =
     bnd (in_db (media_item_get_by_id_batch ids)) (\<lambda>items.
     andthen (in_db (media_item_delete_batch ids))
       (blob_service_delete_batch (map mi_blob_id items)))"

definition media_download :: "'b env \<Rightarrow> DownloadMediaItem \<Rightarrow> ('b, bytes) app" where
  "media_download E item = blob_service_download E (dm_storage_key item)"

definition media_download_batch :: "'b env \<Rightarrow> DownloadMediaItem list \<Rightarrow> ('b, StreamZipFile list) app" where
  "media_download_batch E items = blob_service_download_batch E
     (map (\<lambda>i. \<lparr> db_key = dm_storage_key i, db_is_dir = False, db_archive_path = Some (dm_name i) \<rparr>) items)"

definition media_mark_favourite_batch :: "uuid \<Rightarrow> uuid list \<Rightarrow> ('b, unit) app" where
  "media_mark_favourite_batch user_id media_item_ids =
     bnd (in_db (media_item_get_by_id_batch media_item_ids)) (\<lambda>items.
     let accessible_ids = map mi_id (filter (\<lambda>i. mi_owner_id i = user_id) items) in
     if accessible_ids = [] then ret () else in_db (favourite_add_batch user_id accessible_ids))"

definition media_restore_batch :: "uuid \<Rightarrow> uuid list \<Rightarrow> ('b, MediaItem list) app" where
  "media_restore_batch owner_id ids = in_db (media_item_set_deleted_at_batch owner_id ids None)"

definition media_unmark_favourite_batch :: "uuid \<Rightarrow> uuid list \<Rightarrow> ('b, unit) app" where
  "media_unmark_favourite_batch user_id ids = in_db (favourite_remove_batch user_id ids)"

section \<open>MediaItemUseCase\<close>

definition media_uc_delete_batch :: "uuid \<Rightarrow> uuid list \<Rightarrow> ('b, MediaItem list) app" where
  "media_uc_delete_batch owner_id ids =
     atomic
       (bnd (media_delete_batch owner_id ids) (\<lambda>items.
        andthen
          (if items = [] then ret ()
           else bnd (in_db (album_list_ids_by_cover_ids owner_id (map mi_id items))) album_reassign_covers)
          (ret items)))"

definition media_uc_delete_immediately_batch :: "uuid \<Rightarrow> uuid list \<Rightarrow> ('b, unit) app" where
  "media_uc_delete_immediately_batch owner_id ids =
     bnd (in_db (media_item_get_by_id_batch ids)) (\<lambda>items.
     let item_ids = map mi_id (filter (\<lambda>i. mi_owner_id i = owner_id) items) in
     if item_ids = [] then ret () else media_delete_permanently item_ids)"

definition media_uc_get_content_metadata :: "uuid \<Rightarrow> uuid \<Rightarrow> ('b, BlobMetadata) app" where
  "media_uc_get_content_metadata owner_id media_item_id =
     bnd (in_db (media_item_get_for_owner owner_id media_item_id)) (\<lambda>item.
       blob_metadata_service_get_by_blob_id (mi_blob_id item))"

definition media_uc_list_deleted :: "uuid \<Rightarrow> ('b, MediaItem list) app" where
  "media_uc_list_deleted owner_id = in_db (media_item_list_deleted owner_id 0 2000)"

text \<open>\<open>purge\<close> runs its loop body between two steps of the generator \<open>iter_deleted\<close>: each step reads the
  next page at an offset that has grown by the batch size. The fuel bounds the number of steps;
  \<open>None\<close> means it was not enough.\<close>

fun purge_loop :: "nat \<Rightarrow> nat \<Rightarrow> uuid \<Rightarrow> nat \<Rightarrow> ('b, unit option) app" where
  "purge_loop 0 batch_size owner_id off = ret None"
| "purge_loop (Suc fuel) batch_size owner_id off =
     bnd (in_db (media_item_list_deleted owner_id off batch_size)) (\<lambda>items.
       if items = [] then ret (Some ())
       else andthen (media_delete_permanently (map mi_id items))
              (purge_loop fuel batch_size owner_id (off + batch_size)))"

definition media_uc_purge :: "nat \<Rightarrow> uuid \<Rightarrow> ('b, unit option) app" where
  "media_uc_purge fuel owner_id = purge_loop fuel 1000 owner_id 0"

definition media_uc_thumbnail :: "'b env \<Rightarrow> uuid \<Rightarrow> uuid \<Rightarrow> int \<Rightarrow> ('b, MediaItem \<times> bytes \<times> string) app" where
  "media_uc_thumbnail E owner_id media_item_id sz =
     bnd (in_db (media_item_get_for_owner owner_id media_item_id)) (\<lambda>item.
     bnd (thumbnailer_thumbnail E (mi_blob_id item) (mi_chash item) sz) (\<lambda>thumb. ret (item, thumb)))"

definition media_uc_upload :: "'b env \<Rightarrow> uuid \<Rightarrow> string \<Rightarrow> BlobContent \<Rightarrow> ('b, MediaItem) app" where
  "media_uc_upload E owner_id name content =
     bnd (media_service_create E owner_id name content) (\<lambda>item.
     andthen (content_process_async (mi_blob_id item)) (ret item))"

end
