(* ===== verification/Worker.thy ===== *)
theory Worker
  imports AuthUseCases Photos
begin

text \<open>
  The jobs of the worker (\<open>src/app/worker/jobs\<close>) and one turn of the worker. A job that raises leaves
  what it had done.
\<close>

section \<open>Jobs on files\<close>

datatype ErrorCode = EC_internal | EC_file_action_not_allowed | EC_file_already_exists
  | EC_file_not_found | EC_file_too_large | EC_is_a_directory | EC_malformed_path
  | EC_missing_parent | EC_not_a_directory

record FileTaskResult =
  tr_file :: "File option"
  tr_err_code :: "ErrorCode option"

definition exc_to_err_code :: "exn \<Rightarrow> ErrorCode" where
  "exc_to_err_code e = (case e of
     FileErr FileActionNotAllowed \<Rightarrow> EC_file_action_not_allowed
   | FileErr FileAlreadyExists \<Rightarrow> EC_file_already_exists
   | FileErr FileNotFound \<Rightarrow> EC_file_not_found
   | FileErr FileTooLarge \<Rightarrow> EC_file_too_large
   | FileErr IsADirectory \<Rightarrow> EC_is_a_directory
   | FileErr MalformedPath \<Rightarrow> EC_malformed_path
   | FileErr MissingParent \<Rightarrow> EC_missing_parent
   | FileErr NotADirectory \<Rightarrow> EC_not_a_directory
   | _ \<Rightarrow> EC_internal)"

definition task_result :: "exn + File \<Rightarrow> FileTaskResult" where
  "task_result r = (case r of
     Inl e \<Rightarrow> \<lparr> tr_file = None, tr_err_code = Some (exc_to_err_code e) \<rparr>
   | Inr f \<Rightarrow> \<lparr> tr_file = Some f, tr_err_code = None \<rparr>)"

text \<open>The loop the three batch jobs share: every item is tried, an exception becomes its result.\<close>

definition job_batch :: "('p \<Rightarrow> ('b, File) app) \<Rightarrow> 'p list \<Rightarrow> ('b, FileTaskResult list) app" where
  "job_batch op = map_prog (\<lambda>p. bnd (attempt (op p)) (\<lambda>r. ret (task_result r)))"

text \<open>\<open>with context\<close>.\<close>

definition with_context :: "CurrentUser \<Rightarrow> ('b, 'a) app \<Rightarrow> ('b, 'a) app" where
  "with_context u m = (\<lambda>w. case m (w\<lparr>w_user := Some u\<rparr>) of (r, w') \<Rightarrow> (r, w'\<lparr>w_user := w_user w\<rparr>))"

definition job_delete_immediately_batch :: "string \<Rightarrow> string list \<Rightarrow> ('b, FileTaskResult list) app" where
  "job_delete_immediately_batch ns_path paths = job_batch (ns_delete_item ns_path) paths"

definition job_empty_trash :: "string \<Rightarrow> CurrentUser \<Rightarrow> ('b, unit) app" where
  "job_empty_trash ns_path u =
     with_context u (bnd (attempt (ns_empty_trash ns_path)) (\<lambda>_. ret ()))"

definition job_move_batch :: "string \<Rightarrow> (string \<times> string) list \<Rightarrow> CurrentUser \<Rightarrow> ('b, FileTaskResult list) app" where
  "job_move_batch ns_path relocations u =
     with_context u (job_batch (\<lambda>(p, next_path). ns_move_item ns_path p next_path) relocations)"

definition job_move_to_trash_batch :: "ext \<Rightarrow> string \<Rightarrow> string list \<Rightarrow> CurrentUser \<Rightarrow> ('b, FileTaskResult list) app" where
  "job_move_to_trash_batch x ns_path paths u =
     with_context u (job_batch (ns_move_item_to_trash x ns_path) paths)"

section \<open>The worker\<close>

definition run_job :: "'b env \<Rightarrow> worker_job \<Rightarrow> ('b, FileTaskResult list) app" where
  "run_job E j = (case j of
     Job_process_blob_jobs ids \<Rightarrow> bnd (blob_service_process_blob_jobs E ids) (\<lambda>_. ret [])
   | Job_process_blob_content blob_id \<Rightarrow> bnd (content_process E blob_id) (\<lambda>_. ret [])
   | Job_delete_immediately_batch ns_path paths \<Rightarrow> job_delete_immediately_batch ns_path paths
   | Job_empty_trash ns_path u \<Rightarrow> bnd (job_empty_trash ns_path u) (\<lambda>_. ret [])
   | Job_move_batch ns_path relocations u \<Rightarrow> job_move_batch ns_path relocations u
   | Job_move_to_trash_batch ns_path paths u \<Rightarrow> job_move_to_trash_batch (e_ext E) ns_path paths u)"

text \<open>One turn of the worker: the oldest job runs to its end, returning or raising, and is gone.\<close>

definition worker_turn :: "'b env \<Rightarrow> 'b world \<Rightarrow> 'b world" where
  "worker_turn E w = (case w_queue w of [] \<Rightarrow> w
     | j # js \<Rightarrow> snd (run_job E j (w\<lparr>w_queue := js\<rparr>)))"

end
