(* ===== verification/Api.thy ===== *)
theory Api
  imports Worker
begin

text \<open>
  The HTTP layer of \<open>src/app/api\<close> that the views share: the error classes with their status codes,
  the dependencies that authenticate a request (\<open>deps.py\<close>), the validators of the request schemas
  (\<open>files/schemas.py\<close>, \<open>auth/schemas.py\<close>), the download cache (\<open>shortcuts.py\<close>), the paginator and the
  response schemas. The names and paths put into the messages of errors are left out. FastAPI's part is: dependencies
  are resolved before the body is validated, an \<open>APIError\<close> becomes its response, and what pydantic
  refuses becomes \<open>Unprocessable\<close>.
\<close>

section \<open>Errors\<close>

datatype api_error =
    AE_DownloadNotFound | AE_FileActionNotAllowed | AE_FileAlreadyDeleted | AE_FileAlreadyExists
  | AE_FileContentMetadataNotFound | AE_IsADirectory | AE_MalformedPath | AE_NotADirectory
  | AE_PathNotFound | AE_StorageQuotaExceeded | AE_FileThumbnailUnavailable | AE_UploadFileTooLarge
  | AE_MissingToken | AE_InvalidToken | AE_PermissionDenied | AE_RateLimited | AE_UserNotFound
  | AE_UnverifiedUser
  | AE_EmailAlreadyTaken | AE_EmailUpdateLimitReached | AE_EmailUpdateNotStarted | AE_EmailUpdateStarted
  | AE_OTPCodeAlreadySent | AE_UserEmailAlreadyVerified | AE_UserEmailIsMissing
  | AE_InvalidCredentials | AE_SignUpDisabled | AE_UserAlreadyExists
  | AE_SharedLinkNotFound
  | AE_AlbumNotFound | AE_PhotosDownloadNotFound | AE_MediaItemContentMetadataNotFound
  | AE_MediaItemNotFound | AE_MediaThumbnailUnavailable

text \<open>The class attributes \<open>status_code\<close>, \<open>code\<close>, \<open>code_verbose\<close> and \<open>default_message\<close> of every error, one
  table per \<open>exceptions.py\<close>.\<close>

type_synonym error_info = "nat \<times> string \<times> string \<times> string"

definition files_errors :: "(api_error \<times> error_info) list" where
  "files_errors = [
     (AE_DownloadNotFound, 404, ''DOWNLOAD_NOT_FOUND'', ''Download not found'',
        ''Download is expired or doesn't exist''),
     (AE_FileActionNotAllowed, 403, ''ACTION_NOT_ALLOWED'', ''Action not allowed'',
        ''You don't have permission to perform that action''),
     (AE_FileAlreadyDeleted, 400, ''ALREADY_DELETED'', ''Already deleted'',
        ''File '{name}' is already in the Trash''),
     (AE_FileAlreadyExists, 400, ''FILE_ALREADY_EXISTS'', ''File already exists'',
        ''The name '{name}' at path {parent} is already taken''),
     (AE_FileContentMetadataNotFound, 404, ''CONTENT_METADATA_NOT_FOUND'', ''No metadata'',
        ''File at path {path} doesn't have any associated metadata''),
     (AE_IsADirectory, 400, ''IS_A_DIRECTORY'', ''Path is a directory'',
        ''Expected the path '{path}' to be a file, but it is a folder''),
     (AE_MalformedPath, 400, ''MALFORMED_PATH'', ''Malformed path'',
        []),
     (AE_NotADirectory, 400, ''NOT_A_DIRECTORY'', ''Not a directory'',
        ''Expected the path '{path}' and its parents to be folders, not files''),
     (AE_PathNotFound, 404, ''PATH_NOT_FOUND'', ''Path not found'',
        ''The path '{path}' does not exists''),
     (AE_StorageQuotaExceeded, 400, ''STORAGE_QUOTA_EXCEEDED'', ''Storage Quota Exceeded'',
        ''Storage is full - consider removing files you don't need''),
     (AE_FileThumbnailUnavailable, 400, ''THUMBNAIL_UNAVAILABLE'', ''Thumbnail unavailable'',
        (''Can't generate thumbnail for a file '{name}' at path '{parent}'' @ [CHR 0x27])),
     (AE_UploadFileTooLarge, 400, ''UPLOAD_FILE_TOO_LARGE'', ''Upload too large'',
        ''File exceeds maximum upload size'')]"

definition common_errors :: "(api_error \<times> error_info) list" where
  "common_errors = [
     (AE_MissingToken, 401, ''MISSING_TOKEN'', ''Missing token'',
        ''No token found in the authorization header''),
     (AE_InvalidToken, 403, ''INVALID_TOKEN'', ''Invalid token'',
        ''Could not validate credentials''),
     (AE_PermissionDenied, 403, ''PERMISSION_DENIED'', ''Permission Denied'',
        ''You don't have permission to perform the action requested''),
     (AE_RateLimited, 429, ''RATE_LIMIT_ERROR'', ''Rate limit error'',
        ''Please, try your request again later.''),
     (AE_UserNotFound, 404, ''USER_NOT_FOUND'', ''User not found'',
        []),
     (AE_UnverifiedUser, 403, ''UNVERIFIED_USER'', ''Unverified user'',
        ''Requested action is not allowed for unverified users'')]"

definition accounts_errors :: "(api_error \<times> error_info) list" where
  "accounts_errors = [
     (AE_EmailAlreadyTaken, 400, ''EMAIL_ALREADY_TAKEN'', ''Email already taken'',
        ''Email is already taken by other user''),
     (AE_EmailUpdateLimitReached, 400, ''EMAIL_UPDATE_LIMIT_REACHED'', ''Email update too frequent'',
        ''Email can be updated once every 6 hours''),
     (AE_EmailUpdateNotStarted, 400, ''EMAIL_UPDATE_NOT_STARTED'', ''Email update not started'',
        ''Change email must be started first''),
     (AE_EmailUpdateStarted, 400, ''EMAIL_UPDATE_STARTED'', ''Email update started'',
        ''Email update in progress''),
     (AE_OTPCodeAlreadySent, 400, ''OTP_CODE_ALREADY_SENT'', ''OTP code was sent'',
        ''Please wait before requesting a new one''),
     (AE_UserEmailAlreadyVerified, 400, ''USER_EMAIL_ALREADY_VERIFIED'', ''User email already verified'',
        []),
     (AE_UserEmailIsMissing, 400, ''USER_EMAIL_IS_MISSING'', ''User email is missing'',
        ''There is no email for the user'')]"

definition auth_errors :: "(api_error \<times> error_info) list" where
  "auth_errors = [
     (AE_InvalidCredentials, 401, ''INVALID_CREDENTIALS'', ''Invalid credentials'',
        ''Incorrect email or password''),
     (AE_SignUpDisabled, 400, ''SIGN_UP_DISABLED'', ''Sign Up Disabled'',
        ''Sign up is closed for new users''),
     (AE_UserAlreadyExists, 400, ''USER_ALREADY_EXISTS'', ''User already exists'',
        ''Username or email is already taken by other user'')]"

definition sharing_errors :: "(api_error \<times> error_info) list" where
  "sharing_errors = [
     (AE_SharedLinkNotFound, 404, ''SHARED_LINK_NOT_FOUND'', ''Shared link not found'',
        ''Shared link is expired or doesn't exist'')]"

definition photos_errors :: "(api_error \<times> error_info) list" where
  "photos_errors = [
     (AE_AlbumNotFound, 404, ''ALBUM_NOT_FOUND'', ''Album not found'',
        ''The requested album does not exist''),
     (AE_PhotosDownloadNotFound, 404, ''DOWNLOAD_NOT_FOUND'', ''Download not found'',
        ''Download has expired or doesn't exist''),
     (AE_MediaItemContentMetadataNotFound, 404, ''CONTENT_METADATA_NOT_FOUND'', ''No metadata'',
        ''Media item '{media_item_id}' doesn't have any associated metadata''),
     (AE_MediaItemNotFound, 404, ''MEDIA_ITEM_NOT_FOUND'', ''Media item not found'',
        ''The requested media item does not exist''),
     (AE_MediaThumbnailUnavailable, 400, ''THUMBNAIL_UNAVAILABLE'', ''Thumbnail unavailable'',
        ''Can't generate thumbnail for the requested media item'')]"

definition api_error_info :: "api_error \<Rightarrow> error_info" where
  "api_error_info e = the (map_of (files_errors @ common_errors @ accounts_errors @ auth_errors
     @ sharing_errors @ photos_errors) e)"

text \<open>How a request can fail: with an API error, refused by the validation of the framework, or with
  an exception no handler knows.\<close>

datatype api_exn = ApiErr api_error | Unprocessable | Crash exn

definition error_status :: "api_exn \<Rightarrow> nat" where
  "error_status e = (case e of ApiErr a \<Rightarrow> fst (api_error_info a) | Unprocessable \<Rightarrow> 422 | Crash _ \<Rightarrow> 500)"

type_synonym ('b, 'a) api = "('b world, api_exn, 'a) prog"

text \<open>What a request runs with: the environment of the services, \<open>request.url_for\<close>, the rate limiter and
  the disk cache of \<open>cashews\<close>, and the broker's job ids and results.\<close>

record thumbnail_response =
  tn_filename :: string
  tn_content :: bytes
  tn_mediatype :: string

record 'b api_env =
  a_env :: "'b env"
  a_url_for :: "string \<Rightarrow> string \<Rightarrow> string"
  a_rate_limit :: "string \<Rightarrow> nat \<Rightarrow> ('b, unit) api"
  a_disk_get :: "string \<Rightarrow> ('b, thumbnail_response option) api"
  a_disk_set :: "string \<Rightarrow> thumbnail_response \<Rightarrow> string \<Rightarrow> ('b, unit) api"
  a_job_id :: "'b world \<Rightarrow> string"
  a_job_result :: "string \<Rightarrow> FileTaskResult list option"

definition on_errors :: "(exn \<times> api_error) list \<Rightarrow> exn \<Rightarrow> api_exn" where
  "on_errors tbl e = (case map_of tbl e of Some a \<Rightarrow> ApiErr a | None \<Rightarrow> Crash e)"

text \<open>\<open>try: await usecase(...) except ...\<close>.\<close>

definition catching :: "(exn \<times> api_error) list \<Rightarrow> ('b, 'a) app \<Rightarrow> ('b, 'a) api" where
  "catching tbl m = (\<lambda>w. case m w of (Inl e, w') \<Rightarrow> (Inl (on_errors tbl e), w') | (Inr x, w') \<Rightarrow> (Inr x, w'))"

section \<open>deps.py\<close>

text \<open>\<open>UUID(s)\<close>.\<close>

definition hex_val :: "char \<Rightarrow> nat option" where
  "hex_val c = (let n = of_char c :: nat in
     if 48 \<le> n \<and> n \<le> 57 then Some (n - 48)
     else if 97 \<le> n \<and> n \<le> 102 then Some (n - 87)
     else if 65 \<le> n \<and> n \<le> 70 then Some (n - 55) else None)"

text \<open>\<open>int(s, 16)\<close>: surrounding space, a sign, the prefix \<open>0x\<close> and single underscores between digits are
  allowed. The flag says whether an underscore or the end may come next.\<close>

fun hex_digits :: "bool \<Rightarrow> nat \<Rightarrow> string \<Rightarrow> nat option" where
  "hex_digits d acc [] = (if d then Some acc else None)"
| "hex_digits d acc (c # cs) =
     (if c = CHR 0x5F then (if d then hex_digits False acc cs else None)
      else (case hex_val c of None \<Rightarrow> None | Some v \<Rightarrow> hex_digits True (acc * 16 + v) cs))"

definition hex_number :: "string \<Rightarrow> nat option" where
  "hex_number s = (case s of
       CHR 0x30 # c # cs \<Rightarrow>
         if c = CHR ''x'' \<or> c = CHR ''X''
         then hex_digits False 0 (case cs of CHR 0x5F # ds \<Rightarrow> ds | _ \<Rightarrow> cs) else hex_digits False 0 s
     | _ \<Rightarrow> hex_digits False 0 s)"

definition int_base16 :: "string \<Rightarrow> int option" where
  "int_base16 s = (case strip s of
       CHR 0x2D # cs \<Rightarrow> map_option (\<lambda>n. - int n) (hex_number cs)
     | CHR 0x2B # cs \<Rightarrow> map_option int (hex_number cs)
     | cs \<Rightarrow> map_option int (hex_number cs))"

definition parse_uuid :: "string \<Rightarrow> uuid option" where
  "parse_uuid s =
     (let h = filter (\<lambda>c. c \<noteq> CHR 0x2D) (strip_chars (\<lambda>c. c = CHR 0x7B \<or> c = CHR 0x7D)
                (replace_all ''uuid:'' [] (replace_all ''urn:'' [] s)))
      in if length h = 32
         then (case int_base16 h of Some i \<Rightarrow> if 0 \<le> i then Some (nat i) else None | None \<Rightarrow> None)
         else None)"

definition token_payload :: "ext \<Rightarrow> string option \<Rightarrow> ('b, AccessToken) api" where
  "token_payload x token = (case token of
       None \<Rightarrow> raise (ApiErr AE_MissingToken)
     | Some t \<Rightarrow> catching [(TokenErr InvalidToken, AE_InvalidToken), (TokenErr ReusedToken, AE_InvalidToken)]
                  (access_decode x t))"

definition request_user :: "'b api_env \<Rightarrow> string option \<Rightarrow> ('b, User) api" where
  "request_user A token =
     bnd (token_payload (e_ext (a_env A)) token) (\<lambda>payload.
     case parse_uuid (tk_sub payload) of
       None \<Rightarrow> raise (Crash (PyErr ValueError))
     | Some user_id \<Rightarrow> catching [(UserErr UserNotFound, AE_UserNotFound)] (user_service_get_by_id user_id))"

text \<open>The current-user context is set for the time of the request.\<close>

definition current_user :: "'b api_env \<Rightarrow> string option \<Rightarrow> (User \<Rightarrow> ('b, 'a) api) \<Rightarrow> ('b, 'a) api" where
  "current_user A token k =
     bnd (request_user A token) (\<lambda>user. \<lambda>w.
       case k user (w\<lparr>w_user := Some \<lparr> cu_id = u_id user, cu_username = u_username user \<rparr>\<rparr>) of
         (r, w') \<Rightarrow> (r, w'\<lparr>w_user := w_user w\<rparr>))"

definition verified_current_user :: "'b api_env \<Rightarrow> User \<Rightarrow> ('b, unit) api" where
  "verified_current_user A user =
     guard (\<not> cfg_verification_required (e_features (a_env A)) \<or> is_verified user) (ApiErr AE_UnverifiedUser)"

definition request_namespace :: "User \<Rightarrow> ('b, Namespace) api" where
  "request_namespace user = catching [] (in_db (namespace_get_by_owner_id (u_id user)))"

definition with_namespace :: "'b api_env \<Rightarrow> string option \<Rightarrow> (User \<Rightarrow> string \<Rightarrow> ('b, 'a) api) \<Rightarrow> ('b, 'a) api" where
  "with_namespace A token k =
     current_user A token (\<lambda>user. bnd (request_namespace user) (\<lambda>ns. k user (nsp_path ns)))"

section \<open>shortcuts.py\<close>

definition create_download_cache :: "'b env \<Rightarrow> File \<Rightarrow> ('b, string) app" where
  "create_download_cache E f =
     bnd (token_urlsafe (e_ext E) 32) (\<lambda>token.
     bnd (in_cache (\<lambda>t. ic_set (e_cache E) t token (CVFile f) (Some 60) None)) (\<lambda>_. ret token))"

definition pop_download_cache :: "'b env \<Rightarrow> string \<Rightarrow> ('b, File option) app" where
  "pop_download_cache E token =
     bnd (in_cache (\<lambda>t. ic_get (e_cache E) t token)) (\<lambda>v. case v of
       Some (CVFile f) \<Rightarrow> bnd (in_cache (\<lambda>t. ic_delete (e_cache E) t token)) (\<lambda>_. ret (Some f))
     | _ \<Rightarrow> ret None)"

definition download_cache :: "'b api_env \<Rightarrow> string \<Rightarrow> ('b, File) api" where
  "download_cache A key =
     bnd (catching [] (pop_download_cache (a_env A) key)) (\<lambda>v. case v of
       None \<Rightarrow> raise (ApiErr AE_DownloadNotFound) | Some f \<Rightarrow> ret f)"

section \<open>paginator.py\<close>

definition get_offset :: "int \<Rightarrow> int \<Rightarrow> exn + int" where
  "get_offset page sz = (if \<not> page > 0 then Inl (PyErr AssertionError)
     else if \<not> sz > 0 then Inl (PyErr AssertionError) else Inr ((page - 1) * sz))"

text \<open>The bounds of the query parameters \<open>page\<close> and \<open>page_size\<close>.\<close>

definition page_offset :: "int \<Rightarrow> int \<Rightarrow> ('b, nat) api" where
  "page_offset page page_size =
     andthen (guard (1 \<le> page \<and> 100 \<le> page_size \<and> page_size \<le> 1000) Unprocessable)
       (of_result (map_sum Crash nat (get_offset page page_size)))"

section \<open>Request schemas\<close>

datatype ThumbnailSize = TS_xs | TS_lg | TS_xxl

definition thumbnail_size_int :: "ThumbnailSize \<Rightarrow> int" where
  "thumbnail_size_int s = (case s of TS_xs \<Rightarrow> 72 | TS_lg \<Rightarrow> 768 | TS_xxl \<Rightarrow> 2880)"

definition thumbnail_size_str :: "ThumbnailSize \<Rightarrow> string" where
  "thumbnail_size_str s = (case s of TS_xs \<Rightarrow> ''xs'' | TS_lg \<Rightarrow> ''lg'' | TS_xxl \<Rightarrow> ''xxl'')"

definition check_timestamp :: "datetime \<Rightarrow> datetime \<Rightarrow> api_exn + datetime" where
  "check_timestamp t value = (if \<not> value \<le> t then Inl Unprocessable
     else if \<not> value \<ge> 0 then Inl Unprocessable else Inr value)"

definition normalize_path :: "string \<Rightarrow> api_exn + string" where
  "normalize_path path =
     (if strip path = [] then Inl (ApiErr AE_MalformedPath)
      else if prefix ''..'' path \<or> prefix ''~'' path \<or> prefix ''/'' path then Inl (ApiErr AE_MalformedPath)
      else Inr (normpath path))"

definition then_check :: "api_exn + 'a \<Rightarrow> ('a \<Rightarrow> api_exn + 'b) \<Rightarrow> api_exn + 'b" where
  "then_check r f = (case r of Inl e \<Rightarrow> Inl e | Inr x \<Rightarrow> f x)"

definition special_name :: "string \<Rightarrow> bool" where
  "special_name value \<longleftrightarrow> casefold value \<in> {''.'', ''trash''}"

definition in_trash :: "string \<Rightarrow> bool" where
  "in_trash value \<longleftrightarrow> prefix ''trash/'' (casefold value)"

definition create_folder_request :: "string \<Rightarrow> api_exn + string" where
  "create_folder_request path = then_check (normalize_path path) (\<lambda>value.
     if special_name value \<or> in_trash value then Inl (ApiErr AE_MalformedPath) else Inr value)"

definition delete_immediately_request :: "string \<Rightarrow> api_exn + string" where
  "delete_immediately_request path = then_check (normalize_path path) (\<lambda>value.
     if special_name value then Inl (ApiErr AE_MalformedPath) else Inr value)"

definition not_home_or_trash :: "string \<Rightarrow> api_exn + string" where
  "not_home_or_trash value =
     (if value = ''.'' \<or> casefold value = ''trash'' then Inl (ApiErr AE_MalformedPath) else Inr value)"

definition move_request :: "string \<Rightarrow> string \<Rightarrow> api_exn + string \<times> string" where
  "move_request from_path to_path =
     then_check (then_check (normalize_path from_path) not_home_or_trash) (\<lambda>from_value.
     then_check (then_check (normalize_path to_path) not_home_or_trash) (\<lambda>to_value.
     if in_trash to_value then Inl (ApiErr AE_MalformedPath)
     else if prefix (casefold from_value @ ''/'') (casefold to_value) then Inl (ApiErr AE_MalformedPath)
     else Inr (from_value, to_value)))"

definition move_to_trash_request :: "string \<Rightarrow> api_exn + string" where
  "move_to_trash_request path = then_check (normalize_path path) (\<lambda>value.
     if casefold value = ''trash'' then Inl (ApiErr AE_MalformedPath)
     else if in_trash value then Inl (ApiErr AE_FileAlreadyDeleted) else Inr value)"

fun check_all :: "('a \<Rightarrow> api_exn + 'b) \<Rightarrow> 'a list \<Rightarrow> api_exn + 'b list" where
  "check_all f [] = Inr []"
| "check_all f (x # xs) = then_check (f x) (\<lambda>y. then_check (check_all f xs) (\<lambda>ys. Inr (y # ys)))"

text \<open>\<open>Field(min_length=1, max_length=1000)\<close> on a list of ids.\<close>

definition id_list :: "uuid list \<Rightarrow> api_exn + uuid list" where
  "id_list ids = (if 1 \<le> length ids \<and> length ids \<le> 1000 then Inr ids else Inl Unprocessable)"

section \<open>Response schemas\<close>

record FileSchema =
  fsc_id :: uuid
  fsc_name :: string
  fsc_path :: string
  fsc_size :: int
  fsc_mediatype :: string
  fsc_hidden :: bool
  fsc_shared :: bool
  fsc_thumbnail_url :: "string option"
  fsc_modified_at :: datetime

definition file_schema :: "'b api_env \<Rightarrow> File \<Rightarrow> FileSchema" where
  "file_schema A f = \<lparr> fsc_id = f_id f, fsc_name = f_name f, fsc_path = path_str (f_path f),
     fsc_size = f_size f, fsc_mediatype = f_mediatype f, fsc_hidden = is_hidden f, fsc_shared = f_shared f,
     fsc_thumbnail_url = (if thumbnail_is_supported (f_mediatype f)
       then Some (a_url_for A ''get_thumbnail'' (uuid_str (f_id f))) else None),
     fsc_modified_at = f_modified_at f \<rparr>"

record AsyncTaskResult =
  atr_file :: "FileSchema option"
  atr_err_code :: "ErrorCode option"

definition async_task_result :: "'b api_env \<Rightarrow> FileTaskResult \<Rightarrow> AsyncTaskResult" where
  "async_task_result A r = \<lparr> atr_file = map_option (file_schema A) (tr_file r), atr_err_code = tr_err_code r \<rparr>"

text \<open>The file name of a \<open>Content-Disposition\<close> header: the UTF-8 bytes read as Latin-1.\<close>

definition header_filename :: "string \<Rightarrow> string" where
  "header_filename name = latin1 (utf8 name)"

record download_response =
  dl_disposition :: string
  dl_length :: "int option"
  dl_type :: string
  dl_key :: string

end
