(* ===== verification/ApiFiles.thy ===== *)
theory ApiFiles
  imports Api
begin

text \<open>
  The views of \<open>src/app/api/files/views.py\<close> and \<open>src/app/api/sharing/views.py\<close>: who may call them, what
  they ask of the use cases and which exceptions they turn into which error. A download answers with
  the storage key its stream reads.
\<close>

section \<open>files/views.py\<close>

definition view_create_folder :: "'b api_env \<Rightarrow> string option \<Rightarrow> string \<Rightarrow> ('b, FileSchema) api" where
  "view_create_folder A token path = with_namespace A token (\<lambda>user ns_path.
     bnd (of_result (create_folder_request path)) (\<lambda>p.
     bnd (catching [(FileErr FileActionNotAllowed, AE_FileActionNotAllowed),
                    (FileErr FileAlreadyExists, AE_FileAlreadyExists),
                    (FileErr NotADirectory, AE_NotADirectory)]
            (ns_create_folder ns_path p)) (\<lambda>folder.
     ret (file_schema A folder))))"

text \<open>The views that hand the work to the worker answer with the id of the job.\<close>

definition enqueue_job :: "'b api_env \<Rightarrow> worker_job \<Rightarrow> ('b, string) api" where
  "enqueue_job A j = bnd (gets (a_job_id A)) (\<lambda>i. andthen (catching [] (enqueue j)) (ret i))"

definition context_user :: "User \<Rightarrow> CurrentUser" where
  "context_user user = \<lparr> cu_id = u_id user, cu_username = u_username user \<rparr>"

definition view_delete_immediately_batch :: "'b api_env \<Rightarrow> string option \<Rightarrow> string list \<Rightarrow> ('b, string) api" where
  "view_delete_immediately_batch A token paths = with_namespace A token (\<lambda>user ns_path.
     bnd (of_result (check_all delete_immediately_request paths)) (\<lambda>ps.
     enqueue_job A (Job_delete_immediately_batch ns_path ps)))"

text \<open>\<open>None\<close> stands for the status \<open>pending\<close>; the three check views differ in what they show of a result.\<close>

definition view_check_batch ::
  "'b api_env \<Rightarrow> string option \<Rightarrow> string \<Rightarrow> ('b, AsyncTaskResult list option) api" where
  "view_check_batch A token job_id = with_namespace A token (\<lambda>user ns_path.
     ret (map_option (map (async_task_result A)) (a_job_result A job_id)))"

definition view_empty_trash_check :: "'b api_env \<Rightarrow> string option \<Rightarrow> string \<Rightarrow> ('b, bool) api" where
  "view_empty_trash_check A token job_id = with_namespace A token (\<lambda>user ns_path.
     ret (a_job_result A job_id \<noteq> None))"

definition file_download_response :: "File \<Rightarrow> string \<Rightarrow> download_response" where
  "file_download_response f key = \<lparr>
     dl_disposition = ''attachment; filename='' @ [CHR 0x22] @ header_filename (f_name f) @ [CHR 0x22],
     dl_length = Some (f_size f), dl_type = f_mediatype f, dl_key = key \<rparr>"

definition view_download :: "'b api_env \<Rightarrow> string \<Rightarrow> ('b, download_response) api" where
  "view_download A key =
     bnd (download_cache A key) (\<lambda>file.
     bnd (catching [(FileErr IsADirectory, AE_IsADirectory), (FileErr FileNotFound, AE_PathNotFound)]
            (ns_download_by_id (f_id file))) (\<lambda>content.
     ret (file_download_response (file\<lparr>f_name := path_name (f_path file)\<rparr>) content)))"

definition view_download_xhr :: "'b api_env \<Rightarrow> string option \<Rightarrow> string \<Rightarrow> ('b, download_response) api" where
  "view_download_xhr A token path = with_namespace A token (\<lambda>user ns_path.
     bnd (of_result (normalize_path path)) (\<lambda>p.
     bnd (catching [(FileErr FileActionNotAllowed, AE_FileActionNotAllowed),
                    (FileErr IsADirectory, AE_IsADirectory), (FileErr FileNotFound, AE_PathNotFound)]
            (file_service_download ns_path p)) (\<lambda>(file, content).
     ret (file_download_response file content))))"

definition view_download_folder :: "'b api_env \<Rightarrow> string \<Rightarrow> ('b, string \<times> StreamZipFile list) api" where
  "view_download_folder A key =
     bnd (download_cache A key) (\<lambda>file.
     bnd (catching [] (filecore_download_folder (a_env A) (f_owner_id file) (path_str (f_path file)))) (\<lambda>content.
     ret (''attachment; filename='' @ [CHR 0x22] @ header_filename (f_name file) @ ''.zip'' @ [CHR 0x22], content)))"

definition view_empty_trash :: "'b api_env \<Rightarrow> string option \<Rightarrow> ('b, string) api" where
  "view_empty_trash A token = with_namespace A token (\<lambda>user ns_path.
     enqueue_job A (Job_empty_trash ns_path (context_user user)))"

definition view_get_batch :: "'b api_env \<Rightarrow> string option \<Rightarrow> uuid list \<Rightarrow> ('b, FileSchema list \<times> nat) api" where
  "view_get_batch A token ids = with_namespace A token (\<lambda>user ns_path.
     bnd (catching [] (file_service_get_by_id_batch ns_path ids)) (\<lambda>files.
     ret (map (file_schema A) files, length files)))"

definition download_url :: "'b api_env \<Rightarrow> File \<Rightarrow> string \<Rightarrow> string" where
  "download_url A f key =
     a_url_for A (if is_folder f then ''download_folder'' else ''download'') [] @ ''?key='' @ key"

definition view_get_download_url :: "'b api_env \<Rightarrow> string option \<Rightarrow> uuid \<Rightarrow> ('b, string) api" where
  "view_get_download_url A token file_id = with_namespace A token (\<lambda>user ns_path.
     bnd (catching [(FileErr FileActionNotAllowed, AE_FileActionNotAllowed), (FileErr FileNotFound, AE_PathNotFound)]
            (file_service_get_by_id ns_path file_id)) (\<lambda>file.
     bnd (catching [] (create_download_cache (a_env A) file)) (\<lambda>key.
     ret (download_url A file key))))"

definition view_get_content_metadata :: "'b api_env \<Rightarrow> string option \<Rightarrow> uuid \<Rightarrow> ('b, uuid \<times> Exif) api" where
  "view_get_content_metadata A token file_id = with_namespace A token (\<lambda>user ns_path.
     bnd (catching [(FileErr FileActionNotAllowed, AE_FileActionNotAllowed), (FileErr FileNotFound, AE_PathNotFound),
                    (BlobMetadataNotFound, AE_FileContentMetadataNotFound)]
            (ns_get_file_metadata ns_path file_id)) (\<lambda>meta.
     ret (file_id, bm_data meta)))"

text \<open>\<open>@disk_cache(key=..., ttl=...)\<close>: the arguments of the request are resolved first; a cached response is
  returned without running the body, and what the body returns is cached.\<close>

definition disk_cached ::
  "'b api_env \<Rightarrow> string \<Rightarrow> string \<Rightarrow> ('b, thumbnail_response) api \<Rightarrow> ('b, thumbnail_response) api" where
  "disk_cached A key ttl body =
     bnd (a_disk_get A key) (\<lambda>v. case v of
       Some r \<Rightarrow> ret r
     | None \<Rightarrow> bnd body (\<lambda>r. andthen (a_disk_set A key r ttl) (ret r)))"

definition make_thumbnail_ttl :: "ThumbnailSize \<Rightarrow> string" where
  "make_thumbnail_ttl s = (if thumbnail_size_int s = thumbnail_size_int TS_xs then ''7d'' else ''24h'')"

definition thumbnail_response_of :: "string \<Rightarrow> bytes \<times> string \<Rightarrow> thumbnail_response" where
  "thumbnail_response_of name thumb =
     \<lparr> tn_filename = header_filename name, tn_content = fst thumb, tn_mediatype = snd thumb \<rparr>"

definition thumbnail_key :: "uuid \<Rightarrow> ThumbnailSize \<Rightarrow> string" where
  "thumbnail_key i s = uuid_str i @ '':'' @ thumbnail_size_str s"

definition view_get_thumbnail ::
  "'b api_env \<Rightarrow> string option \<Rightarrow> uuid \<Rightarrow> ThumbnailSize \<Rightarrow> ('b, thumbnail_response) api" where
  "view_get_thumbnail A token file_id s = with_namespace A token (\<lambda>user ns_path.
     disk_cached A (thumbnail_key file_id s) (make_thumbnail_ttl s)
       (bnd (catching [(FileErr FileActionNotAllowed, AE_FileActionNotAllowed), (FileErr FileNotFound, AE_PathNotFound),
                       (FileErr IsADirectory, AE_IsADirectory),
                       (FileErr FileThumbnailUnavailable, AE_FileThumbnailUnavailable)]
               (ns_get_file_thumbnail (a_env A) ns_path file_id (thumbnail_size_int s))) (\<lambda>(file, thumb).
        ret (thumbnail_response_of (f_name file) thumb))))"

definition view_list_folder :: "'b api_env \<Rightarrow> string option \<Rightarrow> string \<Rightarrow> ('b, string \<times> FileSchema list \<times> nat) api" where
  "view_list_folder A token path = with_namespace A token (\<lambda>user ns_path.
     bnd (of_result (normalize_path path)) (\<lambda>p.
     bnd (catching [(FileErr FileActionNotAllowed, AE_FileActionNotAllowed), (FileErr FileNotFound, AE_PathNotFound),
                    (FileErr NotADirectory, AE_NotADirectory)]
            (ns_list_folder (e_ext (a_env A)) ns_path p)) (\<lambda>files.
     ret (p, map (file_schema A) files, length files))))"

definition view_move_batch :: "'b api_env \<Rightarrow> string option \<Rightarrow> (string \<times> string) list \<Rightarrow> ('b, string) api" where
  "view_move_batch A token items = with_namespace A token (\<lambda>user ns_path.
     bnd (of_result (check_all (\<lambda>(a, t). move_request a t) items)) (\<lambda>relocations.
     enqueue_job A (Job_move_batch ns_path relocations (context_user user))))"

definition view_move_to_trash_batch :: "'b api_env \<Rightarrow> string option \<Rightarrow> string list \<Rightarrow> ('b, string) api" where
  "view_move_to_trash_batch A token paths = with_namespace A token (\<lambda>user ns_path.
     bnd (of_result (check_all move_to_trash_request paths)) (\<lambda>ps.
     enqueue_job A (Job_move_to_trash_batch ns_path ps (context_user user))))"

definition view_upload_file ::
  "'b api_env \<Rightarrow> string option \<Rightarrow> BlobContent \<Rightarrow> string \<Rightarrow> datetime option \<Rightarrow> ('b, FileSchema) api" where
  "view_upload_file A token content path mtime = with_namespace A token (\<lambda>user ns_path.
     andthen (verified_current_user A user)
     (bnd (of_result (normalize_path path)) (\<lambda>p.
      bnd (catching [] now) (\<lambda>t.
      bnd (of_result (case mtime of None \<Rightarrow> Inr None | Some m \<Rightarrow> then_check (check_timestamp t m) (\<lambda>m. Inr (Some m)))) (\<lambda>modified_at.
      bnd (catching [(FileErr FileActionNotAllowed, AE_FileActionNotAllowed),
                     (UserErr StorageQuotaExceeded, AE_StorageQuotaExceeded),
                     (FileErr MalformedPath, AE_MalformedPath), (FileErr NotADirectory, AE_NotADirectory),
                     (FileErr FileTooLarge, AE_UploadFileTooLarge)]
             (ns_add_file (a_env A) ns_path p content modified_at)) (\<lambda>upload.
      ret (file_schema A upload)))))))"

section \<open>sharing/views.py\<close>

record SharedLinkSchema =
  ssc_file_id :: uuid
  ssc_token :: string
  ssc_created_at :: datetime

definition shared_link_schema :: "SharedLink \<Rightarrow> SharedLinkSchema" where
  "shared_link_schema l = \<lparr> ssc_file_id = sl_file_id l, ssc_token = sl_token l, ssc_created_at = sl_created_at l \<rparr>"

definition shared_link_file_schema :: "'b api_env \<Rightarrow> string \<Rightarrow> File \<Rightarrow> FileSchema" where
  "shared_link_file_schema A token f = \<lparr> fsc_id = f_id f, fsc_name = f_name f, fsc_path = [],
     fsc_size = f_size f, fsc_mediatype = f_mediatype f, fsc_hidden = prefix ''.'' (f_name f), fsc_shared = False,
     fsc_thumbnail_url = (if thumbnail_is_supported (f_mediatype f)
       then Some (a_url_for A ''get_shared_link_thumbnail'' token) else None),
     fsc_modified_at = f_modified_at f \<rparr>"

definition view_create_shared_link :: "'b api_env \<Rightarrow> string option \<Rightarrow> uuid \<Rightarrow> ('b, SharedLinkSchema) api" where
  "view_create_shared_link A token file_id = with_namespace A token (\<lambda>user ns_path.
     bnd (catching [(FileErr FileActionNotAllowed, AE_FileActionNotAllowed), (FileErr FileNotFound, AE_PathNotFound)]
            (share_create_link (a_env A) ns_path file_id)) (\<lambda>link. ret (shared_link_schema link)))"

definition view_get_shared_link :: "'b api_env \<Rightarrow> string option \<Rightarrow> uuid \<Rightarrow> ('b, SharedLinkSchema) api" where
  "view_get_shared_link A token file_id = with_namespace A token (\<lambda>user ns_path.
     bnd (catching [(FileErr FileNotFound, AE_SharedLinkNotFound), (SharedLinkNotFound, AE_SharedLinkNotFound)]
            (share_get_link ns_path file_id)) (\<lambda>link. ret (shared_link_schema link)))"

definition view_get_shared_link_download_url :: "'b api_env \<Rightarrow> string \<Rightarrow> ('b, string) api" where
  "view_get_shared_link_download_url A token =
     bnd (catching [(SharedLinkNotFound, AE_SharedLinkNotFound)] (share_get_shared_item token)) (\<lambda>file.
     bnd (catching [] (create_download_cache (a_env A) file)) (\<lambda>key.
     ret (download_url A file key)))"

definition view_get_shared_link_file :: "'b api_env \<Rightarrow> string \<Rightarrow> ('b, FileSchema) api" where
  "view_get_shared_link_file A token =
     bnd (catching [(SharedLinkNotFound, AE_SharedLinkNotFound)] (share_get_shared_item token)) (\<lambda>file.
     ret (shared_link_file_schema A token file))"

definition view_get_shared_link_thumbnail :: "'b api_env \<Rightarrow> string \<Rightarrow> ThumbnailSize \<Rightarrow> ('b, thumbnail_response) api" where
  "view_get_shared_link_thumbnail A token s =
     bnd (catching [(SharedLinkNotFound, AE_SharedLinkNotFound)]
            (share_get_link_thumbnail (a_env A) token (thumbnail_size_int s))) (\<lambda>(_, thumb).
     ret \<lparr> tn_filename = ''thumbnail-'' @ thumbnail_size_str s @ ''.webp'',
           tn_content = fst thumb, tn_mediatype = snd thumb \<rparr>)"

definition view_list_shared_links :: "'b api_env \<Rightarrow> string option \<Rightarrow> ('b, SharedLinkSchema list) api" where
  "view_list_shared_links A token = with_namespace A token (\<lambda>user ns_path.
     bnd (catching [] (share_list_shared_links ns_path)) (\<lambda>links. ret (map shared_link_schema links)))"

definition view_revoke_shared_link :: "'b api_env \<Rightarrow> string option \<Rightarrow> string \<Rightarrow> ('b, unit) api" where
  "view_revoke_shared_link A token link_token = with_namespace A token (\<lambda>user ns_path.
     catching [] (share_revoke_link link_token))"

end
