(* ===== verification/ApiPhotos.thy ===== *)
theory ApiPhotos
  imports ApiFiles
begin

text \<open>
  The views of \<open>src/app/api/photos\<close>: albums, media items and the one-time download sessions. A response
  schema with a thumbnail URL asserts that the media type supports one.
\<close>

section \<open>Schemas\<close>

definition make_thumbnail_url :: "'b api_env \<Rightarrow> MediaItem \<Rightarrow> ('b, string) api" where
  "make_thumbnail_url A i =
     andthen (guard (thumbnail_is_supported (mi_media_type i)) (Crash (PyErr AssertionError)))
       (ret (a_url_for A ''get_media_item_thumbnail'' (uuid_str (mi_id i))))"

text \<open>\<open>AlbumItemSchema\<close> has the same fields.\<close>

record MediaItemSchema =
  misc_id :: uuid
  misc_name :: string
  misc_size :: int
  misc_media_type :: string
  misc_thumbnail_url :: string
  misc_taken_at :: "datetime option"
  misc_created_at :: datetime
  misc_modified_at :: datetime
  misc_deleted_at :: "datetime option"

definition media_item_schema :: "'b api_env \<Rightarrow> MediaItem \<Rightarrow> ('b, MediaItemSchema) api" where
  "media_item_schema A i = bnd (make_thumbnail_url A i) (\<lambda>url. ret \<lparr> misc_id = mi_id i, misc_name = mi_name i,
     misc_size = mi_size i, misc_media_type = mi_media_type i, misc_thumbnail_url = url,
     misc_taken_at = mi_taken_at i, misc_created_at = mi_created_at i,
     misc_modified_at = mi_modified_at i, misc_deleted_at = mi_deleted_at i \<rparr>)"

definition media_page :: "'b api_env \<Rightarrow> MediaItem list \<Rightarrow> ('b, MediaItemSchema list) api" where
  "media_page A items = map_prog (media_item_schema A) items"

record AlbumSchema =
  asc_id :: uuid
  asc_title :: string
  asc_slug :: string
  asc_cover :: "(uuid \<times> string) option"
  asc_items_count :: int
  asc_created_at :: datetime

definition album_cover_schema :: "'b api_env \<Rightarrow> uuid option \<Rightarrow> (uuid \<times> string) option" where
  "album_cover_schema A c = (case c of None \<Rightarrow> None
     | Some i \<Rightarrow> Some (i, a_url_for A ''get_media_item_thumbnail'' (uuid_str i)))"

definition album_schema :: "'b api_env \<Rightarrow> Album \<Rightarrow> AlbumSchema" where
  "album_schema A a = \<lparr> asc_id = al_id a, asc_title = al_title a, asc_slug = al_slug a,
     asc_cover = album_cover_schema A (al_cover a), asc_items_count = al_items_count a,
     asc_created_at = al_created_at a \<rparr>"

text \<open>\<open>Field(min_length=1, max_length=512)\<close>: titles and slugs.\<close>

definition short_text :: "string \<Rightarrow> api_exn + string" where
  "short_text s = (if 1 \<le> length s \<and> length s \<le> 512 then Inr s else Inl Unprocessable)"

section \<open>albums/views.py\<close>

definition album_reply :: "'b api_env \<Rightarrow> ('b, Album) app \<Rightarrow> ('b, AlbumSchema) api" where
  "album_reply A m = bnd (catching [(AlbumNotFound, AE_AlbumNotFound)] m) (\<lambda>a. ret (album_schema A a))"

definition view_add_album_items :: "'b api_env \<Rightarrow> string option \<Rightarrow> string \<Rightarrow> uuid list \<Rightarrow> ('b, AlbumSchema) api" where
  "view_add_album_items A token slug media_item_ids = current_user A token (\<lambda>user.
     bnd (of_result (short_text slug)) (\<lambda>slug. bnd (of_result (id_list media_item_ids)) (\<lambda>ids.
     album_reply A (album_uc_add_album_items (e_ext (a_env A)) (u_id user) slug ids))))"

definition view_create_album :: "'b api_env \<Rightarrow> string option \<Rightarrow> string \<Rightarrow> ('b, AlbumSchema) api" where
  "view_create_album A token title = current_user A token (\<lambda>user.
     bnd (of_result (short_text title)) (\<lambda>title.
     bnd (catching [] (album_uc_create (e_ext (a_env A)) title (u_id user))) (\<lambda>a. ret (album_schema A a))))"

definition view_delete_album :: "'b api_env \<Rightarrow> string option \<Rightarrow> string \<Rightarrow> ('b, AlbumSchema) api" where
  "view_delete_album A token slug = current_user A token (\<lambda>user.
     bnd (of_result (short_text slug)) (\<lambda>slug.
     album_reply A (in_db (album_delete (e_ext (a_env A)) (u_id user) slug))))"

definition view_get_album :: "'b api_env \<Rightarrow> string option \<Rightarrow> string \<Rightarrow> ('b, AlbumSchema) api" where
  "view_get_album A token slug = current_user A token (\<lambda>user.
     bnd (of_result (short_text slug)) (\<lambda>slug.
     album_reply A (in_db (album_get_by_slug (e_ext (a_env A)) (u_id user) slug))))"

definition view_list_albums :: "'b api_env \<Rightarrow> string option \<Rightarrow> int \<Rightarrow> int \<Rightarrow> ('b, AlbumSchema list) api" where
  "view_list_albums A token page page_size = current_user A token (\<lambda>user.
     bnd (page_offset page page_size) (\<lambda>off.
     bnd (catching [] (in_db (album_list_by_owner_id (e_ext (a_env A)) (u_id user) off (nat page_size)))) (\<lambda>items.
     ret (map (album_schema A) items))))"

definition view_list_album_items ::
  "'b api_env \<Rightarrow> string option \<Rightarrow> string \<Rightarrow> int \<Rightarrow> int \<Rightarrow> ('b, MediaItemSchema list) api" where
  "view_list_album_items A token slug page page_size = current_user A token (\<lambda>user.
     bnd (of_result (short_text slug)) (\<lambda>slug. bnd (page_offset page page_size) (\<lambda>off.
     bnd (catching [] (in_db (album_list_items (u_id user) slug off (nat page_size)))) (media_page A))))"

definition view_remove_album_cover :: "'b api_env \<Rightarrow> string option \<Rightarrow> string \<Rightarrow> ('b, AlbumSchema) api" where
  "view_remove_album_cover A token slug = current_user A token (\<lambda>user.
     bnd (of_result (short_text slug)) (\<lambda>slug.
     album_reply A (album_uc_remove_cover (e_ext (a_env A)) (u_id user) slug)))"

definition view_remove_album_items :: "'b api_env \<Rightarrow> string option \<Rightarrow> string \<Rightarrow> uuid list \<Rightarrow> ('b, AlbumSchema) api" where
  "view_remove_album_items A token slug media_item_ids = current_user A token (\<lambda>user.
     bnd (of_result (short_text slug)) (\<lambda>slug. bnd (of_result (id_list media_item_ids)) (\<lambda>ids.
     album_reply A (album_uc_remove_album_items (e_ext (a_env A)) (u_id user) slug ids))))"

definition view_set_album_cover :: "'b api_env \<Rightarrow> string option \<Rightarrow> string \<Rightarrow> uuid \<Rightarrow> ('b, AlbumSchema) api" where
  "view_set_album_cover A token slug media_item_id = current_user A token (\<lambda>user.
     bnd (of_result (short_text slug)) (\<lambda>slug.
     album_reply A (in_db (album_set_cover (e_ext (a_env A)) (u_id user) slug (Some media_item_id)))))"

definition view_update_album :: "'b api_env \<Rightarrow> string option \<Rightarrow> string \<Rightarrow> string \<Rightarrow> ('b, AlbumSchema) api" where
  "view_update_album A token slug title = current_user A token (\<lambda>user.
     bnd (of_result (short_text slug)) (\<lambda>slug. bnd (of_result (short_text title)) (\<lambda>title.
     album_reply A (album_rename (e_ext (a_env A)) (u_id user) slug title))))"

section \<open>media_items/deps.py\<close>

definition download_session :: "'b api_env \<Rightarrow> string option \<Rightarrow> ('b, DownloadMediaItem list) api" where
  "download_session A key =
     bnd (catching [] (media_get_download_session (a_env A) (case key of None \<Rightarrow> ''None'' | Some k \<Rightarrow> k))) (\<lambda>v.
     case v of None \<Rightarrow> raise (ApiErr AE_PhotosDownloadNotFound) | Some session \<Rightarrow> ret session)"

definition download_media_item_cache :: "'b api_env \<Rightarrow> string option \<Rightarrow> ('b, DownloadMediaItem) api" where
  "download_media_item_cache A key = bnd (download_session A key) (\<lambda>session.
     case session of [item] \<Rightarrow> ret item | _ \<Rightarrow> raise (ApiErr AE_PhotosDownloadNotFound))"

definition download_media_item_batch_cache :: "'b api_env \<Rightarrow> string option \<Rightarrow> ('b, DownloadMediaItem list) api" where
  "download_media_item_batch_cache A key = bnd (download_session A key) (\<lambda>session.
     andthen (guard (\<not> length session < 2) (ApiErr AE_PhotosDownloadNotFound)) (ret session))"

section \<open>media_items/views.py\<close>

definition view_count_media_items :: "'b api_env \<Rightarrow> string option \<Rightarrow> ('b, nat \<times> nat) api" where
  "view_count_media_items A token = current_user A token (\<lambda>user.
     catching [] (in_db (media_item_count (u_id user))))"

definition view_delete_media_item_batch ::
  "'b api_env \<Rightarrow> string option \<Rightarrow> uuid list \<Rightarrow> ('b, MediaItemSchema list) api" where
  "view_delete_media_item_batch A token ids = current_user A token (\<lambda>user.
     bnd (of_result (id_list ids)) (\<lambda>ids.
     bnd (catching [] (media_uc_delete_batch (u_id user) ids)) (media_page A)))"

definition view_delete_media_item_immediately_batch ::
  "'b api_env \<Rightarrow> string option \<Rightarrow> uuid list \<Rightarrow> ('b, unit) api" where
  "view_delete_media_item_immediately_batch A token ids = current_user A token (\<lambda>user.
     bnd (of_result (id_list ids)) (\<lambda>ids.
     catching [] (media_uc_delete_immediately_batch (u_id user) ids)))"

definition view_download_media_item :: "'b api_env \<Rightarrow> string option \<Rightarrow> ('b, download_response) api" where
  "view_download_media_item A key =
     bnd (download_media_item_cache A key) (\<lambda>item.
     ret \<lparr> dl_disposition = ''attachment; filename='' @ [CHR 0x22] @ header_filename (dm_name item) @ [CHR 0x22],
           dl_length = Some (dm_size item), dl_type = dm_media_type item, dl_key = dm_storage_key item \<rparr>)"

definition view_download_media_items_batch ::
  "'b api_env \<Rightarrow> string option \<Rightarrow> ('b, string \<times> StreamZipFile list) api" where
  "view_download_media_items_batch A key =
     bnd (download_media_item_batch_cache A key) (\<lambda>items.
     bnd (catching [] (media_download_batch (a_env A) items)) (\<lambda>content.
     ret (''attachment; filename='' @ [CHR 0x22] @ ''Shelf Cloud.zip'' @ [CHR 0x22], content)))"

definition view_media_get_content_metadata ::
  "'b api_env \<Rightarrow> string option \<Rightarrow> uuid \<Rightarrow> ('b, uuid \<times> Exif) api" where
  "view_media_get_content_metadata A token media_item_id = current_user A token (\<lambda>user.
     bnd (catching [(MediaItemNotFound, AE_MediaItemNotFound),
                    (BlobMetadataNotFound, AE_MediaItemContentMetadataNotFound)]
            (media_uc_get_content_metadata (u_id user) media_item_id)) (\<lambda>meta.
     ret (media_item_id, bm_data meta)))"

definition view_media_get_download_url :: "'b api_env \<Rightarrow> string option \<Rightarrow> uuid list \<Rightarrow> ('b, string) api" where
  "view_media_get_download_url A token ids = current_user A token (\<lambda>user.
     bnd (of_result (id_list ids)) (\<lambda>ids.
     bnd (catching [(MediaItemNotFound, AE_MediaItemNotFound)]
            (media_create_download_session (a_env A) (u_id user) ids)) (\<lambda>(key, items_count).
     ret (a_url_for A (if items_count = 1 then ''download_media_item'' else ''download_media_items_batch'') []
            @ ''?key='' @ key))))"

definition view_mark_favourite_batch :: "'b api_env \<Rightarrow> string option \<Rightarrow> uuid list \<Rightarrow> ('b, unit) api" where
  "view_mark_favourite_batch A token ids = current_user A token (\<lambda>user.
     bnd (of_result (id_list ids)) (\<lambda>ids. catching [] (media_mark_favourite_batch (u_id user) ids)))"

definition view_list_favourite_media_item_ids :: "'b api_env \<Rightarrow> string option \<Rightarrow> ('b, uuid list) api" where
  "view_list_favourite_media_item_ids A token = current_user A token (\<lambda>user.
     catching [] (in_db (favourite_list_ids (u_id user))))"

definition view_unmark_favourite_batch :: "'b api_env \<Rightarrow> string option \<Rightarrow> uuid list \<Rightarrow> ('b, unit) api" where
  "view_unmark_favourite_batch A token ids = current_user A token (\<lambda>user.
     bnd (of_result (id_list ids)) (\<lambda>ids. catching [] (media_unmark_favourite_batch (u_id user) ids)))"

text \<open>The size and the id arrive as strings: the time to live is computed, and the size with it parsed,
  before the cache is asked; the id is parsed only when the body runs.\<close>

definition parse_thumbnail_size :: "string \<Rightarrow> ThumbnailSize option" where
  "parse_thumbnail_size s = map_of (map (\<lambda>t. (thumbnail_size_str t, t)) [TS_xs, TS_lg, TS_xxl]) s"

definition view_media_get_thumbnail ::
  "'b api_env \<Rightarrow> string option \<Rightarrow> string \<Rightarrow> string \<Rightarrow> ('b, thumbnail_response) api" where
  "view_media_get_thumbnail A token media_item_id size_str = current_user A token (\<lambda>user.
     case parse_thumbnail_size size_str of
       None \<Rightarrow> raise (Crash (PyErr ValueError))
     | Some s \<Rightarrow> disk_cached A (media_item_id @ '':'' @ size_str) (make_thumbnail_ttl s)
         (case parse_uuid media_item_id of
            None \<Rightarrow> raise (Crash (PyErr ValueError))
          | Some item_id \<Rightarrow>
              bnd (catching [(BlobErr BlobThumbnailUnavailable, AE_MediaThumbnailUnavailable),
                             (MediaItemNotFound, AE_MediaItemNotFound)]
                     (media_uc_thumbnail (a_env A) (u_id user) item_id (thumbnail_size_int s))) (\<lambda>(item, thumb).
              ret (thumbnail_response_of (mi_name item) thumb))))"

definition view_list_media_items ::
  "'b api_env \<Rightarrow> string option \<Rightarrow> bool \<Rightarrow> int \<Rightarrow> int \<Rightarrow> ('b, MediaItemSchema list) api" where
  "view_list_media_items A token favourites page page_size = current_user A token (\<lambda>user.
     bnd (page_offset page page_size) (\<lambda>off.
     bnd (catching [] (in_db (media_item_list_by_owner (u_id user) favourites off (nat page_size)))) (media_page A)))"

definition view_list_deleted_media_items :: "'b api_env \<Rightarrow> string option \<Rightarrow> ('b, MediaItemSchema list) api" where
  "view_list_deleted_media_items A token = current_user A token (\<lambda>user.
     bnd (catching [] (media_uc_list_deleted (u_id user))) (media_page A))"

definition view_purge :: "nat \<Rightarrow> 'b api_env \<Rightarrow> string option \<Rightarrow> ('b, unit option) api" where
  "view_purge fuel A token = current_user A token (\<lambda>user. catching [] (media_uc_purge fuel (u_id user)))"

definition view_restore_media_item_batch ::
  "'b api_env \<Rightarrow> string option \<Rightarrow> uuid list \<Rightarrow> ('b, MediaItemSchema list) api" where
  "view_restore_media_item_batch A token ids = current_user A token (\<lambda>user.
     bnd (of_result (id_list ids)) (\<lambda>ids.
     bnd (catching [] (media_restore_batch (u_id user) ids)) (media_page A)))"

definition view_upload_media_item ::
  "'b api_env \<Rightarrow> string option \<Rightarrow> string option \<Rightarrow> BlobContent \<Rightarrow> ('b, MediaItemSchema) api" where
  "view_upload_media_item A token filename content = current_user A token (\<lambda>user.
     bnd (catching [] (media_uc_upload (a_env A) (u_id user)
            (case filename of Some (c # cs) \<Rightarrow> c # cs | _ \<Rightarrow> ''untitled'') content)) (media_item_schema A))"

end
