(* ===== verification/S3.thy ===== *)
theory S3
  imports Toolkit Storage
begin

text \<open>
  \<open>S3Storage\<close> and the two S3 clients (\<open>src/app/infrastructure/storage/s3\<close>). The service answers
  HTTP requests: \<open>sc_http\<close> sends a request (signed, with its parameters in the order given) and yields
  the reply, or the exception of the transport; \<open>sc_xml\<close> is \<open>ElementTree.fromstring\<close>, \<open>sc_httpdate\<close>
  \<open>parsedate_to_datetime\<close> and \<open>sc_isodate\<close> \<open>datetime.fromisoformat\<close>. The tasks of a task group run in
  the order they were created, and after the listing that creates them.
\<close>

section \<open>Requests and replies\<close>

datatype xml = Elem (xml_tag: string) (xml_text: "string option") (xml_children: "xml list")

record http_request =
  rq_method :: string
  rq_url :: string
  rq_params :: "(string \<times> string) list"
  rq_headers :: "(string \<times> string) list"
  rq_body :: bytes

record http_reply =
  hr_status :: nat
  hr_headers :: "(string \<times> string) list"
  hr_content :: bytes

record 'b s3_config =
  sc_base_url :: string
  sc_bucket :: string
  sc_cwd :: "string list"
  sc_http :: "http_request \<Rightarrow> ('b, exn, http_reply) prog"
  sc_xml :: "string \<Rightarrow> xml option"
  sc_httpdate :: "string \<Rightarrow> datetime option"
  sc_isodate :: "string \<Rightarrow> datetime option"

record S3File =
  s3_key :: string
  s3_last_modified :: datetime
  s3_size :: int
  s3_etag :: "string option"

type_synonym ('b, 'a) s3 = "('b, exn, 'a) prog"

text \<open>\<open>urllib.parse.quote\<close>.\<close>

definition url_safe :: "8 word \<Rightarrow> bool" where
  "url_safe b \<longleftrightarrow> (let n = unat b in 48 \<le> n \<and> n \<le> 57 \<or> 65 \<le> n \<and> n \<le> 90 \<or> 97 \<le> n \<and> n \<le> 122
     \<or> n \<in> {95, 46, 45, 126, 47})"

definition quote_byte :: "8 word \<Rightarrow> string" where
  "quote_byte b = (if url_safe b then [char_of (unat b)]
     else CHR 0x25 # map (\<lambda>d. if d < 10 then char_of (48 + d) else char_of (55 + d)) [unat b div 16, unat b mod 16])"

definition url_quote :: "string \<Rightarrow> string" where
  "url_quote s = concat (map quote_byte (utf8 s))"

section \<open>exceptions.py\<close>

definition ERROR_CODES :: "(string \<times> s3_error) list" where
  "ERROR_CODES = [(''AccessDenied'', AccessDenied), (''BucketAlreadyOwnedByYou'', BucketAlreadyOwnedByYou),
     (''BucketAlreadyExists'', BucketAlreadyExists), (''NoSuchKey'', NoSuchKey),
     (''SignatureDoesNotMatch'', SignatureDoesNotMatch)]"

definition xml_find :: "xml \<Rightarrow> string \<Rightarrow> xml option" where
  "xml_find n tag = List.find (\<lambda>c. xml_tag c = tag) (xml_children n)"

definition xml_findall :: "xml \<Rightarrow> string \<Rightarrow> xml list" where
  "xml_findall n tag = filter (\<lambda>c. xml_tag c = tag) (xml_children n)"

definition is_success :: "http_reply \<Rightarrow> bool" where
  "is_success r \<longleftrightarrow> 200 \<le> hr_status r \<and> hr_status r < 300"

definition error_code :: "'b s3_config \<Rightarrow> http_reply \<Rightarrow> s3_error option" where
  "error_code C r = (case sc_xml C (latin1 (hr_content r)) of None \<Rightarrow> None
     | Some error \<Rightarrow> (case xml_find error ''Code'' of None \<Rightarrow> None
        | Some code \<Rightarrow> (case xml_text code of None \<Rightarrow> None | Some t \<Rightarrow> map_of ERROR_CODES t)))"

definition raise_for_status :: "'b s3_config \<Rightarrow> http_reply \<Rightarrow> exn + unit" where
  "raise_for_status C r =
     (if is_success r then Inr ()
      else case error_code C r of Some e \<Rightarrow> Inl (S3Err e)
        | None \<Rightarrow> Inl (S3Err (if hr_status r = 404 then ResourceNotFound else HTTPStatusError)))"

section \<open>The client\<close>

text \<open>Every reply goes through the hook that raises on a failed one.\<close>

definition s3_send :: "'b s3_config \<Rightarrow> http_request \<Rightarrow> ('b, http_reply) s3" where
  "s3_send C rq = bnd (sc_http C rq) (\<lambda>r. andthen (of_result (raise_for_status C r)) (ret r))"

definition xmlns :: string where
  "xmlns = ''http://s3.amazonaws.com/doc/2006-03-01/''"

definition xmlns_re_sub :: "string \<Rightarrow> string" where
  "xmlns_re_sub s = replace_all ('' xmlns='' @ [CHR 0x22] @ xmlns @ [CHR 0x22]) [] s"

definition reply_xml :: "'b s3_config \<Rightarrow> http_reply \<Rightarrow> exn + xml" where
  "reply_xml C r = (case sc_xml C (xmlns_re_sub (latin1 (hr_content r))) of
     None \<Rightarrow> Inl (PyErr XMLParseError) | Some x \<Rightarrow> Inr x)"

definition header :: "http_reply \<Rightarrow> string \<Rightarrow> exn + string" where
  "header r k = (case map_of (hr_headers r) k of None \<Rightarrow> Inl (PyErr KeyError) | Some v \<Rightarrow> Inr v)"

definition header_date :: "'b s3_config \<Rightarrow> http_reply \<Rightarrow> string \<Rightarrow> exn + datetime" where
  "header_date C r k = (case header r k of Inl e \<Rightarrow> Inl e
     | Inr v \<Rightarrow> (case sc_httpdate C v of None \<Rightarrow> Inl (PyErr ValueError) | Some t \<Rightarrow> Inr t))"

text \<open>\<open>node.find(tag).text\<close>.\<close>

definition child_text :: "xml \<Rightarrow> string \<Rightarrow> exn + string option" where
  "child_text n tag = (case xml_find n tag of None \<Rightarrow> Inl (PyErr AttributeError) | Some c \<Rightarrow> Inr (xml_text c))"

definition s3_url :: "'b s3_config \<Rightarrow> string \<Rightarrow> string" where
  "s3_url C path = sc_base_url C @ url_quote path"

definition object_url :: "'b s3_config \<Rightarrow> string \<Rightarrow> string" where
  "object_url C key = s3_url C (sc_bucket C @ ''/'' @ key)"

definition request :: "string \<Rightarrow> string \<Rightarrow> (string \<times> string) list \<Rightarrow> (string \<times> string) list \<Rightarrow> bytes \<Rightarrow> http_request" where
  "request m url params headers body = \<lparr> rq_method = m, rq_url = url, rq_params = params,
     rq_headers = headers, rq_body = body \<rparr>"

definition copy_object :: "'b s3_config \<Rightarrow> string \<Rightarrow> string \<Rightarrow> ('b, unit) s3" where
  "copy_object C from_key to_key =
     bnd (s3_send C (request ''PUT'' (object_url C to_key) []
            [(''x-amz-copy-source'', ''/'' @ sc_bucket C @ ''/'' @ from_key)] [])) (\<lambda>_. ret ())"

definition create_bucket :: "'b s3_config \<Rightarrow> string \<Rightarrow> ('b, unit) s3" where
  "create_bucket C name = bnd (s3_send C (request ''PUT'' (s3_url C name) [] [] [])) (\<lambda>_. ret ())"

definition delete_bucket :: "'b s3_config \<Rightarrow> string \<Rightarrow> ('b, unit) s3" where
  "delete_bucket C name = bnd (s3_send C (request ''DELETE'' (s3_url C name) [] [] [])) (\<lambda>_. ret ())"

text \<open>The keys go into the request body as they are.\<close>

definition delete_xml :: "string list \<Rightarrow> string" where
  "delete_xml files =
     ''<?xml version='' @ [CHR 0x22] @ ''1.0'' @ [CHR 0x22] @ '' encoding='' @ [CHR 0x22] @ ''UTF-8'' @ [CHR 0x22] @ ''?>''
     @ ''<Delete xmlns='' @ [CHR 0x22] @ xmlns @ [CHR 0x22] @ ''>''
     @ '' '' @ concat (map (\<lambda>f. ''<Object><Key>'' @ f @ ''</Key></Object>'') files)
     @ ''</Delete>''"

definition delete_1000_files :: "'b s3_config \<Rightarrow> string list \<Rightarrow> ('b, string option list) s3" where
  "delete_1000_files C files =
     andthen (guard (length files \<le> 1000) (PyErr AssertionError))
     (bnd (s3_send C (request ''POST'' (s3_url C (sc_bucket C)) [(''delete'', ''1'')] [] (utf8 (delete_xml files)))) (\<lambda>r.
      bnd (of_result (reply_xml C r)) (\<lambda>root.
      of_result (map_result (\<lambda>k. child_text k ''Key'') (xml_children root)))))"

definition task_group :: "('b, 'a) s3 \<Rightarrow> ('b, 'a) s3" where
  "task_group m = try_else m (\<lambda>e. raise (TaskGroupErr e))"

fun chunks_of :: "nat \<Rightarrow> 'a list \<Rightarrow> 'a list list" where
  "chunks_of n xs = (if xs = [] \<or> n = 0 then [] else take n xs # chunks_of n (drop n xs))"

declare chunks_of.simps [simp del]

definition s3_delete :: "'b s3_config \<Rightarrow> string list \<Rightarrow> ('b, string option list) s3" where
  "s3_delete C files = task_group (bnd (map_prog (delete_1000_files C) (chunks_of 1000 files)) (\<lambda>rs. ret (concat rs)))"

definition head_object :: "'b s3_config \<Rightarrow> string \<Rightarrow> ('b, S3File) s3" where
  "head_object C key =
     bnd (s3_send C (request ''HEAD'' (object_url C key) [] [] [])) (\<lambda>r.
     bnd (of_result (header_date C r ''Last-Modified'')) (\<lambda>t.
     bnd (of_result (header r ''Content-Length'')) (\<lambda>n.
     bnd (of_result (parse_int n)) (\<lambda>sz.
     bnd (of_result (header r ''ETag'')) (\<lambda>etag.
     ret \<lparr> s3_key = key, s3_last_modified = t, s3_size = sz, s3_etag = Some etag \<rparr>)))))"

definition iter_download :: "'b s3_config \<Rightarrow> string \<Rightarrow> ('b, bytes) s3" where
  "iter_download C key = bnd (s3_send C (request ''GET'' (object_url C key) [] [] [])) (\<lambda>r. ret (hr_content r))"

definition s3file_from_xml :: "'b s3_config \<Rightarrow> xml \<Rightarrow> exn + S3File" where
  "s3file_from_xml C node =
     (case child_text node ''Key'' of Inl e \<Rightarrow> Inl e | Inr key \<Rightarrow>
     (case child_text node ''LastModified'' of Inl e \<Rightarrow> Inl e | Inr None \<Rightarrow> Inl (PyErr TypeError) | Inr (Some lm) \<Rightarrow>
     (case sc_isodate C lm of None \<Rightarrow> Inl (PyErr ValueError) | Some t \<Rightarrow>
     (case child_text node ''Size'' of Inl e \<Rightarrow> Inl e | Inr None \<Rightarrow> Inl (PyErr TypeError) | Inr (Some sz) \<Rightarrow>
     (case parse_int sz of Inl e \<Rightarrow> Inl e | Inr n \<Rightarrow>
     (case child_text node ''ETag'' of Inl e \<Rightarrow> Inl e | Inr etag \<Rightarrow>
       Inr \<lparr> s3_key = (case key of None \<Rightarrow> [] | Some k \<Rightarrow> k), s3_last_modified = t,
             s3_size = n, s3_etag = etag \<rparr>))))))"

datatype s3_item = CommonPrefix string | Object S3File

definition page_prefixes :: "xml \<Rightarrow> s3_item list" where
  "page_prefixes root = concat (map (\<lambda>c. concat (map (\<lambda>cp. case xml_text cp of
       None \<Rightarrow> [] | Some t \<Rightarrow> if t = [] then [] else [CommonPrefix t]) (xml_children c)))
     (xml_findall root ''CommonPrefixes''))"

definition page_objects :: "'b s3_config \<Rightarrow> xml \<Rightarrow> exn + s3_item list" where
  "page_objects C root = map_sum id (map Object) (map_result (s3file_from_xml C) (xml_findall root ''Contents''))"

text \<open>The parameters of one request, those that are \<open>None\<close> left out, and where the listing goes from the
  page it got: \<open>Some None\<close> stops, \<open>Some (Some t)\<close> goes on with the token \<open>t\<close>, itself possibly \<open>None\<close>.\<close>

definition list_params :: "string option \<Rightarrow> string option \<Rightarrow> string option \<Rightarrow> (string \<times> string) list" where
  "list_params contoken delimiter p = concat
     [case contoken of None \<Rightarrow> [] | Some t \<Rightarrow> [(''continuation-token'', t)],
      case delimiter of None \<Rightarrow> [] | Some d \<Rightarrow> [(''delimiter'', d)],
      [(''list-type'', ''2'')],
      case p of None \<Rightarrow> [] | Some q \<Rightarrow> [(''prefix'', q)]]"

definition next_page :: "xml \<Rightarrow> exn + string option option" where
  "next_page root =
     (if map_option xml_text (xml_find root ''IsTruncated'') = Some (Some ''false'') then Inr None
      else (case xml_find root ''NextContinuationToken'' of
          None \<Rightarrow> Inl (PyErr RuntimeError) | Some t \<Rightarrow> Inr (Some (xml_text t))))"

fun list_pages :: "'b s3_config \<Rightarrow> bool \<Rightarrow> nat \<Rightarrow> string option \<Rightarrow> string option \<Rightarrow> string option \<Rightarrow>
    ('b, s3_item list) s3" where
  "list_pages C with_prefixes 0 contoken delimiter p = raise LoopUnfinished"
| "list_pages C with_prefixes (Suc fuel) contoken delimiter p =
     bnd (s3_send C (request ''GET'' (s3_url C (sc_bucket C)) (list_params contoken delimiter p) [] [])) (\<lambda>r.
     bnd (of_result (reply_xml C r)) (\<lambda>root.
     bnd (of_result (page_objects C root)) (\<lambda>objs.
     bnd (of_result (next_page root)) (\<lambda>next.
     let items = (if with_prefixes then page_prefixes root else []) @ objs in
     case next of None \<Rightarrow> ret items
     | Some token \<Rightarrow> bnd (list_pages C with_prefixes fuel token delimiter p) (\<lambda>rest. ret (items @ rest))))))"

text \<open>\<open>list_objects\<close> of the asynchronous client yields the common prefixes too, that of the blocking one
  only the objects. The bound on the number of pages is a parameter.\<close>

definition list_objects :: "'b s3_config \<Rightarrow> bool \<Rightarrow> nat \<Rightarrow> string option \<Rightarrow> string option \<Rightarrow> ('b, s3_item list) s3" where
  "list_objects C with_prefixes fuel p delimiter =
     andthen (guard (case p of None \<Rightarrow> True | Some q \<Rightarrow> \<not> prefix ''/'' q) (PyErr AssertionError))
       (list_pages C with_prefixes fuel None delimiter p)"

definition item_key :: "s3_item \<Rightarrow> string" where
  "item_key i = (case i of CommonPrefix k \<Rightarrow> k | Object f \<Rightarrow> s3_key f)"

definition delete_recursive :: "'b s3_config \<Rightarrow> nat \<Rightarrow> string option \<Rightarrow> ('b, string option list) s3" where
  "delete_recursive C fuel p = task_group
     (bnd (list_objects C True fuel p None) (\<lambda>items.
      bnd (map_prog (delete_1000_files C) (chunks_of 1000 (map item_key items))) (\<lambda>rs. ret (concat rs))))"

definition put_object :: "'b s3_config \<Rightarrow> string \<Rightarrow> BlobContent \<Rightarrow> ('b, S3File) s3" where
  "put_object C key content =
     bnd (s3_send C (request ''PUT'' (object_url C key) [] [(''content-length'', int_str (c_size content))] (c_data content))) (\<lambda>r.
     bnd (of_result (header_date C r ''Date'')) (\<lambda>t.
     bnd (of_result (header r ''ETag'')) (\<lambda>etag.
     ret \<lparr> s3_key = key, s3_last_modified = t, s3_size = c_size content, s3_etag = Some etag \<rparr>)))"

section \<open>Uploads\<close>

definition five_MB :: int where
  "five_MB = 5 * 2 ^ 20"

text \<open>\<open>_readchunks\<close> reads until a chunk is shorter than asked for. It would not end for a chunk size of 0,
  which \<open>upload_obj\<close> never asks for.\<close>

function read_chunks :: "nat \<Rightarrow> bytes \<Rightarrow> bytes list" where
  "read_chunks n b = (if n = 0 then [] else if n \<le> length b then take n b # read_chunks n (drop n b) else [b])"
  by pat_completeness auto
termination
  by (relation "measure (\<lambda>(n, b). length b)") auto

declare read_chunks.simps [simp del]

definition upload_chunk_size :: "int \<Rightarrow> int" where
  "upload_chunk_size sz = max five_MB (sz div (five_MB * 10000))"

definition mpu_create :: "'b s3_config \<Rightarrow> string \<Rightarrow> ('b, string option) s3" where
  "mpu_create C url =
     bnd (s3_send C (request ''POST'' url [(''uploads'', [])] [] [])) (\<lambda>r.
     bnd (of_result (reply_xml C r)) (\<lambda>root.
     case xml_find root ''UploadId'' of None \<Rightarrow> raise (PyErr AssertionError) | Some i \<Rightarrow> ret (xml_text i)))"

definition mpu_abort :: "'b s3_config \<Rightarrow> string \<Rightarrow> string \<Rightarrow> ('b, unit) s3" where
  "mpu_abort C url upload_id = bnd (s3_send C (request ''DELETE'' url [(''uploadId'', upload_id)] [] [])) (\<lambda>_. ret ())"

text \<open>One part: its number, ETag and size.\<close>

definition mpu_upload_part ::
  "'b s3_config \<Rightarrow> string \<Rightarrow> string option \<Rightarrow> nat \<Rightarrow> bytes \<Rightarrow> ('b, nat \<times> string \<times> int) s3" where
  "mpu_upload_part C url upload_id part_number content = (case upload_id of
       None \<Rightarrow> raise (PyErr AssertionError)
     | Some i \<Rightarrow>
         bnd (s3_send C (request ''PUT'' url [(''partNumber'', digits_of part_number), (''uploadId'', i)]
                [(''content-length'', digits_of (length content))] content)) (\<lambda>r.
         bnd (of_result (header r ''ETag'')) (\<lambda>etag. ret (part_number, etag, int (length content)))))"

definition complete_xml :: "(nat \<times> string \<times> int) list \<Rightarrow> string" where
  "complete_xml parts =
     ''<?xml version='' @ [CHR 0x22] @ ''1.0'' @ [CHR 0x22] @ '' encoding='' @ [CHR 0x22] @ ''UTF-8'' @ [CHR 0x22] @ ''?>''
     @ ''<CompleteMultipartUpload xmlns='' @ [CHR 0x22] @ xmlns @ [CHR 0x22] @ ''>''
     @ ''  '' @ concat (map (\<lambda>(n, etag, _). ''<Part><PartNumber>'' @ digits_of n @ ''</PartNumber><ETag>'' @ etag
                          @ ''</ETag></Part>'') parts)
     @ ''</CompleteMultipartUpload>''"

definition mpu_complete ::
  "'b s3_config \<Rightarrow> string \<Rightarrow> string \<Rightarrow> (nat \<times> string \<times> int) list \<Rightarrow> ('b, S3File) s3" where
  "mpu_complete C url upload_id parts =
     bnd (s3_send C (request ''POST'' url [(''uploadId'', upload_id)] [] (utf8 (complete_xml parts)))) (\<lambda>r.
     bnd (of_result (reply_xml C r)) (\<lambda>root.
     bnd (of_result (child_text root ''Key'')) (\<lambda>key.
     bnd (of_result (header_date C r ''Date'')) (\<lambda>t.
     bnd (of_result (child_text root ''ETag'')) (\<lambda>etag.
     ret \<lparr> s3_key = (case key of None \<Rightarrow> [] | Some k \<Rightarrow> k), s3_last_modified = t,
           s3_size = sum_list (map (\<lambda>(_, _, n). n) parts), s3_etag = etag \<rparr>)))))"

text \<open>Leaving the upload after a failed part aborts it and raises again; without an upload id nothing is
  completed and \<open>result()\<close> fails.\<close>

definition multipart_upload :: "'b s3_config \<Rightarrow> string \<Rightarrow> bytes list \<Rightarrow> ('b, S3File) s3" where
  "multipart_upload C url chunks =
     bnd (mpu_create C url) (\<lambda>upload_id.
     bnd (try_else
            (task_group (map_prog (\<lambda>(n, chunk). mpu_upload_part C url upload_id n chunk) (enumerate 1 chunks)))
            (\<lambda>e. case upload_id of None \<Rightarrow> raise e | Some i \<Rightarrow> andthen (mpu_abort C url i) (raise e))) (\<lambda>parts.
     case upload_id of None \<Rightarrow> raise (PyErr AssertionError) | Some i \<Rightarrow> mpu_complete C url i parts))"

definition upload_obj :: "'b s3_config \<Rightarrow> string \<Rightarrow> BlobContent \<Rightarrow> ('b, S3File) s3" where
  "upload_obj C key content =
     (if c_size content < five_MB then put_object C key content
      else multipart_upload C (object_url C key)
             (read_chunks (nat (upload_chunk_size (c_size content))) (c_data content)))"

section \<open>S3Storage\<close>

definition s3_storage_delete :: "'b s3_config \<Rightarrow> string \<Rightarrow> ('b, unit) s3" where
  "s3_storage_delete C key = bnd (s3_delete C [normpath key]) (\<lambda>_. ret ())"

definition s3_storage_delete_batch :: "'b s3_config \<Rightarrow> string list \<Rightarrow> ('b, unit) s3" where
  "s3_storage_delete_batch C keys = bnd (s3_delete C (map normpath keys)) (\<lambda>_. ret ())"

definition s3_deletedir :: "'b s3_config \<Rightarrow> nat \<Rightarrow> string \<Rightarrow> ('b, unit) s3" where
  "s3_deletedir C fuel key = bnd (delete_recursive C fuel (Some (normpath key @ ''/''))) (\<lambda>_. ret ())"

definition s3_emptydir :: "'b s3_config \<Rightarrow> nat \<Rightarrow> string \<Rightarrow> ('b, unit) s3" where
  "s3_emptydir = s3_deletedir"

definition s3_exists :: "'b s3_config \<Rightarrow> string \<Rightarrow> ('b, bool) s3" where
  "s3_exists C key = try_else (bnd (head_object C (normpath key)) (\<lambda>_. ret True))
     (\<lambda>e. if e = S3Err ResourceNotFound then ret False else raise e)"

definition no_such_key_missing :: "exn \<Rightarrow> exn" where
  "no_such_key_missing e = (if e = S3Err NoSuchKey then FileErr FileNotFound else e)"

definition s3_download :: "'b s3_config \<Rightarrow> string \<Rightarrow> ('b, bytes) s3" where
  "s3_download C key = try_else (iter_download C (normpath key)) (\<lambda>e. raise (no_such_key_missing e))"

definition s3_zip_entry :: "'b s3_config \<Rightarrow> string \<Rightarrow> S3File \<Rightarrow> ('b, StreamZipFile) s3" where
  "s3_zip_entry C path entry =
     bnd (iter_download C (s3_key entry)) (\<lambda>b. ret (zip_entry path (s3_last_modified entry) b))"

definition s3_downloaddir_iter ::
  "'b s3_config \<Rightarrow> nat \<Rightarrow> string \<Rightarrow> string \<Rightarrow> string list option \<Rightarrow> ('b, StreamZipFile list) s3" where
  "s3_downloaddir_iter C fuel key prefix_path include_keys =
     bnd (list_objects C False fuel (Some key) None) (\<lambda>items.
     bnd (map_prog (\<lambda>i. case i of CommonPrefix k \<Rightarrow> ret []
          | Object entry \<Rightarrow>
              if storage_has_path (s3_key entry) include_keys
              then bnd (s3_zip_entry C (os_join prefix_path (os_relpath (sc_cwd C) (s3_key entry) key)) entry) (\<lambda>z. ret [z])
              else ret []) items) (\<lambda>zs. ret (concat zs)))"

definition s3_downloaddir :: "'b s3_config \<Rightarrow> nat \<Rightarrow> string \<Rightarrow> string list option \<Rightarrow> ('b, StreamZipFile list) s3" where
  "s3_downloaddir C fuel key include_keys = s3_downloaddir_iter C fuel (normpath key) [] include_keys"

definition s3_download_batch :: "'b s3_config \<Rightarrow> nat \<Rightarrow> DownloadBatchItem list \<Rightarrow> ('b, StreamZipFile list) s3" where
  "s3_download_batch C fuel items =
     bnd (map_prog (\<lambda>item.
         let key = normpath (db_key item);
             filename = (case db_archive_path item of None \<Rightarrow> basename key | Some p \<Rightarrow> if p = [] then basename key else p) in
         if db_is_dir item then s3_downloaddir_iter C fuel key filename None
         else bnd (head_object C key) (\<lambda>entry. bnd (s3_zip_entry C filename entry) (\<lambda>z. ret [z]))) items)
       (\<lambda>zs. ret (concat zs))"

definition storage_file_of_item :: "s3_item \<Rightarrow> StorageFile" where
  "storage_file_of_item i = (case i of
     CommonPrefix k \<Rightarrow> (let stripped = strip_chars (\<lambda>c. c = slash) k in
       \<lparr> sf_name = basename stripped, sf_path = stripped, sf_size = 0, sf_mtime = 0, sf_is_dir = True \<rparr>)
   | Object f \<Rightarrow> \<lparr> sf_name = basename (s3_key f), sf_path = s3_key f, sf_size = s3_size f,
       sf_mtime = s3_last_modified f, sf_is_dir = False \<rparr>)"

definition s3_iterdir :: "'b s3_config \<Rightarrow> nat \<Rightarrow> string \<Rightarrow> ('b, StorageFile list) s3" where
  "s3_iterdir C fuel key =
     bnd (list_objects C True fuel (Some (normpath key @ ''/'')) (Some ''/'')) (\<lambda>items.
       ret (map storage_file_of_item items))"

definition s3_makedirs :: "string \<Rightarrow> ('b, unit) s3" where
  "s3_makedirs key = ret ()"

definition s3_move :: "'b s3_config \<Rightarrow> string \<Rightarrow> string \<Rightarrow> ('b, unit) s3" where
  "s3_move C at to =
     andthen (try_else (copy_object C (normpath at) (normpath to)) (\<lambda>e. raise (no_such_key_missing e)))
       (bnd (s3_delete C [normpath at]) (\<lambda>_. ret ()))"

definition s3_movedir :: "'b s3_config \<Rightarrow> nat \<Rightarrow> string \<Rightarrow> string \<Rightarrow> ('b, unit) s3" where
  "s3_movedir C fuel at to =
     (let from_prefix = normpath at @ ''/''; to_prefix = normpath to @ ''/'' in
      bnd (task_group
             (bnd (list_objects C True fuel (Some from_prefix) None) (\<lambda>items.
              bnd (map_prog (\<lambda>i. copy_object C (item_key i)
                     (normpath (os_join to_prefix (os_relpath (sc_cwd C) (item_key i) from_prefix)))) items)
                (\<lambda>_. ret (map item_key items))))) (\<lambda>keys_to_delete.
      bnd (s3_delete C keys_to_delete) (\<lambda>_. ret ())))"

definition s3_save :: "'b s3_config \<Rightarrow> string \<Rightarrow> BlobContent \<Rightarrow> ('b, StorageFile) s3" where
  "s3_save C key content =
     bnd (upload_obj C (normpath key) content) (\<lambda>f.
     ret \<lparr> sf_name = basename (normpath key), sf_path = normpath key, sf_size = s3_size f,
           sf_mtime = s3_last_modified f, sf_is_dir = False \<rparr>)"

definition S3Storage :: "'b s3_config \<Rightarrow> nat \<Rightarrow> 'b istorage" where
  "S3Storage C fuel = \<lparr>
     io_delete = s3_storage_delete C, io_delete_batch = s3_storage_delete_batch C,
     io_deletedir = s3_deletedir C fuel, io_emptydir = s3_emptydir C fuel,
     io_download = s3_download C, io_download_batch = s3_download_batch C fuel,
     io_downloaddir = s3_downloaddir C fuel, io_exists = s3_exists C, io_iterdir = s3_iterdir C fuel,
     io_makedirs = s3_makedirs, io_move = s3_move C, io_movedir = s3_movedir C fuel, io_save = s3_save C \<rparr>"

end
