(* ===== verification/AwsAuth.thy ===== *)
theory AwsAuth
  imports S3 External
begin

text \<open>
  \<open>src/app/contrib/aws_v4_auth.py\<close>: the AWS signature, version 4, of the requests of the S3 clients. The
  digests SHA-256 and MD5 are parameters, HMAC is built on the first. The parts of an \<open>httpx.URL\<close> are
  a record. Query parameters are the UTF-8 bytes of their text, which is valid UTF-8.
\<close>

section \<open>The standard library\<close>

text \<open>\<open>hmac.new(key, msg, hashlib.sha256).digest()\<close>.\<close>

definition hmac_sha256 :: "ext \<Rightarrow> bytes \<Rightarrow> bytes \<Rightarrow> bytes" where
  "hmac_sha256 x key msg =
     (let k = (if 64 < length key then x_sha256 x key else key);
          padded = k @ replicate (64 - length k) 0
      in x_sha256 x (map (xor 0x5C) padded @ x_sha256 x (map (xor 0x36) padded @ msg)))"

text \<open>\<open>base64.b64encode\<close>.\<close>

definition b64_char :: "nat \<Rightarrow> char" where
  "b64_char n = (if n < 26 then char_of (65 + n) else if n < 52 then char_of (71 + n)
     else if n < 62 then char_of (n - 4) else if n = 62 then CHR ''+'' else CHR ''/'')"

fun b64encode :: "bytes \<Rightarrow> string" where
  "b64encode [] = []"
| "b64encode [a] = [b64_char (unat a div 4), b64_char (unat a mod 4 * 16), CHR ''='', CHR ''='']"
| "b64encode [a, b] = [b64_char (unat a div 4), b64_char (unat a mod 4 * 16 + unat b div 16),
     b64_char (unat b mod 16 * 4), CHR ''='']"
| "b64encode (a # b # c # rest) = b64_char (unat a div 4) # b64_char (unat a mod 4 * 16 + unat b div 16)
     # b64_char (unat b mod 16 * 4 + unat c div 64) # b64_char (unat c mod 64) # b64encode rest"

text \<open>The civil date of a number of days since 1970-01-01.\<close>

definition civil_from_days :: "int \<Rightarrow> int \<times> int \<times> int" where
  "civil_from_days days =
     (let z = days + 719468; era = z div 146097; doe = z mod 146097;
          yoe = (doe - doe div 1460 + doe div 36524 - doe div 146096) div 365;
          doy = doe - (365 * yoe + yoe div 4 - yoe div 100);
          mp = (5 * doy + 2) div 153;
          d = doy - (153 * mp + 2) div 5 + 1;
          m = (if mp < 10 then mp + 3 else mp - 9)
      in (yoe + era * 400 + (if m \<le> 2 then 1 else 0), m, d))"

text \<open>Decimal digits, padded to a width.\<close>

fun pad_digits :: "nat \<Rightarrow> int \<Rightarrow> string" where
  "pad_digits 0 n = []"
| "pad_digits (Suc w) n = pad_digits w (n div 10) @ [char_of (48 + nat (n mod 10))]"

text \<open>Percent-encoding with \<open>safe=""\<close>, and the parsing of a query with \<open>keep_blank_values=True\<close>.\<close>

definition quote_all_byte :: "8 word \<Rightarrow> string" where
  "quote_all_byte b = (if url_safe b \<and> b \<noteq> 47 then [char_of (unat b)]
     else CHR 0x25 # map (\<lambda>d. if d < 10 then char_of (48 + d) else char_of (55 + d)) [unat b div 16, unat b mod 16])"

definition quote_all :: "bytes \<Rightarrow> string" where
  "quote_all s = concat (map quote_all_byte s)"

definition hex_digit_val :: "char \<Rightarrow> nat option" where
  "hex_digit_val c = (let n = of_char c :: nat in
     if 48 \<le> n \<and> n \<le> 57 then Some (n - 48) else if 65 \<le> n \<and> n \<le> 70 then Some (n - 55)
     else if 97 \<le> n \<and> n \<le> 102 then Some (n - 87) else None)"

fun unquote_plus :: "string \<Rightarrow> bytes" where
  "unquote_plus (p # a # b # s) =
     (if p = CHR 0x25
      then (case (hex_digit_val a, hex_digit_val b) of
          (Some h, Some l) \<Rightarrow> of_nat (16 * h + l) # unquote_plus s
        | _ \<Rightarrow> utf8_char p @ unquote_plus (a # b # s))
      else (if p = CHR ''+'' then [32] else utf8_char p) @ unquote_plus (a # b # s))"
| "unquote_plus (p # s) = (if p = CHR ''+'' then [32] else utf8_char p) @ unquote_plus s"
| "unquote_plus [] = []"

definition parse_qsl :: "string \<Rightarrow> (bytes \<times> bytes) list" where
  "parse_qsl qs = map (\<lambda>name_value.
       (unquote_plus (takeWhile (\<lambda>c. c \<noteq> CHR ''='') name_value), unquote_plus (drop 1 (dropWhile (\<lambda>c. c \<noteq> CHR ''='') name_value))))
     (filter (\<lambda>p. p \<noteq> []) (split_on CHR ''&'' qs))"

definition urlencode :: "(bytes \<times> bytes) list \<Rightarrow> string" where
  "urlencode ps = join_with ''&'' (map (\<lambda>(k, v). quote_all k @ ''='' @ quote_all v) ps)"

section \<open>AWSv4Auth\<close>

record AWSv4Auth =
  aws_secret_key :: string
  aws_access_key :: string
  aws_region :: string
  aws_service :: string

record httpx_url =
  hu_host :: string
  hu_path :: string
  hu_query :: string

definition date_of :: "datetime \<Rightarrow> string" where
  "date_of t = (case civil_from_days (t div 86400000000) of (y, m, d) \<Rightarrow> pad_digits 4 y @ pad_digits 2 m @ pad_digits 2 d)"

definition aws4_date_stamp :: "datetime \<Rightarrow> string" where
  "aws4_date_stamp dt = date_of dt"

definition aws4_x_amz_date :: "datetime \<Rightarrow> string" where
  "aws4_x_amz_date dt =
     (let s = dt div 1000000 mod 86400
      in date_of dt @ ''T'' @ pad_digits 2 (s div 3600) @ pad_digits 2 (s div 60 mod 60) @ pad_digits 2 (s mod 60) @ ''Z'')"

definition aws4_reduce_signature :: "ext \<Rightarrow> bytes \<Rightarrow> string \<Rightarrow> bytes" where
  "aws4_reduce_signature x key msg = hmac_sha256 x key (utf8 msg)"

definition aws4_scope :: "AWSv4Auth \<Rightarrow> datetime \<Rightarrow> string" where
  "aws4_scope a dt = aws4_date_stamp dt @ ''/'' @ aws_region a @ ''/'' @ aws_service a @ ''/aws4_request''"

definition aws4_credential :: "AWSv4Auth \<Rightarrow> datetime \<Rightarrow> string" where
  "aws4_credential a dt = aws_access_key a @ ''/'' @ aws4_scope a dt"

definition aws4_sign_string :: "ext \<Rightarrow> AWSv4Auth \<Rightarrow> string \<Rightarrow> datetime \<Rightarrow> string" where
  "aws4_sign_string x a string_to_sign dt = hexdigest (foldl (aws4_reduce_signature x) (utf8 (''AWS4'' @ aws_secret_key a))
     [aws4_date_stamp dt, aws_region a, aws_service a, ''aws4_request'', string_to_sign])"

definition canonical_query :: "string \<Rightarrow> string" where
  "canonical_query qs = urlencode (parse_qsl qs)"

definition canonical_request :: "string \<Rightarrow> httpx_url \<Rightarrow> (string \<times> string) list \<Rightarrow> string \<Rightarrow> string" where
  "canonical_request method u headers payload_hash =
     (let header_keys = sort (map fst headers)
      in join_with [CHR 10] [method, url_quote (hu_path u), canonical_query (hu_query u),
           concat (map (\<lambda>k. k @ '':'' @ the (map_of headers k) @ [CHR 10]) header_keys),
           join_with '';'' header_keys, payload_hash])"

definition aws4_signature ::
  "ext \<Rightarrow> AWSv4Auth \<Rightarrow> datetime \<Rightarrow> string \<Rightarrow> httpx_url \<Rightarrow> (string \<times> string) list \<Rightarrow> string \<Rightarrow> string \<times> string" where
  "aws4_signature x a dt method u headers payload_hash =
     (let string_to_sign = join_with [CHR 10] [''AWS4-HMAC-SHA256'', aws4_x_amz_date dt, aws4_scope a dt,
            hexdigest (x_sha256 x (utf8 (canonical_request method u headers payload_hash)))]
      in (join_with '';'' (sort (map fst headers)), aws4_sign_string x a string_to_sign dt))"

text \<open>The headers that are signed, and those that are sent.\<close>

definition headers_to_sign :: "(bytes \<Rightarrow> bytes) \<Rightarrow> datetime \<Rightarrow> httpx_url \<Rightarrow> bytes \<Rightarrow> string option \<Rightarrow> (string \<times> string) list" where
  "headers_to_sign md5 t u data content_type =
     [(''content-md5'', b64encode (md5 data)),
      (''content-type'', case content_type of None \<Rightarrow> ''application/x-www-form-urlencoded''
         | Some c \<Rightarrow> if c = [] then ''application/x-www-form-urlencoded'' else c),
      (''host'', hu_host u), (''x-amz-date'', aws4_x_amz_date t)]"

definition auth_headers ::
  "ext \<Rightarrow> (bytes \<Rightarrow> bytes) \<Rightarrow> AWSv4Auth \<Rightarrow> datetime \<Rightarrow> string \<Rightarrow> httpx_url \<Rightarrow> bytes \<Rightarrow> string option \<Rightarrow> (string \<times> string) list" where
  "auth_headers x md5 a t method u data content_type =
     (let headers = headers_to_sign md5 t u data content_type;
          payload_sha256_hash = hexdigest (x_sha256 x data);
          (signed_headers, signature) = aws4_signature x a t method u headers payload_sha256_hash
      in headers @ [(''authorization'', ''AWS4-HMAC-SHA256 Credential='' @ aws4_credential a t @ '',SignedHeaders='' @ signed_headers
                       @ '',Signature='' @ signature),
           (''x-amz-content-sha256'', payload_sha256_hash)])"

text \<open>\<open>request.headers.update(auth_headers)\<close> for the headers of a request, under their lower-case names.\<close>

definition set_auth_headers ::
  "ext \<Rightarrow> (bytes \<Rightarrow> bytes) \<Rightarrow> AWSv4Auth \<Rightarrow> datetime \<Rightarrow> string \<Rightarrow> httpx_url \<Rightarrow> (string \<times> string) list \<Rightarrow> bytes \<Rightarrow> (string \<times> string) list" where
  "set_auth_headers x md5 a t method u headers content =
     (let new = auth_headers x md5 a t method u content (map_of headers ''content-type'')
      in filter (\<lambda>(k, _). k \<notin> fst ` set new) headers @ new)"

section \<open>Queries\<close>

lemma chars_by_code: "c \<notin> set ''&=+%'' \<longleftrightarrow> (of_char c :: nat) \<notin> {38, 61, 43, 37}"
proof -
  have "c = d \<longleftrightarrow> (of_char c :: nat) = of_char d" for d by (metis char_of_char)
  from this [of "CHR ''&''"] this [of "CHR ''=''"] this [of "CHR ''+''"] this [of "CHR ''%''"] show ?thesis by simp
qed

lemma hex_digit_quoted:
  assumes "d < 16"
  defines "c \<equiv> if d < 10 then char_of (48 + d) else char_of (55 + d)"
  shows "hex_digit_val c = Some d" "c \<notin> set ''&=+%''"
proof -
  have "(of_char c :: nat) = (if d < 10 then 48 + d else 55 + d)" using assms by (simp add: c_def)
  then show "hex_digit_val c = Some d" "c \<notin> set ''&=+%''"
    using assms(1) unfolding chars_by_code by (auto simp: hex_digit_val_def Let_def)
qed

lemma quote_all_byte_cases:
  obtains (safe) c where "quote_all_byte b = [c]" "c \<notin> set ''&=+%''" "utf8_char c = [b]"
  | (percent) h l m n where "quote_all_byte b = [CHR 0x25, h, l]" "h \<notin> set ''&=+%''" "l \<notin> set ''&=+%''"
      "hex_digit_val h = Some m" "hex_digit_val l = Some n" "of_nat (16 * m + n) = b"
proof (cases "url_safe b \<and> b \<noteq> 47")
  case True
  let ?c = "char_of (unat b) :: char"
  have lt: "unat b < 256" using unsigned_less [of b, where ?'a = nat] by simp
  have code: "(of_char ?c :: nat) = unat b" using lt by simp
  have "unat b < 128" "unat b \<notin> {38, 61, 43, 37}" using True by (auto simp: url_safe_def Let_def)
  then have "?c \<notin> set ''&=+%''" "utf8_char ?c = [b]" unfolding chars_by_code code by (simp_all add: utf8_char_def Let_def code)
  then show ?thesis using safe [of ?c] True by (simp add: quote_all_byte_def)
next
  case False
  let ?h = "unat b div 16" and ?l = "unat b mod 16"
  let ?d = "\<lambda>d. if d < 10 then char_of (48 + d) else char_of (55 + d) :: char"
  have lt: "?h < 16" "?l < 16" using unsigned_less [of b, where ?'a = nat] by simp_all
  have "of_nat (16 * ?h + ?l) = (of_nat (unat b) :: 8 word)" by (simp only: mult_div_mod_eq)
  then have "of_nat (16 * ?h + ?l) = b" by simp
  moreover have "quote_all_byte b = [CHR 0x25, ?d ?h, ?d ?l]" using False by (auto simp: quote_all_byte_def)
  ultimately show ?thesis using percent hex_digit_quoted [OF lt(1)] hex_digit_quoted [OF lt(2)] by blast
qed

lemma quote_all_byte_chars: "c \<in> set (quote_all_byte b) \<Longrightarrow> c \<notin> set ''&=+''"
  by (cases b rule: quote_all_byte_cases) auto

lemma unquote_plain: "p \<noteq> CHR 0x25 \<Longrightarrow> p \<noteq> CHR ''+'' \<Longrightarrow> unquote_plus (p # s) = utf8_char p @ unquote_plus s"
  by (cases s; cases "tl s") auto

lemma unquote_quote_byte: "unquote_plus (quote_all_byte b @ s) = b # unquote_plus s"
  by (cases b rule: quote_all_byte_cases) (simp_all add: unquote_plain)

lemma unquote_quote: "unquote_plus (quote_all s) = s"
  by (induction s) (simp_all add: quote_all_def unquote_quote_byte)

lemma quote_all_chars: "set (quote_all s) \<inter> set ''&=+'' = {}"
  using quote_all_byte_chars by (fastforce simp: quote_all_def)

lemma parse_qsl_urlencode: "parse_qsl (urlencode ps) = ps"
proof (cases "ps = []")
  case False
  let ?f = "\<lambda>(k, v). quote_all k @ ''='' @ quote_all v"
  have "split_on CHR ''&'' (join_with ''&'' (map ?f ps)) = map ?f ps"
    by (rule split_join) (use quote_all_chars False in \<open>fastforce+\<close>)
  moreover have "filter (\<lambda>p. p \<noteq> []) (map ?f ps) = map ?f ps" by (auto simp: filter_id_conv)
  moreover have "(unquote_plus (takeWhile (\<lambda>c. c \<noteq> CHR ''='') (?f p)), unquote_plus (drop 1 (dropWhile (\<lambda>c. c \<noteq> CHR ''='') (?f p)))) = p" for p
  proof (cases p)
    case (Pair k v)
    have "CHR ''='' \<notin> set (quote_all k)" using quote_all_chars by auto
    then have free: "\<forall>c \<in> set (quote_all k). c \<noteq> CHR ''=''" by auto
    have "takeWhile (\<lambda>c. c \<noteq> CHR ''='') (quote_all k @ ''='' @ quote_all v) = quote_all k"
        "dropWhile (\<lambda>c. c \<noteq> CHR ''='') (quote_all k @ ''='' @ quote_all v) = ''='' @ quote_all v"
      by (rule span_append [OF free]; simp)+
    then show ?thesis using Pair by (simp add: unquote_quote)
  qed
  ultimately show ?thesis by (simp add: parse_qsl_def urlencode_def map_idI)
qed (simp add: parse_qsl_def urlencode_def)

section \<open>What is signed\<close>

definition utf8_params :: "(string \<times> string) list \<Rightarrow> (bytes \<times> bytes) list" where
  "utf8_params ps = map (\<lambda>(k, v). (utf8 k, utf8 v)) ps"

lemma sort_map_fst_sorted: "sorted (map fst ps) \<Longrightarrow> sort_key fst ps = ps"
  by (induction ps) (auto simp: insort_is_Cons)

lemma sorted_list_params: "sorted (map fst (list_params contoken delimiter p))"
  by (auto simp: list_params_def split: option.split)

lemma length_pad_digits: "length (pad_digits w n) = w"
  by (induction w arbitrary: n) auto



end
