(* ===== verification/DHash.thy ===== *)
theory DHash
  imports Toolkit
begin

unbundle bit_operations_syntax

text \<open>
  \<open>src/app/toolkit/dhash\<close>: the difference hash of an image. Pillow is a parameter: the grey levels of the
  image scaled to a width and a height, row by row, or nothing when the image cannot be read.
\<close>

type_synonym grey_scaler = "bytes \<Rightarrow> nat \<Rightarrow> nat \<Rightarrow> int list option"

text \<open>The inner and the outer loop; \<open>result << 1 | (data[idx] < data[idx + 1])\<close>.\<close>

definition dhash_step :: "int list \<Rightarrow> nat \<Rightarrow> nat \<Rightarrow> nat \<Rightarrow> nat \<Rightarrow> nat" where
  "dhash_step data width i result j =
     (let idx = width * i + j in push_bit 1 result OR (if data ! idx < data ! (idx + 1) then 1 else 0))"

definition dhash_row :: "int list \<Rightarrow> nat \<Rightarrow> nat \<Rightarrow> nat \<Rightarrow> nat \<Rightarrow> nat" where
  "dhash_row data width sz result i = foldl (dhash_step data width i) result [0..<sz]"

definition dhash_image :: "grey_scaler \<Rightarrow> bytes \<Rightarrow> nat \<Rightarrow> nat option" where
  "dhash_image prepare content sz =
     (let width = sz + 1; height = sz
      in case prepare content width height of None \<Rightarrow> None
        | Some data \<Rightarrow> Some (foldl (dhash_row data width sz) 0 [0..<sz]))"

definition dhash_supported_images :: "string list" where
  "dhash_supported_images = [mt_image_heic, mt_image_heif, mt_image_jpeg, mt_image_png, mt_image_webp]"

definition dhash :: "ext \<Rightarrow> grey_scaler \<Rightarrow> bytes \<Rightarrow> nat option" where
  "dhash x prepare content =
     (if guess x content None \<in> set dhash_supported_images then dhash_image prepare content 8 else None)"

section \<open>The bits of the hash\<close>

definition pixel_grows :: "int list \<Rightarrow> nat \<Rightarrow> nat \<Rightarrow> bool" where
  "pixel_grows data sz k =
     (let idx = (sz + 1) * (k div sz) + k mod sz in data ! idx < data ! (idx + 1))"

text \<open>One step appends a bit: after \<open>n\<close> of them the number has the first \<open>n\<close> comparisons as its bits.\<close>

fun hash_of :: "(nat \<Rightarrow> bool) \<Rightarrow> nat \<Rightarrow> nat" where
  "hash_of f 0 = 0"
| "hash_of f (Suc n) = 2 * hash_of f n + of_bool (f n)"

lemma hash_of_less: "hash_of f n < 2 ^ n"
  by (induction n) auto

lemma bit_hash_of: "k < n \<Longrightarrow> bit (hash_of f n) (n - 1 - k) \<longleftrightarrow> f k"
proof (induction n)
  case (Suc n)
  show ?case
  proof (cases "k = n")
    case True
    then show ?thesis by (simp add: hash_of.simps(2) bit_0)
  next
    case False
    then have "k < n" using Suc.prems by simp
    then have "Suc n - 1 - k = Suc (n - 1 - k)" by simp
    moreover have "bit (2 * hash_of f n + of_bool (f n)) (Suc i) = bit (hash_of f n) i" for i
      by (simp add: bit_Suc)
    ultimately show ?thesis using Suc.IH \<open>k < n\<close> by (simp only: hash_of.simps(2))
  qed
qed simp

lemma dhash_row_run:
  assumes "result = hash_of (pixel_grows data sz) (sz * i)" "m \<le> sz"
  shows "foldl (dhash_step data (sz + 1) i) result [0..<m] = hash_of (pixel_grows data sz) (sz * i + m)"
  using assms(2)
proof (induction m)
  case (Suc m)
  have "pixel_grows data sz (sz * i + m) \<longleftrightarrow> data ! ((sz + 1) * i + m) < data ! ((sz + 1) * i + m + 1)"
    using Suc.prems by (simp add: pixel_grows_def Let_def)
  moreover have "push_bit 1 h OR (if b then 1 else 0) = 2 * h + of_bool b" for h :: nat and b
  proof -
    have "2 * h OR 1 = 2 * h + 1" by (simp only: or_one_eq) simp
    then show ?thesis by (simp add: mult.commute)
  qed
  ultimately show ?case using Suc by (simp add: dhash_step_def Let_def hash_of.simps(2))
qed (simp add: assms(1))

text \<open>The hash of an image that can be read has at most \<open>size\<close> squared bits, and its bits, from the highest down,
  tell row by row whether a pixel is darker than its right neighbour.\<close>

theorem dhash_bits:
  assumes "prepare content (sz + 1) sz = Some data"
  shows "\<exists>h. dhash_image prepare content sz = Some h \<and> h < 2 ^ (sz * sz)
    \<and> (\<forall>i < sz. \<forall>j < sz. bit h (sz * sz - 1 - (sz * i + j)) \<longleftrightarrow>
          data ! ((sz + 1) * i + j) < data ! ((sz + 1) * i + j + 1))"
proof -
  let ?f = "pixel_grows data sz"
  have rows: "foldl (dhash_row data (sz + 1) sz) 0 [0..<n] = hash_of ?f (sz * n)" if "n \<le> sz" for n
    using that
  proof (induction n)
    case (Suc n)
    then show ?case using dhash_row_run [of "hash_of ?f (sz * n)" data sz n sz] by (simp add: dhash_row_def add.commute)
  qed simp
  have "bit (hash_of ?f (sz * sz)) (sz * sz - 1 - (sz * i + j)) \<longleftrightarrow>
      data ! ((sz + 1) * i + j) < data ! ((sz + 1) * i + j + 1)" if ij: "i < sz" "j < sz" for i j
  proof -
    have "sz * i + j < sz * Suc i" using ij by simp
    also have "\<dots> \<le> sz * sz" using ij(1) by (intro mult_le_mono2) simp
    finally have "sz * i + j < sz * sz" .
    then show ?thesis using bit_hash_of [of "sz * i + j" "sz * sz" ?f] ij by (simp add: pixel_grows_def Let_def)
  qed
  then show ?thesis
    using assms rows [of sz] hash_of_less [of ?f "sz * sz"] by (auto simp: dhash_image_def Let_def)
qed

theorem dhash_bits_witness:
  "\<exists>h. dhash_image (\<lambda>_ _ _. Some [10, 20, 5, 7, 7, 9]) [] 2 = Some h \<and> h < 16 \<and> bit h 3 \<and> \<not> bit h 2"
proof -
  obtain h where h: "dhash_image (\<lambda>_ _ _. Some [10, 20, 5, 7, 7, 9]) [] 2 = Some h" "h < 2 ^ (2 * 2)"
      "\<forall>i < 2. \<forall>j < 2. bit h (2 * 2 - 1 - (2 * i + j)) \<longleftrightarrow>
         [10, 20, 5, 7, 7, 9 :: int] ! ((2 + 1) * i + j) < [10, 20, 5, 7, 7, 9] ! ((2 + 1) * i + j + 1)"
    using dhash_bits [of "\<lambda>_ _ _. Some [10, 20, 5, 7, 7, 9]" "[]" 2] by blast
  from h(3) [rule_format, of 0 0] h(3) [rule_format, of 0 1] show ?thesis using h(1,2) by simp
qed

end
