(* ===== verification/Schema.thy ===== *)
theory Schema
  imports PyStr
begin

text \<open>
  The schema migrations of \<open>src/app/infrastructure/database/tortoise/migrations\<close> as the operations they list, and
  the classes of \<open>models.py\<close> as the declarations they make. The migration engine of \<open>tortoise\<close> is a parameter:
  a function that gives the schema after an operation. \<open>migration_engine_ok\<close> says what its documentation
  promises. Arguments that a declaration leaves out have their documented defaults: a primary key is unique and indexed,
  an integer key is generated, the column of a relation \<open>x\<close> is \<open>x_id\<close>, a table has the lower-case name of its
  class. Encoders, \<open>auto_now=False\<close> and table comments are left out.
\<close>

section \<open>Declarations\<close>

datatype on_delete = CASCADE | RESTRICT | SET_NULL

datatype field_default = DefaultUuid7 | DefaultBool bool | DefaultInt int | DefaultStr string

record relation =
  rl_to :: string
  rl_source_field :: string
  rl_related_name :: string
  rl_on_delete :: on_delete

record many_relation =
  mm_to :: string
  mm_through :: string
  mm_forward_key :: string
  mm_backward_key :: string
  mm_related_name :: string
  mm_on_delete :: on_delete

datatype field_type = UUIDField | CharField nat | BooleanField | DatetimeField | BigIntField | IntField | SmallIntField
  | JSONField | ForeignKeyField relation | OneToOneField relation | ManyToManyField many_relation

record field =
  fd_type :: field_type
  fd_primary_key :: bool
  fd_generated :: bool
  fd_unique :: bool
  fd_null :: bool
  fd_db_index :: bool
  fd_default :: "field_default option"

record model_state =
  ms_table :: string
  ms_fields :: "(string \<times> field) list"
  ms_unique_together :: "string list list"
  ms_indexes :: "string list list"

type_synonym schema = "(string \<times> model_state) list"

definition plain :: "field_type \<Rightarrow> field" where
  "plain ty = \<lparr> fd_type = ty, fd_primary_key = False, fd_generated = False, fd_unique = False, fd_null = False,
     fd_db_index = False, fd_default = None \<rparr>"

definition nullable :: "field \<Rightarrow> field" where "nullable f = f\<lparr>fd_null := True\<rparr>"

definition unique :: "field \<Rightarrow> field" where "unique f = f\<lparr>fd_unique := True\<rparr>"

definition indexed :: "field \<Rightarrow> field" where "indexed f = f\<lparr>fd_db_index := True\<rparr>"

definition with_default :: "field_default \<Rightarrow> field \<Rightarrow> field" where "with_default d f = f\<lparr>fd_default := Some d\<rparr>"

definition uuid_key :: "string \<times> field" where
  "uuid_key = (''id'', (plain UUIDField)\<lparr>fd_primary_key := True, fd_unique := True, fd_db_index := True, fd_default := Some DefaultUuid7\<rparr>)"

definition int_key :: "string \<times> field" where
  "int_key = (''id'', (plain IntField)\<lparr>fd_primary_key := True, fd_generated := True, fd_unique := True, fd_db_index := True\<rparr>)"

definition foreign_key :: "string \<Rightarrow> string \<Rightarrow> string \<Rightarrow> on_delete \<Rightarrow> field" where
  "foreign_key target column related d = plain (ForeignKeyField
     \<lparr> rl_to = target, rl_source_field = column, rl_related_name = related, rl_on_delete = d \<rparr>)"

definition one_to_one :: "string \<Rightarrow> string \<Rightarrow> string \<Rightarrow> on_delete \<Rightarrow> field" where
  "one_to_one target column related d = plain (OneToOneField
     \<lparr> rl_to = target, rl_source_field = column, rl_related_name = related, rl_on_delete = d \<rparr>)"

section \<open>Operations\<close>

datatype operation = CreateModel string model_state | RenameModel string string | DeleteModel string
  | AddField string string field | AlterField string string field | RemoveField string string
  | RunSQL "string list" | RunPython

text \<open>A migration: its name, the names in \<open>dependencies\<close>, and its operations.\<close>

record schema_migration =
  sm_name :: string
  sm_dependencies :: "string list"
  sm_operations :: "operation list"

definition created :: "string \<Rightarrow> string \<Rightarrow> (string \<times> field) list \<Rightarrow> operation" where
  "created name tbl fs = CreateModel name
     \<lparr> ms_table = tbl, ms_fields = fs, ms_unique_together = [], ms_indexes = [] \<rparr>"

definition created_with :: "string \<Rightarrow> string \<Rightarrow> (string \<times> field) list \<Rightarrow> string list list \<Rightarrow> string list list \<Rightarrow> operation" where
  "created_with name tbl fs together indexes = CreateModel name
     \<lparr> ms_table = tbl, ms_fields = fs, ms_unique_together = together, ms_indexes = indexes \<rparr>"

subsection \<open>0001: the first tables\<close>

definition create_AuditTrailAction :: operation where
  "create_AuditTrailAction = created ''AuditTrailAction'' ''audittrailaction''
     [uuid_key,
      (''name'', unique (plain (CharField 255)))]"

definition create_FileCategory :: operation where
  "create_FileCategory = created ''FileCategory'' ''filecategory''
     [uuid_key,
      (''name'', unique (plain (CharField 255)))]"

definition create_FilePendingDeletion :: operation where
  "create_FilePendingDeletion = created ''FilePendingDeletion'' ''filependingdeletion''
     [uuid_key,
      (''ns_path'', plain (CharField 1024)),
      (''path'', plain (CharField 4096)),
      (''chash'', plain (CharField 128)),
      (''mediatype'', plain (CharField 255)),
      (''created_at'', plain DatetimeField)]"

definition create_MediaType :: operation where
  "create_MediaType = created ''MediaType'' ''mediatype''
     [uuid_key,
      (''name'', unique (plain (CharField 255)))]"

definition create_User :: operation where
  "create_User = created ''User'' ''user''
     [uuid_key,
      (''username'', unique (plain (CharField 255))),
      (''password'', plain (CharField 255)),
      (''email'', nullable (unique (plain (CharField 255)))),
      (''email_verified'', with_default (DefaultBool False) (plain BooleanField)),
      (''display_name'', plain (CharField 255)),
      (''created_at'', plain DatetimeField),
      (''last_login_at'', nullable (plain DatetimeField)),
      (''active'', with_default (DefaultBool True) (plain BooleanField)),
      (''superuser'', with_default (DefaultBool False) (plain BooleanField))]"

definition create_Account :: operation where
  "create_Account = created ''Account'' ''account''
     [uuid_key,
      (''user'', one_to_one ''models.User'' ''user_id'' ''account'' CASCADE),
      (''storage_quota'', nullable (plain BigIntField))]"

definition create_AuditTrail :: operation where
  "create_AuditTrail = created ''AuditTrail'' ''audittrail''
     [uuid_key,
      (''created_at'', plain DatetimeField),
      (''action'', foreign_key ''models.AuditTrailAction'' ''action_id'' ''audit_trails'' CASCADE),
      (''user'', foreign_key ''models.User'' ''user_id'' ''audit_trails'' CASCADE)]"

definition create_Namespace :: operation where
  "create_Namespace = created ''Namespace'' ''namespace''
     [uuid_key,
      (''path'', unique (plain (CharField 1024))),
      (''owner'', foreign_key ''models.User'' ''owner_id'' ''namespaces'' CASCADE)]"

definition create_File :: operation where
  "create_File = created_with ''File'' ''file''
     [uuid_key,
      (''name'', plain (CharField 1024)),
      (''path'', plain (CharField 4096)),
      (''chash'', plain (CharField 128)),
      (''size'', plain BigIntField),
      (''modified_at'', plain DatetimeField),
      (''mediatype'', foreign_key ''models.MediaType'' ''mediatype_id'' ''files'' RESTRICT),
      (''namespace'', foreign_key ''models.Namespace'' ''namespace_id'' ''files'' CASCADE),
      (''deleted_at'', nullable (plain DatetimeField)),
      (''categories'', unique (plain (ManyToManyField
     \<lparr> mm_to = ''models.FileCategory'', mm_through = ''file_file_category'', mm_forward_key = ''filecategory_id'', mm_backward_key = ''file_id'',
        mm_related_name = ''files'', mm_on_delete = CASCADE \<rparr>)))]
     [[''path'', ''namespace'']] [[''chash'', ''namespace'']]"

definition create_Album :: operation where
  "create_Album = created_with ''Album'' ''album''
     [uuid_key,
      (''title'', plain (CharField 255)),
      (''slug'', plain (CharField 255)),
      (''owner'', foreign_key ''models.User'' ''owner_id'' ''albums'' CASCADE),
      (''created_at'', plain DatetimeField),
      (''items_count'', with_default (DefaultInt 0) (plain IntField)),
      (''cover'', nullable (foreign_key ''models.File'' ''cover_id'' ''album_covers'' SET_NULL)),
      (''items'', unique (plain (ManyToManyField
     \<lparr> mm_to = ''models.File'', mm_through = ''album_items'', mm_forward_key = ''file_id'', mm_backward_key = ''album_id'',
        mm_related_name = ''albums'', mm_on_delete = SET_NULL \<rparr>)))]
     [[''owner'', ''slug'']] []"

definition create_AlbumItems :: operation where
  "create_AlbumItems = created ''AlbumItems'' ''albumitems''
     [uuid_key,
      (''album'', foreign_key ''models.Album'' ''album_id'' ''item_links'' CASCADE),
      (''file'', foreign_key ''models.File'' ''file_id'' ''album_links'' CASCADE)]"

definition create_AuditTrailAsset :: operation where
  "create_AuditTrailAsset = created ''AuditTrailAsset'' ''audittrailasset''
     [int_key,
      (''audit_trail'', foreign_key ''models.AuditTrail'' ''audit_trail_id'' ''assets'' CASCADE),
      (''file'', foreign_key ''models.File'' ''file_id'' ''audit_trail_assets'' CASCADE)]"

definition create_Bookmark :: operation where
  "create_Bookmark = created_with ''Bookmark'' ''bookmark''
     [uuid_key,
      (''user'', foreign_key ''models.User'' ''user_id'' ''bookmarks'' CASCADE),
      (''file'', foreign_key ''models.File'' ''file_id'' ''bookmarked_by'' CASCADE)]
     [[''user'', ''file'']] []"

definition create_FileFileCategoryThrough :: operation where
  "create_FileFileCategoryThrough = created ''FileFileCategoryThrough'' ''filefilecategorythrough''
     [int_key,
      (''file'', foreign_key ''models.File'' ''file_id'' ''category_links'' CASCADE),
      (''file_category'', foreign_key ''models.FileCategory'' ''file_category_id'' ''file_links'' CASCADE),
      (''origin'', nullable (plain SmallIntField)),
      (''probability'', nullable (plain SmallIntField))]"

definition create_FileMember :: operation where
  "create_FileMember = created_with ''FileMember'' ''filemember''
     [uuid_key,
      (''actions'', plain SmallIntField),
      (''created_at'', plain DatetimeField),
      (''file'', foreign_key ''models.File'' ''file_id'' ''members'' CASCADE),
      (''user'', foreign_key ''models.User'' ''user_id'' ''file_memberships'' CASCADE)]
     [[''file'', ''user'']] []"

definition create_FileMemberMountPoint :: operation where
  "create_FileMemberMountPoint = created ''FileMemberMountPoint'' ''filemembermountpoint''
     [uuid_key,
      (''display_name'', plain (CharField 1024)),
      (''member'', one_to_one ''models.FileMember'' ''member_id'' ''mount_point'' CASCADE),
      (''parent'', foreign_key ''models.File'' ''parent_id'' ''mount_points'' CASCADE)]"

definition create_FileMetadata :: operation where
  "create_FileMetadata = created ''FileMetadata'' ''filemetadata''
     [uuid_key,
      (''data'', plain JSONField),
      (''file'', one_to_one ''models.File'' ''file_id'' ''metadata'' CASCADE)]"

definition create_Fingerprint :: operation where
  "create_Fingerprint = created_with ''Fingerprint'' ''fingerprint''
     [uuid_key,
      (''part1'', plain IntField),
      (''part2'', plain IntField),
      (''part3'', plain IntField),
      (''part4'', plain IntField),
      (''file'', one_to_one ''models.File'' ''file_id'' ''fingerprint'' CASCADE)]
     [] [[''part1''], [''part2''], [''part3''], [''part4'']]"

definition create_SharedLink :: operation where
  "create_SharedLink = created ''SharedLink'' ''sharedlink''
     [uuid_key,
      (''token'', unique (plain (CharField 255))),
      (''created_at'', plain DatetimeField),
      (''file'', one_to_one ''models.File'' ''file_id'' ''shared_link'' CASCADE)]"

subsection \<open>0003, 0004, 0005 and 0008: blobs and photos\<close>

definition create_Blob :: operation where
  "create_Blob = created ''Blob'' ''blob''
     [uuid_key,
      (''storage_key'', unique (plain (CharField 4096))),
      (''size'', plain BigIntField),
      (''chash'', indexed (plain (CharField 128))),
      (''media_type'', plain (CharField 255)),
      (''created_at'', plain DatetimeField)]"

definition create_BlobMetadata :: operation where
  "create_BlobMetadata = created ''BlobMetadata'' ''blobmetadata''
     [uuid_key,
      (''data'', plain JSONField),
      (''blob'', one_to_one ''models.Blob'' ''blob_id'' ''metadata'' CASCADE)]"

definition create_MediaItem :: operation where
  "create_MediaItem = created ''MediaItem'' ''mediaitem''
     [uuid_key,
      (''owner'', foreign_key ''models.User'' ''owner_id'' ''media_items'' CASCADE),
      (''blob'', foreign_key ''models.Blob'' ''blob_id'' ''media_items'' RESTRICT),
      (''name'', plain (CharField 1024)),
      (''created_at'', plain DatetimeField),
      (''modified_at'', plain DatetimeField),
      (''deleted_at'', nullable (plain DatetimeField))]"

definition create_MediaItemFavourite :: operation where
  "create_MediaItemFavourite = created_with ''MediaItemFavourite'' ''mediaitemfavourite''
     [uuid_key,
      (''user'', foreign_key ''models.User'' ''user_id'' ''media_item_favourites'' CASCADE),
      (''media_item'', foreign_key ''models.MediaItem'' ''media_item_id'' ''favourited_by'' CASCADE)]
     [[''user'', ''media_item'']] []"

definition create_MediaItemCategoryThrough :: operation where
  "create_MediaItemCategoryThrough = created_with ''MediaItemCategoryThrough'' ''mediaitemcategorythrough''
     [int_key,
      (''media_item'', foreign_key ''models.MediaItem'' ''media_item_id'' ''category_links'' CASCADE),
      (''media_item_category'', foreign_key ''models.MediaItemCategory'' ''media_item_category_id'' ''media_item_links'' CASCADE),
      (''origin'', nullable (plain SmallIntField)),
      (''probability'', nullable (plain SmallIntField))]
     [[''media_item'', ''media_item_category'']] []"

definition create_BlobJob :: operation where
  "create_BlobJob = created ''BlobJob'' ''blobjob''
     [uuid_key,
      (''type'', plain (CharField 255)),
      (''data'', plain JSONField),
      (''created_at'', plain DatetimeField)]"

subsection \<open>The migrations\<close>

definition migration_0001 :: schema_migration where
  "migration_0001 = \<lparr> sm_name = ''0001_initial'', sm_dependencies = [], sm_operations =
     [create_AuditTrailAction,
      create_FileCategory,
      create_FilePendingDeletion,
      create_MediaType,
      create_User,
      create_Account,
      create_AuditTrail,
      create_Namespace,
      create_File,
      create_Album,
      create_AlbumItems,
      create_AuditTrailAsset,
      create_Bookmark,
      create_FileFileCategoryThrough,
      create_FileMember,
      create_FileMemberMountPoint,
      create_FileMetadata,
      create_Fingerprint,
      create_SharedLink] \<rparr>"

definition storage_key_update :: "string list" where
  "storage_key_update = [''UPDATE filependingdeletion SET storage_key = ns_path || '/' || path'']"

definition migration_0002 :: schema_migration where
  "migration_0002 = \<lparr> sm_name = ''0002_file_pending_deletion_storage_key'', sm_dependencies = [''0001_initial''], sm_operations =
     [AddField ''FilePendingDeletion'' ''storage_key'' (with_default (DefaultStr []) (plain (CharField 4096))),
      RunSQL storage_key_update,
      RemoveField ''FilePendingDeletion'' ''ns_path'',
      RemoveField ''FilePendingDeletion'' ''path''] \<rparr>"

definition migration_0003 :: schema_migration where
  "migration_0003 = \<lparr> sm_name = ''0003_blob'', sm_dependencies = [''0002_file_pending_deletion_storage_key''], sm_operations =
     [create_Blob] \<rparr>"

definition migration_0004 :: schema_migration where
  "migration_0004 = \<lparr> sm_name = ''0004_blob_metadata'', sm_dependencies = [''0003_blob''], sm_operations =
     [create_BlobMetadata] \<rparr>"

definition album_items_field :: field where
  "album_items_field = unique (plain (ManyToManyField
     \<lparr> mm_to = ''models.MediaItem'', mm_through = ''album_items'', mm_forward_key = ''mediaitem_id'', mm_backward_key = ''album_id'',
        mm_related_name = ''albums'', mm_on_delete = CASCADE \<rparr>))"

definition migration_0005 :: schema_migration where
  "migration_0005 = \<lparr> sm_name = ''0005_auto_20260424_1947'', sm_dependencies = [''0004_blob_metadata''], sm_operations =
     [RenameModel ''FileCategory'' ''MediaItemCategory'',
      create_MediaItem,
      create_MediaItemFavourite,
      create_MediaItemCategoryThrough,
      AlterField ''Album'' ''items'' album_items_field,
      RemoveField ''File'' ''categories'',
      DeleteModel ''AlbumItems'',
      DeleteModel ''FileFileCategoryThrough''] \<rparr>"

definition album_items_constraints :: "string list" where
  "album_items_constraints =
     [''ALTER TABLE album_items DROP CONSTRAINT IF EXISTS album_items_album_id_fkey'',
      ''ALTER TABLE album_items DROP CONSTRAINT IF EXISTS album_items_file_id_fkey'',
      ''ALTER TABLE album_items DROP CONSTRAINT IF EXISTS album_items_mediaitem_id_fkey'',
      ''ALTER TABLE album_items ADD CONSTRAINT album_items_album_id_fkey FOREIGN KEY (album_id) REFERENCES album(id) ON DELETE CASCADE'',
      ''ALTER TABLE album_items ADD CONSTRAINT album_items_mediaitem_id_fkey FOREIGN KEY (mediaitem_id) REFERENCES mediaitem(id) ON DELETE CASCADE'']"

definition migration_0006 :: schema_migration where
  "migration_0006 = \<lparr> sm_name = ''0006_album_items_constraints_fix'', sm_dependencies = [''0005_auto_20260424_1947''], sm_operations =
     [RunSQL album_items_constraints] \<rparr>"

definition migration_0007 :: schema_migration where
  "migration_0007 = \<lparr> sm_name = ''0007_auto_20260428_2313'', sm_dependencies = [''0006_album_items_constraints_fix''], sm_operations =
     [AddField ''File'' ''blob'' (nullable (foreign_key ''models.Blob'' ''blob_id'' ''files'' RESTRICT))] \<rparr>"

definition migration_0008 :: schema_migration where
  "migration_0008 = \<lparr> sm_name = ''0008_auto_20260501_1941'', sm_dependencies = [''0007_auto_20260428_2313''], sm_operations =
     [create_BlobJob,
      DeleteModel ''FilePendingDeletion''] \<rparr>"

definition migration_0009 :: schema_migration where
  "migration_0009 = \<lparr> sm_name = ''0009_file_blob_backfill'', sm_dependencies = [''0008_auto_20260501_1941''], sm_operations =
     [RunPython] \<rparr>"

definition migration_0010 :: schema_migration where
  "migration_0010 = \<lparr> sm_name = ''0010_auto_20260512_1606'', sm_dependencies = [''0009_file_blob_backfill''], sm_operations =
     [DeleteModel ''Fingerprint''] \<rparr>"

definition migration_0011 :: schema_migration where
  "migration_0011 = \<lparr> sm_name = ''0011_auto_20260513_1338'', sm_dependencies = [''0010_auto_20260512_1606''], sm_operations =
     [RemoveField ''File'' ''chash'',
      RemoveField ''File'' ''mediatype'',
      DeleteModel ''MediaType''] \<rparr>"

definition migration_0012 :: schema_migration where
  "migration_0012 = \<lparr> sm_name = ''0012_auto_20260515_1302'', sm_dependencies = [''0011_auto_20260513_1338''], sm_operations =
     [AddField ''File'' ''owner'' (nullable (foreign_key ''models.User'' ''owner_id'' ''files'' CASCADE))] \<rparr>"

definition migration_0013 :: schema_migration where
  "migration_0013 = \<lparr> sm_name = ''0013_file_owner_backfill'', sm_dependencies = [''0012_auto_20260515_1302''], sm_operations =
     [RunPython] \<rparr>"

definition migration_0014 :: schema_migration where
  "migration_0014 = \<lparr> sm_name = ''0014_auto_20260515_1303'', sm_dependencies = [''0013_file_owner_backfill''], sm_operations =
     [AlterField ''File'' ''owner'' (foreign_key ''models.User'' ''owner_id'' ''files'' CASCADE)] \<rparr>"

definition migration_0015 :: schema_migration where
  "migration_0015 = \<lparr> sm_name = ''0015_auto_20260515_1618'', sm_dependencies = [''0014_auto_20260515_1303''], sm_operations =
     [DeleteModel ''MediaItemCategoryThrough'',
      DeleteModel ''MediaItemCategory''] \<rparr>"

definition migration_0016 :: schema_migration where
  "migration_0016 = \<lparr> sm_name = ''0016_auto_20260515_1949'', sm_dependencies = [''0015_auto_20260515_1618''], sm_operations =
     [DeleteModel ''FileMember'',
      DeleteModel ''FileMemberMountPoint''] \<rparr>"

definition migrations :: "schema_migration list" where
  "migrations = [migration_0001, migration_0002, migration_0003, migration_0004, migration_0005, migration_0006,
     migration_0007, migration_0008, migration_0009, migration_0010, migration_0011, migration_0012,
     migration_0013, migration_0014, migration_0015, migration_0016]"

section \<open>models.py\<close>

text \<open>Relations name no column, and a table no name.\<close>

definition relates :: "(string \<Rightarrow> string \<Rightarrow> string \<Rightarrow> on_delete \<Rightarrow> field) \<Rightarrow> string \<Rightarrow> string \<Rightarrow> string \<Rightarrow> on_delete \<Rightarrow> string \<times> field" where
  "relates kind name target related d = (name, kind target (name @ ''_id'') related d)"

definition model_class :: "string \<Rightarrow> (string \<times> field) list \<Rightarrow> string list list \<Rightarrow> string \<times> model_state" where
  "model_class name fs together = (name,
     \<lparr> ms_table = map lower_char name, ms_fields = fs, ms_unique_together = together, ms_indexes = [] \<rparr>)"

definition many_to_many :: "string \<Rightarrow> string \<Rightarrow> string \<Rightarrow> string \<Rightarrow> field" where
  "many_to_many owner target related through = unique (plain (ManyToManyField
     \<lparr> mm_to = ''models.'' @ target, mm_through = through, mm_forward_key = map lower_char target @ ''_id'',
        mm_backward_key = map lower_char owner @ ''_id'', mm_related_name = related, mm_on_delete = CASCADE \<rparr>))"

definition model_Account :: "string \<times> model_state" where
  "model_Account = model_class ''Account''
     [uuid_key,
      relates one_to_one ''user'' ''models.User'' ''account'' CASCADE,
      (''storage_quota'', nullable (plain BigIntField))]
     []"

definition model_AuditTrailAction :: "string \<times> model_state" where
  "model_AuditTrailAction = model_class ''AuditTrailAction''
     [uuid_key,
      (''name'', unique (plain (CharField 255)))]
     []"

definition model_Album :: "string \<times> model_state" where
  "model_Album = model_class ''Album''
     [uuid_key,
      (''title'', plain (CharField 255)),
      (''slug'', plain (CharField 255)),
      relates foreign_key ''owner'' ''models.User'' ''albums'' CASCADE,
      (''created_at'', plain DatetimeField),
      (''items_count'', with_default (DefaultInt 0) (plain IntField)),
      map_prod id nullable (relates foreign_key ''cover'' ''models.MediaItem'' ''album_covers'' SET_NULL),
      (''items'', many_to_many ''Album'' ''MediaItem'' ''albums'' ''album_items'')]
     [[''owner'', ''slug'']]"

definition model_AuditTrail :: "string \<times> model_state" where
  "model_AuditTrail = model_class ''AuditTrail''
     [uuid_key,
      (''created_at'', plain DatetimeField),
      relates foreign_key ''action'' ''models.AuditTrailAction'' ''audit_trails'' CASCADE,
      relates foreign_key ''user'' ''models.User'' ''audit_trails'' CASCADE]
     []"

definition model_AuditTrailAsset :: "string \<times> model_state" where
  "model_AuditTrailAsset = model_class ''AuditTrailAsset''
     [int_key,
      relates foreign_key ''audit_trail'' ''models.AuditTrail'' ''assets'' CASCADE,
      relates foreign_key ''file'' ''models.File'' ''audit_trail_assets'' CASCADE]
     []"

definition model_Blob :: "string \<times> model_state" where
  "model_Blob = model_class ''Blob''
     [uuid_key,
      (''storage_key'', unique (plain (CharField 4096))),
      (''size'', plain BigIntField),
      (''chash'', indexed (plain (CharField 128))),
      (''media_type'', plain (CharField 255)),
      (''created_at'', plain DatetimeField)]
     []"

definition model_BlobJob :: "string \<times> model_state" where
  "model_BlobJob = model_class ''BlobJob''
     [uuid_key,
      (''type'', plain (CharField 255)),
      (''data'', plain JSONField),
      (''created_at'', plain DatetimeField)]
     []"

definition model_BlobMetadata :: "string \<times> model_state" where
  "model_BlobMetadata = model_class ''BlobMetadata''
     [uuid_key,
      (''data'', plain JSONField),
      relates one_to_one ''blob'' ''models.Blob'' ''metadata'' CASCADE]
     []"

definition model_Bookmark :: "string \<times> model_state" where
  "model_Bookmark = model_class ''Bookmark''
     [uuid_key,
      relates foreign_key ''user'' ''models.User'' ''bookmarks'' CASCADE,
      relates foreign_key ''file'' ''models.File'' ''bookmarked_by'' CASCADE]
     [[''user'', ''file'']]"

definition model_File :: "string \<times> model_state" where
  "model_File = model_class ''File''
     [uuid_key,
      (''name'', plain (CharField 1024)),
      (''path'', plain (CharField 4096)),
      (''size'', plain BigIntField),
      (''modified_at'', plain DatetimeField),
      relates foreign_key ''owner'' ''models.User'' ''files'' CASCADE,
      relates foreign_key ''namespace'' ''models.Namespace'' ''files'' CASCADE,
      map_prod id nullable (relates foreign_key ''blob'' ''models.Blob'' ''files'' RESTRICT),
      (''deleted_at'', nullable (plain DatetimeField))]
     [[''path'', ''namespace'']]"

definition model_FileMetadata :: "string \<times> model_state" where
  "model_FileMetadata = model_class ''FileMetadata''
     [uuid_key,
      (''data'', plain JSONField),
      relates one_to_one ''file'' ''models.File'' ''metadata'' CASCADE]
     []"

definition model_MediaItem :: "string \<times> model_state" where
  "model_MediaItem = model_class ''MediaItem''
     [uuid_key,
      relates foreign_key ''owner'' ''models.User'' ''media_items'' CASCADE,
      relates foreign_key ''blob'' ''models.Blob'' ''media_items'' RESTRICT,
      (''name'', plain (CharField 1024)),
      (''created_at'', plain DatetimeField),
      (''modified_at'', plain DatetimeField),
      (''deleted_at'', nullable (plain DatetimeField))]
     []"

definition model_MediaItemFavourite :: "string \<times> model_state" where
  "model_MediaItemFavourite = model_class ''MediaItemFavourite''
     [uuid_key,
      relates foreign_key ''user'' ''models.User'' ''media_item_favourites'' CASCADE,
      relates foreign_key ''media_item'' ''models.MediaItem'' ''favourited_by'' CASCADE]
     [[''user'', ''media_item'']]"

definition model_Namespace :: "string \<times> model_state" where
  "model_Namespace = model_class ''Namespace''
     [uuid_key,
      (''path'', unique (plain (CharField 1024))),
      relates foreign_key ''owner'' ''models.User'' ''namespaces'' CASCADE]
     []"

definition model_SharedLink :: "string \<times> model_state" where
  "model_SharedLink = model_class ''SharedLink''
     [uuid_key,
      (''token'', unique (plain (CharField 255))),
      (''created_at'', plain DatetimeField),
      relates one_to_one ''file'' ''models.File'' ''shared_link'' CASCADE]
     []"

definition model_User :: "string \<times> model_state" where
  "model_User = model_class ''User''
     [uuid_key,
      (''username'', unique (plain (CharField 255))),
      (''password'', plain (CharField 255)),
      (''email'', nullable (unique (plain (CharField 255)))),
      (''email_verified'', with_default (DefaultBool False) (plain BooleanField)),
      (''display_name'', plain (CharField 255)),
      (''created_at'', plain DatetimeField),
      (''last_login_at'', nullable (plain DatetimeField)),
      (''active'', with_default (DefaultBool True) (plain BooleanField)),
      (''superuser'', with_default (DefaultBool False) (plain BooleanField))]
     []"

definition models :: schema where
  "models = [model_Account, model_AuditTrailAction, model_Album, model_AuditTrail, model_AuditTrailAsset, model_Blob,
     model_BlobJob, model_BlobMetadata, model_Bookmark, model_File, model_FileMetadata, model_MediaItem,
     model_MediaItemFavourite, model_Namespace, model_SharedLink, model_User]"

section \<open>Running the migrations\<close>

text \<open>The effect of an operation. A relation follows its model when that is renamed, and a column takes the constraints
  and indexes it is part of along when it is dropped.\<close>

definition retarget :: "string \<Rightarrow> string \<Rightarrow> field \<Rightarrow> field" where
  "retarget old new f = (let to = \<lambda>t. if t = ''models.'' @ old then ''models.'' @ new else t in
     case fd_type f of
       ForeignKeyField r \<Rightarrow> f\<lparr>fd_type := ForeignKeyField (r\<lparr>rl_to := to (rl_to r)\<rparr>)\<rparr>
     | OneToOneField r \<Rightarrow> f\<lparr>fd_type := OneToOneField (r\<lparr>rl_to := to (rl_to r)\<rparr>)\<rparr>
     | ManyToManyField r \<Rightarrow> f\<lparr>fd_type := ManyToManyField (r\<lparr>mm_to := to (mm_to r)\<rparr>)\<rparr>
     | _ \<Rightarrow> f)"

definition on_model :: "string \<Rightarrow> (model_state \<Rightarrow> model_state) \<Rightarrow> schema \<Rightarrow> schema" where
  "on_model name g s = map (\<lambda>(n, m). (n, if n = name then g m else m)) s"

definition set_field :: "string \<Rightarrow> string \<Rightarrow> field \<Rightarrow> schema \<Rightarrow> schema" where
  "set_field name fname f =
     on_model name (\<lambda>m. m\<lparr>ms_fields := map (\<lambda>(k, g). (k, if k = fname then f else g)) (ms_fields m)\<rparr>)"

definition drop_field :: "string \<Rightarrow> string \<Rightarrow> schema \<Rightarrow> schema" where
  "drop_field name fname = on_model name (\<lambda>m. m\<lparr>
       ms_fields := filter (\<lambda>(k, _). k \<noteq> fname) (ms_fields m),
       ms_unique_together := filter (\<lambda>ks. fname \<notin> set ks) (ms_unique_together m),
       ms_indexes := filter (\<lambda>ks. fname \<notin> set ks) (ms_indexes m)\<rparr>)"

definition rename_model :: "string \<Rightarrow> string \<Rightarrow> schema \<Rightarrow> schema" where
  "rename_model old new s = map (\<lambda>(n, m).
     (if n = old then new else n, m\<lparr>ms_fields := map (map_prod id (retarget old new)) (ms_fields m)\<rparr>)) s"

type_synonym migration_engine = "operation \<Rightarrow> schema \<Rightarrow> schema"

definition migration_engine_ok :: "migration_engine \<Rightarrow> bool" where
  "migration_engine_ok eng \<longleftrightarrow>
     (\<forall>s n m. eng (CreateModel n m) s = s @ [(n, m)])
   \<and> (\<forall>s old new. eng (RenameModel old new) s = rename_model old new s)
   \<and> (\<forall>s n. eng (DeleteModel n) s = filter (\<lambda>(k, _). k \<noteq> n) s)
   \<and> (\<forall>s n k f. eng (AddField n k f) s = on_model n (\<lambda>m. m\<lparr>ms_fields := ms_fields m @ [(k, f)]\<rparr>) s)
   \<and> (\<forall>s n k f. eng (AlterField n k f) s = set_field n k f s)
   \<and> (\<forall>s n k. eng (RemoveField n k) s = drop_field n k s)
   \<and> (\<forall>s sql. sql \<in> {storage_key_update, album_items_constraints} \<longrightarrow> eng (RunSQL sql) s = s)
   \<and> (\<forall>s. eng RunPython s = s)"

definition run_operations :: "migration_engine \<Rightarrow> operation list \<Rightarrow> schema \<Rightarrow> schema" where
  "run_operations eng ops s = foldl (\<lambda>s op. eng op s) s ops"

definition run_migrations :: "migration_engine \<Rightarrow> schema_migration list \<Rightarrow> schema \<Rightarrow> schema" where
  "run_migrations eng ms s = run_operations eng (concat (map sm_operations ms)) s"

section \<open>The tables the migrations leave\<close>

text \<open>Each migration depends on the one before it, so that there is one order to run them in.\<close>

definition in_order :: "schema_migration list \<Rightarrow> bool" where
  "in_order ms \<longleftrightarrow> map sm_dependencies ms = [] # map (\<lambda>m. [sm_name m]) (butlast ms)"

text \<open>Two models agree when they differ in the order of the columns at most.\<close>

definition same_model :: "model_state \<Rightarrow> model_state \<Rightarrow> bool" where
  "same_model a b \<longleftrightarrow> ms_table a = ms_table b \<and> set (ms_fields a) = set (ms_fields b)
     \<and> set (ms_unique_together a) = set (ms_unique_together b) \<and> set (ms_indexes a) = set (ms_indexes b)"

definition same_schema :: "schema \<Rightarrow> schema \<Rightarrow> bool" where
  "same_schema s t \<longleftrightarrow> set (map fst s) = set (map fst t)
     \<and> list_all (\<lambda>(n, m). case map_of t n of None \<Rightarrow> False | Some m' \<Rightarrow> same_model m m') s"

definition target :: "field \<Rightarrow> string option" where
  "target f = (case fd_type f of ForeignKeyField r \<Rightarrow> Some (rl_to r) | OneToOneField r \<Rightarrow> Some (rl_to r)
     | ManyToManyField r \<Rightarrow> Some (mm_to r) | _ \<Rightarrow> None)"

definition relations_closed :: "schema \<Rightarrow> bool" where
  "relations_closed s = (let names = map (\<lambda>(n, _). ''models.'' @ n) s in
     list_all (\<lambda>(n, m). list_all (\<lambda>(k, f). case target f of None \<Rightarrow> True | Some t \<Rightarrow> t \<in> set names) (ms_fields m)) s)"

text \<open>The cover of an album, as \<open>0001\<close> declares it.\<close>

definition first_cover :: field where
  "first_cover = nullable (foreign_key ''models.File'' ''cover_id'' ''album_covers'' SET_NULL)"

text \<open>An engine with the documented effects, to compute with.\<close>

fun apply_operation :: migration_engine where
  "apply_operation (CreateModel n m) s = s @ [(n, m)]"
| "apply_operation (RenameModel old new) s = rename_model old new s"
| "apply_operation (DeleteModel n) s = filter (\<lambda>(k, _). k \<noteq> n) s"
| "apply_operation (AddField n k f) s = on_model n (\<lambda>m. m\<lparr>ms_fields := ms_fields m @ [(k, f)]\<rparr>) s"
| "apply_operation (AlterField n k f) s = set_field n k f s"
| "apply_operation (RemoveField n k) s = drop_field n k s"
| "apply_operation (RunSQL sql) s = s"
| "apply_operation RunPython s = s"

fun known_operation :: "operation \<Rightarrow> bool" where
  "known_operation (RunSQL sql) \<longleftrightarrow> sql \<in> {storage_key_update, album_items_constraints}"
| "known_operation _ \<longleftrightarrow> True"

lemma engine_agrees: "migration_engine_ok eng \<Longrightarrow> known_operation op \<Longrightarrow> eng op s = apply_operation op s"
  by (cases op) (auto simp: migration_engine_ok_def)

lemma engine_runs:
  assumes "migration_engine_ok eng"
  shows "list_all known_operation ops \<Longrightarrow> run_operations eng ops s = run_operations apply_operation ops s"
  by (induction ops arbitrary: s) (simp_all add: run_operations_def engine_agrees [OF assms])

text \<open>How fields are compared and followed without looking at all their parts.\<close>

lemma retarget_forms:
  "retarget old new (foreign_key t c r d) = foreign_key (if t = ''models.'' @ old then ''models.'' @ new else t) c r d"
  "retarget old new (one_to_one t c r d) = one_to_one (if t = ''models.'' @ old then ''models.'' @ new else t) c r d"
  "retarget old new (plain (CharField n)) = plain (CharField n)"
  "ty \<in> {UUIDField, BooleanField, DatetimeField, BigIntField, IntField, SmallIntField, JSONField}
     \<Longrightarrow> retarget old new (plain ty) = plain ty"
  "retarget old new (nullable f) = nullable (retarget old new f)"
  "retarget old new (indexed f) = indexed (retarget old new f)"
  "retarget old new (unique f) = unique (retarget old new f)"
  "retarget old new (with_default v f) = with_default v (retarget old new f)"
  "map_prod id (retarget old new) uuid_key = uuid_key"
  "map_prod id (retarget old new) int_key = int_key"
  "retarget old new (plain (ManyToManyField m))
     = plain (ManyToManyField (m\<lparr>mm_to := if mm_to m = ''models.'' @ old then ''models.'' @ new else mm_to m\<rparr>))"
  by (auto simp: retarget_def foreign_key_def one_to_one_def plain_def nullable_def unique_def indexed_def with_default_def
      uuid_key_def int_key_def Let_def split: field_type.split)

lemma target_forms:
  "target (foreign_key t c r d) = Some t" "target (one_to_one t c r d) = Some t" "target (plain (CharField n)) = None"
  "ty \<in> {UUIDField, BooleanField, DatetimeField, BigIntField, IntField, SmallIntField, JSONField} \<Longrightarrow> target (plain ty) = None"
  "target (nullable f) = target f" "target (unique f) = target f" "target (indexed f) = target f" "target (with_default v f) = target f"
  "target (plain (ManyToManyField m)) = Some (mm_to m)"
  by (auto simp: target_def foreign_key_def one_to_one_def plain_def nullable_def unique_def indexed_def with_default_def)

lemma key_targets: "target (snd uuid_key) = None" "target (snd int_key) = None"
  by (simp_all add: uuid_key_def int_key_def target_def plain_def)

lemma key_cases: "(case uuid_key of (k, f) \<Rightarrow> g k f) = g ''id'' (snd uuid_key)" "(case int_key of (k, f) \<Rightarrow> g k f) = g ''id'' (snd int_key)"
    "uuid_key = (k, f) \<longleftrightarrow> k = ''id'' \<and> f = snd uuid_key" "int_key = (k, f) \<longleftrightarrow> k = ''id'' \<and> f = snd int_key"
    "(k, f) = uuid_key \<longleftrightarrow> k = ''id'' \<and> f = snd uuid_key" "(k, f) = int_key \<longleftrightarrow> k = ''id'' \<and> f = snd int_key"
  by (auto simp: case_prod_beta uuid_key_def int_key_def)

lemma field_inject: "nullable (foreign_key t c r d) = nullable (foreign_key t' c' r' d') \<longleftrightarrow> t = t' \<and> c = c' \<and> r = r' \<and> d = d'"
  by (auto simp: nullable_def foreign_key_def plain_def)

lemma lower_letters_list:
  "map lower_char ''ABCDEFGHIJKLMNOPQRSTUVWXYZabcdefghijklmnopqrstuvwxyz'' = ''abcdefghijklmnopqrstuvwxyzabcdefghijklmnopqrstuvwxyz''"
  by code_simp

lemmas lower_letters = lower_letters_list [simplified]

lemma set_eq_lists: "set a = set b \<longleftrightarrow> list_all (\<lambda>x. x \<in> set b) a \<and> list_all (\<lambda>x. x \<in> set a) b"
  by (auto simp: list_all_iff)

lemmas same_model_lists = same_model_def [unfolded set_eq_lists]

lemmas same_schema_lists = same_schema_def [unfolded set_eq_lists]

lemma same_model_refl [simp]: "same_model m m"
  by (simp add: same_model_def)

lemmas schema_defs =
  created_def
  created_with_def create_AuditTrailAction_def create_FileCategory_def create_FilePendingDeletion_def
  create_MediaType_def create_User_def create_Account_def create_AuditTrail_def create_Namespace_def create_File_def
  create_Album_def create_AlbumItems_def create_AuditTrailAsset_def create_Bookmark_def
  create_FileFileCategoryThrough_def create_FileMember_def create_FileMemberMountPoint_def create_FileMetadata_def
  create_Fingerprint_def create_SharedLink_def create_Blob_def create_BlobMetadata_def create_MediaItem_def
  create_MediaItemFavourite_def create_MediaItemCategoryThrough_def create_BlobJob_def migration_0001_def
  storage_key_update_def migration_0002_def migration_0003_def migration_0004_def album_items_field_def
  migration_0005_def album_items_constraints_def migration_0006_def migration_0007_def migration_0008_def
  migration_0009_def migration_0010_def migration_0011_def migration_0012_def migration_0013_def migration_0014_def
  migration_0015_def migration_0016_def migrations_def relates_def model_class_def many_to_many_def model_Account_def
  model_AuditTrailAction_def model_Album_def model_AuditTrail_def model_AuditTrailAsset_def model_Blob_def
  model_BlobJob_def model_BlobMetadata_def model_Bookmark_def model_File_def model_FileMetadata_def model_MediaItem_def
  model_MediaItemFavourite_def model_Namespace_def model_SharedLink_def model_User_def models_def 
  on_model_def set_field_def drop_field_def rename_model_def run_operations_def run_migrations_def in_order_def
  same_schema_lists relations_closed_def first_cover_def
  lower_letters Let_def retarget_forms target_forms key_cases key_targets field_inject

lemma migrations_known: "list_all known_operation (concat (map sm_operations migrations))"
  by (simp add: schema_defs)

definition migrated_schema :: schema where
  "migrated_schema = run_migrations apply_operation migrations []"

definition expected_schema :: "schema \<Rightarrow> schema \<Rightarrow> bool" where
  "expected_schema s t \<longleftrightarrow> same_schema s (set_field ''Album'' ''cover'' first_cover t)
     \<and> \<not> same_schema s t \<and> relations_closed s"

text \<open>While the operations run, and while models are looked up, what a model holds is not looked into.\<close>

lemma keep_model: "model_state_ext a b c d e = model_state_ext a b c d e" ..

lemma migrated_expected: "expected_schema migrated_schema models"
  apply (simp add: migrated_schema_def schema_defs cong: keep_model)
  apply (simp add: schema_defs)
  apply (simp add: expected_schema_def schema_defs cong: keep_model)
  apply (simp add: same_model_lists schema_defs)
  done

text \<open>C40: The migrations have one order, and with any engine that does what is documented they lead to the tables that
  the models declare, with all relations among them, but for one column: the cover of an album still refers to a file,
  where the model, and the code, take it to be a photo.\<close>

theorem migrations_reach_models:
  assumes "migration_engine_ok eng"
  shows "in_order migrations
    \<and> same_schema (run_migrations eng migrations []) (set_field ''Album'' ''cover'' first_cover models)
    \<and> \<not> same_schema (run_migrations eng migrations []) models
    \<and> relations_closed (run_migrations eng migrations [])"
proof -
  have "run_migrations eng migrations [] = migrated_schema"
    unfolding run_migrations_def migrated_schema_def by (rule engine_runs [OF assms migrations_known])
  moreover have "in_order migrations" by (simp add: schema_defs)
  ultimately show ?thesis using migrated_expected by (simp add: expected_schema_def)
qed

theorem migrations_reach_models_witness:
  "migration_engine_ok apply_operation \<and> relations_closed (run_migrations apply_operation migrations [])"
proof -
  have "migration_engine_ok apply_operation" by (simp add: migration_engine_ok_def)
  then show ?thesis using migrations_reach_models [of apply_operation] by simp
qed

end
