(* ===== verification/Example.thy ===== *)
theory Example
  imports World FileInvariant
begin

text \<open>
  A small concrete database on which the properties are instantiated: the user \<open>alice\<close> (id 1) with
  her namespace (id 2), its root folder and its trash, and a folder \<open>docs\<close> that holds the file
  \<open>docs/a.txt\<close> of three bytes, stored in the blob with id 7.
\<close>

definition alice_row :: user_row where
  "alice_row = \<lparr> ur_id = 1, ur_username = ''alice'', ur_password = ''pw'', ur_email = None,
     ur_email_verified = False, ur_display_name = ''Alice'', ur_created_at = 0,
     ur_last_login_at = None, ur_active = True, ur_superuser = False \<rparr>"

definition folder_row :: "uuid \<Rightarrow> string \<Rightarrow> string \<Rightarrow> int \<Rightarrow> file_row" where
  "folder_row i n p s = \<lparr> fr_id = i, fr_name = n, fr_path = p, fr_size = s, fr_modified_at = 0,
     fr_owner = 1, fr_ns = 2, fr_blob = None, fr_deleted_at = None \<rparr>"

definition a_txt_row :: file_row where
  "a_txt_row = (folder_row 6 ''a.txt'' ''docs/a.txt'' 3)\<lparr>fr_blob := Some 7\<rparr>"

definition a_txt_blob :: blob_row where
  "a_txt_blob = \<lparr> br_id = 7, br_storage_key = ''k/a.txt'', br_size = 3, br_chash = ''h'',
     br_media_type = ''text/plain'', br_created_at = 0 \<rparr>"

definition alice_db :: db where
  "alice_db = empty_db\<lparr> d_next := 8, d_users := [alice_row],
     d_accounts := [\<lparr> ar_id = 1, ar_user = 1, ar_storage_quota = Some 10 \<rparr>],
     d_namespaces := [\<lparr> nr_id = 2, nr_path = ''alice'', nr_owner = 1 \<rparr>],
     d_files := [folder_row 3 ''.'' ''.'' 3, folder_row 4 ''Trash'' ''Trash'' 0,
                 folder_row 5 ''docs'' ''docs'' 3, a_txt_row],
     d_blobs := [a_txt_blob] \<rparr>"

definition world_of :: "db \<Rightarrow> 'b \<Rightarrow> 'b world" where
  "world_of d b = \<lparr> w_db = d, w_default = b, w_media = b, w_cache = b, w_queue = [], w_tasks = [],
     w_mail = [], w_now = 0, w_draws = 0, w_user = None \<rparr>"

lemmas example_rows = alice_row_def folder_row_def a_txt_row_def a_txt_blob_def
lemmas example_defs = alice_db_def empty_db_def example_rows

lemma w_db_world_of [simp]: "w_db (world_of d b) = d"
  by (simp add: world_of_def)

lemma alice_db_wf: "db_wf alice_db"
  by (simp add: db_wf_def example_defs ids_below_def file_fk_ok_def has_user_def has_namespace_def has_blob_def)

lemma alice_comps:
  "pure_comps ''.'' = []" "pure_comps ''Trash'' = [''Trash'']" "pure_comps ''docs'' = [''docs'']"
  "pure_comps ''docs/a.txt'' = [''docs'', ''a.txt'']"
  by code_simp+

lemma alice_rows_ok: "r \<in> set (d_files alice_db) \<Longrightarrow> row_ok r"
  by (auto simp: example_defs row_ok_def comps_def alice_comps path_of_def good_comp_def)

lemma alice_db_tree: "db_tree alice_db"
proof -
  have "\<forall>r \<in> set (d_files alice_db). parent_in (d_files alice_db) (fr_ns r) (comps r)"
    by (simp add: example_defs parent_in_def is_dir_def comps_def alice_comps)
  moreover have "\<forall>r \<in> set (d_files alice_db). is_dir r \<longrightarrow> fr_size r = size_below (d_files alice_db) r"
    by (simp add: example_defs size_below_def below_def is_dir_def comps_def alice_comps strict_prefix_def)
  moreover have "no_folder_blobs alice_db"
    by (simp add: no_folder_blobs_def example_defs mt_folder_def)
  ultimately show ?thesis
    using alice_rows_ok alice_db_wf db_wfD(7) [OF alice_db_wf] by (auto simp: db_tree_def tree_def)
qed

lemma alice_case_unique: "case_unique (d_files alice_db)"
  unfolding case_unique_def by code_simp

end
