(* ===== verification/TrashProps.thy ===== *)
theory TrashProps
  imports FileServices Example
begin

text \<open>
  Emptying the trash: everything in it is deleted, the root folder shrinks, and the trash keeps its size.
\<close>

lemma trash_path: "map path_str (path_parents (Path ''Trash'')) = [''.'']" "path_str (Path ''Trash'') = ''Trash''"
  by code_simp+

lemma trash_not_below: "\<not> istartswith ''Trash'' ''trash/''" "\<not> istartswith ''.'' ''trash/''"
  by code_simp+

lemma save_jobs_files: "keeps (\<lambda>d. d_files d = F) (blob_job_save_batch js)"
  unfolding blob_job_save_batch_def
  by (intro keeps_map_prog keeps_bnd) (simp_all add: keeps_def insert_job_def ret_def)

lemma save_and_enqueue_files: "db_keeps (\<lambda>d. d_files d = F) (save_and_enqueue ps)"
  unfolding save_and_enqueue_def by (auto intro!: keeps_bnd keeps_in_db save_jobs_files)

lemma file_get_by_path_row:
  assumes "file_get_by_path ns path d = (Inr f, d')" "r \<in> set (d_files d)" "file_at d ns path r"
  shows "d' = d \<and> f_size f = fr_size r \<and> f_path f = Path (fr_path r) \<and> f_ns_path f = (if ns = [] then row_ns_path d r else ns)"
proof -
  obtain q where q: "filter (file_at d ns path) (d_files d) = [q]" and f: "file_from_db (Some ns) d q = Inr f" "d' = d"
    using assms(1) by (auto simp: file_get_by_path_def bnd_Inr query_Inr q_get_Inr_iff)
  have "r \<in> set (filter (file_at d ns path) (d_files d))" using assms(2,3) by simp
  then have "q = r" unfolding q by simp
  then show ?thesis using f by (auto simp: file_from_db_def split: sum.splits)
qed

lemma namespace_row_get_unique:
  assumes "namespace_row_get ns d = (Inr n, d')" "in_ns d ns r"
  shows "d' = d \<and> nr_id n = fr_ns r"
proof -
  have n: "filter (\<lambda>n. nr_path n = ns) (d_namespaces d) = [n]" "d' = d"
    using assms(1) by (auto simp: namespace_row_get_def query_Inr or_query_err_def q_get_Inr_iff split: sum.splits)
  obtain m where m: "m \<in> set (d_namespaces d)" "nr_id m = fr_ns r" "nr_path m = ns" using assms(2) by (auto simp: in_ns_def)
  then have "m \<in> set (filter (\<lambda>n. nr_path n = ns) (d_namespaces d))" by simp
  then show ?thesis unfolding n using m(2) n(2) by simp
qed

text \<open>The rows after the two statements on files.\<close>

lemma empty_trash_files:
  assumes "andthen (in_db (file_delete_all_with_prefix ns ''trash/'')) (andthen (in_db (file_incr_size_batch ns [''.'', ''trash''] (- k)))
      (blob_service_delete_all_with_prefix p)) w = (Inr (), w')" "in_ns (w_db w) ns r" "k \<noteq> 0"
  shows "d_files (w_db w') = q_update (\<lambda>q. fr_ns q = fr_ns r \<and> fr_path q \<in> {''.'', ''trash''}) (\<lambda>q. q\<lparr>fr_size := fr_size q - k\<rparr>)
     (q_delete (\<lambda>q. fr_ns q = fr_ns r \<and> istartswith (fr_path q) ''trash/'') (d_files (w_db w)))"
proof -
  obtain d1 d2 where d1: "file_delete_all_with_prefix ns ''trash/'' (w_db w) = (Inr (), d1)"
      and d2: "file_incr_size_batch ns [''.'', ''trash''] (- k) d1 = (Inr (), d2)"
      and b: "blob_service_delete_all_with_prefix p (w\<lparr>w_db := d2\<rparr>) = (Inr (), w')"
    using assms(1) by (auto simp: andthen_Inr in_db_Inr)
  obtain n where n: "namespace_row_get ns (w_db w) = (Inr n, w_db w)" "nr_id n = fr_ns r"
      and d1': "d1 = delete_files (\<lambda>q. fr_ns q = nr_id n \<and> istartswith (fr_path q) ''trash/'') (w_db w)"
    using d1 namespace_row_get_unique [OF _ assms(2)] by (fastforce simp: file_delete_all_with_prefix_def bnd_Inr modify_Inr)
  have "in_ns d1 ns r" using assms(2) by (simp add: d1' delete_files_def Let_def in_ns_def)
  then have "d_files d2 = q_update (\<lambda>q. fr_ns q = fr_ns r \<and> fr_path q \<in> set [''.'', ''trash'']) (\<lambda>q. q\<lparr>fr_size := fr_size q - k\<rparr>) (d_files d1)"
    using d2 assms(3) namespace_row_get_unique [of ns d1 _ _ r] by (fastforce simp: file_incr_size_batch_def bnd_Inr modify_Inr)
  moreover have "d_files (w_db w') = d_files d2"
    using keepsD [OF save_and_enqueue_files [of "d_files d2"], of "w\<lparr>w_db := d2\<rparr>" "[BlobJobDeletePrefix p]"] b
    unfolding blob_service_delete_all_with_prefix_def by simp
  ultimately show ?thesis using n(2) by (simp add: d1' delete_files_def Let_def)
qed

text \<open>C39: Emptying a trash of some size deletes every row in it and takes its size off the root folder, but leaves the
  row of the trash folder as it is, with the size it had.\<close>

theorem empty_trash_keeps_size:
  fixes w :: "'b world"
  assumes "ns_empty_trash ns w = (Inr (), w')" "r \<in> set (d_files (w_db w))" "in_ns (w_db w) ns r"
    "fr_path r = ''Trash''" "fr_size r \<noteq> 0"
  shows "r \<in> set (d_files (w_db w'))
    \<and> (\<forall>q \<in> set (d_files (w_db w')). fr_ns q = fr_ns r \<longrightarrow> \<not> istartswith (fr_path q) ''trash/'')
    \<and> (\<forall>q \<in> set (d_files (w_db w)). fr_ns q = fr_ns r \<longrightarrow> fr_path q = ''.'' \<longrightarrow>
          q\<lparr>fr_size := fr_size q - fr_size r\<rparr> \<in> set (d_files (w_db w')))"
proof -
  obtain w1 where e: "filecore_empty_folder ns ''trash'' w = (Inr (), w1)" and w1: "w_db w' = w_db w1"
    using assms(1) by (auto simp: ns_empty_trash_def andthen_Inr schedule_def modify_Inr)
  obtain f d1 where f': "file_get_by_path ns ''trash'' (w_db w) = (Inr f, d1)"
    using e by (auto simp: filecore_empty_folder_def bnd_Inr in_db_Inr)
  then have f: "file_get_by_path ns ''trash'' (w_db w) = (Inr f, w_db w)"
    by (auto simp: file_get_by_path_def bnd_Inr query_Inr)
  have s: "\<exists>v p. atomic (andthen (in_db (file_delete_all_with_prefix ns ''trash/''))
        (andthen (in_db (file_incr_size_batch ns (map path_str (path_parents (f_path f)) @ [''trash'']) (- f_size f)))
          (blob_service_delete_all_with_prefix p))) w = (Inr (), v) \<and> w_db w' = w_db v" if "f_size f \<noteq> 0"
    using e f that w1
    by (fastforce simp: filecore_empty_folder_def bnd_Inr in_db_Inr Let_def namespace_get_by_path_def query_Inr)
  have "file_at (w_db w) ns ''trash'' r" using assms(3,4) by (simp add: file_at_def iexact_def) code_simp
  from file_get_by_path_row [OF f assms(2) this] have fr: "f_size f = fr_size r" "map path_str (path_parents (f_path f)) = [''.'']"
    using assms(4) trash_path by simp_all
  obtain v p where run: "andthen (in_db (file_delete_all_with_prefix ns ''trash/''))
      (andthen (in_db (file_incr_size_batch ns [''.'', ''trash''] (- fr_size r))) (blob_service_delete_all_with_prefix p)) w = (Inr (), v)"
      and v: "w_db w' = w_db v"
    using s assms(5) unfolding fr atomic_Inr by auto
  note files = empty_trash_files [OF run assms(3,5)]
  show ?thesis
    unfolding v files using assms(2,4) trash_not_below by (auto simp: set_q_update image_iff)
qed

definition full_trash_db :: db where
  "full_trash_db = alice_db\<lparr> d_files := [folder_row 3 ''.'' ''.'' 3, folder_row 4 ''Trash'' ''Trash'' 3,
     (folder_row 6 ''a.txt'' ''Trash/a.txt'' 3)\<lparr>fr_blob := Some 7\<rparr>] \<rparr>"

theorem empty_trash_keeps_size_witness:
  "\<exists>w'. ns_empty_trash ''alice'' (world_of full_trash_db ()) = (Inr (), w')
     \<and> folder_row 4 ''Trash'' ''Trash'' 3 \<in> set (d_files (w_db w'))
     \<and> (\<forall>q \<in> set (d_files (w_db w')). fr_ns q = 2 \<longrightarrow> \<not> istartswith (fr_path q) ''trash/'')"
proof -
  let ?r = "ns_empty_trash ''alice'' (world_of full_trash_db ())" and ?t = "folder_row 4 ''Trash'' ''Trash'' 3"
  have "(case fst ?r of Inl e \<Rightarrow> False | Inr u \<Rightarrow> True)" by code_simp
  then obtain w' where r: "?r = (Inr (), w')" by (cases ?r) (auto split: sum.splits)
  have "?t \<in> set (d_files (w_db (world_of full_trash_db ())))" "in_ns (w_db (world_of full_trash_db ())) ''alice'' ?t"
    "fr_path ?t = ''Trash''" "fr_size ?t \<noteq> 0" "fr_ns ?t = 2"
    by (simp_all add: full_trash_db_def alice_db_def in_ns_def folder_row_def)
  from empty_trash_keeps_size [OF r this(1-4)] this(5) show ?thesis using r by auto
qed

end
