(* ===== verification/Config.thy ===== *)
theory Config
  imports Toolkit External
begin

text \<open>
  \<open>src/app/config.py\<close>: the configuration models, the validators of sizes, durations and paths, the DSN of
  the database and the default of the media storage. Durations are microseconds. \<open>urlsplit\<close> and
  \<open>urlunsplit\<close> follow the standard library; whether a bracketed host is an IP literal is a parameter.
\<close>

datatype config_error = ConfigValueError | ConfigOverflowError

text \<open>A raw setting: a text (as from the environment) or a value that is not a \<open>str\<close>.\<close>

datatype 'a raw = RawStr string | RawValue 'a

section \<open>Enumerations\<close>

datatype DatabaseType = DB_tortoise
datatype MailBackendType = Mail_smtp
datatype StorageType = Storage_filesystem | Storage_s3
datatype WorkerType = Worker_arq
datatype ConfigThumbnailSize = TS_xs | TS_lg | TS_xxl | TS_ai

text \<open>The exponents of the multipliers, which are powers of two.\<close>

definition bytes_size_exponent :: "string \<Rightarrow> nat" where
  "bytes_size_exponent unit = (if unit = ''gb'' then 30 else if unit = ''mb'' then 20 else if unit = ''kb'' then 10 else 0)"

definition BytesSizeMultipliers :: "string \<Rightarrow> int" where
  "BytesSizeMultipliers unit = 2 ^ bytes_size_exponent unit"

definition config_thumbnail_size :: "ConfigThumbnailSize \<Rightarrow> int" where
  "config_thumbnail_size s = (case s of TS_xs \<Rightarrow> 72 | TS_lg \<Rightarrow> 768 | TS_xxl \<Rightarrow> 2880 | TS_ai \<Rightarrow> 768)"

section \<open>Numbers\<close>

text \<open>\<open>int(s)\<close> of a text of digits refuses more than 4,300 of them.\<close>

definition int_of_digits :: "string \<Rightarrow> config_error + int" where
  "int_of_digits ds = (if 4300 < length ds then Inl ConfigValueError else Inr (digits_val ds))"

fun bit_count :: "nat \<Rightarrow> nat" where
  "bit_count n = (if n = 0 then 0 else Suc (bit_count (n div 2)))"

declare bit_count.simps [simp del]

definition round_half_even :: "nat \<Rightarrow> nat \<Rightarrow> nat" where
  "round_half_even n d = (let q = n div d; r = n mod d
     in if 2 * r < d \<or> (2 * r = d \<and> even q) then q else Suc q)"

text \<open>The binary64 number nearest to \<open>n / d\<close> is \<open>q * 2 ^ (- s)\<close> for the pair \<open>(q, s)\<close>, \<open>q\<close> having 53
  bits. Exponents below those of binary64 do not occur in what follows: the results there are 0.\<close>

definition nearest_double :: "nat \<Rightarrow> nat \<Rightarrow> nat \<times> int" where
  "nearest_double n d =
     (let s = 53 + int (bit_count d) - int (bit_count n);
          scaled = (\<lambda>s. if 0 \<le> s then (n * 2 ^ nat s, d) else (n, d * 2 ^ nat (- s)));
          s' = (if 2 ^ 53 * snd (scaled s) \<le> fst (scaled s) then s - 1 else s)
      in (round_half_even (fst (scaled s')) (snd (scaled s')), s'))"

text \<open>\<open>int(float(size) * 2 ** m)\<close>: the product is exact, and \<open>int(inf)\<close> raises.\<close>

definition int_of_scaled_float :: "nat \<Rightarrow> nat \<Rightarrow> nat \<Rightarrow> config_error + int" where
  "int_of_scaled_float n d m =
     (if n = 0 then Inr 0
      else let (q, s) = nearest_double n d
           in if s \<le> int m
              then if 2 ^ 1024 \<le> q * 2 ^ nat (int m - s) then Inl ConfigOverflowError
                   else Inr (int (q * 2 ^ nat (int m - s)))
              else Inr (int (q div 2 ^ nat (s - int m))))"

section \<open>Sizes\<close>

text \<open>\<open>^(\d+(?:\.[\d]+)?)([gmk]?b)$\<close>: the digits before and after the point, and the unit.\<close>

definition match_bytes_size :: "string \<Rightarrow> (string \<times> string \<times> string) option" where
  "match_bytes_size s =
     (let whole = takeWhile is_digit s; rest = dropWhile is_digit s;
          (frac, unit) = (case rest of
              c # cs \<Rightarrow> if c = dot \<and> takeWhile is_digit cs \<noteq> [] then (takeWhile is_digit cs, dropWhile is_digit cs) else ([], rest)
            | [] \<Rightarrow> ([], rest))
      in if whole \<noteq> [] \<and> unit \<in> {''gb'', ''mb'', ''kb'', ''b''} then Some (whole, frac, unit) else None)"

definition parse_bytes_size :: "int raw \<Rightarrow> config_error + int" where
  "parse_bytes_size value =
     (case value of
        RawValue n \<Rightarrow> Inr n
      | RawStr text \<Rightarrow>
          let s = casefold (strip text) in
          if s \<noteq> [] \<and> list_all is_digit s then int_of_digits s
          else (case match_bytes_size s of
              Some (whole, frac, unit) \<Rightarrow>
                int_of_scaled_float (nat (digits_val (whole @ frac))) (10 ^ length frac) (bytes_size_exponent unit)
            | None \<Rightarrow> Inl ConfigValueError))"

section \<open>Durations\<close>

text \<open>One optional group \<open>((\d+)c)?\<close>: what it matched and the rest.\<close>

definition unit_group :: "char \<Rightarrow> string \<Rightarrow> string option \<times> string" where
  "unit_group c s =
     (let ds = takeWhile is_digit s
      in case dropWhile is_digit s of
           x # rest \<Rightarrow> if ds \<noteq> [] \<and> x = c then (Some ds, rest) else (None, s)
         | [] \<Rightarrow> (None, s))"

definition timedelta_of :: "int \<Rightarrow> config_error + int" where
  "timedelta_of seconds = (if 999999999 < seconds div 86400 then Inl ConfigOverflowError else Inr (seconds * 1000000))"

definition unit_value :: "string option \<Rightarrow> config_error + int" where
  "unit_value v = (case v of None \<Rightarrow> Inr 0 | Some ds \<Rightarrow> int_of_digits ds)"

definition parse_timedelta_from_str :: "int raw \<Rightarrow> config_error + int" where
  "parse_timedelta_from_str value =
     (case value of
        RawValue t \<Rightarrow> Inr t
      | RawStr text \<Rightarrow>
          let (days, s1) = unit_group CHR ''d'' (casefold (strip text));
              (hours, s2) = unit_group CHR ''h'' s1;
              (minutes, s3) = unit_group CHR ''m'' s2;
              (seconds, s4) = unit_group CHR ''s'' s3
          in if s4 \<noteq> [] \<or> (days = None \<and> hours = None \<and> minutes = None \<and> seconds = None) then Inl ConfigValueError
             else (case (unit_value days, unit_value hours, unit_value minutes, unit_value seconds) of
                 (Inr d, Inr h, Inr m, Inr s) \<Rightarrow> timedelta_of (d * 86400 + h * 3600 + m * 60 + s)
               | _ \<Rightarrow> Inl ConfigValueError))"

section \<open>Paths\<close>

definition as_absolute_path :: "string \<Rightarrow> string option \<Rightarrow> string option" where
  "as_absolute_path base_dir value =
     (case value of None \<Rightarrow> None
      | Some v \<Rightarrow> if prefix ''/'' v then Some v
                  else Some (pure_str (replicate (initial_slashes base_dir) slash) (pure_comps base_dir @ pure_comps v)))"

text \<open>\<open>str(Path(p).with_name(name))\<close>; a path without a last component has no name to replace.\<close>

definition pure_with_name :: "string \<Rightarrow> string \<Rightarrow> config_error + string" where
  "pure_with_name p name =
     (if pure_comps p = [] then Inl ConfigValueError
      else Inr (pure_str (replicate (initial_slashes p) slash) (butlast (pure_comps p) @ [name])))"

section \<open>URLs\<close>

record split_url =
  us_scheme :: string
  us_netloc :: string
  us_path :: string
  us_query :: string
  us_fragment :: string

definition is_letter :: "char \<Rightarrow> bool" where
  "is_letter c \<longleftrightarrow> (let n = of_char (lower_char c) :: nat in 97 \<le> n \<and> n \<le> 122)"

definition scheme_char :: "char \<Rightarrow> bool" where
  "scheme_char c \<longleftrightarrow> is_letter c \<or> is_digit c \<or> c \<in> set ''+-.''"

text \<open>\<open>s.split(c, 1)\<close> where \<open>c\<close> occurs; without it the second part is empty.\<close>

definition cut_at :: "char \<Rightarrow> string \<Rightarrow> string \<times> string" where
  "cut_at c s = (takeWhile (\<lambda>x. x \<noteq> c) s, drop 1 (dropWhile (\<lambda>x. x \<noteq> c) s))"

definition split_scheme :: "string \<Rightarrow> string \<times> string" where
  "split_scheme url =
     (let scheme = takeWhile (\<lambda>x. x \<noteq> CHR '':'') url
      in if CHR '':'' \<in> set url \<and> scheme \<noteq> [] \<and> is_letter (hd scheme) \<and> list_all scheme_char scheme
         then (casefold scheme, drop (Suc (length scheme)) url) else ([], url))"

definition urlsplit :: "(string \<Rightarrow> bool) \<Rightarrow> string \<Rightarrow> config_error + split_url" where
  "urlsplit bracketed_ok text =
     (let url = filter (\<lambda>c. c \<notin> {CHR 9, CHR 13, CHR 10}) (dropWhile (\<lambda>c. (of_char c :: nat) \<le> 32) text);
          (scheme, rest) = split_scheme url;
          (netloc, tail) = (if prefix ''//'' rest
            then (takeWhile (\<lambda>c. c \<notin> set ''/?#'') (drop 2 rest), dropWhile (\<lambda>c. c \<notin> set ''/?#'') (drop 2 rest))
            else ([], rest));
          open_b = (CHR ''['' \<in> set netloc); close_b = (CHR '']'' \<in> set netloc);
          (before, fragment) = cut_at CHR ''#'' tail;
          (path, query) = cut_at CHR ''?'' before
      in if open_b \<noteq> close_b \<or> (open_b \<and> \<not> bracketed_ok netloc) then Inl ConfigValueError
         else Inr \<lparr> us_scheme = scheme, us_netloc = netloc, us_path = path, us_query = query, us_fragment = fragment \<rparr>)"

definition uses_netloc :: "string list" where
  "uses_netloc = ['''', ''ftp'', ''http'', ''gopher'', ''nntp'', ''telnet'', ''imap'', ''wais'', ''file'', ''mms'', ''https'',
     ''shttp'', ''snews'', ''prospero'', ''rtsp'', ''rtsps'', ''rtspu'', ''rsync'', ''svn'', ''svn+ssh'', ''sftp'', ''nfs'', ''git'',
     ''git+ssh'', ''ws'', ''wss'', ''itms-services'']"

definition urlunsplit :: "split_url \<Rightarrow> string" where
  "urlunsplit u =
     (let p = us_path u;
          url1 = (if us_netloc u \<noteq> [] then ''//'' @ us_netloc u @ (if p \<noteq> [] \<and> hd p \<noteq> slash then slash # p else p)
            else if prefix ''//'' p then ''//'' @ p
            else if us_scheme u \<noteq> [] \<and> us_scheme u \<in> set uses_netloc \<and> (p = [] \<or> hd p = slash) then ''//'' @ p
            else p);
          url2 = (if us_scheme u \<noteq> [] then us_scheme u @ '':'' @ url1 else url1);
          url3 = (if us_query u \<noteq> [] then url2 @ ''?'' @ us_query u else url2)
      in if us_fragment u \<noteq> [] then url3 @ ''#'' @ us_fragment u else url3)"

section \<open>DatabaseDSN\<close>

definition dsn_scheme :: "(string \<Rightarrow> bool) \<Rightarrow> string \<Rightarrow> config_error + string" where
  "dsn_scheme b dsn = map_sum id us_scheme (urlsplit b dsn)"

definition dsn_name :: "(string \<Rightarrow> bool) \<Rightarrow> string \<Rightarrow> config_error + string" where
  "dsn_name b dsn = map_sum id (\<lambda>u. strip_chars (\<lambda>c. c = slash) (us_path u)) (urlsplit b dsn)"

definition dsn_is_sqlite :: "(string \<Rightarrow> bool) \<Rightarrow> string \<Rightarrow> config_error + bool" where
  "dsn_is_sqlite b dsn = map_sum id (\<lambda>s. s = ''sqlite'') (dsn_scheme b dsn)"

definition dsn_is_memory :: "(string \<Rightarrow> bool) \<Rightarrow> string \<Rightarrow> config_error + bool" where
  "dsn_is_memory b dsn = map_sum id (\<lambda>u. us_scheme u = ''sqlite''
     \<and> (us_netloc u = '':memory:'' \<or> strip_chars (\<lambda>c. c = slash) (us_path u) = '':memory:'')) (urlsplit b dsn)"

definition dsn_with_name :: "(string \<Rightarrow> bool) \<Rightarrow> string \<Rightarrow> string \<Rightarrow> config_error + string" where
  "dsn_with_name b dsn name = map_sum id (\<lambda>u. urlunsplit (u\<lparr>us_path := name\<rparr>)) (urlsplit b dsn)"

section \<open>The models\<close>

record ARQWorkerConfig =
  arq_broker_dsn :: string

record AuthConfig =
  auth_secret_key :: string
  auth_access_token_ttl :: int
  auth_refresh_token_ttl :: int

definition default_auth :: "string \<Rightarrow> AuthConfig" where
  "default_auth secret = \<lparr> auth_secret_key = secret, auth_access_token_ttl = 15 * 60 * 1000000,
     auth_refresh_token_ttl = 3 * 86400 * 1000000 \<rparr>"

record CacheConfig =
  cache_backend_dsn :: string
  cache_disk_cache_max_size :: int

definition default_cache :: CacheConfig where
  "default_cache = \<lparr> cache_backend_dsn = ''mem://'', cache_disk_cache_max_size = BytesSizeMultipliers ''gb'' \<rparr>"

record CORSConfig =
  cors_allowed_origins :: "string list"
  cors_allowed_methods :: "string list"
  cors_allowed_headers :: "string list"

definition default_cors :: CORSConfig where
  "default_cors = \<lparr> cors_allowed_origins = [], cors_allowed_methods = [''*''], cors_allowed_headers = [''*''] \<rparr>"

record TortoiseConfig =
  tortoise_dsn :: string

definition default_tortoise :: "string \<Rightarrow> TortoiseConfig" where
  "default_tortoise base_dir = \<lparr> tortoise_dsn = ''sqlite:///''
     @ pure_str (replicate (initial_slashes base_dir) slash) (pure_comps base_dir @ [''db.sqlite3'']) @ ''?install_regexp_functions=true'' \<rparr>"

record FeatureConfig =
  feat_max_file_size_to_thumbnail :: int
  feat_max_image_pixels :: int
  feat_pre_generated_thumbnail_sizes :: "ConfigThumbnailSize list"
  feat_quota :: "int option"
  feat_sign_up_enabled :: bool
  feat_shared_links_enabled :: bool
  feat_upload_file_max_size :: int
  feat_verification_required :: bool

definition default_features :: FeatureConfig where
  "default_features = \<lparr> feat_max_file_size_to_thumbnail = 20 * BytesSizeMultipliers ''mb'', feat_max_image_pixels = 89478485,
     feat_pre_generated_thumbnail_sizes = [TS_xs, TS_lg, TS_xxl], feat_quota = None, feat_sign_up_enabled = True,
     feat_shared_links_enabled = True, feat_upload_file_max_size = 100 * BytesSizeMultipliers ''mb'',
     feat_verification_required = False \<rparr>"

record FileSystemStorageConfig =
  fsc_location :: string

record S3StorageConfig =
  s3c_location :: string
  s3c_access_key_id :: string
  s3c_secret_access_key :: string
  s3c_bucket :: string
  s3c_region :: string

datatype StorageConfig = StorageFS FileSystemStorageConfig | StorageS3 S3StorageConfig

record MailSMTPConfig =
  mail_sender :: string
  mail_smtp_hostname :: string
  mail_smtp_port :: int
  mail_smtp_username :: "string option"
  mail_smtp_password :: "string option"
  mail_smtp_use_tls :: bool

record SentryConfig =
  sentry_dsn :: "string option"
  sentry_environment :: "string option"

record StoragesConfig =
  st_default :: StorageConfig
  st_media :: "StorageConfig option"

definition MEDIA_LOCATION :: string where
  "MEDIA_LOCATION = ''shelf-media''"

definition set_media_storage :: "StoragesConfig \<Rightarrow> config_error + StoragesConfig" where
  "set_media_storage c =
     (if st_media c \<noteq> None then Inr c
      else case st_default c of
        StorageFS f \<Rightarrow> map_sum id (\<lambda>location. c\<lparr>st_media := Some (StorageFS (f\<lparr>fsc_location := location\<rparr>))\<rparr>)
                         (pure_with_name (fsc_location f) MEDIA_LOCATION)
      | StorageS3 s \<Rightarrow> Inr (c\<lparr>st_media := Some (StorageS3 (s\<lparr>s3c_bucket := MEDIA_LOCATION\<rparr>))\<rparr>))"

record AppConfig =
  app_name :: string
  app_version :: string
  app_debug :: bool
  app_auth :: AuthConfig
  app_cache :: CacheConfig
  app_cors :: CORSConfig
  app_database :: TortoiseConfig
  app_features :: FeatureConfig
  app_mail :: MailSMTPConfig
  app_sentry :: SentryConfig
  app_storages :: StoragesConfig
  app_worker :: ARQWorkerConfig

text \<open>The settings the services read, as the rest of the development sees them.\<close>

definition features_of :: "AppConfig \<Rightarrow> features" where
  "features_of c = \<lparr> cfg_upload_max_size = feat_upload_file_max_size (app_features c),
     cfg_max_file_size_to_thumbnail = feat_max_file_size_to_thumbnail (app_features c),
     cfg_thumbnail_sizes = map config_thumbnail_size (feat_pre_generated_thumbnail_sizes (app_features c)),
     cfg_shared_links_enabled = feat_shared_links_enabled (app_features c),
     cfg_sign_up_enabled = feat_sign_up_enabled (app_features c),
     cfg_verification_required = feat_verification_required (app_features c),
     cfg_quota = feat_quota (app_features c),
     cfg_access_token_ttl = auth_access_token_ttl (app_auth c),
     cfg_refresh_token_ttl = auth_refresh_token_ttl (app_auth c) \<rparr>"

end
