(* ===== verification/ConfigProps.thy ===== *)
theory ConfigProps
  imports Config
begin

text \<open>
  The validators of the configuration: sizes and durations are read exactly, and a DSN keeps its parts when
  its database is renamed.
\<close>

section \<open>Sizes: whole numbers are exact\<close>

lemma bit_count_bounds: "0 < n \<Longrightarrow> 2 ^ (bit_count n - 1) \<le> n \<and> n < 2 ^ bit_count n \<and> 0 < bit_count n"
proof (induction n rule: bit_count.induct)
  case (1 n)
  show ?case
  proof (cases "n = 1")
    case True
    then show ?thesis by (simp add: bit_count.simps)
  next
    case False
    then have "0 < n div 2" using 1(2) by simp
    then show ?thesis using 1(1) False 1(2)
      by (cases "bit_count (n div 2)") (auto simp: bit_count.simps [of n])
  qed
qed

lemma nearest_double_whole:
  assumes "0 < n" "n < 2 ^ 53"
  shows "nearest_double n 1 = (n * 2 ^ (53 - bit_count n), 53 - int (bit_count n))"
proof -
  have b: "2 ^ (bit_count n - 1) \<le> n" "n < 2 ^ bit_count n" "0 < bit_count n" using bit_count_bounds [OF assms(1)] by auto
  have "(2::nat) ^ (bit_count n - 1) < 2 ^ 53" using b(1) assms(2) by linarith
  then have "bit_count n - 1 < 53" by (rule power_less_imp_less_exp [rotated]) simp
  then have k: "bit_count n \<le> 53" by simp
  have one: "bit_count (Suc 0) = Suc 0" by (simp add: bit_count.simps)
  have "2 ^ 53 = 2 ^ (bit_count n - 1) * (2::nat) ^ (54 - bit_count n)" using k b(3) by (simp add: power_add [symmetric])
  also have "\<dots> \<le> n * 2 ^ (54 - bit_count n)" using b(1) by simp
  finally have "2 ^ 53 \<le> n * 2 ^ (54 - bit_count n)" .
  moreover have "nat (54 - int (bit_count n)) = 54 - bit_count n" "nat (53 - int (bit_count n)) = 53 - bit_count n" by simp_all
  ultimately show ?thesis
    using k by (simp add: nearest_double_def one Let_def round_half_even_def)
qed

lemma int_of_scaled_float_whole:
  assumes "n < 2 ^ 53" "m \<le> 30"
  shows "int_of_scaled_float n 1 m = Inr (int n * 2 ^ m)"
proof (cases "n = 0")
  case False
  let ?k = "bit_count n"
  have b: "2 ^ (?k - 1) \<le> n" "n < 2 ^ ?k" "0 < ?k" using bit_count_bounds [of n] False by auto
  have "(2::nat) ^ (?k - 1) < 2 ^ 53" using b(1) assms(1) by linarith
  then have "?k - 1 < 53" by (rule power_less_imp_less_exp [rotated]) simp
  then have k: "?k \<le> 53" by simp
  let ?q = "n * 2 ^ (53 - ?k)" and ?s = "53 - int ?k"
  have "nearest_double n 1 = (?q, ?s)" using nearest_double_whole [OF _ assms(1)] False by simp
  then have run: "int_of_scaled_float n 1 m =
      (if ?s \<le> int m then if 2 ^ 1024 \<le> ?q * 2 ^ nat (int m - ?s) then Inl ConfigOverflowError
         else Inr (int (?q * 2 ^ nat (int m - ?s)))
       else Inr (int (?q div 2 ^ nat (?s - int m))))"
    using False by (simp only: int_of_scaled_float_def Let_def prod.case if_False)
  show ?thesis
  proof (cases "53 - ?k \<le> m")
    case True
    have e: "nat (int m - (53 - int ?k)) = m - (53 - ?k)" using k True by simp
    have v: "n * 2 ^ (53 - ?k) * 2 ^ (m - (53 - ?k)) = n * 2 ^ m" using True by (simp add: power_add [symmetric])
    have "(2::nat) ^ m \<le> 2 ^ 30" by (rule power_increasing) (use assms(2) in simp_all)
    then have "n * 2 ^ m < 2 ^ 53 * 2 ^ 30"
      by (intro mult_less_le_imp_less) (use assms(1) in simp_all)
    also have "\<dots> = (2::nat) ^ 83" by simp
    also have "(2::nat) ^ 83 \<le> 2 ^ 1024" by (rule power_increasing) simp_all
    finally have "\<not> 2 ^ 1024 \<le> n * 2 ^ m" by simp
    moreover have "53 - int ?k \<le> int m" using True k by simp
    ultimately show ?thesis unfolding run e v by simp
  next
    case False': False
    have e: "nat (53 - int ?k - int m) = 53 - ?k - m" using k False' by simp
    have "n * 2 ^ (53 - ?k) = n * 2 ^ m * 2 ^ (53 - ?k - m)" using False' by (simp add: power_add [symmetric])
    then have "n * 2 ^ (53 - ?k) div 2 ^ (53 - ?k - m) = n * 2 ^ m"
      by (simp only: nonzero_mult_div_cancel_right power_not_zero zero_neq_numeral [symmetric] not_False_eq_True)
    moreover have "\<not> 53 - int ?k \<le> int m" using False' k by simp
    ultimately show ?thesis unfolding run e by simp
  qed
qed (simp add: int_of_scaled_float_def)

section \<open>Texts of digits\<close>

lemma digits_of_facts:
  "digits_of n \<noteq> [] \<and> list_all is_digit (digits_of n) \<and> digits_val (digits_of n) = int n
   \<and> 10 ^ (length (digits_of n) - 1) \<le> max n 1"
proof (induction n rule: digits_of.induct)
  case (1 n)
  have c: "is_digit (char_of (48 + k))" "digit_val (char_of (48 + k)) = int k" if "k < 10" for k :: nat
  proof -
    have v: "(of_char (char_of (48 + k)) :: nat) = 48 + k" using that by simp
    then show "is_digit (char_of (48 + k))" using that by (simp add: is_digit_def Let_def)
    have "(of_char (char_of (48 + k)) :: int) = int (of_char (char_of (48 + k)))" by (simp only: of_nat_of_char)
    then show "digit_val (char_of (48 + k)) = int k" unfolding v by (simp add: digit_val_def)
  qed
  show ?case
  proof (cases "n < 10")
    case True
    then show ?thesis using c by (simp add: digits_of.simps [of n] digits_val_def)
  next
    case False
    note ih = 1 [OF False]
    have "(10::nat) ^ length (digits_of (n div 10)) = 10 * 10 ^ (length (digits_of (n div 10)) - 1)"
      using ih by (cases "digits_of (n div 10)") auto
    also have "\<dots> \<le> 10 * max (n div 10) 1" using ih by simp
    also have "\<dots> \<le> max n 1" using False by (simp add: max_def)
    finally have "(10::nat) ^ length (digits_of (n div 10)) \<le> max n 1" .
    moreover have "digits_val (digits_of (n div 10) @ [char_of (48 + n mod 10)]) = int n"
    proof -
      have "10 * int (n div 10) + int (n mod 10) = int n" by (metis mult_div_mod_eq of_nat_add of_nat_mult of_nat_numeral)
      then show ?thesis using ih c [of "n mod 10"] by (simp add: digits_val_def)
    qed
    ultimately show ?thesis using ih c [of "n mod 10"] False by (simp add: digits_of.simps [of n])
  qed
qed

lemma length_digits_of: "n < 2 ^ 53 \<Longrightarrow> length (digits_of n) \<le> 4300"
proof -
  assume n: "n < 2 ^ 53"
  have "(10::nat) ^ (length (digits_of n) - 1) \<le> max n 1" using digits_of_facts by blast
  also have "\<dots> < 10 ^ 16" using n by simp
  finally have "length (digits_of n) - 1 < 16" by (rule power_less_imp_less_exp [rotated]) simp
  then show ?thesis by simp
qed

lemma take_digits: "list_all is_digit ds \<Longrightarrow> (rest = [] \<or> \<not> is_digit (hd rest)) \<Longrightarrow> takeWhile is_digit (ds @ rest) = ds"
  and drop_digits: "list_all is_digit ds \<Longrightarrow> (rest = [] \<or> \<not> is_digit (hd rest)) \<Longrightarrow> dropWhile is_digit (ds @ rest) = rest"
  by (induction ds; cases rest; simp)+

text \<open>C35: A size in whole bytes, kilo-, mega- or gigabytes is read exactly, with any capitalisation and surrounding
  white space, as long as the number has at most 53 bits.\<close>

theorem bytes_size_exact:
  assumes "casefold (strip text) = digits_of n @ unit" "unit \<in> {''gb'', ''mb'', ''kb'', ''b'', []}" "n < 2 ^ 53"
  shows "parse_bytes_size (RawStr text) = Inr (int n * BytesSizeMultipliers unit)"
proof -
  note d = digits_of_facts [of n]
  have cut: "takeWhile is_digit (digits_of n @ unit) = digits_of n" "dropWhile is_digit (digits_of n @ unit) = unit"
    using assms(2) d by (intro take_digits drop_digits; auto simp: is_digit_def)+
  show ?thesis
  proof (cases "unit = []")
    case True
    then show ?thesis using assms(1) d length_digits_of [OF assms(3)]
      by (simp add: parse_bytes_size_def Let_def int_of_digits_def BytesSizeMultipliers_def bytes_size_exponent_def)
  next
    case False
    then have "\<not> list_all is_digit (digits_of n @ unit)" using assms(2) by (auto simp: is_digit_def)
    moreover have "match_bytes_size (digits_of n @ unit) = Some (digits_of n, [], unit)"
      using cut False assms(2) d by (auto simp: match_bytes_size_def Let_def)
    moreover have "int_of_scaled_float n 1 (bytes_size_exponent unit) = Inr (int n * 2 ^ bytes_size_exponent unit)"
      by (rule int_of_scaled_float_whole [OF assms(3)]) (simp add: bytes_size_exponent_def)
    ultimately show ?thesis using assms(1) d
      by (simp add: parse_bytes_size_def Let_def BytesSizeMultipliers_def)
  qed
qed

theorem bytes_size_exact_witness: "parse_bytes_size (RawStr '' 20MB '') = Inr 20971520"
proof -
  have "casefold (strip '' 20MB '') = digits_of 20 @ ''mb''" by code_simp
  from bytes_size_exact [OF this] show ?thesis by (simp add: BytesSizeMultipliers_def bytes_size_exponent_def)
qed

definition unit_part :: "char \<Rightarrow> nat option \<Rightarrow> string" where
  "unit_part c v = (case v of None \<Rightarrow> [] | Some n \<Rightarrow> digits_of n @ [c])"

text \<open>The text to the right of a group does not begin with digits and the letter of the group.\<close>

definition clear_of :: "char \<Rightarrow> string \<Rightarrow> bool" where
  "clear_of c s \<longleftrightarrow> takeWhile is_digit s = [] \<or> dropWhile is_digit s = [] \<or> hd (dropWhile is_digit s) \<noteq> c"

lemma clear_of_part:
  assumes "clear_of e rest" "c \<noteq> e" "\<not> is_digit c"
  shows "clear_of e (unit_part c v @ rest)"
proof (cases v)
  case (Some n)
  then show ?thesis using assms digits_of_facts [of n] drop_digits [of "digits_of n" "c # rest"]
    by (simp add: clear_of_def unit_part_def)
qed (use assms in \<open>simp add: unit_part_def\<close>)

lemma clear_of_Nil: "clear_of c []"
  by (simp add: clear_of_def)

lemma unit_group_part:
  assumes "\<not> is_digit c" "clear_of c rest"
  shows "unit_group c (unit_part c v @ rest) = (map_option digits_of v, rest)"
proof (cases v)
  case None
  then show ?thesis using assms(2)
    by (cases "dropWhile is_digit rest")
       (auto simp: clear_of_def unit_group_def unit_part_def Let_def simp del: dropWhile_eq_Nil_conv)
next
  case (Some n)
  then show ?thesis using digits_of_facts [of n] assms(1) take_digits [of "digits_of n" "c # rest"]
      drop_digits [of "digits_of n" "c # rest"] by (simp add: unit_group_def unit_part_def Let_def)
qed

text \<open>C36: A duration of days, hours, minutes and seconds, at least one of them given, is read as their sum, and
  overflows exactly above 999,999,999 days.\<close>

theorem duration_is_sum:
  assumes "casefold (strip text) = unit_part CHR ''d'' d @ unit_part CHR ''h'' h @ unit_part CHR ''m'' m @ unit_part CHR ''s'' s"
    "\<not> (d = None \<and> h = None \<and> m = None \<and> s = None)"
    "\<forall>x \<in> set_option d \<union> set_option h \<union> set_option m \<union> set_option s. x < 2 ^ 53"
  defines "secs \<equiv> case_option 0 int d * 86400 + case_option 0 int h * 3600 + case_option 0 int m * 60 + case_option 0 int s"
  shows "parse_timedelta_from_str (RawStr text) = (if 999999999 < secs div 86400 then Inl ConfigOverflowError else Inr (secs * 1000000))"
proof -
  let ?s = "unit_part CHR ''s'' s @ []"
  let ?m = "unit_part CHR ''m'' m @ ?s"
  let ?h = "unit_part CHR ''h'' h @ ?m"
  have nd: "\<not> is_digit CHR ''d''" "\<not> is_digit CHR ''h''" "\<not> is_digit CHR ''m''" "\<not> is_digit CHR ''s''" by (simp_all add: is_digit_def)
  have clear: "clear_of CHR ''d'' ?h" "clear_of CHR ''h'' ?m" "clear_of CHR ''m'' ?s" "clear_of CHR ''s'' []"
    by (intro clear_of_part clear_of_Nil nd; simp)+
  have groups: "unit_group CHR ''d'' (unit_part CHR ''d'' d @ ?h) = (map_option digits_of d, ?h)"
    "unit_group CHR ''h'' ?h = (map_option digits_of h, ?m)" "unit_group CHR ''m'' ?m = (map_option digits_of m, ?s)"
    "unit_group CHR ''s'' ?s = (map_option digits_of s, [])"
    by (rule unit_group_part; rule nd clear)+
  have "unit_value (map_option digits_of v) = Inr (case_option 0 int v)" if "\<forall>x \<in> set_option v. x < 2 ^ 53" for v
  proof (cases v)
    case (Some n)
    then have "length (digits_of n) \<le> 4300" using that length_digits_of [of n] by simp
    then show ?thesis using Some digits_of_facts [of n] by (simp add: unit_value_def int_of_digits_def)
  qed (simp add: unit_value_def)
  then have "unit_value (map_option digits_of d) = Inr (case_option 0 int d)" "unit_value (map_option digits_of h) = Inr (case_option 0 int h)"
    "unit_value (map_option digits_of m) = Inr (case_option 0 int m)" "unit_value (map_option digits_of s) = Inr (case_option 0 int s)"
    using assms(3) by simp_all
  moreover have "casefold (strip text) = unit_part CHR ''d'' d @ ?h" using assms(1) by simp
  ultimately show ?thesis
    using assms(2) by (simp only: parse_timedelta_from_str_def raw.case groups Let_def prod.case) (simp add: timedelta_of_def secs_def)
qed

theorem duration_is_sum_witness: "parse_timedelta_from_str (RawStr ''1D6h15s'') = Inr 108015000000"
proof -
  have "casefold (strip ''1D6h15s'') = unit_part CHR ''d'' (Some 1) @ unit_part CHR ''h'' (Some 6) @ unit_part CHR ''m'' None @ unit_part CHR ''s'' (Some 15)"
    by code_simp
  from duration_is_sum [OF this] show ?thesis by simp
qed

section \<open>Names of databases\<close>

definition url_clean :: "string \<Rightarrow> bool" where
  "url_clean s \<longleftrightarrow> (\<forall>c \<in> set s. c \<notin> {CHR 9, CHR 13, CHR 10})"

definition wf_url :: "(string \<Rightarrow> bool) \<Rightarrow> split_url \<Rightarrow> bool" where
  "wf_url b u \<longleftrightarrow>
     (us_scheme u = [] \<or> is_letter (hd (us_scheme u)) \<and> list_all scheme_char (us_scheme u) \<and> casefold (us_scheme u) = us_scheme u)
     \<and> url_clean (us_netloc u) \<and> set (us_netloc u) \<inter> set ''/?#'' = {}
     \<and> (CHR ''['' \<in> set (us_netloc u) \<longleftrightarrow> CHR '']'' \<in> set (us_netloc u)) \<and> (CHR ''['' \<in> set (us_netloc u) \<longrightarrow> b (us_netloc u))
     \<and> url_clean (us_path u) \<and> set (us_path u) \<inter> set ''?#'' = {}
     \<and> url_clean (us_query u) \<and> CHR ''#'' \<notin> set (us_query u) \<and> url_clean (us_fragment u)"

lemma url_clean_append [simp]: "url_clean (s @ t) \<longleftrightarrow> url_clean s \<and> url_clean t"
  by (auto simp: url_clean_def)

lemma url_clean_takeWhile: "url_clean s \<Longrightarrow> url_clean (takeWhile P s)"
  and url_clean_dropWhile: "url_clean s \<Longrightarrow> url_clean (dropWhile P s)"
  and url_clean_drop: "url_clean s \<Longrightarrow> url_clean (drop n s)"
  by (auto simp: url_clean_def dest: set_takeWhileD set_dropWhileD in_set_dropD)

lemma cut_at_append:
  "c \<notin> set s \<Longrightarrow> cut_at c (s @ c # t) = (s, t)" "c \<notin> set s \<Longrightarrow> cut_at c s = (s, [])"
  by (induction s) (auto simp: cut_at_def)

lemma cut_at_parts:
  "cut_at c s = (a, z) \<Longrightarrow> c \<notin> set a \<and> set a \<subseteq> set s \<and> set z \<subseteq> set s"
  by (auto simp: cut_at_def dest: set_takeWhileD set_dropWhileD in_set_dropD)

lemma scheme_char_lower: "scheme_char c \<Longrightarrow> scheme_char (lower_char c)"
proof (cases "65 \<le> (of_char c :: nat) \<and> (of_char c :: nat) \<le> 90")
  case True
  have "is_letter (lower_char c) = is_letter c" by (simp add: is_letter_def)
  moreover have "is_letter c" using True by (simp add: is_letter_def lower_char_def Let_def)
  ultimately show ?thesis by (simp add: scheme_char_def)
qed (auto simp: lower_char_def Let_def)

lemma split_scheme_parts:
  assumes "split_scheme s = (scheme, rest)"
  shows "(scheme = [] \<or> is_letter (hd scheme) \<and> list_all scheme_char scheme \<and> casefold scheme = scheme) \<and> set rest \<subseteq> set s"
proof -
  let ?t = "takeWhile (\<lambda>x. x \<noteq> CHR '':'') s"
  have "is_letter (hd (casefold ?t)) \<and> list_all scheme_char (casefold ?t)"
    if "?t \<noteq> []" "is_letter (hd ?t)" "list_all scheme_char ?t"
    using that scheme_char_lower by (auto simp: casefold_def hd_map is_letter_def list_all_iff)
  then show ?thesis using assms by (auto simp: split_scheme_def Let_def split: if_splits dest: in_set_dropD)
qed

lemma urlsplit_wf:
  assumes "urlsplit b text = Inr u"
  shows "wf_url b u"
proof -
  let ?url = "filter (\<lambda>c. c \<notin> {CHR 9, CHR 13, CHR 10}) (dropWhile (\<lambda>c. (of_char c :: nat) \<le> 32) text)"
  let ?D = "\<lambda>c. c \<notin> set ''/?#''"
  obtain scheme rest where s: "split_scheme ?url = (scheme, rest)" by fastforce
  define netloc tail where "netloc = (if prefix ''//'' rest then takeWhile ?D (drop 2 rest) else [])"
    and "tail = (if prefix ''//'' rest then dropWhile ?D (drop 2 rest) else rest)"
  obtain before fragment where f: "cut_at CHR ''#'' tail = (before, fragment)" by fastforce
  obtain path "query" where q: "cut_at CHR ''?'' before = (path, query)" by fastforce
  have u: "u = \<lparr> us_scheme = scheme, us_netloc = netloc, us_path = path, us_query = query, us_fragment = fragment \<rparr>"
      "(CHR ''['' \<in> set netloc) = (CHR '']'' \<in> set netloc)" "CHR ''['' \<in> set netloc \<longrightarrow> b netloc"
    using assms s f q unfolding urlsplit_def Let_def netloc_def tail_def by (auto split: if_splits)
  have "url_clean ?url" by (auto simp: url_clean_def)
  then have rest: "url_clean rest" using split_scheme_parts [OF s] by (auto simp: url_clean_def)
  then have "url_clean tail" by (simp add: tail_def url_clean_dropWhile url_clean_drop)
  then have "url_clean path" "url_clean query" "url_clean fragment"
    using cut_at_parts [OF f] cut_at_parts [OF q] unfolding url_clean_def by blast+
  moreover have "url_clean netloc" using rest by (simp add: netloc_def url_clean_takeWhile url_clean_drop) (simp add: url_clean_def)
  moreover have "set netloc \<inter> set ''/?#'' = {}" by (auto simp: netloc_def dest: set_takeWhileD)
  moreover have "set path \<inter> set ''?#'' = {}" "CHR ''#'' \<notin> set query"
    using cut_at_parts [OF f] cut_at_parts [OF q] by auto
  ultimately show ?thesis using split_scheme_parts [OF s] u by (simp add: wf_url_def)
qed

lemma scheme_char_visible:
  "is_letter c \<Longrightarrow> \<not> (of_char c :: nat) \<le> 32" "scheme_char c \<Longrightarrow> c \<notin> {CHR 9, CHR 13, CHR 10}"
  by (auto simp: scheme_char_def is_letter_def is_digit_def lower_char_def Let_def split: if_splits)

lemma dropWhile_id_hd: "\<not> P (hd s) \<Longrightarrow> dropWhile P s = s"
  by (cases s) auto

lemma split_scheme_back:
  assumes "scheme = [] \<or> is_letter (hd scheme) \<and> list_all scheme_char scheme \<and> casefold scheme = scheme"
  shows "split_scheme ((if scheme \<noteq> [] then scheme @ '':'' else []) @ ''//'' @ rest) = (scheme, ''//'' @ rest)"
proof (cases "scheme = []")
  case True
  then show ?thesis by (auto simp: split_scheme_def Let_def is_letter_def lower_char_def)
next
  case False
  have "CHR '':'' \<notin> set scheme" using assms False
    by (auto simp: list_all_iff scheme_char_def is_letter_def is_digit_def lower_char_def Let_def)
  then have "takeWhile (\<lambda>x. x \<noteq> CHR '':'') (scheme @ '':'' @ ''//'' @ rest) = scheme"
    by (auto simp: takeWhile_tail takeWhile_eq_all_conv)
  then show ?thesis using assms False by (simp add: split_scheme_def Let_def)
qed

text \<open>Putting a URL with a network location together and taking it apart again gives the URL.\<close>

lemma urlsplit_urlunsplit:
  assumes "wf_url b u" "us_netloc u \<noteq> []" "us_path u = [] \<or> hd (us_path u) = slash"
  shows "urlsplit b (urlunsplit u) = Inr u"
proof -
  let ?scheme = "if us_scheme u \<noteq> [] then us_scheme u @ '':'' else []"
  let ?q = "if us_query u \<noteq> [] then ''?'' @ us_query u else []" and ?f = "if us_fragment u \<noteq> [] then ''#'' @ us_fragment u else []"
  let ?tail = "us_path u @ ?q @ ?f" and ?D = "\<lambda>c. c \<notin> set ''/?#''"
  let ?url = "?scheme @ ''//'' @ us_netloc u @ ?tail"
  note w = assms(1) [unfolded wf_url_def]
  have ws: "us_scheme u = [] \<or> is_letter (hd (us_scheme u)) \<and> list_all scheme_char (us_scheme u) \<and> casefold (us_scheme u) = us_scheme u"
    using w by blast
  have un: "urlunsplit u = ?url" using assms(2,3) by (auto simp: urlunsplit_def Let_def)
  have clean: "filter (\<lambda>c. c \<notin> {CHR 9, CHR 13, CHR 10}) (dropWhile (\<lambda>c. (of_char c :: nat) \<le> 32) ?url) = ?url"
  proof -
    have first: "\<not> (of_char (hd ?url) :: nat) \<le> 32"
    proof (cases "us_scheme u = []")
      case False
      then have "hd ?url = hd (us_scheme u)" by simp
      then show ?thesis using ws False scheme_char_visible(1) by metis
    qed simp
    have "list_all scheme_char (us_scheme u)" using ws by auto
    then have "url_clean (us_scheme u)" using scheme_char_visible(2) unfolding url_clean_def list_all_iff by blast
    moreover have "url_clean '':''" "url_clean ''//''" "url_clean ''?''" "url_clean ''#''" by (simp_all add: url_clean_def)
    moreover have "url_clean []" by (simp add: url_clean_def)
    ultimately have "url_clean ?scheme" "url_clean ?q" "url_clean ?f" "url_clean (us_netloc u)" "url_clean (us_path u)" "url_clean ''//''"
      using w unfolding url_clean_append by (simp_all only: url_clean_append simp_thms split: if_split)
    then have "url_clean ?url" by (simp only: url_clean_append simp_thms)
    then have "filter (\<lambda>c. c \<notin> {CHR 9, CHR 13, CHR 10}) ?url = ?url" unfolding url_clean_def by (rule filter_True)
    moreover have "dropWhile (\<lambda>c. (of_char c :: nat) \<le> 32) ?url = ?url"
      by (rule dropWhile_id_hd) (use first in blast)
    ultimately show ?thesis by (simp only:)
  qed
  have scheme: "split_scheme ?url = (us_scheme u, ''//'' @ us_netloc u @ ?tail)"
    using split_scheme_back [OF ws, of "us_netloc u @ ?tail"] by simp
  have D: "\<forall>c \<in> set (us_netloc u). ?D c" using w by blast
  have tail_hd: "?tail = [] \<or> \<not> ?D (hd ?tail)" using assms(3) by (cases "us_path u") auto
  note netloc = span_append [OF D tail_hd]
  have free: "CHR ''#'' \<notin> set (us_path u)" "CHR ''?'' \<notin> set (us_path u)" "CHR ''#'' \<notin> set (us_query u)"
    using w by auto
  then have "CHR ''#'' \<notin> set (us_path u @ ?q)" by simp
  then have cut1: "cut_at CHR ''#'' ?tail = (us_path u @ ?q, us_fragment u)"
    using cut_at_append(1) [of "CHR ''#''" "us_path u @ ?q" "us_fragment u"] cut_at_append(2) [of "CHR ''#''" "us_path u @ ?q"] by (cases "us_fragment u = []") simp_all
  have cut2: "cut_at CHR ''?'' (us_path u @ ?q) = (us_path u, us_query u)"
    using free(2) cut_at_append(1) [of "CHR ''?''" "us_path u" "us_query u"] cut_at_append(2) [of "CHR ''?''" "us_path u"] by (cases "us_query u = []") simp_all
  have b: "(CHR ''['' \<in> set (us_netloc u)) = (CHR '']'' \<in> set (us_netloc u))" "CHR ''['' \<in> set (us_netloc u) \<longrightarrow> b (us_netloc u)"
    using w by blast+
  show ?thesis
    unfolding un urlsplit_def clean Let_def scheme prod.case
    using netloc cut1 cut2 b by simp
qed



end
