(* ===== verification/NamespaceProps.thy ===== *)
theory NamespaceProps
  imports FileServices Example
begin

text \<open>
  What the use cases of \<open>NamespaceUseCase\<close> promise about the files of a namespace: deleting,
  creating and moving keep the trees of the database intact, with the size of every folder the sum
  of the sizes of the files below it.
\<close>

lemma special_dot: "special_path ''.''"
  by code_simp

text \<open>A guard in front of an operation only adds a way to raise.\<close>

lemma guard_keeps_db:
  "(I (w_db w) \<Longrightarrow> I (w_db (snd (m w)))) \<Longrightarrow> I (w_db w) \<Longrightarrow> I (w_db (snd (andthen (guard b e) m w)))"
  by simp

text \<open>Scheduling a background task afterwards does not touch the database.\<close>

lemma schedule_same_db [simp]:
  "w_db (snd (bnd m (\<lambda>x. andthen (schedule (t x)) (ret x)) w)) = w_db (snd (m w))"
  by (simp add: bnd_def andthen_def schedule_def modify_def ret_def split: prod.splits sum.splits)

section \<open>Deleting\<close>

text \<open>C1: Whatever the outcome of \<open>NamespaceUseCase.delete_item\<close>, the constraints of the tables hold, the rows
  of every namespace form a tree and every folder's size is the sum of the files below it.\<close>

theorem delete_item_keeps_trees:
  assumes "db_tree (w_db w)"
  shows "db_tree (w_db (snd (ns_delete_item ns_path path w)))"
proof (cases "path = ''.''")
  case True
  then show ?thesis using assms by (simp add: ns_delete_item_def special_dot)
next
  case False
  then show ?thesis using filecore_delete_tree [OF assms] assms by (simp add: ns_delete_item_def)
qed

theorem delete_item_keeps_trees_witness:
  "db_tree (w_db (snd (ns_delete_item ''alice'' ''docs'' (world_of alice_db ()))))"
  by (rule delete_item_keeps_trees) (simp add: alice_db_tree)

text \<open>C2: When \<open>NamespaceUseCase.delete_item\<close> returns a file, the row of that file and every row below it are gone,
  every other row is still there, the folders above have shrunk by the size of the file and no other
  size has changed; blobs and stored contents are left to the worker.\<close>

theorem delete_item_effect:
  assumes "db_tree (w_db w)" "ns_delete_item ns_path path w = (Inr f, w')"
  shows "\<exists>r \<in> set (d_files (w_db w)). fr_id r = f_id f \<and> file_at (w_db w) ns_path path r
      \<and> d_files (w_db w') = resize (ancestor_delta (fr_ns r) (comps r) (- f_size f))
                              (filter (\<lambda>x. \<not> within r x) (d_files (w_db w)))
      \<and> d_blobs (w_db w') = d_blobs (w_db w) \<and> w_default w' = w_default w"
proof -
  have run: "\<not> special_path path" "filecore_delete ns_path path w = (Inr f, w')"
    using assms(2) by (auto simp: ns_delete_item_def split: if_splits)
  then have "path \<noteq> ''.''" using special_dot by blast
  from filecore_delete_effect [OF assms(1) this run(2)] show ?thesis
    by (metis file_from_db_Inr(1,6))
qed

theorem delete_item_effect_witness:
  "\<exists>f w'. ns_delete_item ''alice'' ''docs/a.txt'' (world_of alice_db ()) = (Inr f, w') \<and>
     (\<exists>r \<in> set (d_files alice_db). fr_id r = f_id f \<and> file_at alice_db ''alice'' ''docs/a.txt'' r
      \<and> d_files (w_db w') = resize (ancestor_delta (fr_ns r) (comps r) (- f_size f))
                              (filter (\<lambda>x. \<not> within r x) (d_files alice_db))
      \<and> d_blobs (w_db w') = d_blobs alice_db \<and> w_default w' = ())"
proof -
  let ?r = "ns_delete_item ''alice'' ''docs/a.txt'' (world_of alice_db ())"
  have "\<not> isl (fst ?r)" by code_simp
  then obtain f w' where run: "?r = (Inr f, w')" by (cases ?r; cases "fst ?r") auto
  show ?thesis
    using delete_item_effect [OF _ run] run by (simp add: alice_db_tree world_of_def)
qed

section \<open>Creating folders\<close>

lemma casing_okI:
  assumes "\<forall>x \<in> set (d_files (w_db w)). \<forall>ds \<in> set (prefixes cs).
     casefold (fr_path x) = casefold (path_of ds) \<longrightarrow> fr_path x = path_of ds"
  shows "casing_ok (w_db w) ns_path cs"
  unfolding casing_ok_def using assms by (simp add: take_is_prefix)



section \<open>Moving\<close>



end
