(* ===== verification/Tables.thy ===== *)
theory Tables
  imports NamespaceProps Photos
begin

text \<open>
  The constraints of all tables: what \<open>db_wf\<close> says of files, blobs, namespaces and media items, and the
  unique columns and foreign keys of the other tables of \<open>models.py\<close>. Every operation of the program
  keeps them on every outcome. The rules of \<open>keeps_rules\<close> take an operation apart along its
  sequencing; each repository operation that writes has its own rule.
\<close>

named_theorems keeps_rules "how the constraints of the tables are kept"

section \<open>The constraints\<close>

definition users_ok :: "db \<Rightarrow> bool" where
  "users_ok d \<longleftrightarrow> ids_below (d_next d) ur_id (d_users d) \<and> distinct (map ur_username (d_users d))
     \<and> distinct (filter (\<lambda>e. e \<noteq> None) (map ur_email (d_users d)))
     \<and> distinct (map ar_user (d_accounts d)) \<and> (\<forall>a \<in> set (d_accounts d). has_user d (ar_user a))"

definition links_ok :: "db \<Rightarrow> bool" where
  "links_ok d \<longleftrightarrow> distinct (map sr_file (d_links d)) \<and> distinct (map sr_token (d_links d))
     \<and> (\<forall>l \<in> set (d_links d). has_file d (sr_file l))
     \<and> distinct (map (\<lambda>k. (kr_user k, kr_file k)) (d_bookmarks d))
     \<and> (\<forall>k \<in> set (d_bookmarks d). has_file d (kr_file k))
     \<and> (\<forall>a \<in> set (d_assets d). has_file d (asr_file a))"

definition photos_ok :: "db \<Rightarrow> bool" where
  "photos_ok d \<longleftrightarrow> distinct (map (\<lambda>r. (lr_owner r, lr_slug r)) (d_albums d))
     \<and> (\<forall>r \<in> set (d_albums d). \<forall>m. lr_cover r = Some m \<longrightarrow> has_media d m)
     \<and> distinct (map (\<lambda>v. (vr_user v, vr_media_item v)) (d_favourites d))
     \<and> (\<forall>v \<in> set (d_favourites d). has_media d (vr_media_item v))
     \<and> distinct (map mr_blob (d_metadata d)) \<and> (\<forall>m \<in> set (d_metadata d). has_blob d (mr_blob m))"

definition db_ok :: "db \<Rightarrow> bool" where
  "db_ok d \<longleftrightarrow> db_wf d \<and> users_ok d \<and> links_ok d \<and> photos_ok d"

lemma db_ok_empty: "db_ok empty_db"
  by (simp add: db_ok_def db_wf_empty) (simp add: users_ok_def ids_below_def links_ok_def photos_ok_def empty_db_def)

section \<open>Sequencing\<close>

lemmas [keeps_rules] = keeps_bnd keeps_andthen keeps_ret keeps_raise keeps_gets keeps_query keeps_of_result
  keeps_guard keeps_attempt keeps_for_each keeps_map_prog keeps_in_db keeps_in_default keeps_in_media
  keeps_in_cache keeps_draw keeps_enqueue keeps_schedule keeps_now keeps_atomic

lemma keeps_try_else [keeps_rules]:
  "keeps I m \<Longrightarrow> (\<And>e. keeps I (h e)) \<Longrightarrow> keeps I (try_else m h)"
  by (auto simp: keeps_def try_else_def split: prod.splits sum.splits)

lemma keeps_if [keeps_rules]: "keeps I m \<Longrightarrow> keeps I k \<Longrightarrow> keeps I (if b then m else k)"
  by simp

lemma keeps_let [keeps_rules]: "keeps I (f x) \<Longrightarrow> keeps I (let y = x in f y)"
  by simp

lemma keeps_option [keeps_rules]:
  "keeps I m \<Longrightarrow> (\<And>y. keeps I (k y)) \<Longrightarrow> keeps I (case x of None \<Rightarrow> m | Some y \<Rightarrow> k y)"
  by (simp split: option.split)

lemma keeps_sum [keeps_rules]:
  "(\<And>e. keeps I (m e)) \<Longrightarrow> (\<And>y. keeps I (k y)) \<Longrightarrow> keeps I (case x of Inl e \<Rightarrow> m e | Inr y \<Rightarrow> k y)"
  by (simp split: sum.split)

lemma keeps_list [keeps_rules]:
  "keeps I m \<Longrightarrow> (\<And>y ys. keeps I (k y ys)) \<Longrightarrow> keeps I (case x of [] \<Rightarrow> m | y # ys \<Rightarrow> k y ys)"
  by (simp split: list.split)

lemma keeps_prod [keeps_rules]: "(\<And>a b. keeps I (f a b)) \<Longrightarrow> keeps I (case p of (a, b) \<Rightarrow> f a b)"
  by (simp split: prod.split)

lemma keeps_modify: "(\<And>s. I s \<Longrightarrow> I (f s)) \<Longrightarrow> keeps I (modify f)"
  by (simp add: keeps_def modify_def)

lemma keeps_state_query: "(\<And>d. keeps I (m d)) \<Longrightarrow> keeps I (\<lambda>d. m d d)"
  by (simp add: keeps_def)

lemma keeps_world_modify: "(\<And>w. w_db (f w) = w_db w) \<Longrightarrow> db_keeps I (modify f)"
  by (simp add: keeps_def modify_def)

section \<open>Insertions\<close>

lemmas table_defs = db_ok_def users_ok_def links_ok_def photos_ok_def
lemmas row_of_defs = has_user_def has_namespace_def has_blob_def has_file_def has_media_def

lemma fk_mono:
  assumes "d_users d' = d_users d @ us" "d_namespaces d' = d_namespaces d @ ns" "d_blobs d' = d_blobs d @ bs"
  shows "file_fk_ok d f \<Longrightarrow> file_fk_ok d' f"
  using assms by (auto simp: file_fk_ok_def row_of_defs split: option.splits)

lemma ids_below_Suc [simp]: "ids_below n k t \<Longrightarrow> ids_below (Suc n) k t"
  by (erule ids_below_mono) simp

text \<open>\<open>db_wf\<close> does not see the other tables.\<close>

lemma db_wf_cong:
  assumes "d_next d \<le> d_next d'" "d_users d' = d_users d @ us" "d_namespaces d' = d_namespaces d"
    "d_blobs d' = d_blobs d" "d_files d' = d_files d" "d_jobs d' = d_jobs d"
    "map ir_id (d_media d') = map ir_id (d_media d)" "map ir_blob (d_media d') = map ir_blob (d_media d)"
    "db_wf d"
  shows "db_wf d'"
proof -
  have "file_fk_ok d' f" if "file_fk_ok d f" for f
    by (rule fk_mono [OF assms(2) _ _ that]) (simp_all add: assms)
  moreover have "has_user d' u" if "has_user d u" for u using that assms(2) by (auto simp: has_user_def)
  moreover have "has_blob d' = has_blob d" by (simp add: assms has_blob_def fun_eq_iff)
  moreover have "(\<forall>m \<in> set (d_media d'). has_blob d (ir_blob m)) = (\<forall>m \<in> set (d_media d). has_blob d (ir_blob m))"
    using arg_cong [OF assms(8), of "\<lambda>l. \<forall>b \<in> set l. has_blob d b"] by simp
  ultimately show ?thesis
    using assms(9) ids_below_cong [OF assms(7)] unfolding db_wf_def
    by (simp add: assms ids_below_mono [OF _ assms(1)])
       (use assms(1) in linarith)
qed


lemma keeps_insert_account [keeps_rules]: "keeps db_ok (insert_account r)"
proof (rule keepsI)
  fix d assume d: "db_ok d"
  show "db_ok (snd (insert_account r d))"
    using d db_wf_cong [of d "snd (insert_account r d)" "[]"]
    by (auto simp: insert_account_def table_defs row_of_defs)
qed

lemma keeps_insert_action [keeps_rules]: "keeps db_ok (insert_action a)"
proof (rule keepsI)
  fix d assume d: "db_ok d"
  show "db_ok (snd (insert_action a d))"
    using d db_wf_cong [of d "snd (insert_action a d)" "[]"]
    by (auto simp: insert_action_def table_defs row_of_defs)
qed

lemma keeps_insert_album [keeps_rules]: "lr_cover r = None \<Longrightarrow> keeps db_ok (insert_album r)"
proof (rule keepsI)
  fix d assume d: "db_ok d" and r: "lr_cover r = None"
  show "db_ok (snd (insert_album r d))"
    using d r db_wf_cong [of d "snd (insert_album r d)" "[]"]
    by (auto simp: insert_album_def table_defs row_of_defs)
qed

lemma keeps_insert_trail [keeps_rules]: "keeps db_ok (insert_trail r)"
proof (rule keepsI)
  fix d assume d: "db_ok d"
  show "db_ok (snd (insert_trail r d))"
    using d db_wf_cong [of d "snd (insert_trail r d)" "[]"]
    by (auto simp: insert_trail_def table_defs row_of_defs split: option.split)
qed

lemma keeps_insert_asset [keeps_rules]: "keeps db_ok (insert_asset r)"
proof (rule keepsI)
  fix d assume d: "db_ok d"
  show "db_ok (snd (insert_asset r d))"
    using d db_wf_cong [of d "snd (insert_asset r d)" "[]"]
    by (auto simp: insert_asset_def table_defs row_of_defs)
qed

lemma keeps_insert_metadata [keeps_rules]: "keeps db_ok (insert_metadata r)"
proof (rule keepsI)
  fix d assume d: "db_ok d"
  show "db_ok (snd (insert_metadata r d))"
    using d db_wf_cong [of d "snd (insert_metadata r d)" "[]"]
    by (auto simp: insert_metadata_def table_defs row_of_defs)
qed

lemma keeps_insert_link [keeps_rules]: "keeps db_ok (insert_link r)"
proof (rule keepsI)
  fix d assume d: "db_ok d"
  show "db_ok (snd (insert_link r d))"
    using d db_wf_cong [of d "snd (insert_link r d)" "[]"]
    by (auto simp: insert_link_def table_defs row_of_defs)
qed

lemma keeps_insert_user [keeps_rules]: "keeps db_ok (insert_user r)"
proof (rule keepsI)
  fix d assume d: "db_ok d"
  show "db_ok (snd (insert_user r d))"
    using d db_wf_cong [of d "snd (insert_user r d)" "[r\<lparr>ur_id := d_next d\<rparr>]"]
    by (auto simp: insert_user_def user_conflict_def table_defs row_of_defs ids_below_insert)
qed


lemma keeps_insert_job [keeps_rules]: "keeps db_ok (insert_job r)"
proof (rule keepsI)
  fix d assume d: "db_ok d"
  then have "db_wf d" by (simp add: db_ok_def)
  then obtain d' where "insert_job r d = (Inr (d_next d), d')" "only_jobs d d'"
    using insert_job_only_jobs by blast
  then show "db_ok (snd (insert_job r d))"
    using d db_wf_only_jobs [of d d'] by (auto simp: only_jobs_def table_defs row_of_defs intro: ids_below_mono)
qed

lemma keeps_insert_blob [keeps_rules]: "keeps db_ok (insert_blob r)"
proof (rule keepsI)
  fix d assume d: "db_ok d"
  then have "db_wf d" by (simp add: db_ok_def)
  then have "db_wf (snd (insert_blob r d))" using db_wf_insert_blob(1) by (metis surjective_pairing)
  then show "db_ok (snd (insert_blob r d))"
    using d by (auto simp: insert_blob_def table_defs row_of_defs)
qed

lemma db_wf_append_file:
  assumes wf: "db_wf d" and r: "file_fk_ok d r" "\<not> file_conflict d r"
  shows "db_wf (d\<lparr>d_files := d_files d @ [r\<lparr>fr_id := d_next d\<rparr>], d_next := Suc (d_next d)\<rparr>)"
proof -
  let ?r = "r\<lparr>fr_id := d_next d\<rparr>"
  let ?d = "d\<lparr>d_files := d_files d @ [?r], d_next := Suc (d_next d)\<rparr>"
  have fk: "file_fk_ok ?d = file_fk_ok d" by (rule file_fk_ok_cong) simp_all
  have "file_fk_ok d ?r" using r(1) by (simp add: file_fk_ok_def)
  moreover have "ids_below (Suc (d_next d)) fr_id (d_files d @ [?r])"
    using db_wfD(2) [OF wf] by (rule ids_below_insert) simp
  moreover have "has_user ?d = has_user d" "has_blob ?d = has_blob d"
    by (simp_all add: has_user_def has_blob_def fun_eq_iff)
  moreover have "distinct (map (\<lambda>f. (fr_path f, fr_ns f)) (d_files d @ [?r]))"
    using db_wfD(7) [OF wf] r(2) by (auto simp: file_conflict_def)
  ultimately show ?thesis
    using wf unfolding db_wf_def fk by (auto intro: ids_below_mono)
qed

lemma db_ok_append_file:
  assumes d: "db_ok d" and r: "file_fk_ok d r" "\<not> file_conflict d r"
  shows "db_ok (d\<lparr>d_files := d_files d @ [r\<lparr>fr_id := d_next d\<rparr>], d_next := Suc (d_next d)\<rparr>)"
  using d db_wf_append_file [OF _ r] by (auto simp: table_defs row_of_defs)

lemma keeps_insert_file [keeps_rules]: "keeps db_ok (insert_file r)"
  using db_ok_append_file by (auto simp: keeps_def insert_file_def)

lemma keeps_bulk_insert_files [keeps_rules]: "keeps db_ok (bulk_insert_files rs)"
proof (rule keepsI)
  fix d assume d: "db_ok d"
  have "db_ok (foldl insert_file_ignoring d rs)" if "\<forall>r \<in> set rs. file_fk_ok d r" using d that
    by (induction rs arbitrary: d) (auto simp: insert_file_ignoring_def db_ok_append_file
      file_fk_ok_cong [of "d\<lparr>d_files := _, d_next := _\<rparr>" d for d, simplified])
  then show "db_ok (snd (bulk_insert_files rs d))"
    using d by (simp add: bulk_insert_files_def list_all_iff)
qed

lemma keeps_insert_media [keeps_rules]: "keeps db_ok (insert_media r)"
proof (rule keepsI)
  fix d assume d: "db_ok d"
  have "db_wf (snd (insert_media r d))"
    using d ids_below_insert [of "d_next d" ir_id "d_media d" "r\<lparr>ir_id := d_next d\<rparr>"]
    by (auto simp: insert_media_def db_ok_def db_wf_def row_of_defs ids_below_Suc
        file_fk_ok_cong [of "d\<lparr>d_media := _, d_next := _\<rparr>" d, simplified])
  then show "db_ok (snd (insert_media r d))"
    using d by (auto simp: insert_media_def table_defs row_of_defs)
qed

lemma keeps_insert_namespace [keeps_rules]: "keeps db_ok (insert_namespace r)"
proof (rule keepsI)
  fix d assume d: "db_ok d"
  let ?d = "snd (insert_namespace r d)"
  have "file_fk_ok ?d f" if "file_fk_ok d f" for f
    using that by (auto simp: insert_namespace_def file_fk_ok_def row_of_defs split: option.splits)
  then have "db_wf ?d"
    using d ids_below_insert [of "d_next d" nr_id "d_namespaces d" "r\<lparr>nr_id := d_next d\<rparr>"]
    by (auto simp: insert_namespace_def db_ok_def db_wf_def row_of_defs ids_below_Suc)
  then show "db_ok ?d"
    using d by (auto simp: insert_namespace_def table_defs row_of_defs)
qed

lemma keeps_bulk_insert_bookmarks [keeps_rules]: "keeps db_ok (bulk_insert_bookmarks rs)"
proof (rule keepsI)
  fix d assume d: "db_ok d"
  have step: "db_ok (insert_bookmark_ignoring d r)" if "db_ok d" "has_file d (kr_file r)" for d r
    using that db_wf_cong [of d "insert_bookmark_ignoring d r" "[]"]
    by (auto simp: insert_bookmark_ignoring_def table_defs row_of_defs)
  have same: "has_file (insert_bookmark_ignoring d r) = has_file d" for d r
    by (simp add: insert_bookmark_ignoring_def has_file_def fun_eq_iff)
  have "db_ok (foldl insert_bookmark_ignoring d rs)" if "\<forall>r \<in> set rs. has_file d (kr_file r)"
    using d that by (induction rs arbitrary: d) (auto simp: step same)
  then show "db_ok (snd (bulk_insert_bookmarks rs d))"
    using d by (simp add: bulk_insert_bookmarks_def list_all_iff)
qed

lemma keeps_bulk_insert_favourites [keeps_rules]: "keeps db_ok (bulk_insert_favourites rs)"
proof (rule keepsI)
  fix d assume d: "db_ok d"
  have step: "db_ok (insert_favourite_ignoring d r)" if "db_ok d" "has_media d (vr_media_item r)" for d r
    using that db_wf_cong [of d "insert_favourite_ignoring d r" "[]"]
    by (auto simp: insert_favourite_ignoring_def table_defs row_of_defs)
  have same: "has_media (insert_favourite_ignoring d r) = has_media d" for d r
    by (simp add: insert_favourite_ignoring_def has_media_def fun_eq_iff)
  have "db_ok (foldl insert_favourite_ignoring d rs)" if "\<forall>r \<in> set rs. has_media d (vr_media_item r)"
    using d that by (induction rs arbitrary: d) (auto simp: step same)
  then show "db_ok (snd (bulk_insert_favourites rs d))"
    using d by (simp add: bulk_insert_favourites_def list_all_iff)
qed


section \<open>Deletions\<close>

lemma keeps_delete_files [keeps_rules]: "keeps db_ok (modify (delete_files P))"
proof (rule keeps_modify)
  fix d assume d: "db_ok d"
  have "has_file (delete_files P d) i" if "has_file d i" "i \<notin> fr_id ` set (filter P (d_files d))" for i
    using that by (auto simp: has_file_def)
  then show "db_ok (delete_files P d)"
    using d by (auto simp: db_ok_def)
      (auto simp: users_ok_def links_ok_def photos_ok_def delete_files_def Let_def has_user_def has_media_def
        has_blob_def distinct_map_q_delete)
qed

lemma keeps_delete_blobs [keeps_rules]: "keeps db_ok (delete_blobs P)"
proof (rule keepsI)
  fix d assume d: "db_ok d"
  show "db_ok (snd (delete_blobs P d))"
  proof (cases "\<exists>b \<in> br_id ` set (filter P (d_blobs d)). blob_in_use d b")
    case True
    then show ?thesis using d by (simp add: delete_blobs_def Let_def)
  next
    case False
    let ?d = "snd (delete_blobs P d)"
    have eq: "?d = d\<lparr>d_blobs := q_delete P (d_blobs d),
        d_metadata := q_delete (\<lambda>r. mr_blob r \<in> br_id ` set (filter P (d_blobs d))) (d_metadata d)\<rparr>"
      by (simp only: delete_blobs_def Let_def if_not_P [OF False] snd_conv)
    have hb: "has_blob ?d b" if "has_blob d b" "b \<notin> br_id ` set (filter P (d_blobs d))" for b
      using that unfolding eq by (auto simp: has_blob_def)
    have used: "b \<notin> br_id ` set (filter P (d_blobs d))" if "blob_in_use d b" for b using that False by blast
    have fk: "file_fk_ok ?d f" if "f \<in> set (d_files d)" "file_fk_ok d f" for f
      using that hb used unfolding file_fk_ok_def
      by (auto simp: eq has_user_def has_namespace_def blob_in_use_def split: option.splits)
    have me: "has_blob ?d (ir_blob m)" if "m \<in> set (d_media d)" "has_blob d (ir_blob m)" for m
      using that hb used by (auto simp: blob_in_use_def)
    have hu: "has_user ?d = has_user d" "has_file ?d = has_file d" "has_media ?d = has_media d"
      by (simp_all add: eq row_of_defs fun_eq_iff)
    have "db_wf ?d"
      using d fk me unfolding db_ok_def db_wf_def hu
      by (simp add: eq ids_below_delete distinct_map_q_delete)
    moreover have "\<forall>m \<in> set (d_metadata ?d). has_blob ?d (mr_blob m)"
      using d hb by (auto simp: eq db_ok_def photos_ok_def)
    ultimately show ?thesis
      using d unfolding db_ok_def users_ok_def links_ok_def photos_ok_def hu
      by (simp add: eq distinct_map_q_delete)
  qed
qed

lemma keeps_delete_media [keeps_rules]: "keeps db_ok (modify (delete_media P))"
proof (rule keeps_modify)
  fix d assume d: "db_ok d"
  let ?d = "delete_media P d"
  have hm: "has_media ?d i" if "has_media d i" "i \<notin> ir_id ` set (filter P (d_media d))" for i
    using that by (auto simp: has_media_def delete_media_def Let_def)
  have same: "has_user ?d = has_user d" "has_file ?d = has_file d" "has_blob ?d = has_blob d"
    by (simp_all add: delete_media_def Let_def row_of_defs fun_eq_iff)
  have fk: "file_fk_ok ?d = file_fk_ok d"
    by (rule file_fk_ok_cong) (simp_all add: delete_media_def Let_def)
  have rows: "d_albums ?d = q_update (\<lambda>r. case lr_cover r of None \<Rightarrow> False | Some c \<Rightarrow> c \<in> ir_id ` {x \<in> set (d_media d). P x})
      (\<lambda>r. r\<lparr>lr_cover := None\<rparr>) (d_albums d)"
    "d_favourites ?d = q_delete (\<lambda>r. vr_media_item r \<in> ir_id ` set (filter P (d_media d))) (d_favourites d)"
    by (simp_all add: delete_media_def Let_def)
  have "db_wf ?d"
    using d unfolding db_ok_def db_wf_def same fk
    by (simp add: delete_media_def Let_def ids_below_delete distinct_map_q_delete)
  moreover have "\<forall>r \<in> set (d_albums ?d). \<forall>m. lr_cover r = Some m \<longrightarrow> has_media ?d m"
    "\<forall>v \<in> set (d_favourites ?d). has_media ?d (vr_media_item v)"
    unfolding rows using d hm by (auto simp: db_ok_def photos_ok_def set_q_update split: if_splits option.splits)
  moreover have "map (\<lambda>r. (lr_owner r, lr_slug r)) (d_albums ?d) = map (\<lambda>r. (lr_owner r, lr_slug r)) (d_albums d)"
    by (simp add: delete_media_def Let_def map_q_update)
  ultimately show "db_ok ?d"
    using d unfolding db_ok_def users_ok_def links_ok_def photos_ok_def same
    by (simp add: delete_media_def Let_def distinct_map_q_delete)
qed

lemma db_ok_same_rows:
  assumes "db_ok d" "d_next d' = d_next d" "d_users d' = d_users d" "d_namespaces d' = d_namespaces d"
    "d_blobs d' = d_blobs d" "d_files d' = d_files d" "d_jobs d' = d_jobs d" "d_media d' = d_media d"
    "users_ok d \<Longrightarrow> users_ok d'" "links_ok d \<Longrightarrow> links_ok d'" "photos_ok d \<Longrightarrow> photos_ok d'"
  shows "db_ok d'"
  using assms db_wf_cong [of d d' "[]"] by (simp add: db_ok_def)

lemma keeps_delete_albums [keeps_rules]: "keeps db_ok (modify (delete_albums P))"
  by (rule keeps_modify, erule db_ok_same_rows)
     (auto simp: delete_albums_def Let_def users_ok_def links_ok_def photos_ok_def row_of_defs distinct_map_q_delete)


lemma keeps_shared_link_delete [keeps_rules]: "keeps db_ok (shared_link_delete token)"
  unfolding shared_link_delete_def
  by (rule keeps_modify, erule db_ok_same_rows)
     (auto simp: users_ok_def links_ok_def photos_ok_def row_of_defs distinct_map_q_delete)

lemma keeps_bookmark_delete_batch [keeps_rules]: "keeps db_ok (bookmark_delete_batch user_id ids)"
  unfolding bookmark_delete_batch_def
  by (rule keeps_modify, erule db_ok_same_rows)
     (auto simp: users_ok_def links_ok_def photos_ok_def row_of_defs distinct_map_q_delete)

lemma keeps_favourite_remove_batch [keeps_rules]: "keeps db_ok (favourite_remove_batch user_id ids)"
  unfolding favourite_remove_batch_def
  by (intro keeps_if keeps_ret keeps_modify, erule db_ok_same_rows)
     (auto simp: users_ok_def links_ok_def photos_ok_def row_of_defs distinct_map_q_delete)

lemma keeps_blob_job_delete [keeps_rules]: "keeps db_ok (blob_job_delete_by_id_batch ids)"
proof (unfold blob_job_delete_by_id_batch_def, rule keeps_modify)
  fix d assume d: "db_ok d"
  let ?js = "q_delete (\<lambda>r. jr_id r \<in> set ids) (d_jobs d)"
  have "only_jobs d (d\<lparr>d_jobs := ?js\<rparr>)" unfolding only_jobs_def
    using d ids_below_delete [of "d_next d" jr_id "d_jobs d"] db_wfD(5) [of d]
    by (intro exI [of _ ?js] exI [of _ "d_next d"]) (simp add: db_ok_def)
  with d show "db_ok (d\<lparr>d_jobs := ?js\<rparr>)"
    using db_wf_only_jobs [of d] by (auto simp: table_defs row_of_defs)
qed

lemma keeps_album_items_add [keeps_rules]: "keeps db_ok (album_items_add a ms)"
  unfolding album_items_add_def
  by (rule keeps_modify, erule db_ok_same_rows)
     (auto simp: users_ok_def links_ok_def photos_ok_def row_of_defs)

lemma keeps_album_items_remove [keeps_rules]: "keeps db_ok (album_items_remove a ms)"
  unfolding album_items_remove_def
  by (intro keeps_andthen keeps_guard keeps_modify, erule db_ok_same_rows)
     (auto simp: users_ok_def links_ok_def photos_ok_def row_of_defs)

section \<open>Updates\<close>

lemma keeps_album_row_save [keeps_rules]: "keeps db_ok (album_row_save r)"
proof (rule keepsI)
  fix d assume d: "db_ok d"
  show "db_ok (snd (album_row_save r d))"
    by (rule db_ok_same_rows [OF d])
       (use d in \<open>auto simp: album_row_save_def Let_def users_ok_def links_ok_def photos_ok_def row_of_defs
          set_q_update split: option.splits if_splits\<close>)
qed

lemma keeps_album_set_cover_batch [keeps_rules]: "keeps db_ok (album_set_cover_batch covers)"
proof (rule keepsI)
  fix d assume d: "db_ok d"
  show "db_ok (snd (album_set_cover_batch covers d))"
    by (intro db_ok_same_rows [OF d])
       (auto simp: map_q_update album_set_cover_batch_def Let_def users_ok_def links_ok_def photos_ok_def row_of_defs
          split: option.splits)
qed

lemma keeps_update_users [keeps_rules]:
  assumes "\<And>r. ur_id (f r) = ur_id r" "\<And>r. ur_username (f r) = ur_username r"
  shows "keeps db_ok (update_users P f)"
proof (rule keepsI)
  fix d assume d: "db_ok d"
  let ?us = "q_update P f (d_users d)"
  have ids: "map ur_id ?us = map ur_id (d_users d)" "map ur_username ?us = map ur_username (d_users d)"
    by (simp_all add: map_q_update assms)
  have hu: "has_user (d\<lparr>d_users := ?us\<rparr>) = has_user d"
    using arg_cong [OF ids(1), of set] by (simp add: has_user_def fun_eq_iff)
  have "file_fk_ok (d\<lparr>d_users := ?us\<rparr>) = file_fk_ok d"
    unfolding file_fk_ok_def hu by (simp add: fun_eq_iff has_namespace_def has_blob_def split: option.split)
  then have "db_wf (d\<lparr>d_users := ?us\<rparr>)"
    using d unfolding db_ok_def db_wf_def hu by (simp add: has_blob_def)
  with d show "db_ok (snd (update_users P f d))"
    unfolding db_ok_def update_users_def Let_def
    by (simp add: users_ok_def hu ids ids_below_cong [OF ids(1)] links_ok_def photos_ok_def has_file_def has_media_def has_blob_def)
qed

lemma keeps_media_set_deleted [keeps_rules]:
  "keeps db_ok (modify (\<lambda>d. d\<lparr>d_media := q_update P (\<lambda>r. r\<lparr>ir_deleted_at := t\<rparr>) (d_media d)\<rparr>))"
proof (rule keeps_modify)
  fix d assume d: "db_ok d"
  let ?ms = "q_update P (\<lambda>r. r\<lparr>ir_deleted_at := t\<rparr>) (d_media d)"
  have ids: "map ir_id ?ms = map ir_id (d_media d)" "map ir_blob ?ms = map ir_blob (d_media d)"
    by (simp_all add: map_q_update)
  have "has_media (d\<lparr>d_media := ?ms\<rparr>) = has_media d"
    using arg_cong [OF ids(1), of set] by (simp add: has_media_def fun_eq_iff)
  moreover have "db_wf (d\<lparr>d_media := ?ms\<rparr>)"
    using d db_wf_cong [of d "d\<lparr>d_media := ?ms\<rparr>" "[]"] ids by (simp add: db_ok_def)
  ultimately show "db_ok (d\<lparr>d_media := ?ms\<rparr>)"
    using d by (simp add: db_ok_def users_ok_def links_ok_def photos_ok_def has_user_def has_file_def has_blob_def)
qed

lemma keeps_update_blobs [keeps_rules]:
  assumes "\<And>r. br_id (f r) = br_id r"
  shows "keeps db_ok (update_blobs P f)"
proof (rule keepsI)
  fix d assume d: "db_ok d"
  let ?bs = "q_update P f (d_blobs d)"
  have ids: "map br_id ?bs = map br_id (d_blobs d)" by (simp add: map_q_update assms)
  have hb: "has_blob (d\<lparr>d_blobs := ?bs\<rparr>) = has_blob d"
    using arg_cong [OF ids(1), of set] by (simp add: has_blob_def fun_eq_iff)
  have fk: "file_fk_ok (d\<lparr>d_blobs := ?bs\<rparr>) = file_fk_ok d"
    unfolding file_fk_ok_def hb by (simp add: fun_eq_iff has_namespace_def has_user_def)
  have "db_wf (d\<lparr>d_blobs := ?bs\<rparr>)" if "distinct (map br_storage_key ?bs)"
    using d that ids_below_cong [OF ids] unfolding db_ok_def db_wf_def hb fk by (simp add: has_user_def)
  with d show "db_ok (snd (update_blobs P f d))"
    unfolding db_ok_def update_blobs_def Let_def
    by (simp add: users_ok_def links_ok_def photos_ok_def hb has_user_def has_file_def has_media_def)
qed

lemma keeps_files_resized [keeps_rules]:
  "keeps db_ok (modify (\<lambda>d. d\<lparr>d_files := q_update P (\<lambda>r. r\<lparr>fr_size := fr_size r + v\<rparr>) (d_files d)\<rparr>))"
proof (rule keeps_modify)
  fix d assume d: "db_ok d"
  let ?fs = "q_update P (\<lambda>r. r\<lparr>fr_size := fr_size r + v\<rparr>) (d_files d)"
  have "map fr_id ?fs = map fr_id (d_files d)" by (simp add: map_q_update)
  from arg_cong [OF this, of set] have "has_file (d\<lparr>d_files := ?fs\<rparr>) = has_file d"
    by (simp add: has_file_def fun_eq_iff)
  moreover have "db_wf (d\<lparr>d_files := ?fs\<rparr>)"
    using d by (simp add: q_update_resize db_wf_resize db_ok_def)
  ultimately show "db_ok (d\<lparr>d_files := ?fs\<rparr>)"
    using d by (simp add: db_ok_def users_ok_def links_ok_def photos_ok_def has_user_def has_media_def has_blob_def)
qed


text \<open>A file or a subtree changes its namespace only to one that was looked up.\<close>

lemma keeps_update_files:
  assumes d: "db_ok d" "target_ns d at_ns to_ns ns" and f: "\<And>r. fr_id (f r) = fr_id r"
    "\<And>r. fr_blob (f r) = fr_blob r"
    "\<And>r. case ns of None \<Rightarrow> fr_ns (f r) = fr_ns r \<and> fr_owner (f r) = fr_owner r
        | Some n \<Rightarrow> fr_ns (f r) = nr_id n \<and> fr_owner (f r) = nr_owner n"
  shows "db_ok (snd (update_files P f d))"
proof -
  let ?fs = "q_update P f (d_files d)"
  have ids: "map fr_id ?fs = map fr_id (d_files d)" by (simp add: map_q_update f(1))
  have hf: "has_file (d\<lparr>d_files := ?fs\<rparr>) = has_file d"
    using arg_cong [OF ids, of set] by (simp add: has_file_def fun_eq_iff)
  have "db_wf (d\<lparr>d_files := ?fs\<rparr>)" if "distinct (map (\<lambda>r. (fr_path r, fr_ns r)) ?fs)"
  proof (rule db_wf_update [OF _ d(2) ids that])
    show "db_wf d" using d(1) by (simp add: db_ok_def)
    fix r assume "r \<in> set ?fs"
    then obtain x where x: "x \<in> set (d_files d)" "r = (if P x then f x else x)" by (auto simp: set_q_update)
    then show "\<exists>x \<in> set (d_files d). fr_blob r = fr_blob x \<and>
       (case ns of None \<Rightarrow> fr_ns r = fr_ns x \<and> fr_owner r = fr_owner x
        | Some n \<Rightarrow> fr_ns r = fr_ns x \<and> fr_owner r = fr_owner x \<or> fr_ns r = nr_id n \<and> fr_owner r = nr_owner n)"
      using f(2) f(3) [of x] by (intro bexI [of _ x]) (auto split: option.splits)
  qed
  with d(1) show ?thesis
    unfolding db_ok_def update_files_def Let_def
    by (simp add: users_ok_def links_ok_def photos_ok_def hf has_user_def has_media_def has_blob_def)
qed

lemma keeps_other_namespace:
  assumes "\<And>d ns. db_ok d \<Longrightarrow> target_ns d a t ns \<Longrightarrow> db_ok (snd (k ns d))"
  shows "keeps db_ok (bnd (other_namespace a t) k)"
proof (rule keepsI)
  fix d assume d: "db_ok d"
  have "snd (other_namespace a t d) = d"
    by (auto simp: other_namespace_def namespace_row_get_def bnd_def ret_def query_def split: sum.split)
  with d assms show "db_ok (snd (bnd (other_namespace a t) k d))"
    by (auto simp: bnd_def other_namespace_Inr split: prod.split sum.split)
qed

lemma keeps_file_replace_path_prefix [keeps_rules]: "keeps db_ok (file_replace_path_prefix at to)"
  unfolding file_replace_path_prefix_def Let_def
  by (intro keeps_prod keeps_other_namespace)
     (auto simp: bnd_def gets_def replace_row_prefix_def Let_def split: option.splits intro!: keeps_update_files)

lemma keeps_file_update [keeps_rules]: "keeps db_ok (file_update file u)"
proof (unfold file_update_def Let_def, rule keeps_other_namespace)
  fix d ns assume d: "db_ok d" "target_ns d (f_ns_path file) (case fu_ns_path u of None \<Rightarrow> f_ns_path file | Some p \<Rightarrow> p) ns"
  have "db_ok (snd (update_files (\<lambda>r. fr_id r = f_id file) (apply_update u ns) d))"
    by (rule keeps_update_files [OF d]) (auto simp: apply_update_def split: option.splits)
  then show "db_ok (snd (andthen (update_files (\<lambda>r. fr_id r = f_id file) (apply_update u ns))
      (bnd (query (\<lambda>d. or_query_err (q_get (\<lambda>r. fr_id r = f_id file) (d_files d)))) (\<lambda>obj.
       query (\<lambda>d. file_from_db (Some (row_ns_path d obj)) d obj))) d))"
    by (auto simp: andthen_def bnd_def query_def split: prod.splits sum.splits)
qed

end
