(* ===== verification/System.thy ===== *)
theory System
  imports Worker
begin

text \<open>
  The step relation of the whole system: clients call operations, the worker takes jobs off the queue,
  background tasks run, time passes. Each step is atomic; a call, a job or a task that raises leaves
  what it had done. The calls are the operations of the use cases that write to the database, a
  storage, the cache or the queue.
\<close>

datatype client_call =
    Call_signin string string
  | Call_signup string string string
  | Call_refresh string
  | Call_create_superuser string string
  | Call_add_bookmarks uuid "uuid list"
  | Call_remove_bookmarks uuid "uuid list"
  | Call_change_email_start uuid string
  | Call_change_email_resend uuid
  | Call_change_email_complete uuid string
  | Call_verify_email_send uuid
  | Call_verify_email_complete uuid string
  | Call_add_file string string BlobContent "datetime option"
  | Call_create_folder string string
  | Call_file_thumbnail string uuid int
  | Call_create_link string uuid
  | Call_revoke_link string
  | Call_link_thumbnail string int
  | Call_album_create string uuid
  | Call_album_delete uuid string
  | Call_album_rename uuid string string
  | Call_album_set_cover uuid string uuid
  | Call_album_remove_cover uuid string
  | Call_album_add_items uuid string "uuid list"
  | Call_album_remove_items uuid string "uuid list"
  | Call_upload_media uuid string BlobContent
  | Call_delete_media uuid "uuid list"
  | Call_restore_media uuid "uuid list"
  | Call_delete_media_now uuid "uuid list"
  | Call_purge_media nat uuid
  | Call_mark_favourites uuid "uuid list"
  | Call_unmark_favourites uuid "uuid list"
  | Call_media_thumbnail uuid uuid int
  | Call_media_download_session uuid "uuid list"
  | Call_enqueue worker_job

definition run_call :: "'b env \<Rightarrow> client_call \<Rightarrow> ('b, unit) app" where
  "run_call E c = (let x = e_ext E in case c of
     Call_signin login password \<Rightarrow> bnd (auth_signin E login password) (\<lambda>_. ret ())
   | Call_signup email password name \<Rightarrow> bnd (auth_signup E email password name) (\<lambda>_. ret ())
   | Call_refresh token \<Rightarrow> bnd (token_rotate E token) (\<lambda>_. ret ())
   | Call_create_superuser username password \<Rightarrow> bnd (uc_create_superuser E username password) (\<lambda>_. ret ())
   | Call_add_bookmarks user_id ids \<Rightarrow> uc_add_bookmark_batch user_id ids
   | Call_remove_bookmarks user_id ids \<Rightarrow> bookmark_remove_batch user_id ids
   | Call_change_email_start user_id email \<Rightarrow> uc_change_email_start E user_id email
   | Call_change_email_resend user_id \<Rightarrow> user_change_email_resend_code E user_id
   | Call_change_email_complete user_id code \<Rightarrow> bnd (uc_change_email_complete E user_id code) (\<lambda>_. ret ())
   | Call_verify_email_send user_id \<Rightarrow> user_verify_email_send_code E user_id
   | Call_verify_email_complete user_id code \<Rightarrow> bnd (user_verify_email_complete E user_id code) (\<lambda>_. ret ())
   | Call_add_file ns_path path content modified_at \<Rightarrow> bnd (ns_add_file E ns_path path content modified_at) (\<lambda>_. ret ())
   | Call_create_folder ns_path path \<Rightarrow> bnd (ns_create_folder ns_path path) (\<lambda>_. ret ())
   | Call_file_thumbnail ns_path file_id sz \<Rightarrow> bnd (ns_get_file_thumbnail E ns_path file_id sz) (\<lambda>_. ret ())
   | Call_create_link ns_path file_id \<Rightarrow> bnd (share_create_link E ns_path file_id) (\<lambda>_. ret ())
   | Call_revoke_link token \<Rightarrow> share_revoke_link token
   | Call_link_thumbnail token sz \<Rightarrow> bnd (share_get_link_thumbnail E token sz) (\<lambda>_. ret ())
   | Call_album_create title owner_id \<Rightarrow> bnd (album_uc_create x title owner_id) (\<lambda>_. ret ())
   | Call_album_delete owner_id slug \<Rightarrow> bnd (in_db (album_delete x owner_id slug)) (\<lambda>_. ret ())
   | Call_album_rename owner_id slug title \<Rightarrow> bnd (album_rename x owner_id slug title) (\<lambda>_. ret ())
   | Call_album_set_cover owner_id slug m \<Rightarrow> bnd (in_db (album_set_cover x owner_id slug (Some m))) (\<lambda>_. ret ())
   | Call_album_remove_cover owner_id slug \<Rightarrow> bnd (album_uc_remove_cover x owner_id slug) (\<lambda>_. ret ())
   | Call_album_add_items owner_id slug ids \<Rightarrow> bnd (album_uc_add_album_items x owner_id slug ids) (\<lambda>_. ret ())
   | Call_album_remove_items owner_id slug ids \<Rightarrow> bnd (album_uc_remove_album_items x owner_id slug ids) (\<lambda>_. ret ())
   | Call_upload_media owner_id name content \<Rightarrow> bnd (media_uc_upload E owner_id name content) (\<lambda>_. ret ())
   | Call_delete_media owner_id ids \<Rightarrow> bnd (media_uc_delete_batch owner_id ids) (\<lambda>_. ret ())
   | Call_restore_media owner_id ids \<Rightarrow> bnd (media_restore_batch owner_id ids) (\<lambda>_. ret ())
   | Call_delete_media_now owner_id ids \<Rightarrow> media_uc_delete_immediately_batch owner_id ids
   | Call_purge_media fuel owner_id \<Rightarrow> bnd (media_uc_purge fuel owner_id) (\<lambda>_. ret ())
   | Call_mark_favourites user_id ids \<Rightarrow> media_mark_favourite_batch user_id ids
   | Call_unmark_favourites user_id ids \<Rightarrow> media_unmark_favourite_batch user_id ids
   | Call_media_thumbnail owner_id media_item_id sz \<Rightarrow> bnd (media_uc_thumbnail E owner_id media_item_id sz) (\<lambda>_. ret ())
   | Call_media_download_session owner_id ids \<Rightarrow> bnd (media_create_download_session E owner_id ids) (\<lambda>_. ret ())
   | Call_enqueue j \<Rightarrow> enqueue j)"

inductive system_step :: "'b env \<Rightarrow> 'b world \<Rightarrow> 'b world \<Rightarrow> bool" for E where
  client: "run_call E c (w\<lparr>w_user := u\<rparr>) = (r, w') \<Longrightarrow> system_step E w (w'\<lparr>w_user := None\<rparr>)"
| worker: "w_queue w = j # js \<Longrightarrow> run_job E j (w\<lparr>w_queue := js\<rparr>) = (r, w') \<Longrightarrow> system_step E w w'"
| background: "w_tasks w = t # ts \<Longrightarrow> run_background t (w\<lparr>w_tasks := ts\<rparr>) = (r, w') \<Longrightarrow> system_step E w w'"
| tick: "0 \<le> dt \<Longrightarrow> system_step E w (w\<lparr>w_now := w_now w + dt\<rparr>)"

inductive_cases system_stepE: "system_step E w w'"

text \<open>The states the system reaches from an empty database.\<close>

inductive reachable :: "'b env \<Rightarrow> 'b world \<Rightarrow> bool" for E where
  start: "w_db w = empty_db \<Longrightarrow> w_queue w = [] \<Longrightarrow> w_tasks w = [] \<Longrightarrow> reachable E w"
| step: "reachable E w \<Longrightarrow> system_step E w w' \<Longrightarrow> reachable E w'"

end
