(* ===== verification/TableRules.thy ===== *)
theory TableRules
  imports Tables System
begin

text \<open>
  Every operation of the repositories, the services, the use cases and the jobs keeps the constraints of
  the tables. Most of them follow from \<open>keeps_rules\<close> alone, theory by theory; the recursive ones and
  those that look at the state directly come one by one.
\<close>


lemma keeps_letI [keeps_rules]: "(\<And>x. keeps I (f x)) \<Longrightarrow> keeps I (Let y f)"
  by simp

lemma keeps_shared_link_save [keeps_rules]: "keeps db_ok (shared_link_save link)"
proof (rule keepsI)
  fix d assume "db_ok d"
  moreover have "keeps db_ok (bnd (try_else (insert_link r)
      (\<lambda>e. raise (if e = IntegrityError then FileErr FileNotFound else e))) (\<lambda>id. ret (link\<lparr>sl_id := id\<rparr>)))" for r
    by (intro keeps_rules)
  ultimately show "db_ok (snd (shared_link_save link d))"
    by (auto simp: shared_link_save_def keeps_def split: sum.split query_error.split)
qed

lemma keeps_audit_action [keeps_rules]: "keeps db_ok (audit_action_get_or_create a)"
  using keeps_insert_action [of a]
  by (auto simp: audit_action_get_or_create_def keeps_def split: sum.split query_error.split)

lemma keeps_make_otp_code [keeps_rules]: "db_keeps I (make_otp_code x n)"
  by (induction n) (auto intro!: keeps_rules)

lemma keeps_current_user_ctx [keeps_rules]: "keeps I current_user_ctx"
  by (simp add: keeps_def current_user_ctx_def)

lemma keeps_payload [keeps_rules]:
  "(\<And>b k. keeps I (f b k)) \<Longrightarrow> (\<And>p. keeps I (g p)) \<Longrightarrow> (\<And>b k l. keeps I (h b k l)) \<Longrightarrow> (\<And>p q. keeps I (j p q))
   \<Longrightarrow> keeps I (case x of BlobJobDelete b k \<Rightarrow> f b k | BlobJobDeletePrefix p \<Rightarrow> g p
        | BlobJobMove b k l \<Rightarrow> h b k l | BlobJobMovePrefix p q \<Rightarrow> j p q)"
  by (simp split: blob_job_payload.split)

lemma keeps_cache_value [keeps_rules]:
  "(\<And>x. keeps I (f x)) \<Longrightarrow> (\<And>x. keeps I (g x)) \<Longrightarrow> (\<And>x. keeps I (h x)) \<Longrightarrow> (\<And>x. keeps I (j x))
   \<Longrightarrow> keeps I (case x of CVStr x \<Rightarrow> f x | CVInt x \<Rightarrow> g x | CVFile x \<Rightarrow> h x | CVItems x \<Rightarrow> j x)"
  by (simp split: cache_value.split)

lemma keeps_send_email [keeps_rules]: "db_keeps I (send_email_verification_code n e c)"
  unfolding send_email_verification_code_def by (rule keeps_world_modify) simp

lemma keeps_generate_sizes [keeps_rules]: "db_keeps I (generate_sizes E ch content sizes)"
  by (induction sizes) (simp_all add: Let_def, intro keeps_rules, auto intro!: keeps_rules split: sum.split)

lemma keeps_FileRepo_repo [keeps_rules]:
    "keeps db_ok (file_count_by_path_pattern x1 x2 x3)" "keeps db_ok (file_delete x4 x5)"
    "keeps db_ok (namespace_row_get x6)" "keeps db_ok (file_delete_all_with_prefix x7 x8)"
    "keeps db_ok (file_delete_all_with_prefix_batch x9)" "keeps db_ok (file_delete_batch x10 x11)"
    "keeps db_ok (file_exists_at_path x12 x13)" "keeps db_ok (file_exists_with_id x14 x15)"
    "keeps db_ok (file_get_by_id x16)" "keeps db_ok (file_get_by_id_batch x17)"
    "keeps db_ok (file_get_by_path x18 x19)" "keeps db_ok (file_get_by_path_batch x20 x21)"
    "keeps db_ok (file_incr_size_batch x22 x23 x24)" "keeps db_ok (file_list_with_prefix x25 x26 x27)"
    "keeps db_ok (file_list_all_with_prefix_batch x28)" "keeps db_ok (file_save x29)"
    "keeps db_ok (file_save_batch x30)" "keeps db_ok (namespace_get_by_owner_id x31)"
    "keeps db_ok (namespace_get_by_path x32)" "keeps db_ok (namespace_get_space_used_by_owner_id x33)"
    "keeps db_ok (namespace_save x34)" "keeps db_ok (shared_link_get_by_file_id x35)"
    "keeps db_ok (shared_link_get_by_token x36)" "keeps db_ok (shared_link_list_by_ns x37 x38 x39)"
  unfolding
    file_count_by_path_pattern_def file_delete_def namespace_row_get_def file_delete_all_with_prefix_def
    file_delete_all_with_prefix_batch_def file_delete_batch_def file_exists_at_path_def
    file_exists_with_id_def file_get_by_id_def file_get_by_id_batch_def file_get_by_path_def
    file_get_by_path_batch_def file_incr_size_batch_def file_list_with_prefix_def
    file_list_all_with_prefix_batch_def file_save_def file_save_batch_def namespace_get_by_owner_id_def
    namespace_get_by_path_def namespace_get_space_used_by_owner_id_def namespace_save_def
    shared_link_get_by_file_id_def shared_link_get_by_token_def shared_link_list_by_ns_def
  by (intro keeps_rules | simp add: apply_user_update_def)+

lemma keeps_BlobRepo_repo [keeps_rules]:
    "keeps db_ok (blob_delete x1)" "keeps db_ok (blob_delete_all_with_prefix x2)"
    "keeps db_ok (blob_delete_batch x3)" "keeps db_ok (blob_exists_with_storage_key x4)"
    "keeps db_ok (blob_get_by_id x5)" "keeps db_ok (blob_get_by_id_batch x6)"
    "keeps db_ok (blob_replace_storage_key_prefix x7 x8)" "keeps db_ok (blob_save x9)"
    "keeps db_ok (blob_update x10 x11)" "keeps db_ok (blob_job_get_by_id_batch x12)"
    "keeps db_ok (blob_job_save_batch x13)" "keeps db_ok (blob_metadata_get_by_blob_id x14)"
    "keeps db_ok (blob_metadata_save x15)"
  unfolding
    blob_delete_def blob_delete_all_with_prefix_def blob_delete_batch_def blob_exists_with_storage_key_def
    blob_get_by_id_def blob_get_by_id_batch_def blob_replace_storage_key_prefix_def blob_save_def
    blob_update_def blob_job_get_by_id_batch_def blob_job_save_batch_def blob_metadata_get_by_blob_id_def
    blob_metadata_save_def
  by (intro keeps_rules | simp add: apply_user_update_def)+

lemma keeps_PhotoRepo_repo [keeps_rules]:
    "keeps db_ok (album_row_get x1 x2)" "keeps db_ok (media_ids_in x3)"
    "keeps db_ok (album_add_items x4 x5 x6 x7)" "keeps db_ok (album_count_by_slug_pattern x8 x9 x10)"
    "keeps db_ok (album_delete x11 x12 x13)" "keeps db_ok (album_exists_with_slug x14 x15)"
    "keeps db_ok (album_get_by_slug x16 x17 x18)" "keeps db_ok (album_list_by_owner_id x19 x20 x21 x22)"
    "keeps db_ok (album_list_cover_candidates x23)" "keeps db_ok (album_list_ids_by_cover_ids x24 x25)"
    "keeps db_ok (media_item_count x26)" "keeps db_ok (media_item_delete_batch x27)"
    "keeps db_ok (media_item_get_by_id x28)" "keeps db_ok (media_item_get_by_id_batch x29)"
    "keeps db_ok (media_item_get_for_owner x30 x31)" "keeps db_ok (media_item_list_by_owner x32 x33 x34 x35)"
    "keeps db_ok (media_item_list_deleted x36 x37 x38)" "keeps db_ok (media_item_save x39)"
    "keeps db_ok (media_item_set_deleted_at_batch x40 x41 x42)" "keeps db_ok (album_list_items x43 x44 x45 x46)"
    "keeps db_ok (album_remove_items x47 x48 x49 x50)" "keeps db_ok (album_save x51)"
    "keeps db_ok (album_set_cover x52 x53 x54 x55)" "keeps db_ok (album_update x56 x57 x58 x59)"
    "keeps db_ok (favourite_add_batch x60 x61)" "keeps db_ok (favourite_list_ids x62)"
  unfolding
    album_row_get_def media_ids_in_def album_add_items_def album_count_by_slug_pattern_def album_delete_def
    album_exists_with_slug_def album_get_by_slug_def album_list_by_owner_id_def
    album_list_cover_candidates_def album_list_ids_by_cover_ids_def media_item_count_def
    media_item_delete_batch_def media_item_get_by_id_def media_item_get_by_id_batch_def
    media_item_get_for_owner_def media_item_list_by_owner_def media_item_list_deleted_def media_item_save_def
    media_item_set_deleted_at_batch_def album_list_items_def album_remove_items_def album_save_def
    album_set_cover_def album_update_def favourite_add_batch_def favourite_list_ids_def
  by (intro keeps_rules | simp add: apply_user_update_def)+

lemma keeps_Users_repo [keeps_rules]:
    "keeps db_ok (user_exists_with_email x1)" "keeps db_ok (user_get x2)" "keeps db_ok (user_get_by_id x3)"
    "keeps db_ok (user_get_by_username x4)" "keeps db_ok (user_get_by_email x5)" "keeps db_ok (user_save x6)"
    "keeps db_ok (user_update x7 x8)" "keeps db_ok (account_get_by_user_id x9)"
    "keeps db_ok (account_save x10)" "keeps db_ok (bookmark_list_all x11)"
    "keeps db_ok (bookmark_save_batch x12)"
  unfolding
    user_exists_with_email_def user_get_def user_get_by_id_def user_get_by_username_def user_get_by_email_def
    user_save_def user_update_def account_get_by_user_id_def account_save_def bookmark_list_all_def
    bookmark_save_batch_def
  by (intro keeps_rules | simp add: apply_user_update_def)+

lemma keeps_Auth_repo [keeps_rules]:
    "keeps db_ok (audit_trail_save x2)"
  unfolding
     audit_trail_save_def
  by (intro keeps_rules | simp add: apply_user_update_def)+

lemma keeps_Users_app [keeps_rules]:
    "db_keeps db_ok (user_change_email_complete x4 x5 x6)"
    "db_keeps db_ok (user_change_email_resend_code x7 x8)"
    "db_keeps db_ok (user_change_email_start x9 x10 x11)"
    "db_keeps db_ok (user_service_create x12 x13 x14 x15 x16 x17 x18)" "db_keeps db_ok (user_get_account x19)"
    "db_keeps db_ok (user_service_get_by_id x20)" "db_keeps db_ok (user_service_get_by_username x21)"
    "db_keeps db_ok (user_signin x22 x23 x24)" "db_keeps db_ok (user_verify_email_send_code x25 x26)"
    "db_keeps db_ok (user_verify_email_complete x27 x28 x29)" "db_keeps db_ok (bookmark_add_batch x30 x31)"
    "db_keeps db_ok (bookmark_list_bookmarks x32)" "db_keeps db_ok (bookmark_remove_batch x33 x34)"
  unfolding
     user_change_email_complete_def user_change_email_resend_code_def
    user_change_email_start_def user_service_create_def user_get_account_def user_service_get_by_id_def
    user_service_get_by_username_def user_signin_def user_verify_email_send_code_def
    user_verify_email_complete_def bookmark_add_batch_def bookmark_list_bookmarks_def
    bookmark_remove_batch_def
  by (intro keeps_rules | simp add: apply_user_update_def)+

lemma keeps_Auth_app [keeps_rules]:
    "db_keeps db_ok (token_hex x1)" "db_keeps db_ok (token_urlsafe x2 x3)"
    "db_keeps db_ok (access_decode x4 x5)" "db_keeps db_ok (access_build x6 x7)"
    "db_keeps db_ok (refresh_decode x8 x9)" "db_keeps db_ok (refresh_build x10 x11)"
    "db_keeps db_ok (refresh_rotate x12 x13)" "db_keeps db_ok (token_create x14 x15)"
    "db_keeps db_ok (token_rotate x16 x17)" "db_keeps db_ok (track_file_action x18 x19)"
    "db_keeps db_ok (track_user_action x20)" "db_keeps db_ok (audit_user_signed_in x21)"
  unfolding
    token_hex_def token_urlsafe_def access_decode_def access_build_def refresh_decode_def refresh_build_def
    refresh_rotate_def token_create_def token_rotate_def track_file_action_def track_user_action_def
    audit_user_signed_in_def
  by (intro keeps_rules | simp add: apply_user_update_def)+

lemma keeps_Blobs_app [keeps_rules]:
    "db_keeps db_ok (blob_create x1 x2 x3)" "db_keeps db_ok (save_and_enqueue x4)"
    "db_keeps db_ok (blob_service_delete_all_with_prefix x5)" "db_keeps db_ok (blob_service_delete_batch x6)"
    "db_keeps db_ok (blob_service_move x7 x8)" "db_keeps db_ok (blob_service_move_with_prefix x9 x10)"
    "db_keeps db_ok (blob_service_download x11 x12)" "db_keeps db_ok (blob_service_download_batch x13 x14)"
    "db_keeps db_ok (blob_service_download_with_prefix x15 x16)" "db_keeps db_ok (blob_service_get_by_id x17)"
    "db_keeps db_ok (blob_service_get_by_id_batch x18)" "db_keeps db_ok (process_delete_jobs x19 x20)"
    "db_keeps db_ok (process_delete_prefix_jobs x21 x22)" "db_keeps db_ok (process_move_jobs x23 x24)"
    "db_keeps db_ok (process_move_prefix_jobs x25 x26)" "db_keeps db_ok (blob_service_process_blob_jobs x27 x28)"
    "db_keeps db_ok (blob_metadata_service_get_by_blob_id x29)"
    "db_keeps db_ok (blob_metadata_track x30 x31 x32)" "db_keeps db_ok (thumbnail_generate x33 x34 x35 x36)"
    "db_keeps db_ok (thumbnailer_thumbnail x37 x38 x39 x40)" "db_keeps db_ok (content_process x41 x42)"
    "db_keeps db_ok (content_process_async x43)"
  unfolding
    blob_create_def save_and_enqueue_def blob_service_delete_all_with_prefix_def
    blob_service_delete_batch_def blob_service_move_def blob_service_move_with_prefix_def
    blob_service_download_def blob_service_download_batch_def blob_service_download_with_prefix_def
    blob_service_get_by_id_def blob_service_get_by_id_batch_def process_delete_jobs_def
    process_delete_prefix_jobs_def process_move_jobs_def process_move_prefix_jobs_def
    blob_service_process_blob_jobs_def blob_metadata_service_get_by_blob_id_def blob_metadata_track_def
    thumbnail_generate_def thumbnailer_thumbnail_def content_process_def content_process_async_def
  by (intro keeps_rules | simp add: apply_user_update_def)+

lemma keeps_FileCore_app [keeps_rules]:
    "db_keeps db_ok (filecore_create_folder x1 x2)" "db_keeps db_ok (filecore_get_available_path x3 x4 x5)"
    "db_keeps db_ok (filecore_ensure_parent x6 x7)" "db_keeps db_ok (filecore_save_new x8 x9)"
    "db_keeps db_ok (filecore_store x10 x11 x12 x13 x14)" "db_keeps db_ok (filecore_create_file x15 x16 x17 x18 x19)"
    "db_keeps db_ok (filecore_delete x20 x21)" "db_keeps db_ok (filecore_download x22)"
    "db_keeps db_ok (filecore_download_batch x23 x24)" "db_keeps db_ok (filecore_download_folder x25 x26 x27)"
    "db_keeps db_ok (filecore_empty_folder x28 x29)" "db_keeps db_ok (filecore_exists_with_id x30 x31)"
    "db_keeps db_ok (filecore_exists_at_path x32 x33)" "db_keeps db_ok (filecore_get_by_id x34)"
    "db_keeps db_ok (filecore_get_by_id_batch x35)" "db_keeps db_ok (filecore_get_by_path x36 x37)"
    "db_keeps db_ok (filecore_list_folder x38 x39 x40)" "db_keeps db_ok (filecore_move_file x41 x42 x43)"
    "db_keeps db_ok (filecore_move x44 x45)"
  unfolding
    filecore_create_folder_def filecore_get_available_path_def filecore_ensure_parent_def
    filecore_save_new_def filecore_store_def filecore_create_file_def filecore_delete_def
    filecore_download_def filecore_download_batch_def filecore_download_folder_def filecore_empty_folder_def
    filecore_exists_with_id_def filecore_exists_at_path_def filecore_get_by_id_def
    filecore_get_by_id_batch_def filecore_get_by_path_def filecore_list_folder_def filecore_move_file_def
    filecore_move_def
  by (intro keeps_rules | simp add: apply_user_update_def)+

lemma keeps_FileServices_app [keeps_rules]:
    "db_keeps db_ok (file_service_create_file x1 x2 x3 x4 x5)" "db_keeps db_ok (file_service_download x6 x7)"
    "db_keeps db_ok (file_service_get_by_id x8 x9)" "db_keeps db_ok (file_service_get_by_id_batch x10 x11)"
    "db_keeps db_ok (file_service_move x12 x13 x14)" "db_keeps db_ok (namespace_create x15 x16)"
    "db_keeps db_ok (sharing_create_link x17 x18)" "db_keeps db_ok (sharing_get_link_by_file_id x19)"
    "db_keeps db_ok (sharing_get_link_by_token x20)" "db_keeps db_ok (sharing_list_links_by_ns x21 x22 x23)"
    "db_keeps db_ok (sharing_revoke_link x24)" "db_keeps db_ok (ns_add_file x25 x26 x27 x28 x29)"
    "db_keeps db_ok (ns_create_folder x30 x31)" "db_keeps db_ok (ns_delete_item x32 x33)"
    "db_keeps db_ok (ns_download_by_id x34)" "db_keeps db_ok (ns_empty_trash x35)"
    "db_keeps db_ok (ns_get_file_metadata x36 x37)" "db_keeps db_ok (ns_get_file_thumbnail x38 x39 x40 x41)"
    "db_keeps db_ok (ns_list_folder x42 x43 x44)" "db_keeps db_ok (ns_move_item x45 x46 x47)"
    "db_keeps db_ok (ns_move_item_to_trash x48 x49 x50)" "db_keeps db_ok (share_create_link x51 x52 x53)"
    "db_keeps db_ok (share_get_link x54 x55)" "db_keeps db_ok (share_get_link_thumbnail x56 x57 x58)"
    "db_keeps db_ok (share_get_shared_item x59)" "db_keeps db_ok (share_list_shared_links x60)"
    "db_keeps db_ok (share_revoke_link x61)"
  unfolding
    file_service_create_file_def file_service_download_def file_service_get_by_id_def
    file_service_get_by_id_batch_def file_service_move_def namespace_create_def sharing_create_link_def
    sharing_get_link_by_file_id_def sharing_get_link_by_token_def sharing_list_links_by_ns_def
    sharing_revoke_link_def ns_add_file_def ns_create_folder_def ns_delete_item_def ns_download_by_id_def
    ns_empty_trash_def ns_get_file_metadata_def ns_get_file_thumbnail_def ns_list_folder_def ns_move_item_def
    ns_move_item_to_trash_def share_create_link_def share_get_link_def share_get_link_thumbnail_def
    share_get_shared_item_def share_list_shared_links_def share_revoke_link_def
  by (intro keeps_rules | simp add: apply_user_update_def)+

lemma keeps_AuthUseCases_app [keeps_rules]:
    "db_keeps db_ok (auth_signin x1 x2 x3)" "db_keeps db_ok (auth_signup x4 x5 x6 x7)"
    "db_keeps db_ok (uc_add_bookmark_batch x8 x9)" "db_keeps db_ok (uc_change_email_complete x10 x11 x12)"
    "db_keeps db_ok (uc_change_email_start x13 x14 x15)" "db_keeps db_ok (uc_create_superuser x16 x17 x18)"
    "db_keeps db_ok (uc_get_account_space_usage x19)"
  unfolding
    auth_signin_def auth_signup_def uc_add_bookmark_batch_def uc_change_email_complete_def
    uc_change_email_start_def uc_create_superuser_def uc_get_account_space_usage_def
  by (intro keeps_rules | simp add: apply_user_update_def)+

lemma keeps_Photos_app [keeps_rules]:
    "db_keeps db_ok (album_get_available_slug x1 x2 x3)" "db_keeps db_ok (album_service_create x4 x5 x6 x7)"
    "db_keeps db_ok (album_reassign_covers x8)" "db_keeps db_ok (album_rename x9 x10 x11 x12)"
    "db_keeps db_ok (album_uc_add_album_items x13 x14 x15 x16)" "db_keeps db_ok (album_uc_create x17 x18 x19)"
    "db_keeps db_ok (album_uc_remove_album_items x20 x21 x22 x23)"
    "db_keeps db_ok (album_uc_remove_cover x24 x25 x26)" "db_keeps db_ok (media_storage_key x27 x28 x29)"
    "db_keeps db_ok (media_get_download_items x30 x31)" "db_keeps db_ok (media_service_create x32 x33 x34 x35)"
    "db_keeps db_ok (media_create_download_session x36 x37 x38)"
    "db_keeps db_ok (media_get_download_session x39 x40)" "db_keeps db_ok (media_delete_batch x41 x42)"
    "db_keeps db_ok (media_delete_permanently x43)" "db_keeps db_ok (media_download x44 x45)"
    "db_keeps db_ok (media_download_batch x46 x47)" "db_keeps db_ok (media_mark_favourite_batch x48 x49)"
    "db_keeps db_ok (media_restore_batch x50 x51)" "db_keeps db_ok (media_unmark_favourite_batch x52 x53)"
    "db_keeps db_ok (media_uc_delete_batch x54 x55)" "db_keeps db_ok (media_uc_delete_immediately_batch x56 x57)"
    "db_keeps db_ok (media_uc_get_content_metadata x58 x59)" "db_keeps db_ok (media_uc_list_deleted x60)"
    "db_keeps db_ok (media_uc_thumbnail x63 x64 x65 x66)"
    "db_keeps db_ok (media_uc_upload x67 x68 x69 x70)"
  unfolding
    album_get_available_slug_def album_service_create_def album_reassign_covers_def album_rename_def
    album_uc_add_album_items_def album_uc_create_def album_uc_remove_album_items_def
    album_uc_remove_cover_def media_storage_key_def media_get_download_items_def media_service_create_def
    media_create_download_session_def media_get_download_session_def media_delete_batch_def
    media_delete_permanently_def media_download_def media_download_batch_def media_mark_favourite_batch_def
    media_restore_batch_def media_unmark_favourite_batch_def media_uc_delete_batch_def
    media_uc_delete_immediately_batch_def media_uc_get_content_metadata_def media_uc_list_deleted_def
     media_uc_thumbnail_def media_uc_upload_def
  by (intro keeps_rules | simp add: apply_user_update_def)+

lemma keeps_purge_loop [keeps_rules]: "db_keeps db_ok (purge_loop fuel n owner_id off)"
  by (induction fuel arbitrary: off) (auto intro!: keeps_rules)

lemma keeps_media_uc_purge [keeps_rules]: "db_keeps db_ok (media_uc_purge fuel owner_id)"
  unfolding media_uc_purge_def by (rule keeps_purge_loop)

lemma keeps_job_batch [keeps_rules]: "(\<And>p. keeps I (op p)) \<Longrightarrow> keeps I (job_batch op ps)"
  unfolding job_batch_def by (intro keeps_rules)

lemma keeps_with_context [keeps_rules]: "db_keeps I m \<Longrightarrow> db_keeps I (with_context u m)"
proof (rule keepsI)
  fix w :: "'a world" assume m: "db_keeps I m" "I (w_db w)"
  have "I (w_db (snd (m (w\<lparr>w_user := Some u\<rparr>))))" by (rule keepsD [OF m(1)]) (simp add: m(2))
  then show "I (w_db (snd (with_context u m w)))" by (auto simp: with_context_def split: prod.split)
qed

lemma keeps_Worker_app [keeps_rules]:
    "db_keeps db_ok (job_delete_immediately_batch x1 x2)" "db_keeps db_ok (job_empty_trash x3 x4)"
    "db_keeps db_ok (job_move_batch x5 x6 x7)" "db_keeps db_ok (job_move_to_trash_batch x8 x9 x10 x11)"
  unfolding
    job_delete_immediately_batch_def job_empty_trash_def job_move_batch_def job_move_to_trash_batch_def
  by (intro keeps_rules | simp add: apply_user_update_def)+

lemma keeps_run_job [keeps_rules]: "db_keeps db_ok (run_job E j)"
  unfolding run_job_def by (cases j) (auto intro!: keeps_rules)

lemma keeps_run_task [keeps_rules]: "db_keeps db_ok (run_task t)"
  unfolding run_task_def by (cases t) (auto intro!: keeps_rules)

lemma keeps_run_call [keeps_rules]: "db_keeps db_ok (run_call E c)"
  unfolding run_call_def Let_def by (cases c; simp only: client_call.case; intro keeps_rules)

lemma keeps_run_background [keeps_rules]: "db_keeps db_ok (run_background t)"
proof (rule keepsI)
  fix w :: "'a world" assume w: "db_ok (w_db w)"
  have "db_keeps db_ok (attempt (run_task (snd t) :: ('a, unit) app))" by (intro keeps_rules)
  from keepsD [OF this, of "w\<lparr>w_user := fst t\<rparr>"] w
  show "db_ok (w_db (snd (run_background t w)))" by (auto simp: run_background_def split: prod.split)
qed

lemma system_step_tables:
  assumes "system_step E w w'" "db_ok (w_db w)"
  shows "db_ok (w_db w')"
  using assms
proof (cases rule: system_step.cases)
  case (client c u r w1)
  then show ?thesis using keepsD [OF keeps_run_call, of "w\<lparr>w_user := u\<rparr>" E c] assms(2) by simp
next
  case (worker j js r)
  then show ?thesis using keepsD [OF keeps_run_job, of "w\<lparr>w_queue := js\<rparr>" E j] assms(2) by simp
next
  case (background t ts r)
  then show ?thesis using keepsD [OF keeps_run_background, of "w\<lparr>w_tasks := ts\<rparr>" t] assms(2) by simp
qed simp

end
