(* ===== verification/ApiUsers.thy ===== *)
theory ApiUsers
  imports Api
begin

text \<open>
  The views of \<open>src/app/api/auth\<close>, \<open>accounts\<close>, \<open>users\<close> and \<open>features\<close>. The decorator \<open>cache.rate_limit\<close> is
  the third-party limiter, asked before the body runs.
\<close>

section \<open>auth\<close>

text \<open>\<open>SignUpRequest\<close>. A display name consists of letters and the allowed symbols.\<close>

record SignUpRequest =
  su_email :: string
  su_display_name :: string
  su_password :: string

definition NAME_ALLOWED_SYMBOLS :: "char list" where
  "NAME_ALLOWED_SYMBOLS = [CHR 0x20, CHR 0x2E, CHR 0x27, CHR 0x2D]"

definition name_disallowed :: "char \<Rightarrow> bool" where
  "name_disallowed c \<longleftrightarrow> \<not> slug_word c \<or> is_digit c \<or> c = CHR 0x5F"

definition validate_display_name :: "string \<Rightarrow> api_exn + string" where
  "validate_display_name value =
     (if list_ex name_disallowed (filter (\<lambda>c. c \<notin> set NAME_ALLOWED_SYMBOLS) value)
      then Inl Unprocessable else Inr (strip value))"

definition sign_up_request :: "ext \<Rightarrow> string \<Rightarrow> string \<Rightarrow> string \<Rightarrow> string \<Rightarrow> api_exn + SignUpRequest" where
  "sign_up_request x email display_name password confirm_password =
     (if \<not> x_valid_email x email then Inl Unprocessable
      else if \<not> (2 \<le> length display_name \<and> length display_name \<le> 100) then Inl Unprocessable
      else if \<not> (8 \<le> length password \<and> length password \<le> 63) then Inl Unprocessable
      else if \<not> (8 \<le> length confirm_password \<and> length confirm_password \<le> 63) then Inl Unprocessable
      else then_check (validate_display_name display_name) (\<lambda>name.
        if \<not> is_strong_password password then Inl Unprocessable
        else if password \<noteq> confirm_password then Inl Unprocessable
        else Inr \<lparr> su_email = casefold email, su_display_name = name, su_password = password \<rparr>))"

definition view_sign_in :: "'b api_env \<Rightarrow> string \<Rightarrow> string \<Rightarrow> ('b, Tokens) api" where
  "view_sign_in A username password =
     catching [(UserErr InvalidCredentials, AE_InvalidCredentials)] (auth_signin (a_env A) username password)"

definition view_sign_up :: "'b api_env \<Rightarrow> string \<Rightarrow> string \<Rightarrow> string \<Rightarrow> string \<Rightarrow> ('b, Tokens) api" where
  "view_sign_up A email display_name password confirm_password =
     bnd (of_result (sign_up_request (e_ext (a_env A)) email display_name password confirm_password)) (\<lambda>p.
     andthen (guard (cfg_sign_up_enabled (e_features (a_env A))) (ApiErr AE_SignUpDisabled))
       (catching [(UserErr UserAlreadyExists, AE_UserAlreadyExists)]
         (auth_signup (a_env A) (su_email p) (su_password p) (su_display_name p))))"

definition view_refresh_tokens :: "'b api_env \<Rightarrow> string option \<Rightarrow> ('b, Tokens) api" where
  "view_refresh_tokens A x_shelf_refresh_token = (case x_shelf_refresh_token of
       None \<Rightarrow> raise (ApiErr AE_InvalidToken)
     | Some refresh_token \<Rightarrow>
         catching [(TokenErr InvalidToken, AE_InvalidToken), (TokenErr ReusedToken, AE_InvalidToken)]
           (token_rotate (a_env A) refresh_token))"

section \<open>accounts\<close>

definition code_request :: "string \<Rightarrow> api_exn + string" where
  "code_request code = (if 6 \<le> length code then Inr code else Inl Unprocessable)"

definition change_email_request :: "ext \<Rightarrow> string \<Rightarrow> api_exn + string" where
  "change_email_request x email = (if x_valid_email x email then Inr (casefold email) else Inl Unprocessable)"

definition view_change_email_complete :: "'b api_env \<Rightarrow> string option \<Rightarrow> string \<Rightarrow> ('b, bool) api" where
  "view_change_email_complete A token code = current_user A token (\<lambda>user.
     bnd (of_result (code_request code)) (\<lambda>c.
     andthen (a_rate_limit A (''change_email:'' @ uuid_str (u_id user)) 5)
       (catching [(UserServiceErr EmailUpdateNotStarted, AE_EmailUpdateNotStarted)]
         (uc_change_email_complete (a_env A) (u_id user) c))))"

definition view_change_email_resend_code :: "'b api_env \<Rightarrow> string option \<Rightarrow> ('b, unit) api" where
  "view_change_email_resend_code A token = current_user A token (\<lambda>user.
     andthen (a_rate_limit A (''change_email:'' @ uuid_str (u_id user) @ '':send_code'') 6)
       (catching [(UserServiceErr OTPCodeAlreadySent, AE_OTPCodeAlreadySent),
                  (UserServiceErr EmailUpdateNotStarted, AE_EmailUpdateNotStarted)]
         (user_change_email_resend_code (a_env A) (u_id user))))"

definition view_change_email_start :: "'b api_env \<Rightarrow> string option \<Rightarrow> string \<Rightarrow> ('b, unit) api" where
  "view_change_email_start A token email = current_user A token (\<lambda>user.
     bnd (of_result (change_email_request (e_ext (a_env A)) email)) (\<lambda>e.
     andthen (a_rate_limit A (''change_email:'' @ uuid_str (u_id user)) 5)
       (catching [(UserErr UserAlreadyExists, AE_EmailAlreadyTaken),
                  (UserServiceErr EmailUpdateAlreadyStarted, AE_EmailUpdateStarted),
                  (EmailUpdateLimitReached, AE_EmailUpdateLimitReached)]
         (uc_change_email_start (a_env A) (u_id user) e))))"

record CurrentAccountSchema =
  cas_id :: uuid
  cas_username :: string
  cas_email :: "string option"
  cas_display_name :: string
  cas_verified :: bool
  cas_superuser :: bool

definition view_get_current_account :: "'b api_env \<Rightarrow> string option \<Rightarrow> ('b, CurrentAccountSchema) api" where
  "view_get_current_account A token = current_user A token (\<lambda>user.
     ret \<lparr> cas_id = u_id user, cas_username = u_username user, cas_email = u_email user,
           cas_display_name = u_display_name user, cas_verified = is_verified user,
           cas_superuser = u_superuser user \<rparr>)"

definition view_get_space_usage :: "'b api_env \<Rightarrow> string option \<Rightarrow> ('b, AccountSpaceUsage) api" where
  "view_get_space_usage A token = current_user A token (\<lambda>user.
     catching [] (uc_get_account_space_usage (u_id user)))"

definition view_verify_email_send_code :: "'b api_env \<Rightarrow> string option \<Rightarrow> ('b, unit) api" where
  "view_verify_email_send_code A token = current_user A token (\<lambda>user.
     andthen (a_rate_limit A (''verify_email:'' @ uuid_str (u_id user) @ '':send_code'') 6)
       (catching [(UserServiceErr OTPCodeAlreadySent, AE_OTPCodeAlreadySent),
                  (UserErr UserEmailAlreadyVerified, AE_UserEmailAlreadyVerified),
                  (UserErr UserEmailIsMissing, AE_UserEmailIsMissing)]
         (user_verify_email_send_code (a_env A) (u_id user))))"

definition view_verify_email_complete :: "'b api_env \<Rightarrow> string option \<Rightarrow> string \<Rightarrow> ('b, bool) api" where
  "view_verify_email_complete A token code = current_user A token (\<lambda>user.
     bnd (of_result (code_request code)) (\<lambda>c.
     andthen (a_rate_limit A (''verify_email:'' @ uuid_str (u_id user)) 5)
       (catching [] (user_verify_email_complete (a_env A) (u_id user) c))))"

section \<open>users and features\<close>

definition bookmark_request :: "uuid list \<Rightarrow> api_exn + uuid list" where
  "bookmark_request ids = (let s = remdups ids in if length s \<le> 1000 then Inr s else Inl Unprocessable)"

definition view_add_bookmark_batch :: "'b api_env \<Rightarrow> string option \<Rightarrow> uuid list \<Rightarrow> ('b, unit) api" where
  "view_add_bookmark_batch A token file_ids = current_user A token (\<lambda>user.
     bnd (of_result (bookmark_request file_ids)) (\<lambda>ids.
     catching [] (uc_add_bookmark_batch (u_id user) ids)))"

definition view_list_bookmarks :: "'b api_env \<Rightarrow> string option \<Rightarrow> ('b, uuid list) api" where
  "view_list_bookmarks A token = current_user A token (\<lambda>user.
     bnd (catching [] (bookmark_list_bookmarks (u_id user))) (\<lambda>bs. ret (map bk_file_id bs)))"

definition view_remove_bookmark_batch :: "'b api_env \<Rightarrow> string option \<Rightarrow> uuid list \<Rightarrow> ('b, unit) api" where
  "view_remove_bookmark_batch A token file_ids = current_user A token (\<lambda>user.
     bnd (of_result (bookmark_request file_ids)) (\<lambda>ids.
     catching [] (bookmark_remove_batch (u_id user) ids)))"

datatype feature_value = FVInt int | FVBool bool

definition view_list_features :: "features \<Rightarrow> (string \<times> feature_value) list" where
  "view_list_features fs =
     [(''max_file_size_to_thumbnail'', FVInt (cfg_max_file_size_to_thumbnail fs)),
      (''sign_up_enabled'', FVBool (cfg_sign_up_enabled fs)),
      (''shared_links_enabled'', FVBool (cfg_shared_links_enabled fs)),
      (''upload_file_max_size'', FVInt (cfg_upload_max_size fs)),
      (''verification_required'', FVBool (cfg_verification_required fs))]"

end
