(* ===== verification/FileSystem.thy ===== *)
theory FileSystem
  imports Storage "HOL-Library.AList"
begin

text \<open>
  \<open>FileSystemStorage\<close> (\<open>src/app/infrastructure/storage/filesystem.py\<close>) over a model of the part of
  \<open>os\<close>, \<open>shutil\<close> and \<open>glob\<close> it calls: a tree of directories and regular files (no links, no
  permissions). The size and modification time of a directory are the operating system's business
  and come from the field \<open>fs_dir_stat\<close>.
\<close>

section \<open>The tree\<close>

datatype fs_node = Reg bytes datetime | Dir "(string \<times> fs_node) list"

fun is_dir_node :: "fs_node \<Rightarrow> bool" where
  "is_dir_node (Dir es) = True"
| "is_dir_node (Reg b m) = False"

text \<open>Resolving a path: a component that is not there, or that is no directory.\<close>

fun fs_walk :: "fs_node \<Rightarrow> string list \<Rightarrow> os_error + fs_node" where
  "fs_walk n [] = Inr n"
| "fs_walk (Reg b m) (c # cs) = Inl NotADirectoryError"
| "fs_walk (Dir es) (c # cs) = (case map_of es c of None \<Rightarrow> Inl FileNotFoundError | Some n \<Rightarrow> fs_walk n cs)"

text \<open>Replacing or adding the node at a path whose parent is a directory, and removing one.\<close>

fun fs_put :: "fs_node \<Rightarrow> string list \<Rightarrow> fs_node \<Rightarrow> fs_node" where
  "fs_put n [] m = m"
| "fs_put (Reg b t) (c # cs) m = Reg b t"
| "fs_put (Dir es) (c # cs) m = (case map_of es c of
     None \<Rightarrow> if cs = [] then Dir (AList.update c m es) else Dir es
   | Some n \<Rightarrow> Dir (AList.update c (fs_put n cs m) es))"

fun fs_del :: "fs_node \<Rightarrow> string list \<Rightarrow> fs_node" where
  "fs_del n [] = n"
| "fs_del (Reg b t) (c # cs) = Reg b t"
| "fs_del (Dir es) (c # cs) = (if cs = [] then Dir (AList.delete c es)
     else case map_of es c of None \<Rightarrow> Dir es | Some n \<Rightarrow> Dir (AList.update c (fs_del n cs) es))"

section \<open>The calls of the operating system\<close>

definition fs_exists :: "fs_node \<Rightarrow> string list \<Rightarrow> bool" where
  "fs_exists t p = (case fs_walk t p of Inl e \<Rightarrow> False | Inr n \<Rightarrow> True)"

definition fs_isdir :: "fs_node \<Rightarrow> string list \<Rightarrow> bool" where
  "fs_isdir t p = (case fs_walk t p of Inl e \<Rightarrow> False | Inr n \<Rightarrow> is_dir_node n)"

text \<open>The directory an entry is created in.\<close>

definition fs_parent :: "fs_node \<Rightarrow> string list \<Rightarrow> os_error + unit" where
  "fs_parent t p = (case fs_walk t (butlast p) of Inl e \<Rightarrow> Inl e
     | Inr n \<Rightarrow> if is_dir_node n then Inr () else Inl NotADirectoryError)"

definition fs_open_write :: "fs_node \<Rightarrow> string list \<Rightarrow> bytes \<Rightarrow> datetime \<Rightarrow> os_error + fs_node" where
  "fs_open_write t p b m =
     (if fs_isdir t p then Inl IsADirectoryError
      else case fs_parent t p of Inl e \<Rightarrow> Inl e | Inr u \<Rightarrow> Inr (fs_put t p (Reg b m)))"

definition fs_unlink :: "fs_node \<Rightarrow> string list \<Rightarrow> os_error + fs_node" where
  "fs_unlink t p = (case fs_walk t p of Inl e \<Rightarrow> Inl e
     | Inr n \<Rightarrow> if is_dir_node n then Inl IsADirectoryError else Inr (fs_del t p))"

definition fs_rmtree :: "fs_node \<Rightarrow> string list \<Rightarrow> os_error + fs_node" where
  "fs_rmtree t p = (case fs_walk t p of Inl e \<Rightarrow> Inl e
     | Inr n \<Rightarrow> if is_dir_node n then Inr (fs_del t p) else Inl NotADirectoryError)"

fun dir_chain :: "string list \<Rightarrow> fs_node" where
  "dir_chain [] = Dir []"
| "dir_chain (c # cs) = Dir [(c, dir_chain cs)]"

text \<open>\<open>os.makedirs(path, exist_ok=True)\<close>: what is missing of the path is created from the top down.\<close>

fun fs_makedirs :: "fs_node \<Rightarrow> string list \<Rightarrow> os_error + fs_node" where
  "fs_makedirs (Dir es) [] = Inr (Dir es)"
| "fs_makedirs (Reg b m) [] = Inl FileExistsError"
| "fs_makedirs (Reg b m) (c # cs) = Inl NotADirectoryError"
| "fs_makedirs (Dir es) (c # cs) = (case map_of es c of
     None \<Rightarrow> Inr (Dir (AList.update c (dir_chain cs) es))
   | Some n \<Rightarrow> (case fs_makedirs n cs of Inl e \<Rightarrow> Inl e | Inr n' \<Rightarrow> Inr (Dir (AList.update c n' es))))"

text \<open>\<open>os.rename\<close>; its callers never name an existing directory as the target.\<close>

definition fs_rename :: "fs_node \<Rightarrow> string list \<Rightarrow> string list \<Rightarrow> os_error + fs_node" where
  "fs_rename t src dst = (case fs_walk t src of Inl e \<Rightarrow> Inl e
     | Inr n \<Rightarrow>
       if src = dst then Inr t
       else if is_dir_node n \<and> prefix src dst then Inl OSInvalidArgument
       else (case fs_parent t dst of Inl e \<Rightarrow> Inl e
         | Inr u \<Rightarrow>
           if fs_isdir t dst then Inl IsADirectoryError
           else if is_dir_node n \<and> fs_exists t dst then Inl NotADirectoryError
           else Inr (fs_put (fs_del t src) dst n)))"

text \<open>The fallback of \<open>shutil.move\<close> when \<open>os.rename\<close> failed: copy, then remove.\<close>

definition fs_copy_remove :: "fs_node \<Rightarrow> string list \<Rightarrow> string list \<Rightarrow> string list \<Rightarrow> os_error + fs_node" where
  "fs_copy_remove t src dst real_dst = (case fs_walk t src of
       Inl e \<Rightarrow> Inl e
     | Inr (Dir es) \<Rightarrow>
         if prefix src dst then Inl ShutilError
         else if fs_exists t real_dst then Inl FileExistsError
         else (case fs_makedirs t real_dst of Inl e \<Rightarrow> Inl e
               | Inr t' \<Rightarrow> Inr (fs_del (fs_put t' real_dst (Dir es)) src))
     | Inr (Reg b m) \<Rightarrow>
         (case fs_open_write t real_dst b m of Inl e \<Rightarrow> Inl e | Inr t' \<Rightarrow> Inr (fs_del t' src)))"

definition shutil_move :: "fs_node \<Rightarrow> string list \<Rightarrow> string list \<Rightarrow> os_error + fs_node" where
  "shutil_move t src dst =
     (let into = (fs_isdir t dst \<and> src \<noteq> dst);
          real_dst = (if into then dst @ drop (length src - 1) src else dst) in
      if into \<and> fs_exists t real_dst then Inl ShutilError
      else (case fs_rename t src real_dst of
          Inr t' \<Rightarrow> Inr t'
        | Inl e \<Rightarrow> fs_copy_remove t src dst real_dst))"

section \<open>fnmatch and glob\<close>

fun in_class :: "char \<Rightarrow> string \<Rightarrow> bool" where
  "in_class c (x # y # z # rest) =
     (if y = CHR 0x2D then ((of_char x :: nat) \<le> of_char c \<and> (of_char c :: nat) \<le> of_char z) \<or> in_class c rest
      else c = x \<or> in_class c (y # z # rest))"
| "in_class c xs = (c \<in> set xs)"

text \<open>The text of a character class up to its closing bracket, which may be its first character.\<close>

definition class_split :: "string \<Rightarrow> (bool \<times> string \<times> string) option" where
  "class_split p =
     (let neg = prefix ''!'' p; q = (if neg then tl p else p);
          q0 = take (if prefix '']'' q then 1 else 0) q; q1 = drop (length q0) q;
          body = takeWhile (\<lambda>c. c \<noteq> CHR 0x5D) q1
      in if length body < length q1 then Some (neg, q0 @ body, drop (Suc (length body)) q1) else None)"

lemma class_split_shorter: "class_split p = Some (neg, b, rest) \<Longrightarrow> length rest < length p"
  by (cases p) (auto simp: class_split_def Let_def split: if_splits)

function fn_match :: "string \<Rightarrow> string \<Rightarrow> bool" where
  "fn_match [] s = (s = [])"
| "fn_match (x # p) s =
     (if x = CHR ''*'' then fn_match p s \<or> (case s of [] \<Rightarrow> False | c # s' \<Rightarrow> fn_match (x # p) s')
      else (case s of [] \<Rightarrow> False
        | c # s' \<Rightarrow>
          if x = CHR ''?'' then fn_match p s'
          else if x = CHR 0x5B
          then (case class_split p of None \<Rightarrow> c = x \<and> fn_match p s'
                | Some (neg, body, rest) \<Rightarrow> in_class c body \<noteq> neg \<and> fn_match rest s')
          else c = x \<and> fn_match p s'))"
  by pat_completeness auto
termination
  by (relation "measure (\<lambda>(p, s). length p + length s)") (auto dest: class_split_shorter)

definition has_magic :: "string \<Rightarrow> bool" where
  "has_magic p \<longleftrightarrow> (\<exists>c \<in> set p. c = CHR ''*'' \<or> c = CHR ''?'' \<or> c = CHR 0x5B)"

definition hidden_name :: "string \<Rightarrow> bool" where
  "hidden_name s \<longleftrightarrow> prefix ''.'' s"

text \<open>The directories \<open>"**"\<close> stands for: the directory itself and, recursively, those below it whose
  names do not start with a dot.\<close>

fun sub_dirs :: "string list \<Rightarrow> fs_node \<Rightarrow> (string list \<times> fs_node) list"
  and sub_dirs_list :: "string list \<Rightarrow> (string \<times> fs_node) list \<Rightarrow> (string list \<times> fs_node) list" where
  "sub_dirs p (Reg b m) = []"
| "sub_dirs p (Dir es) = (p, Dir es) # sub_dirs_list p es"
| "sub_dirs_list p [] = []"
| "sub_dirs_list p ((c, n) # es) =
     (if hidden_name c then [] else sub_dirs (p @ [c]) n) @ sub_dirs_list p es"

definition glob_step :: "string \<Rightarrow> bool \<Rightarrow> string list \<times> fs_node \<Rightarrow> (string list \<times> fs_node) list" where
  "glob_step pat dironly pn = (case pn of
     (p, Reg b m) \<Rightarrow> []
   | (p, Dir es) \<Rightarrow>
       if pat = ''**'' then sub_dirs p (Dir es)
       else if has_magic pat
       then map (\<lambda>(c, n). (p @ [c], n))
              (filter (\<lambda>(c, n). (prefix ''.'' pat \<or> \<not> hidden_name c) \<and> fn_match pat c
                                 \<and> (dironly \<longrightarrow> is_dir_node n)) es)
       else (case map_of es pat of None \<Rightarrow> [] | Some n \<Rightarrow> [(p @ [pat], n)]))"

fun fs_glob :: "string list \<Rightarrow> (string list \<times> fs_node) list \<Rightarrow> (string list \<times> fs_node) list" where
  "fs_glob [] ns = ns"
| "fs_glob (pat # pats) ns = fs_glob pats (concat (map (glob_step pat (pats \<noteq> [])) ns))"

section \<open>FileSystemStorage\<close>

record fs_state =
  fs_root :: fs_node
  fs_cwd :: "string list"
  fs_clock :: datetime
  fs_dir_stat :: "string list \<Rightarrow> int \<times> datetime"

type_synonym ('z, 'a) fs_prog = "('z fs_state_scheme, exn, 'a) prog"

definition fullpath :: "string \<Rightarrow> string \<Rightarrow> string" where
  "fullpath location key = normpath (os_join location key)"

text \<open>The components a path names from the root, and a call on the tree. The exceptions the storage
  catches are those \<open>catch\<close> maps; the others go through.\<close>

definition fs_comps :: "'z fs_state_scheme \<Rightarrow> string \<Rightarrow> string list" where
  "fs_comps s p = abs_comps (fs_cwd s) p"

definition os_call :: "(os_error \<Rightarrow> exn) \<Rightarrow> (fs_node \<Rightarrow> os_error + fs_node) \<Rightarrow> ('z, unit) fs_prog" where
  "os_call catch f = (\<lambda>s. case f (fs_root s) of Inl e \<Rightarrow> (Inl (catch e), s) | Inr t \<Rightarrow> (Inr (), s\<lparr>fs_root := t\<rparr>))"

text \<open>\<open>contextlib.suppress(...)\<close> around such a call.\<close>

definition suppress :: "exn set \<Rightarrow> ('s, exn, unit) prog \<Rightarrow> ('s, exn, unit) prog" where
  "suppress es m = try_else m (\<lambda>e. if e \<in> es then ret () else raise e)"

definition catch_not_dir :: "os_error \<Rightarrow> exn" where
  "catch_not_dir e = (if e = NotADirectoryError then FileErr NotADirectory else OSErr e)"

definition catch_makedirs :: "os_error \<Rightarrow> exn" where
  "catch_makedirs e = (if e = FileExistsError then FileErr FileAlreadyExists
     else if e = NotADirectoryError then FileErr NotADirectory else OSErr e)"

definition catch_missing :: "os_error \<Rightarrow> exn" where
  "catch_missing e = (if e = FileNotFoundError then FileErr FileNotFound
     else if e = NotADirectoryError then FileErr NotADirectory else OSErr e)"

definition node_stat :: "'z fs_state_scheme \<Rightarrow> string list \<Rightarrow> fs_node \<Rightarrow> int \<times> datetime" where
  "node_stat s p n = (case n of Reg b m \<Rightarrow> (int (length b), m) | Dir es \<Rightarrow> fs_dir_stat s p)"

definition storage_file :: "string \<Rightarrow> 'z fs_state_scheme \<Rightarrow> string \<Rightarrow> string list \<Rightarrow> fs_node \<Rightarrow> StorageFile" where
  "storage_file location s path p n = \<lparr> sf_name = basename path, sf_path = drop (length location + 1) path,
     sf_size = fst (node_stat s p n), sf_mtime = snd (node_stat s p n), sf_is_dir = is_dir_node n \<rparr>"

definition from_path :: "string \<Rightarrow> string \<Rightarrow> ('z, StorageFile) fs_prog" where
  "from_path location path = query (\<lambda>s. case fs_walk (fs_root s) (fs_comps s path) of
     Inl e \<Rightarrow> Inl (OSErr e) | Inr n \<Rightarrow> Inr (storage_file location s path (fs_comps s path) n))"

definition fs_delete :: "string \<Rightarrow> string \<Rightarrow> ('z, unit) fs_prog" where
  "fs_delete location key = (\<lambda>s.
     let p = fs_comps s (fullpath location key) in
     (if fs_isdir (fs_root s) p then ret ()
      else suppress {OSErr FileNotFoundError} (os_call OSErr (\<lambda>t. fs_unlink t p))) s)"

definition fs_delete_batch :: "string \<Rightarrow> string list \<Rightarrow> ('z, unit) fs_prog" where
  "fs_delete_batch location keys = for_each keys (fs_delete location)"

definition fs_deletedir :: "string \<Rightarrow> string \<Rightarrow> ('z, unit) fs_prog" where
  "fs_deletedir location key = (\<lambda>s.
     let p = fs_comps s (fullpath location key) in
     suppress {OSErr FileNotFoundError, OSErr NotADirectoryError} (os_call OSErr (\<lambda>t. fs_rmtree t p)) s)"

text \<open>\<open>os.scandir\<close>.\<close>

definition fs_scandir :: "fs_node \<Rightarrow> string list \<Rightarrow> os_error + (string \<times> fs_node) list" where
  "fs_scandir t p = (case fs_walk t p of Inl e \<Rightarrow> Inl e | Inr (Reg b m) \<Rightarrow> Inl NotADirectoryError
     | Inr (Dir es) \<Rightarrow> Inr es)"

definition fs_emptydir :: "string \<Rightarrow> string \<Rightarrow> ('z, unit) fs_prog" where
  "fs_emptydir location key = (\<lambda>s.
     let p = fs_comps s (fullpath location key) in
     suppress {OSErr FileNotFoundError, OSErr NotADirectoryError}
       (bnd (of_result (map_sum OSErr id (fs_scandir (fs_root s) p))) (\<lambda>es.
        for_each es (\<lambda>(c, n). os_call OSErr (\<lambda>t.
          if is_dir_node n then fs_rmtree t (p @ [c]) else fs_unlink t (p @ [c]))))) s)"

text \<open>The content of a file, read line by line and handed out in that order.\<close>

definition fs_read :: "string \<Rightarrow> ('z, bytes) fs_prog" where
  "fs_read path = query (\<lambda>s. case fs_walk (fs_root s) (fs_comps s path) of
     Inl e \<Rightarrow> Inl (OSErr e) | Inr (Dir es) \<Rightarrow> Inl (OSErr IsADirectoryError) | Inr (Reg b m) \<Rightarrow> Inr b)"

definition fs_download :: "string \<Rightarrow> string \<Rightarrow> ('z, bytes) fs_prog" where
  "fs_download location key =
     bnd (try_else (from_path location (fullpath location key))
            (\<lambda>e. raise (if e = OSErr FileNotFoundError then FileErr FileNotFound else e))) (\<lambda>file.
     andthen (guard (\<not> sf_is_dir file) (FileErr FileNotFound))
       (fs_read (fullpath location key)))"

text \<open>\<open>glob.iglob(pattern, recursive=True)\<close>, with the text of each match.\<close>

definition iglob :: "'z fs_state_scheme \<Rightarrow> string \<Rightarrow> (string \<times> string list \<times> fs_node) list" where
  "iglob s pat =
     (if prefix ''/'' pat
      then map (\<lambda>(p, n). (''/'' @ join_with ''/'' p, p, n)) (fs_glob (pure_comps pat) [([], fs_root s)])
      else (case fs_walk (fs_root s) (fs_cwd s) of Inl e \<Rightarrow> []
        | Inr cwd \<Rightarrow> map (\<lambda>(p, n). (join_with ''/'' p, fs_cwd s @ p, n)) (fs_glob (pure_comps pat) [([], cwd)])))"

definition fs_downloaddir_iter ::
  "string \<Rightarrow> string \<Rightarrow> string \<Rightarrow> string list option \<Rightarrow> 'z fs_state_scheme \<Rightarrow> StreamZipFile list" where
  "fs_downloaddir_iter location key prefix_path include_keys s =
     concat (map (\<lambda>(pathname, p, n). case n of Dir es \<Rightarrow> []
         | Reg b m \<Rightarrow>
             (let file = storage_file location s pathname p n in
              if storage_has_path (sf_path file) include_keys
              then [zip_entry (os_join prefix_path (os_relpath (fs_cwd s) (sf_path file) key)) (sf_mtime file) b] else []))
       (iglob s (normpath (os_join (fullpath location key) ''**/*''))))"

definition fs_downloaddir ::
  "string \<Rightarrow> string \<Rightarrow> string list option \<Rightarrow> ('z, StreamZipFile list) fs_prog" where
  "fs_downloaddir location key include_keys = gets (fs_downloaddir_iter location key [] include_keys)"

definition archive_name :: "DownloadBatchItem \<Rightarrow> StorageFile \<Rightarrow> string" where
  "archive_name item file = (case db_archive_path item of
     Some p \<Rightarrow> if p = [] then sf_name file else p | None \<Rightarrow> sf_name file)"

definition fs_download_batch :: "string \<Rightarrow> DownloadBatchItem list \<Rightarrow> ('z, StreamZipFile list) fs_prog" where
  "fs_download_batch location items =
     bnd (map_prog (\<lambda>item.
         bnd (from_path location (fullpath location (db_key item))) (\<lambda>file.
         if sf_is_dir file
         then gets (fs_downloaddir_iter location (db_key item) (archive_name item file) None)
         else bnd (fs_read (fullpath location (db_key item))) (\<lambda>b. ret [zip_entry (archive_name item file) (sf_mtime file) b])))
       items) (\<lambda>zs. ret (concat zs))"

definition fs_storage_exists :: "string \<Rightarrow> string \<Rightarrow> ('z, bool) fs_prog" where
  "fs_storage_exists location key = gets (\<lambda>s. fs_exists (fs_root s) (fs_comps s (fullpath location key)))"

definition fs_iterdir :: "string \<Rightarrow> string \<Rightarrow> ('z, StorageFile list) fs_prog" where
  "fs_iterdir location key = query (\<lambda>s.
     let dir_path = fullpath location key; p = fs_comps s dir_path in
     case fs_scandir (fs_root s) p of
       Inl e \<Rightarrow> Inl (catch_missing e)
     | Inr es \<Rightarrow> Inr (map (\<lambda>(c, n). storage_file location s (os_join dir_path c) (p @ [c]) n) es))"

definition fs_storage_makedirs :: "string \<Rightarrow> string \<Rightarrow> ('z, unit) fs_prog" where
  "fs_storage_makedirs location key = (\<lambda>s.
     os_call catch_makedirs (\<lambda>t. fs_makedirs t (fs_comps s (fullpath location key))) s)"

definition fs_move_path :: "string \<Rightarrow> string \<Rightarrow> string \<Rightarrow> ('z, unit) fs_prog" where
  "fs_move_path location at to = (\<lambda>s. os_call catch_missing
     (\<lambda>t. shutil_move t (fs_comps s (fullpath location at)) (fs_comps s (fullpath location to))) s)"

definition fs_move :: "string \<Rightarrow> string \<Rightarrow> string \<Rightarrow> ('z, unit) fs_prog" where
  "fs_move location at to = (\<lambda>s.
     let from_p = fs_comps s (fullpath location at); to_fullpath = fullpath location to in
     if fs_isdir (fs_root s) from_p then (Inl (FileErr FileNotFound), s)
     else andthen
       (if fs_exists (fs_root s) (fs_comps s (dirname to_fullpath)) then ret ()
        else fs_storage_makedirs location (dirname to))
       (fs_move_path location at to) s)"

definition fs_movedir :: "string \<Rightarrow> string \<Rightarrow> string \<Rightarrow> ('z, unit) fs_prog" where
  "fs_movedir location at to = (\<lambda>s.
     if \<not> fs_isdir (fs_root s) (fs_comps s (fullpath location at)) then (Inr (), s)
     else fs_move_path location at to s)"

definition fs_save :: "string \<Rightarrow> string \<Rightarrow> BlobContent \<Rightarrow> ('z, StorageFile) fs_prog" where
  "fs_save location key content = (\<lambda>s.
     andthen (os_call catch_not_dir (\<lambda>t.
         fs_open_write t (fs_comps s (fullpath location key)) (c_data content) (fs_clock s)))
       (from_path location (fullpath location key)) s)"

definition FileSystemStorage :: "string \<Rightarrow> 'z fs_state_scheme istorage" where
  "FileSystemStorage location = \<lparr>
     io_delete = fs_delete location, io_delete_batch = fs_delete_batch location,
     io_deletedir = fs_deletedir location, io_emptydir = fs_emptydir location,
     io_download = fs_download location, io_download_batch = fs_download_batch location,
     io_downloaddir = fs_downloaddir location, io_exists = fs_storage_exists location,
     io_iterdir = fs_iterdir location, io_makedirs = fs_storage_makedirs location,
     io_move = fs_move location, io_movedir = fs_movedir location, io_save = fs_save location \<rparr>"

end
