(* ===== verification/Contracts.thy ===== *)
theory Contracts
  imports Auth
begin

text \<open>
  What the program relies on of two collaborators it is given: the cache (\<open>src/app/cache.py\<close> hands out the one of
  \<open>cashews\<close>) and the token library. Each contract is a locale; the facts its clients need are proved
  inside.
\<close>

section \<open>The cache\<close>

text \<open>A cache is seen through the values that are there at a time. Setting a value makes it visible until
  it expires (for ever without an expiry) and nothing else changes; \<open>exist=False\<close> leaves a value that is
  there; deleting makes a value disappear.\<close>

locale cache_ok =
  fixes C :: "'b icache"
    and view :: "'b \<Rightarrow> datetime \<Rightarrow> string \<Rightarrow> cache_value option"
  assumes cache_get: "ic_get C t k s = (Inr (view s t k), s)"
    and cache_exists: "ic_exists C t k s = (Inr (view s t k \<noteq> None), s)"
    and cache_set_taken: "view s t k \<noteq> None \<Longrightarrow> ic_set C t k v ex (Some False) s = (Inr False, s)"
    and cache_sets: "exist = None \<or> exist = Some False \<and> view s t k = None \<Longrightarrow>
          \<exists>s'. ic_set C t k v ex exist s = (Inr True, s')
             \<and> (\<forall>u k'. k' \<noteq> k \<longrightarrow> view s' u k' = view s u k')
             \<and> (\<forall>u \<ge> t. view s' u k = (case ex of None \<Rightarrow> Some v
                  | Some secs \<Rightarrow> if u < t + secs * 1000000 then Some v else None))"
    and cache_deletes: "\<exists>b s'. ic_delete C t k s = (Inr b, s')
             \<and> (\<forall>u k'. view s' u k' = (if k' = k then None else view s u k'))"
begin

text \<open>The two ways the program sets values: for ever, and for a while unless there is one.\<close>

lemma cache_put:
  "\<exists>s'. ic_set C t k v None None s = (Inr True, s') \<and> (\<forall>u \<ge> t. view s' u k = Some v)
    \<and> (\<forall>u k'. k' \<noteq> k \<longrightarrow> view s' u k' = view s u k')"
  using cache_sets [of None s t k v None] by auto

lemma cache_put_for:
  assumes "exist = None \<or> exist = Some False \<and> view s t k = None"
  shows "\<exists>s'. ic_set C t k v (Some secs) exist s = (Inr True, s')
    \<and> (\<forall>u \<ge> t. view s' u k = (if u < t + secs * 1000000 then Some v else None))
    \<and> (\<forall>u k'. k' \<noteq> k \<longrightarrow> view s' u k' = view s u k')"
  using cache_sets [OF assms, of v "Some secs"] by auto

lemma cache_delete:
  obtains b s' where "ic_delete C t k s = (Inr b, s')" "\<And>u k'. view s' u k' = (if k' = k then None else view s u k')"
  using cache_deletes by blast

text \<open>What was put is there, what was deleted is not.\<close>

lemma cache_put_get: "ic_set C t k v None None s = (Inr b, s') \<Longrightarrow> t \<le> u \<Longrightarrow> ic_get C u k s' = (Inr (Some v), s')"
  using cache_put [of t k v s] by (auto simp: cache_get)

lemma cache_delete_get: "ic_delete C t k s = (Inr b, s') \<Longrightarrow> ic_get C u k s' = (Inr None, s')"
  using cache_deletes [of t k s] by (auto simp: cache_get)

end

section \<open>Tokens\<close>

text \<open>A token decodes to the claims it was made of until its expiry has passed; a whole number of seconds
  is read as a time.\<close>

locale jwt_ok =
  fixes x :: ext
  assumes jwt_decode_encode: "map_of p ''exp'' = Some (JInt n) \<Longrightarrow>
        x_jwt_decode x t (x_jwt_encode x p) = (if n < t div 1000000 then None else Some p)"
    and jwt_claim_time: "0 \<le> n \<Longrightarrow> n \<le> 20000000000 \<Longrightarrow> x_claim_datetime x (JInt n) = Some (n * 1000000)"

text \<open>A token of the program is valid at a time, in whole seconds, up to its expiry.\<close>

definition not_expired :: "datetime \<Rightarrow> datetime \<Rightarrow> bool" where
  "not_expired expiry t \<longleftrightarrow> t div 1000000 \<le> expiry div 1000000"

definition claim_range :: "datetime \<Rightarrow> bool" where
  "claim_range expiry \<longleftrightarrow> 0 \<le> expiry \<and> expiry \<le> 20000000000 * 1000000"

context jwt_ok
begin

lemma access_decode_encode:
  assumes "claim_range (tk_exp t)"
  shows "access_decode x (access_encode x t) w =
    (if not_expired (tk_exp t) (w_now w)
     then (Inr (t\<lparr>tk_exp := tk_exp t div 1000000 * 1000000\<rparr>), w) else (Inl (TokenErr InvalidToken), w))"
proof -
  let ?p = "[(''sub'', JStr (tk_sub t)), (''exp'', claim_of_datetime (tk_exp t))]"
  have "x_jwt_decode x (w_now w) (x_jwt_encode x ?p)
      = (if tk_exp t div 1000000 < w_now w div 1000000 then None else Some ?p)"
    by (rule jwt_decode_encode [THEN trans]) (auto simp: claim_of_datetime_def)
  moreover have "x_claim_datetime x (claim_of_datetime (tk_exp t)) = Some (tk_exp t div 1000000 * 1000000)"
  proof -
    have "0 \<le> tk_exp t div 1000000" "tk_exp t div 1000000 \<le> 20000000000"
      using assms by (auto simp: claim_range_def)
    then show ?thesis by (simp add: jwt_claim_time claim_of_datetime_def)
  qed
  ultimately show ?thesis
    by (cases t) (auto simp: access_decode_def access_encode_def bnd_now of_result_def claim_str_def claim_time_def
        not_expired_def)
qed

lemma refresh_decode_encode:
  assumes "claim_range (rt_exp t)"
  shows "refresh_decode x (refresh_encode x t) w =
    (if not_expired (rt_exp t) (w_now w)
     then (Inr (t\<lparr>rt_exp := rt_exp t div 1000000 * 1000000\<rparr>), w) else (Inl (TokenErr InvalidToken), w))"
proof -
  let ?p = "[(''sub'', JStr (rt_sub t)), (''exp'', claim_of_datetime (rt_exp t)),
     (''family_id'', JStr (rt_family_id t)), (''token_id'', JStr (rt_token_id t))]"
  have "x_jwt_decode x (w_now w) (x_jwt_encode x ?p)
      = (if rt_exp t div 1000000 < w_now w div 1000000 then None else Some ?p)"
    by (rule jwt_decode_encode [THEN trans]) (auto simp: claim_of_datetime_def)
  moreover have "x_claim_datetime x (claim_of_datetime (rt_exp t)) = Some (rt_exp t div 1000000 * 1000000)"
  proof -
    have "0 \<le> rt_exp t div 1000000" "rt_exp t div 1000000 \<le> 20000000000"
      using assms by (auto simp: claim_range_def)
    then show ?thesis by (simp add: jwt_claim_time claim_of_datetime_def)
  qed
  ultimately show ?thesis
    by (cases t) (auto simp: refresh_decode_def refresh_encode_def bnd_now of_result_def claim_str_def claim_time_def
        not_expired_def)
qed

end

end
