(* ===== verification/Demo.thy ===== *)
theory Demo
  imports Example FileSystem Contracts
begin

text \<open>
  A concrete environment for the instances of properties that need one: \<open>FileSystemStorage\<close> for both
  storages, a cache that forgets what has expired, signed tokens that are readable texts, and simple
  functions in the place of the other libraries. The cache and the tokens keep the contracts of \<open>Contracts\<close>.
\<close>

section \<open>A cache\<close>

record demo_state = fs_state +
  dm_values :: "(string \<times> cache_value \<times> datetime option) list"

definition demo_view :: "demo_state \<Rightarrow> datetime \<Rightarrow> string \<Rightarrow> cache_value option" where
  "demo_view s t k = (case map_of (dm_values s) k of
       None \<Rightarrow> None
     | Some (v, None) \<Rightarrow> Some v
     | Some (v, Some limit) \<Rightarrow> if t < limit then Some v else None)"

definition demo_cache :: "demo_state icache" where
  "demo_cache = \<lparr>
     ic_get = (\<lambda>t k s. (Inr (demo_view s t k), s)),
     ic_set = (\<lambda>t k v ex exist s.
       if exist = Some False \<and> demo_view s t k \<noteq> None \<or> exist = Some True \<and> demo_view s t k = None
       then (Inr False, s)
       else (Inr True, s\<lparr>dm_values := (k, v, map_option (\<lambda>secs. t + secs * 1000000) ex) # dm_values s\<rparr>)),
     ic_exists = (\<lambda>t k s. (Inr (demo_view s t k \<noteq> None), s)),
     ic_delete = (\<lambda>t k s. (Inr (demo_view s t k \<noteq> None),
       s\<lparr>dm_values := filter (\<lambda>(k', _). k' \<noteq> k) (dm_values s)\<rparr>)) \<rparr>"

lemma map_of_filter_key: "map_of (filter (\<lambda>(k', _). k' \<noteq> k) xs) k' = (if k' = k then None else map_of xs k')"
  by (induction xs) auto

lemma demo_view_without:
  "demo_view (s\<lparr>dm_values := filter (\<lambda>(k', _). k' \<noteq> k) (dm_values s)\<rparr>) u k' = (if k' = k then None else demo_view s u k')"
  by (simp add: demo_view_def map_of_filter_key)

interpretation demo_cached: cache_ok demo_cache demo_view
  by unfold_locales (auto simp: demo_cache_def demo_view_without, auto simp: demo_view_def split: option.splits)

lemma demo_cache_ok: "cache_ok demo_cache demo_view"
  by (rule demo_cached.cache_ok_axioms)

section \<open>Tokens as texts\<close>

text \<open>Strings are written with an escape before every character, numbers in unary with their sign.\<close>

definition put_str :: "string \<Rightarrow> string" where
  "put_str s = concat (map (\<lambda>c. [CHR 0x01, c]) s) @ [CHR 0x00]"

fun get_str :: "string \<Rightarrow> string \<times> string" where
  "get_str (a # b # cs) = (if a = CHR 0x01 then (case get_str cs of (s, r) \<Rightarrow> (b # s, r)) else ([], b # cs))"
| "get_str cs = ([], [])"

lemma get_put_str: "get_str (put_str s @ r) = (s, r)"
  unfolding put_str_def by (induction s) (cases r; simp)+

definition put_int :: "int \<Rightarrow> string" where
  "put_int n = (if n < 0 then CHR ''-'' else CHR ''+'') # replicate (nat \<bar>n\<bar>) CHR 0x01 @ [CHR 0x00]"

definition get_int :: "string \<Rightarrow> int \<times> string" where
  "get_int cs = (let k = length (takeWhile (\<lambda>c. c = CHR 0x01) (tl cs))
     in (if hd cs = CHR ''-'' then - int k else int k, drop (Suc k) (tl cs)))"

lemma get_put_int: "get_int (put_int n @ r) = (n, r)"
proof -
  have "takeWhile (\<lambda>c. c = CHR 0x01) (replicate k CHR 0x01 @ CHR 0x00 # r) = replicate k CHR 0x01" for k
    by (induction k) auto
  then show ?thesis by (auto simp: get_int_def put_int_def)
qed

fun put_claims :: "(string \<times> claim) list \<Rightarrow> string" where
  "put_claims [] = []"
| "put_claims ((k, c) # p) = put_str k @ (case c of JStr s \<Rightarrow> ''s'' @ put_str s | JInt n \<Rightarrow> ''i'' @ put_int n)
     @ put_claims p"

fun get_claims :: "nat \<Rightarrow> string \<Rightarrow> (string \<times> claim) list" where
  "get_claims 0 cs = []"
| "get_claims (Suc n) cs = (if cs = [] then [] else
     (case get_str cs of (k, t # r) \<Rightarrow>
        (if t = CHR ''s'' then (case get_str r of (s, r') \<Rightarrow> (k, JStr s) # get_claims n r')
         else (case get_int r of (i, r') \<Rightarrow> (k, JInt i) # get_claims n r'))
      | (k, []) \<Rightarrow> []))"

lemma put_str_Cons: "\<exists>c cs. put_str s = c # cs"
  by (cases s) (auto simp: put_str_def)

lemma get_put_claims: "length p \<le> n \<Longrightarrow> get_claims n (put_claims p) = p"
proof (induction p arbitrary: n)
  case Nil
  then show ?case by (cases n) auto
next
  case (Cons a p)
  obtain k c where a: "a = (k, c)" by fastforce
  obtain m where n: "n = Suc m" "length p \<le> m" using Cons.prems by (cases n) auto
  show ?case
    using Cons.IH [OF n(2)] put_str_Cons [of k]
    by (cases c) (auto simp: a n(1) get_put_str get_put_int)
qed

lemma length_put_claims: "length p \<le> length (put_claims p)"
  by (induction p rule: put_claims.induct) (auto split: claim.split)

definition demo_jwt_decode :: "datetime \<Rightarrow> string \<Rightarrow> (string \<times> claim) list option" where
  "demo_jwt_decode t token = (let p = get_claims (length token) token in
     case map_of p ''exp'' of
       Some (JInt n) \<Rightarrow> if n < t div 1000000 then None else Some p
     | _ \<Rightarrow> None)"

section \<open>The environment\<close>

definition demo_ext :: ext where
  "demo_ext = \<lparr> x_sha256 = (\<lambda>b. take 1 b), x_guess_mime = (\<lambda>b. None), x_filetype_mimes = [],
     x_extension_mime = (\<lambda>s. None), x_posix_regex = (\<lambda>p s. False), x_time_tag = (\<lambda>t. ''1''),
     x_make_password = rev, x_check_password = (\<lambda>p h. h = rev p),
     x_image_open = (\<lambda>b. None), x_webp = (\<lambda>b w h q. b), x_gif_frames = (\<lambda>b n. b),
     x_pdf_box = (\<lambda>b n. (1, 1)), x_pdf_webp = (\<lambda>b n c s q. b), x_exif = (\<lambda>b. []),
     x_rational_str = (\<lambda>a b. []), x_strptime = (\<lambda>s. None), x_random = (\<lambda>n. n),
     x_jwt_encode = put_claims, x_jwt_decode = demo_jwt_decode,
     x_claim_datetime = (\<lambda>c. case c of JInt n \<Rightarrow> Some (n * 1000000) | JStr s \<Rightarrow> None),
     x_valid_email = (\<lambda>s. CHR 0x40 \<in> set s), x_nfkc = (\<lambda>s. s), x_nfkd_ascii = (\<lambda>s. s),
     x_date_dir = (\<lambda>t. ''2025/01/01'') \<rparr>"

interpretation demo_tokens: jwt_ok demo_ext
  by unfold_locales (auto simp: demo_ext_def demo_jwt_decode_def get_put_claims [OF length_put_claims])

lemma demo_jwt_ok: "jwt_ok demo_ext"
  by (rule demo_tokens.jwt_ok_axioms)

definition demo_features :: features where
  "demo_features = \<lparr> cfg_upload_max_size = 100, cfg_max_file_size_to_thumbnail = 50,
     cfg_thumbnail_sizes = [72], cfg_shared_links_enabled = True, cfg_sign_up_enabled = True,
     cfg_verification_required = False, cfg_quota = Some 10, cfg_access_token_ttl = 10000000,
     cfg_refresh_token_ttl = 20000000 \<rparr>"

definition demo_env :: "demo_state env" where
  "demo_env = \<lparr> e_ext = demo_ext, e_default = FileSystemStorage ''/srv/data'',
     e_media = FileSystemStorage ''/srv/media'', e_cache = demo_cache, e_features = demo_features \<rparr>"

definition demo_backend :: demo_state where
  "demo_backend = \<lparr> fs_root = Dir [(''srv'', Dir [(''data'', Dir []), (''media'', Dir [])])], fs_cwd = [],
     fs_clock = 5, fs_dir_stat = (\<lambda>_. (0, 0)), dm_values = [] \<rparr>"

text \<open>The world of \<open>alice\<close> and the empty one.\<close>

definition demo_world :: "demo_state world" where
  "demo_world = world_of alice_db demo_backend"

definition empty_world :: "demo_state world" where
  "empty_world = world_of empty_db demo_backend"

lemma demo_simps [simp]:
  "e_ext demo_env = demo_ext" "e_cache demo_env = demo_cache" "e_features demo_env = demo_features"
  "w_db demo_world = alice_db" "w_db empty_world = empty_db"
  by (simp_all add: demo_env_def demo_world_def empty_world_def)

end
