(* ===== verification/AuthProps.thy ===== *)
theory AuthProps
  imports ApiUsers Demo TableRules
begin

text \<open>
  Sessions: an identifier survives its textual form, an access token authenticates its owner until it
  expires, a refresh token can be used once, and signing in tells a wrong password from an unknown
  user in nothing.
\<close>

section \<open>Identifiers as strings\<close>

definition hex_char :: "char \<Rightarrow> bool" where
  "hex_char c \<longleftrightarrow> hex_val c \<noteq> None"

lemma hex_digit_facts:
  assumes "n < 16"
  shows "hex_val (hex_digit n) = Some n" "hex_char (hex_digit n)"
proof -
  show "hex_val (hex_digit n) = Some n"
    using assms by (auto simp: hex_val_def hex_digit_def)
  then show "hex_char (hex_digit n)" by (simp add: hex_char_def)
qed

lemma hex_char_neq:
  assumes "hex_char c"
  shows "c \<noteq> CHR 0x5F" "c \<noteq> CHR 0x2D" "c \<noteq> CHR 0x2B" "c \<noteq> CHR 0x7B" "c \<noteq> CHR 0x7D" "c \<noteq> CHR ''x''"
    "c \<noteq> CHR ''X''" "c \<noteq> CHR ''u''" "\<not> is_space c"
  using assms by (auto simp: hex_char_def hex_val_def is_space_def Let_def split: if_splits)

lemma hex_string_chars: "c \<in> set (hex_string k n) \<Longrightarrow> hex_char c"
  by (induction k arbitrary: n) (auto simp: hex_digit_facts)

lemma hex_digits_append:
  "\<forall>c \<in> set xs. hex_char c \<Longrightarrow> hex_digits b acc (xs @ ys)
     = hex_digits (b \<or> xs \<noteq> []) (foldl (\<lambda>a c. a * 16 + the (hex_val c)) acc xs) ys"
proof (induction xs arbitrary: b acc)
  case (Cons c xs)
  then obtain v where "hex_val c = Some v" by (auto simp: hex_char_def)
  then show ?case using Cons hex_char_neq [of c] by simp
qed simp

lemma foldl_hex_string:
  "foldl (\<lambda>a c. a * 16 + the (hex_val c)) acc (hex_string k n) = acc * 16 ^ k + n mod 16 ^ k"
proof (induction k arbitrary: n)
  case (Suc k)
  have "n mod 16 ^ Suc k = n mod 16 + 16 * (n div 16 mod 16 ^ k)"
    by (simp add: mod_mult2_eq)
  then show ?case using Suc.IH [of "n div 16"] by (simp add: hex_digit_facts algebra_simps)
qed simp

lemma hex_digits_string: "0 < k \<Longrightarrow> hex_digits b 0 (hex_string k n) = Some (n mod 16 ^ k)"
  using hex_digits_append [of "hex_string k n" b 0 "[]"] hex_string_chars [of _ k n]
  by (auto simp: foldl_hex_string simp del: length_greater_0_conv dest: arg_cong [of _ "[]" length])

lemma dropWhile_none: "\<forall>c \<in> set s. \<not> P c \<Longrightarrow> dropWhile P s = s"
  by (cases s) auto

lemma strip_chars_none: "\<forall>c \<in> set s. \<not> P c \<Longrightarrow> strip_chars P s = s"
  by (simp add: strip_chars_def dropWhile_none)

lemma hex_number_string:
  assumes "1 < k"
  shows "hex_number (hex_string k n) = Some (n mod 16 ^ k)"
proof -
  obtain c d cs where s: "hex_string k n = c # d # cs"
    using length_hex_string [of k n] assms by (cases "hex_string k n"; cases "tl (hex_string k n)") auto
  have "hex_char d" using hex_string_chars [of d k n] s by simp
  then have "d \<noteq> CHR ''x''" "d \<noteq> CHR ''X''" using hex_char_neq by auto
  then have "hex_number (hex_string k n) = hex_digits False 0 (hex_string k n)"
    unfolding hex_number_def s by (cases c) (auto split: bool.splits)
  then show ?thesis using hex_digits_string [of k False n] assms by simp
qed

lemma int_base16_string:
  assumes "1 < k"
  shows "int_base16 (hex_string k n) = Some (int (n mod 16 ^ k))"
proof -
  obtain c cs where s: "hex_string k n = c # cs"
    using length_hex_string [of k n] assms by (cases "hex_string k n") auto
  have "strip (hex_string k n) = hex_string k n"
    unfolding strip_def by (rule strip_chars_none) (use hex_string_chars hex_char_neq in blast)
  moreover have "c \<noteq> CHR 0x2D" "c \<noteq> CHR 0x2B" using hex_char_neq hex_string_chars [of c k n] s by auto
  ultimately have "int_base16 (hex_string k n) = map_option int (hex_number (hex_string k n))"
    unfolding int_base16_def by (simp add: s split: char.split bool.split)
  then show ?thesis using hex_number_string [OF assms] by simp
qed

lemma replace_all_none: "hd old \<notin> set s \<Longrightarrow> old \<noteq> [] \<Longrightarrow> replace_all old new s = s"
proof (induction s)
  case (Cons x xs)
  then have "\<not> prefix old (x # xs)" by (cases old) auto
  then show ?case using Cons by simp
qed simp

lemma filter_dash: "\<forall>c \<in> set s. hex_char c \<Longrightarrow> filter (\<lambda>c. c \<noteq> CHR 0x2D) s = s"
  by (simp add: filter_id_conv hex_char_neq)

lemma parse_uuid_str:
  assumes "u < 2 ^ 128"
  shows "parse_uuid (uuid_str u) = Some u"
proof -
  let ?h = "hex_string 32 u"
  have parts: "take 8 ?h @ take 4 (drop 8 ?h) @ take 4 (drop 12 ?h) @ take 4 (drop 16 ?h) @ drop 20 ?h = ?h"
    using append_take_drop_id [of 8 ?h] append_take_drop_id [of 4 "drop 8 ?h"]
      append_take_drop_id [of 4 "drop 12 ?h"] append_take_drop_id [of 4 "drop 16 ?h"]
    by (simp only: drop_drop numeral_plus_numeral arith_simps)
  have sub: "\<forall>c \<in> set (take i ?h). hex_char c" "\<forall>c \<in> set (drop i ?h). hex_char c"
    "\<forall>c \<in> set (take i (drop j ?h)). hex_char c" for i j
    using hex_string_chars by (meson in_set_takeD in_set_dropD)+
  have chars: "c \<in> set (uuid_str u) \<Longrightarrow> hex_char c \<or> c = CHR 0x2D" for c
    using sub by (auto simp: uuid_str_def Let_def)
  have no: "c \<notin> set (uuid_str u)" if "c \<in> {CHR ''u'', CHR 0x7B, CHR 0x7D}" for c
    using chars [of c] that hex_char_neq [of c] by auto
  have 1: "replace_all ''uuid:'' [] (replace_all ''urn:'' [] (uuid_str u)) = uuid_str u"
    using no [of "CHR ''u''"] by (simp add: replace_all_none)
  have 2: "strip_chars (\<lambda>c. c = CHR 0x7B \<or> c = CHR 0x7D) (uuid_str u) = uuid_str u"
    by (rule strip_chars_none) (use no in auto)
  have 3: "filter (\<lambda>c. c \<noteq> CHR 0x2D) (uuid_str u) = ?h"
    unfolding uuid_str_def Let_def by (simp add: filter_dash sub) (rule parts)
  have "u mod 16 ^ 32 = u" using assms by simp
  then show ?thesis
    unfolding parse_uuid_def 1 2 3 using int_base16_string [of 32 u] by simp
qed

section \<open>Access tokens\<close>

lemma token_create_Inr:
  assumes "cache_ok (e_cache E) view"
  shows "\<exists>w'. token_create E s w =
    (let access = \<lparr> tk_sub = s, tk_exp = w_now w + cfg_access_token_ttl (e_features E) \<rparr>;
         refresh = \<lparr> rt_sub = s, rt_exp = w_now w + cfg_refresh_token_ttl (e_features E),
           rt_family_id = hex_string 32 (x_random (e_ext E) (w_draws w)),
           rt_token_id = hex_string 32 (x_random (e_ext E) (Suc (w_draws w))) \<rparr>
     in (Inr \<lparr> tok_access = access_encode (e_ext E) access, tok_refresh = refresh_encode (e_ext E) refresh \<rparr>, w'))
    \<and> w_db w' = w_db w \<and> w_draws w' = Suc (Suc (w_draws w)) \<and> w_now w' = w_now w
    \<and> (\<forall>u \<ge> w_now w. view (w_cache w') u (hex_string 32 (x_random (e_ext E) (w_draws w)))
         = Some (CVStr (hex_string 32 (x_random (e_ext E) (Suc (w_draws w))))))"
proof -
  let ?f = "hex_string 32 (x_random (e_ext E) (w_draws w))"
  let ?v = "CVStr (hex_string 32 (x_random (e_ext E) (Suc (w_draws w))))"
  obtain c where c: "ic_set (e_cache E) (w_now w) ?f ?v None None (w_cache w) = (Inr True, c)"
    "\<forall>u \<ge> w_now w. view c u ?f = Some ?v"
    using cache_ok.cache_put [OF assms] by blast
  show ?thesis
    by (rule exI [of _ "w\<lparr>w_draws := Suc (Suc (w_draws w)), w_cache := c\<rparr>"])
       (use c in \<open>simp add: token_create_def access_build_def refresh_build_def token_hex_def bnd_def now_def
          gets_def ret_def draw_def in_cache_def\<close>)
qed

section \<open>Signing in\<close>

definition login_matches :: "ext \<Rightarrow> string \<Rightarrow> user_row \<Rightarrow> bool" where
  "login_matches x login r \<longleftrightarrow> (let l = strip (casefold login) in
     if x_valid_email x l then ur_email r = Some l else ur_username r = l)"

lemma filter_at_most_one:
  assumes "distinct (filter (\<lambda>y. y \<noteq> None) (map k t))"
  shows "filter (\<lambda>r. k r = Some l) t = [] \<or> (\<exists>r. filter (\<lambda>r. k r = Some l) t = [r])"
  using assms
proof (induction t)
  case (Cons a t)
  show ?case
  proof (cases "k a = Some l")
    case True
    then have "filter (\<lambda>r. k r = Some l) t = []" using Cons.prems by (force simp: filter_empty_conv)
    then show ?thesis using True by simp
  qed (use Cons in \<open>auto split: if_splits\<close>)
qed simp

lemma filter_key:
  assumes "distinct (map k t)" "r \<in> set t"
  shows "filter (\<lambda>x. k x = k r) t = [r]"
  using q_get_unique [OF assms, of "\<lambda>x. k x = k r"] by (simp add: q_get_Inr_iff)

lemma filter_key_at_most_one:
  assumes "distinct (map k t)"
  shows "filter (\<lambda>x. k x = v) t = [] \<or> (\<exists>r. filter (\<lambda>x. k x = v) t = [r])"
  using filter_key [OF assms] by (cases "\<exists>r \<in> set t. k r = v") (auto simp: filter_empty_conv)

lemma login_unique:
  assumes "users_ok d"
  shows "filter (login_matches x login) (d_users d) = [] \<or> (\<exists>r. filter (login_matches x login) (d_users d) = [r])"
proof -
  have "distinct (map ur_username (d_users d))" "distinct (filter (\<lambda>e. e \<noteq> None) (map ur_email (d_users d)))"
    using assms by (auto simp: users_ok_def)
  then show ?thesis
    using filter_at_most_one [of ur_email "d_users d"] filter_key_at_most_one [of ur_username "d_users d"]
    by (cases "x_valid_email x (strip (casefold login))")
       (simp_all add: login_matches_def [of x login, abs_def] Let_def)
qed

text \<open>The time of the sign-in is written to the row of the user, which stays where it is.\<close>

definition signed_in :: "uuid \<Rightarrow> datetime \<Rightarrow> db \<Rightarrow> db" where
  "signed_in i t d = d\<lparr>d_users := q_update (\<lambda>r. ur_id r = i) (\<lambda>r. r\<lparr>ur_last_login_at := Some t\<rparr>) (d_users d)\<rparr>"

lemma user_update_login:
  assumes "users_ok d" "r \<in> set (d_users d)"
  shows "\<exists>u. user_update (ur_id r) \<lparr> uu_email = None, uu_email_verified = None, uu_last_login_at = Some t \<rparr> d
     = (Inr u, signed_in (ur_id r) t d)"
    and "filter (\<lambda>q. ur_id q = ur_id r) (d_users (signed_in (ur_id r) t d)) = [r\<lparr>ur_last_login_at := Some t\<rparr>]"
proof -
  let ?f = "\<lambda>r. r\<lparr>ur_last_login_at := Some t\<rparr>"
  let ?us = "q_update (\<lambda>q. ur_id q = ur_id r) ?f (d_users d)"
  have ids: "distinct (map ur_id (d_users d))" using assms(1) by (simp add: users_ok_def ids_below_def)
  have one: "filter (\<lambda>q. ur_id q = ur_id r) (d_users d) = [r]"
    by (rule filter_key [OF ids assms(2)])
  have upd: "filter (\<lambda>q. ur_id q = i) (q_update (\<lambda>q. ur_id q = i) ?f us) = map ?f (filter (\<lambda>q. ur_id q = i) us)" for i us
    by (induction us) (auto simp: q_update_def)
  show 2: "filter (\<lambda>q. ur_id q = ur_id r) (d_users (signed_in (ur_id r) t d)) = [?f r]"
    by (simp add: signed_in_def upd one)
  have f: "apply_user_update \<lparr> uu_email = None, uu_email_verified = None, uu_last_login_at = Some t \<rparr> = ?f"
    by (simp add: apply_user_update_def fun_eq_iff)
  have "map ur_email ?us = map ur_email (d_users d)" by (simp add: map_q_update)
  then have "distinct (filter (\<lambda>e. e \<noteq> None) (map ur_email ?us))" using assms(1) by (simp add: users_ok_def)
  then show "\<exists>u. user_update (ur_id r) \<lparr> uu_email = None, uu_email_verified = None, uu_last_login_at = Some t \<rparr> d
     = (Inr u, signed_in (ur_id r) t d)"
    using 2 unfolding user_update_def f
    by (simp add: guard_def ret_def update_users_def andthen_def bnd_def query_def q_get_def signed_in_def Let_def)
qed

lemma user_get_run:
  "user_get P d = ((case q_get P (d_users d) of Inr r \<Rightarrow> Inr (user_from_db r)
     | Inl DoesNotExist \<Rightarrow> Inl (UserErr UserNotFound) | Inl e \<Rightarrow> Inl (QueryErr e)), d)"
  by (auto simp: user_get_def query_def or_missing_def split: sum.split query_error.split)

lemma user_signin_run:
  assumes "users_ok (w_db w)"
  shows "(\<nexists>r. r \<in> set (d_users (w_db w)) \<and> login_matches (e_ext E) login r)
       \<Longrightarrow> user_signin E login password w = (Inl (UserErr UserNotFound), w)"
    and "r \<in> set (d_users (w_db w)) \<Longrightarrow> login_matches (e_ext E) login r
       \<Longrightarrow> user_signin E login password w =
         (if x_check_password (e_ext E) password (ur_password r)
          then (Inr (user_from_db r), w\<lparr>w_db := signed_in (ur_id r) (w_now w) (w_db w)\<rparr>)
          else (Inl (UserErr InvalidCredentials), w))"
proof -
  let ?l = "strip (casefold login)"
  let ?get = "if x_valid_email (e_ext E) ?l then user_get_by_email ?l else user_get_by_username ?l"
  have get: "?get = user_get (login_matches (e_ext E) login)"
    by (simp add: login_matches_def [of _ login, abs_def] user_get_by_email_def user_get_by_username_def Let_def)
  show "user_signin E login password w = (Inl (UserErr UserNotFound), w)"
    if "\<nexists>r. r \<in> set (d_users (w_db w)) \<and> login_matches (e_ext E) login r"
  proof -
    have "q_get (login_matches (e_ext E) login) (d_users (w_db w)) = Inl DoesNotExist"
      using that by (auto simp: q_get_missing_iff)
    then show ?thesis
      unfolding user_signin_def Let_def get by (simp add: bnd_def in_db_def user_get_run)
  qed
  show "user_signin E login password w =
         (if x_check_password (e_ext E) password (ur_password r)
          then (Inr (user_from_db r), w\<lparr>w_db := signed_in (ur_id r) (w_now w) (w_db w)\<rparr>)
          else (Inl (UserErr InvalidCredentials), w))"
    if r: "r \<in> set (d_users (w_db w))" "login_matches (e_ext E) login r"
  proof -
    have "r \<in> set (filter (login_matches (e_ext E) login) (d_users (w_db w)))" using r by simp
    then have "filter (login_matches (e_ext E) login) (d_users (w_db w)) = [r]"
      using login_unique [OF assms, of "e_ext E" login] by (metis empty_iff empty_set set_ConsD)
    then have "q_get (login_matches (e_ext E) login) (d_users (w_db w)) = Inr r" by (simp add: q_get_Inr_iff)
    moreover have "u_password (user_from_db r) = ur_password r" "u_id (user_from_db r) = ur_id r"
      by (simp_all add: user_from_db_def)
    ultimately show ?thesis
      using user_update_login(1) [OF assms r(1), of "w_now w"]
      unfolding user_signin_def Let_def get
      by (auto simp: bnd_def in_db_def user_get_run now_def gets_def andthen_def guard_def ret_def raise_def)
  qed
qed

lemma auth_signin_refused:
  assumes "users_ok (w_db w)"
    and "\<nexists>r. r \<in> set (d_users (w_db w)) \<and> login_matches (e_ext E) login r
           \<and> x_check_password (e_ext E) password (ur_password r)"
  shows "auth_signin E login password w = (Inl (UserErr InvalidCredentials), w)"
proof (cases "\<exists>r. r \<in> set (d_users (w_db w)) \<and> login_matches (e_ext E) login r")
  case True
  then obtain r where r: "r \<in> set (d_users (w_db w))" "login_matches (e_ext E) login r" by blast
  with assms(2) have "\<not> x_check_password (e_ext E) password (ur_password r)" by blast
  then show ?thesis
    using user_signin_run(2) [OF assms(1) r] by (simp add: auth_signin_def bnd_def try_else_def raise_def)
next
  case False
  then show ?thesis
    using user_signin_run(1) [OF assms(1), of E login password]
    by (simp add: auth_signin_def bnd_def try_else_def raise_def)
qed

lemma auth_signin_accepted:
  assumes "users_ok (w_db w)" "cache_ok (e_cache E) view"
    and r: "r \<in> set (d_users (w_db w))" "login_matches (e_ext E) login r"
      "x_check_password (e_ext E) password (ur_password r)"
  shows "\<exists>toks w'. auth_signin E login password w = (Inr toks, w')
    \<and> tok_access toks = access_encode (e_ext E)
         \<lparr> tk_sub = uuid_str (ur_id r), tk_exp = w_now w + cfg_access_token_ttl (e_features E) \<rparr>
    \<and> w_db w' = signed_in (ur_id r) (w_now w) (w_db w)"
proof -
  let ?w = "w\<lparr>w_db := signed_in (ur_id r) (w_now w) (w_db w),
     w_tasks := w_tasks w @ [(w_user w, Task_user_signed_in (user_from_db r))]\<rparr>"
  obtain w' where "token_create E (uuid_str (ur_id r)) ?w =
    (let access = \<lparr> tk_sub = uuid_str (ur_id r), tk_exp = w_now ?w + cfg_access_token_ttl (e_features E) \<rparr>;
         refresh = \<lparr> rt_sub = uuid_str (ur_id r), rt_exp = w_now ?w + cfg_refresh_token_ttl (e_features E),
           rt_family_id = hex_string 32 (x_random (e_ext E) (w_draws ?w)),
           rt_token_id = hex_string 32 (x_random (e_ext E) (Suc (w_draws ?w))) \<rparr>
     in (Inr \<lparr> tok_access = access_encode (e_ext E) access, tok_refresh = refresh_encode (e_ext E) refresh \<rparr>, w'))"
    "w_db w' = w_db ?w"
    using token_create_Inr [OF assms(2), of "uuid_str (ur_id r)" ?w] by blast
  moreover have "u_id (user_from_db r) = ur_id r" by (simp add: user_from_db_def)
  ultimately show ?thesis
    using user_signin_run(2) [OF assms(1) r(1,2), of password] r(3)
    by (simp add: auth_signin_def bnd_def try_else_def andthen_def schedule_def modify_def Let_def)
qed

text \<open>C12: Whoever signs in gave the password of a user with that name or email, and the access token authenticates
  requests as this user, at any later time until it expires; after that it is refused.\<close>

theorem sign_in_authenticates:
  fixes A :: "'b api_env" and w v w' :: "'b world"
  assumes "jwt_ok (e_ext (a_env A))" "cache_ok (e_cache (a_env A)) view"
    and "db_ok (w_db w)" "d_next (w_db w) \<le> 2 ^ 128"
    and "expiry = w_now w + cfg_access_token_ttl (e_features (a_env A))" "claim_range expiry"
    and run: "view_sign_in A login password w = (Inr toks, w')" "w_db v = w_db w'"
  shows "\<exists>r \<in> set (d_users (w_db w)). login_matches (e_ext (a_env A)) login r
    \<and> x_check_password (e_ext (a_env A)) password (ur_password r)
    \<and> request_user A (Some (tok_access toks)) v =
       (if not_expired expiry (w_now v)
        then (Inr (user_from_db (r\<lparr>ur_last_login_at := Some (w_now w)\<rparr>)), v)
        else (Inl (ApiErr AE_InvalidToken), v))"
proof -
  let ?E = "a_env A"
  have users: "users_ok (w_db w)" using assms(3) by (simp add: db_ok_def)
  obtain r where r: "r \<in> set (d_users (w_db w))" "login_matches (e_ext ?E) login r"
    "x_check_password (e_ext ?E) password (ur_password r)"
    using run(1) auth_signin_refused [OF users, of ?E login password]
    by (auto simp: view_sign_in_def catching_def split: prod.splits sum.splits)
  from auth_signin_accepted [OF users assms(2) r]
  have toks: "tok_access toks = access_encode (e_ext ?E) \<lparr> tk_sub = uuid_str (ur_id r), tk_exp = expiry \<rparr>"
    and db: "w_db v = signed_in (ur_id r) (w_now w) (w_db w)"
    using run assms(5) by (auto simp: view_sign_in_def catching_def)
  have "ur_id r < 2 ^ 128" using users r(1) assms(4) by (auto simp: users_ok_def ids_below_def)
  then have uuid: "parse_uuid (uuid_str (ur_id r)) = Some (ur_id r)" by (rule parse_uuid_str)
  have "q_get (\<lambda>q. ur_id q = ur_id r) (d_users (w_db v)) = Inr (r\<lparr>ur_last_login_at := Some (w_now w)\<rparr>)"
    using user_update_login(2) [OF users r(1)] by (simp add: db q_get_Inr_iff)
  then have "user_service_get_by_id (ur_id r) v = (Inr (user_from_db (r\<lparr>ur_last_login_at := Some (w_now w)\<rparr>)), v)"
    by (simp add: user_service_get_by_id_def user_get_by_id_def in_db_def user_get_run)
  then have "request_user A (Some (tok_access toks)) v =
       (if not_expired expiry (w_now v)
        then (Inr (user_from_db (r\<lparr>ur_last_login_at := Some (w_now w)\<rparr>)), v)
        else (Inl (ApiErr AE_InvalidToken), v))"
    using jwt_ok.access_decode_encode [OF assms(1), of "\<lparr> tk_sub = uuid_str (ur_id r), tk_exp = expiry \<rparr>" v] assms(6) uuid
    by (simp add: request_user_def token_payload_def toks catching_def bnd_def on_errors_def)
  with r show ?thesis by blast
qed

definition demo_api :: "demo_state api_env" where
  "demo_api = \<lparr> a_env = demo_env, a_url_for = (\<lambda>name arg. name @ ''/'' @ arg), a_rate_limit = (\<lambda>k n. ret ()),
     a_disk_get = (\<lambda>k. ret None), a_disk_set = (\<lambda>k r ttl. ret ()), a_job_id = (\<lambda>w. ''job''),
     a_job_result = (\<lambda>i. None) \<rparr>"

lemma alice_db_ok: "db_ok alice_db"
  using alice_db_wf
  by (simp add: db_ok_def users_ok_def links_ok_def photos_ok_def example_defs ids_below_def has_user_def)

theorem sign_in_authenticates_witness:
  "\<exists>toks w' r. view_sign_in demo_api '' Alice'' ''wp'' demo_world = (Inr toks, w')
     \<and> request_user demo_api (Some (tok_access toks)) (w'\<lparr>w_now := 7000000\<rparr>)
         = (Inr (user_from_db r), w'\<lparr>w_now := 7000000\<rparr>)
     \<and> request_user demo_api (Some (tok_access toks)) (w'\<lparr>w_now := 11000000\<rparr>)
         = (Inl (ApiErr AE_InvalidToken), w'\<lparr>w_now := 11000000\<rparr>)"
proof -
  let ?r = "view_sign_in demo_api '' Alice'' ''wp'' demo_world"
  have A: "a_env demo_api = demo_env" by (simp add: demo_api_def)
  have "login_matches demo_ext '' Alice'' alice_row" "x_check_password demo_ext ''wp'' (ur_password alice_row)"
    by code_simp+
  moreover have "users_ok alice_db" using alice_db_ok by (simp add: db_ok_def)
  ultimately obtain toks w' where run: "?r = (Inr toks, w')"
    using auth_signin_accepted [of demo_world demo_env demo_view alice_row "'' Alice''" "''wp''"]
    by (auto simp: demo_cache_ok A view_sign_in_def catching_def alice_db_def)
  have T: "10000000 = w_now demo_world + cfg_access_token_ttl (e_features (a_env demo_api))"
    by (simp add: A demo_world_def world_of_def demo_features_def)
  have N: "d_next (w_db demo_world) \<le> 2 ^ 128" by (simp add: example_defs)
  have C: "claim_range 10000000" by (simp add: claim_range_def)
  have *: "\<exists>r. request_user demo_api (Some (tok_access toks)) v =
       (if not_expired 10000000 (w_now v) then (Inr (user_from_db r), v) else (Inl (ApiErr AE_InvalidToken), v))"
    if "w_db v = w_db w'" for v
    using sign_in_authenticates [OF _ _ _ N T C run that, of demo_view]
    by (auto simp: A demo_jwt_ok demo_cache_ok alice_db_ok)
  from * [of "w'\<lparr>w_now := 7000000\<rparr>"] * [of "w'\<lparr>w_now := 11000000\<rparr>"]
  show ?thesis by (auto simp: run not_expired_def)
qed

text \<open>C13: Signing in with an unknown name or with a wrong password is refused with the same error, and leaves the
  state as it was.\<close>

theorem sign_in_refuses:
  fixes A :: "'b api_env" and w :: "'b world"
  assumes "db_ok (w_db w)"
    and "\<nexists>r. r \<in> set (d_users (w_db w)) \<and> login_matches (e_ext (a_env A)) login r
           \<and> x_check_password (e_ext (a_env A)) password (ur_password r)"
  shows "view_sign_in A login password w = (Inl (ApiErr AE_InvalidCredentials), w)"
  using auth_signin_refused [of w "a_env A" login password] assms
  by (simp add: db_ok_def view_sign_in_def catching_def on_errors_def)

theorem sign_in_refuses_witness:
  "view_sign_in demo_api ''alice'' ''pw'' demo_world = (Inl (ApiErr AE_InvalidCredentials), demo_world)
   \<and> view_sign_in demo_api ''bob'' ''wp'' demo_world = (Inl (ApiErr AE_InvalidCredentials), demo_world)"
proof -
  have A: "a_env demo_api = demo_env" by (simp add: demo_api_def)
  have D: "db_ok (w_db demo_world)" by (simp add: alice_db_ok)
  have pw: "\<not> x_check_password demo_ext ''pw'' (ur_password alice_row)" by code_simp
  have bob: "\<not> login_matches demo_ext ''bob'' alice_row" by code_simp
  have one: "d_users alice_db = [alice_row]" by (simp add: alice_db_def)
  show ?thesis
    using sign_in_refuses [OF D, of demo_api "''alice''" "''pw''"] sign_in_refuses [OF D, of demo_api "''bob''" "''wp''"]
    by (auto simp: A one pw bob)
qed

section \<open>Refresh tokens\<close>

text \<open>A rotation by the token the cache knows of the family gives a new token; any other token of the
  family revokes the family; a token of a family the cache does not know is refused.\<close>

lemma token_rotate_run:
  fixes v :: "'b world"
  assumes "jwt_ok (e_ext E)" "cache_ok (e_cache E) view" "claim_range (rt_exp t)" "not_expired (rt_exp t) (w_now v)"
  defines "known \<equiv> view (w_cache v) (w_now v) (rt_family_id t)"
    and "fresh \<equiv> hex_string 32 (x_random (e_ext E) (w_draws v))"
  shows "known = None \<Longrightarrow> fst (token_rotate E (refresh_encode (e_ext E) t) v) = Inl (TokenErr InvalidToken)"
    and "known \<noteq> None \<Longrightarrow> known \<noteq> Some (CVStr (rt_token_id t)) \<Longrightarrow>
      \<exists>v'. token_rotate E (refresh_encode (e_ext E) t) v = (Inl (TokenErr ReusedToken), v')
        \<and> (\<forall>u. view (w_cache v') u (rt_family_id t) = None)"
    and "known = Some (CVStr (rt_token_id t)) \<Longrightarrow>
      \<exists>toks v'. token_rotate E (refresh_encode (e_ext E) t) v = (Inr toks, v')
        \<and> tok_refresh toks = refresh_encode (e_ext E) (t\<lparr>rt_exp := rt_exp t div 1000000 * 1000000, rt_token_id := fresh\<rparr>)
        \<and> (\<forall>u \<ge> w_now v. view (w_cache v') u (rt_family_id t) = Some (CVStr fresh))"
proof -
  let ?enc = "refresh_encode (e_ext E) t"
  let ?t = "t\<lparr>rt_exp := rt_exp t div 1000000 * 1000000\<rparr>"
  have dec: "refresh_decode (e_ext E) ?enc v = (Inr ?t, v)"
    using jwt_ok.refresh_decode_encode [OF assms(1,3), of v] assms(4) by simp
  have get: "ic_get (e_cache E) (w_now v) (rt_family_id t) (w_cache v) = (Inr known, w_cache v)"
    unfolding known_def by (rule cache_ok.cache_get [OF assms(2)])
  note run = token_rotate_def bnd_def dec access_build_def now_def gets_def ret_def in_cache_def get raise_def
    refresh_rotate_def token_hex_def draw_def
  show "fst (token_rotate E ?enc v) = Inl (TokenErr InvalidToken)" if "known = None"
    using that by (simp add: run)
  show "\<exists>v'. token_rotate E ?enc v = (Inl (TokenErr ReusedToken), v') \<and> (\<forall>u. view (w_cache v') u (rt_family_id t) = None)"
    if known: "known \<noteq> None" "known \<noteq> Some (CVStr (rt_token_id t))"
  proof -
    obtain k where k: "known = Some k" "k \<noteq> CVStr (rt_token_id t)" using known by auto
    obtain b c where "ic_delete (e_cache E) (w_now v) (rt_family_id t) (w_cache v) = (Inr b, c)"
      "\<And>u. view c u (rt_family_id t) = None"
      using cache_ok.cache_delete [OF assms(2)] by metis
    then show ?thesis using k by (intro exI [of _ "v\<lparr>w_cache := c\<rparr>"]) (simp add: run)
  qed
  show "\<exists>toks v'. token_rotate E ?enc v = (Inr toks, v')
        \<and> tok_refresh toks = refresh_encode (e_ext E) (t\<lparr>rt_exp := rt_exp t div 1000000 * 1000000, rt_token_id := fresh\<rparr>)
        \<and> (\<forall>u \<ge> w_now v. view (w_cache v') u (rt_family_id t) = Some (CVStr fresh))"
    if known: "known = Some (CVStr (rt_token_id t))"
  proof -
    obtain c where "ic_set (e_cache E) (w_now v) (rt_family_id t) (CVStr fresh) None None (w_cache v) = (Inr True, c)"
      "\<forall>u \<ge> w_now v. view c u (rt_family_id t) = Some (CVStr fresh)"
      using cache_ok.cache_put [OF assms(2)] by blast
    then show ?thesis using known
      by (auto simp: run fresh_def)
  qed
qed

lemma expiry_rounded [simp]:
  "not_expired (t div 1000000 * 1000000) = not_expired t"
  "claim_range t \<Longrightarrow> claim_range (t div 1000000 * 1000000)"
  by (auto simp: not_expired_def fun_eq_iff claim_range_def)

text \<open>C14: A refresh token can be used once. Its first use returns a new pair of tokens; using it again is refused, and
  revokes the whole family: the token the first use returned is refused too.\<close>

theorem refresh_used_once:
  fixes w v1 v2 v3 :: "'b world"
  assumes "jwt_ok (e_ext E)" "cache_ok (e_cache E) view"
    and "token_create E s w = (Inr t1, w1)"
    and "expiry = w_now w + cfg_refresh_token_ttl (e_features E)" "claim_range expiry"
    and "hex_string 32 (x_random (e_ext E) (w_draws v1)) \<noteq> hex_string 32 (x_random (e_ext E) (Suc (w_draws w)))"
    and "w_cache v1 = w_cache w1" "w_cache v2 = w_cache (snd (token_rotate E (tok_refresh t1) v1))"
      "w_cache v3 = w_cache (snd (token_rotate E (tok_refresh t1) v2))"
    and "w_now w \<le> w_now v1" "w_now v1 \<le> w_now v2"
    and "not_expired expiry (w_now v1)" "not_expired expiry (w_now v2)" "not_expired expiry (w_now v3)"
  shows "\<exists>t2. fst (token_rotate E (tok_refresh t1) v1) = Inr t2
    \<and> fst (token_rotate E (tok_refresh t1) v2) = Inl (TokenErr ReusedToken)
    \<and> fst (token_rotate E (tok_refresh t2) v3) = Inl (TokenErr InvalidToken)"
proof -
  define t where "t = \<lparr> rt_sub = s, rt_exp = expiry, rt_family_id = hex_string 32 (x_random (e_ext E) (w_draws w)),
    rt_token_id = hex_string 32 (x_random (e_ext E) (Suc (w_draws w))) \<rparr>"
  have t: "rt_exp t = expiry" by (simp add: t_def)
  have t1: "tok_refresh t1 = refresh_encode (e_ext E) t"
    and c1: "view (w_cache v1) (w_now v1) (rt_family_id t) = Some (CVStr (rt_token_id t))"
    using token_create_Inr [OF assms(2), of s w] assms(3,4,7,10) by (auto simp: t_def Let_def)
  let ?fresh = "hex_string 32 (x_random (e_ext E) (w_draws v1))"
  let ?t2 = "t\<lparr>rt_exp := expiry div 1000000 * 1000000, rt_token_id := ?fresh\<rparr>"
  obtain t2 where r1: "fst (token_rotate E (tok_refresh t1) v1) = Inr t2" "tok_refresh t2 = refresh_encode (e_ext E) ?t2"
    and c2: "view (w_cache v2) (w_now v2) (rt_family_id t) = Some (CVStr ?fresh)"
    using token_rotate_run(3) [OF assms(1,2), of t v1] assms(5,8,11,12) c1 t t1 by auto
  have "?fresh \<noteq> rt_token_id t" using assms(6) by (simp add: t_def)
  then have r2: "fst (token_rotate E (tok_refresh t1) v2) = Inl (TokenErr ReusedToken)"
    and c3: "view (w_cache v3) (w_now v3) (rt_family_id t) = None"
    using token_rotate_run(2) [OF assms(1,2), of t v2] assms(5,9,13) c2 t t1 by auto
  have "fst (token_rotate E (tok_refresh t2) v3) = Inl (TokenErr InvalidToken)"
    using token_rotate_run(1) [OF assms(1,2), of ?t2 v3] assms(5,14) c3 r1(2) by simp
  with r1 r2 show ?thesis by blast
qed

theorem refresh_used_once_witness:
  "\<exists>t1 t2 v1 v2 v3. token_create demo_env ''1'' demo_world = (Inr t1, v1)
    \<and> token_rotate demo_env (tok_refresh t1) v1 = (Inr t2, v2)
    \<and> token_rotate demo_env (tok_refresh t1) v2 = (Inl (TokenErr ReusedToken), v3)
    \<and> fst (token_rotate demo_env (tok_refresh t2) v3) = Inl (TokenErr InvalidToken)"
proof -
  obtain t1 v1 where w: "token_create demo_env ''1'' demo_world = (Inr t1, v1)" "w_draws v1 = 2" "w_now v1 = 0"
    using token_create_Inr [of demo_env demo_view "''1''" demo_world] demo_cache_ok
    by (auto simp: Let_def demo_world_def world_of_def)
  have now: "w_now (snd (token_rotate E x v)) = w_now v" for E x and v :: "demo_state world"
    by (auto simp: token_rotate_def bnd_def refresh_decode_def access_build_def now_def gets_def of_result_def ret_def
        in_cache_def raise_def refresh_rotate_def token_hex_def draw_def split: sum.split prod.split option.split)
  let ?v2 = "snd (token_rotate demo_env (tok_refresh t1) v1)"
  let ?v3 = "snd (token_rotate demo_env (tok_refresh t1) ?v2)"
  have "hex_string 32 2 \<noteq> hex_string 32 1" by code_simp
  then obtain t2 where "fst (token_rotate demo_env (tok_refresh t1) v1) = Inr t2"
    "fst (token_rotate demo_env (tok_refresh t1) ?v2) = Inl (TokenErr ReusedToken)"
    "fst (token_rotate demo_env (tok_refresh t2) ?v3) = Inl (TokenErr InvalidToken)"
    using refresh_used_once [of demo_env demo_view "''1''" demo_world t1 v1 20000000 v1 ?v2 ?v3] w demo_cache_ok demo_jwt_ok
    by (auto simp: now demo_features_def claim_range_def not_expired_def demo_ext_def demo_world_def world_of_def)
  then show ?thesis using w(1) by (metis surjective_pairing)
qed

end
