(* ===== verification/Pages.thy ===== *)
theory Pages
  imports Prelude
begin

text \<open>
  Loops that read page after page at a growing offset while they take the rows of each page out of what
  they read: every second page is never seen. \<open>odd_pages\<close> is what such a loop leaves.
\<close>

lemma filter_page:
  assumes "distinct (map f R)"
  shows "filter (\<lambda>r. f r \<notin> f ` set (take n (drop off R))) R = take off R @ drop n (drop off R)"
proof -
  let ?A = "take off R" and ?B = "take n (drop off R)" and ?C = "drop n (drop off R)"
  have R: "R = ?A @ ?B @ ?C" by (metis append_take_drop_id)
  then have "distinct (map f ?A @ map f ?B @ map f ?C)" using assms by (metis map_append)
  then have "f ` set ?A \<inter> f ` set ?B = {}" "f ` set ?C \<inter> f ` set ?B = {}" by auto
  then have "filter (\<lambda>r. f r \<notin> f ` set ?B) ?A = ?A" "filter (\<lambda>r. f r \<notin> f ` set ?B) ?C = ?C"
    "filter (\<lambda>r. f r \<notin> f ` set ?B) ?B = []"
    by (auto simp: filter_id_conv filter_empty_conv)
  then have "filter (\<lambda>r. f r \<notin> f ` set ?B) (?A @ ?B @ ?C) = ?A @ ?C" by (simp only: filter_append append_Nil)
  then show ?thesis by (subst (2) R)
qed

text \<open>What is left of a list when every page at an even position is removed.\<close>

definition odd_pages :: "nat \<Rightarrow> 'r list \<Rightarrow> 'r list" where
  "odd_pages n R = nths R {i. odd (i div n)}"

lemma odd_pages_first: "odd_pages n (take n X) = []"
proof (cases "n = 0")
  case False
  then have "set (odd_pages n (take n X)) = {}" by (auto simp: odd_pages_def set_nths)
  then show ?thesis by simp
qed (simp add: odd_pages_def)

lemma odd_pages_step:
  assumes "0 < n"
  shows "odd_pages n X = take n (drop n X) @ odd_pages n (drop (2 * n) X)"
proof (cases "length X \<le> n")
  case True
  then show ?thesis using odd_pages_first [of n X] by (simp add: odd_pages_def)
next
  case False
  let ?S = "{i. odd (i div n)}" and ?B = "take n (drop n X)"
  have X: "X = take n X @ ?B @ drop (2 * n) X" by (metis append_take_drop_id drop_drop mult_2)
  have len: "length (take n X) = n" using False by simp
  have "nths ?B {j. j + n \<in> ?S} = ?B"
  proof -
    have "odd ((j + n) div n)" if "j < length ?B" for j using that assms by (simp add: div_add_self2)
    then show ?thesis by (intro nths_all) auto
  qed
  moreover have "nths (drop (2 * n) X) {j. j + length ?B + n \<in> ?S} = odd_pages n (drop (2 * n) X)"
  proof (cases "2 * n \<le> length X")
    case True
    moreover have "(j + n + n) div n = Suc (Suc (j div n))" for j using assms by (simp add: div_add_self2)
    ultimately have "{j. j + length ?B + n \<in> ?S} = ?S" by simp
    then show ?thesis by (simp add: odd_pages_def)
  qed (simp add: odd_pages_def)
  moreover have "nths (take n X) ?S = []" using odd_pages_first [of n X] by (simp add: odd_pages_def)
  moreover have "nths (take n X @ ?B @ drop (2 * n) X) ?S =
      nths (take n X) ?S @ nths ?B {j. j + n \<in> ?S} @ nths (drop (2 * n) X) {j. j + length ?B + n \<in> ?S}"
    unfolding nths_append len by (simp only: mem_Collect_eq)
  ultimately have "nths (take n X @ ?B @ drop (2 * n) X) ?S = ?B @ odd_pages n (drop (2 * n) X)"
    by (simp only: append_Nil)
  then show ?thesis unfolding odd_pages_def [of n X] by (simp only: X [symmetric])
qed

lemma odd_pages_empty_iff: "0 < n \<Longrightarrow> odd_pages n X = [] \<longleftrightarrow> length X \<le> n"
  using odd_pages_step [of n X] odd_pages_first [of n X] by (cases "length X \<le> n") auto

text \<open>
  The contract of such a loop: it stops behind the last row, a page is taken out of \<open>rows\<close>, and the loop goes on at
  the next offset or ends where the page was not full. \<open>changed\<close> is what the pages do to the rest of the state.
\<close>

locale offset_loop =
  fixes loop :: "nat \<Rightarrow> nat \<Rightarrow> nat \<Rightarrow> 's \<Rightarrow> ('e + unit option) \<times> 's"
    and rows :: "'s \<Rightarrow> 'r list"
    and ok :: "'s \<Rightarrow> bool"
    and changed :: "'s \<Rightarrow> 's \<Rightarrow> bool"
  assumes changed_refl: "changed s s"
    and changed_trans: "changed s t \<Longrightarrow> changed t u \<Longrightarrow> changed s u"
    and loop_behind: "ok s \<Longrightarrow> 0 < n \<Longrightarrow> length (rows s) \<le> off \<Longrightarrow> loop (Suc k) n off s = (Inr (Some ()), s)"
    and loop_page: "ok s \<Longrightarrow> 0 < n \<Longrightarrow> off < length (rows s) \<Longrightarrow>
         \<exists>t. ok t \<and> changed s t \<and> rows t = take off (rows s) @ drop n (drop off (rows s))
           \<and> (loop (Suc k) n off s = loop k n (off + n) t
              \<or> loop (Suc k) n off s = (Inr (Some ()), t) \<and> length (drop off (rows s)) \<le> n)"
begin

lemma leaves_odd_pages_from:
  assumes "ok s" "0 < n" "length (rows s) \<le> off + k * n"
  shows "\<exists>t. loop (Suc k) n off s = (Inr (Some ()), t) \<and> changed s t
    \<and> rows t = take off (rows s) @ odd_pages n (drop off (rows s))"
  using assms
proof (induction k arbitrary: off s)
  case 0
  then show ?case using loop_behind changed_refl by (auto simp: odd_pages_def)
next
  case (Suc k)
  let ?R = "rows s"
  show ?case
  proof (cases "off < length ?R")
    case False
    then show ?thesis using Suc.prems loop_behind changed_refl by (auto simp: odd_pages_def)
  next
    case True
    obtain t where t: "ok t" "changed s t" "rows t = take off ?R @ drop n (drop off ?R)"
        and run: "loop (Suc (Suc k)) n off s = loop (Suc k) n (off + n) t
          \<or> loop (Suc (Suc k)) n off s = (Inr (Some ()), t) \<and> length (drop off ?R) \<le> n"
      using loop_page [OF Suc.prems(1,2) True] by blast
    show ?thesis
      using run
    proof
      assume step: "loop (Suc (Suc k)) n off s = loop (Suc k) n (off + n) t"
      have "length (rows t) \<le> (off + n) + k * n" using Suc.prems(3) True by (simp add: t(3))
      then obtain u where u: "loop (Suc k) n (off + n) t = (Inr (Some ()), u)" "changed t u"
          "rows u = take (off + n) (rows t) @ odd_pages n (drop (off + n) (rows t))"
        using Suc.IH [OF t(1) Suc.prems(2)] by blast
      have "take (off + n) (rows t) = take off ?R @ take n (drop n (drop off ?R))"
          "drop (off + n) (rows t) = drop (2 * n) (drop off ?R)"
        using True by (simp_all add: t(3) min_def mult_2 add_ac)
      then show ?thesis using odd_pages_step [OF Suc.prems(2), of "drop off ?R"] step u changed_trans [OF t(2)] by simp
    next
      assume "loop (Suc (Suc k)) n off s = (Inr (Some ()), t) \<and> length (drop off ?R) \<le> n"
      then show ?thesis using t odd_pages_first [of n "drop off ?R"] by auto
    qed
  qed
qed

lemma leaves_odd_pages:
  assumes "ok s" "0 < n" "length (rows s) \<le> k * n"
  shows "\<exists>t. loop (Suc k) n 0 s = (Inr (Some ()), t) \<and> changed s t \<and> rows t = odd_pages n (rows s)
    \<and> (rows t = [] \<longleftrightarrow> length (rows s) \<le> n)"
  using leaves_odd_pages_from [of s n 0 k] assms odd_pages_empty_iff [OF assms(2), of "rows s"] by auto

end

end
