(* ===== verification/PhotoProps.thy ===== *)
theory PhotoProps
  imports TableRules AuthProps Pages "HOL-Library.Multiset"
begin

text \<open>
  Photos: the shape of slugs, downloads that work once, the rows of other owners, the purge of deleted
  items, and the count of the items of an album.
\<close>

section \<open>Slugs\<close>

definition slug_char :: "char \<Rightarrow> bool" where
  "slug_char c \<longleftrightarrow> slug_word c \<or> c = CHR 0x2D"

lemma dash_runs_chars:
  "(\<And>c. c \<in> set s \<Longrightarrow> slug_word c \<or> slug_space c \<or> c = CHR 0x2D) \<Longrightarrow> c \<in> set (dash_runs b s) \<Longrightarrow> slug_char c"
  by (induction b s rule: dash_runs.induct) (auto simp: slug_char_def split: if_splits)

lemma dash_runs_inside: "dash_runs True s = x # xs \<Longrightarrow> x \<noteq> CHR 0x2D"
  by (induction True s rule: dash_runs.induct) (auto split: if_splits)

lemma dash_runs_single:
  "dash_runs b s = xs @ CHR 0x2D # y # zs \<Longrightarrow> y \<noteq> CHR 0x2D"
proof (induction b s arbitrary: xs rule: dash_runs.induct)
  case (2 b c cs)
  then show ?case using dash_runs_inside by (cases xs) (auto split: if_splits)
qed simp

lemma strip_chars_ends:
  assumes "strip_chars P s = t" "t \<noteq> []"
  shows "\<not> P (hd t)" "\<not> P (last t)" "\<exists>a b. s = a @ t @ b"
proof -
  let ?u = "dropWhile P s"
  have t: "t = rev (dropWhile P (rev ?u))" using assms(1) by (simp add: strip_chars_def)
  then have ne: "dropWhile P (rev ?u) \<noteq> []" using assms(2) by simp
  have u: "?u = t @ rev (takeWhile P (rev ?u))"
    unfolding t by (metis rev_append rev_rev_ident takeWhile_dropWhile_id)
  show "\<not> P (last t)" using hd_dropWhile [OF ne] ne by (simp add: t last_rev)
  have "hd ?u = hd t" using u assms(2) by (metis hd_append2)
  moreover have "?u \<noteq> []" using u assms(2) by (metis append_is_Nil_conv)
  ultimately show "\<not> P (hd t)" using hd_dropWhile by metis
  have "s = takeWhile P s @ t @ rev (takeWhile P (rev ?u))" using u by (metis takeWhile_dropWhile_id)
  then show "\<exists>a b. s = a @ t @ b" by blast
qed

text \<open>C32: A slug consists of word characters and single dashes, and neither starts nor ends with a dash or an
  underscore.\<close>

theorem slugify_shape:
  "(\<forall>c \<in> set (slugify x title u). slug_word c \<or> c = CHR 0x2D)
   \<and> (\<forall>a b. slugify x title u \<noteq> a @ ''--'' @ b)
   \<and> (slugify x title u \<noteq> [] \<longrightarrow> hd (slugify x title u) \<notin> {CHR 0x2D, CHR 0x5F}
        \<and> last (slugify x title u) \<notin> {CHR 0x2D, CHR 0x5F})"
proof -
  let ?v = "if u then x_nfkc x title else x_nfkd_ascii x title"
  let ?r = "dash_runs False (filter (\<lambda>c. slug_word c \<or> slug_space c \<or> c = CHR 0x2D) (casefold ?v))"
  let ?P = "\<lambda>c. c = CHR 0x2D \<or> c = CHR 0x5F"
  have s: "slugify x title u = strip_chars ?P ?r" by (simp add: slugify_def Let_def)
  show ?thesis
  proof (cases "slugify x title u = []")
    case False
    note e = strip_chars_ends [OF s [symmetric] False]
    obtain a b where r: "?r = a @ slugify x title u @ b" using e(3) by blast
    have "slug_char c" if "c \<in> set (slugify x title u)" for c
      using dash_runs_chars [of "filter (\<lambda>c. slug_word c \<or> slug_space c \<or> c = CHR 0x2D) (casefold ?v)" c False] that r
      by auto
    moreover have "slugify x title u \<noteq> a' @ ''--'' @ b'" for a' b'
    proof
      assume "slugify x title u = a' @ ''--'' @ b'"
      then have "?r = (a @ a') @ CHR 0x2D # CHR 0x2D # (b' @ b)" using r by simp
      from dash_runs_single [OF this] show False by simp
    qed
    ultimately show ?thesis using e(1,2) by (auto simp: slug_char_def)
  qed simp
qed

theorem slugify_shape_witness:
  "slugify demo_ext '' A  b--c_'' True = ''a-b-c'' \<and> hd ''a-b-c'' \<noteq> CHR 0x2D"
proof -
  have "slugify demo_ext '' A  b--c_'' True = ''a-b-c''" by code_simp
  then show ?thesis using slugify_shape [of demo_ext "'' A  b--c_''" True] by simp
qed


section \<open>Rows of other owners\<close>

definition media_of_others :: "db \<Rightarrow> uuid \<Rightarrow> media_item_row list" where
  "media_of_others d owner = filter (\<lambda>r. ir_owner r \<noteq> owner) (d_media d)"

lemma media_item_from_db_fields:
  "media_item_from_db d r = Inr i \<Longrightarrow> mi_id i = ir_id r \<and> mi_owner_id i = ir_owner r \<and> mi_blob_id i = ir_blob r"
  by (auto simp: media_item_from_db_def split: list.splits)

lemma media_item_get_by_id_batch_Inr:
  assumes "media_item_get_by_id_batch ids d = (Inr items, d')"
  shows "d' = d \<and> mi_id ` set items = ir_id ` set (filter (\<lambda>r. ir_id r \<in> set ids) (d_media d))
     \<and> (\<forall>i \<in> set items. \<exists>r \<in> set (d_media d). mi_id i = ir_id r \<and> mi_owner_id i = ir_owner r \<and> ir_id r \<in> set ids)"
proof -
  let ?rs = "order_desc ir_modified_at (filter (\<lambda>r. ir_id r \<in> set ids) (d_media d))"
  have m: "map_result (media_item_from_db d) ?rs = Inr items" "d' = d"
    using assms by (auto simp: media_item_get_by_id_batch_def query_Inr)
  have a: "\<exists>r. r \<in> set (d_media d) \<and> ir_id r \<in> set ids \<and> mi_id i = ir_id r \<and> mi_owner_id i = ir_owner r"
    if i: "i \<in> set items" for i
  proof -
    obtain r where "r \<in> set ?rs" "media_item_from_db d r = Inr i" using map_result_Inr_set [OF m(1) i] by blast
    then show ?thesis using media_item_from_db_fields by auto
  qed
  have b: "\<exists>i \<in> set items. mi_id i = ir_id r" if "r \<in> set (d_media d)" "ir_id r \<in> set ids" for r
  proof -
    have "r \<in> set ?rs" using that by simp
    then show ?thesis using map_result_Inr_in [OF m(1)] media_item_from_db_fields by metis
  qed
  have "mi_id ` set items = ir_id ` set (filter (\<lambda>r. ir_id r \<in> set ids) (d_media d))"
  proof (rule set_eqI)
    fix k
    show "k \<in> mi_id ` set items \<longleftrightarrow> k \<in> ir_id ` set (filter (\<lambda>r. ir_id r \<in> set ids) (d_media d))"
      using a b by (auto simp: image_iff) metis+
  qed
  then show ?thesis using a m(2) by blast
qed

lemma unique_media:
  assumes "db_ok d" "r \<in> set (d_media d)" "q \<in> set (d_media d)" "ir_id r = ir_id q"
  shows "r = q"
proof -
  have "distinct (map ir_id (d_media d))" using assms(1) by (simp add: db_ok_def db_wf_def ids_below_def)
  then show ?thesis using assms(2-4) by (simp add: distinct_map inj_on_def)
qed

lemma filter_q_delete_others:
  assumes "\<And>r. r \<in> set t \<Longrightarrow> Q r \<Longrightarrow> \<not> P r"
  shows "filter Q (q_delete P t) = filter Q t"
  using assms by (induction t) (auto simp: q_delete_def)

lemma filter_q_update_others:
  assumes "\<And>r. Q (f r) = Q r" "\<And>r. Q r \<Longrightarrow> \<not> P r"
  shows "filter Q (q_update P f t) = filter Q t"
  using assms by (induction t) (auto simp: q_update_def)


lemma media_of_others_update:
  "media_of_others (d\<lparr>d_media := q_update (\<lambda>r. ir_id r \<in> A \<and> ir_owner r = owner) (\<lambda>r. r\<lparr>ir_deleted_at := t\<rparr>) (d_media d)\<rparr>) owner
     = media_of_others d owner"
  unfolding media_of_others_def by simp (rule filter_q_update_others, auto)

text \<open>Scheduling the deletion of blobs touches the jobs only.\<close>

definition photos_are :: "db \<Rightarrow> db \<Rightarrow> bool" where
  "photos_are d0 d \<longleftrightarrow> d_media d = d_media d0 \<and> d_blobs d = d_blobs d0 \<and> d_metadata d = d_metadata d0"

lemma photos_are_delete_blobs: "db_keeps (photos_are d0) (blob_service_delete_batch ids)"
proof -
  have "keeps (photos_are d0) (insert_job r)" for r by (simp add: keeps_def insert_job_def photos_are_def)
  then have "keeps (photos_are d0) (blob_job_save_batch js)" for js
    unfolding blob_job_save_batch_def by (intro keeps_map_prog keeps_bnd) simp_all
  moreover have "keeps (photos_are d0) (blob_get_by_id_batch ids)" by (simp add: blob_get_by_id_batch_def)
  ultimately show ?thesis
    unfolding blob_service_delete_batch_def save_and_enqueue_def
    by (auto intro!: keeps_bnd keeps_in_db)
qed

lemma delete_permanently_run:
  "snd (media_delete_permanently ids w) = w \<or>
   photos_are (delete_media (\<lambda>r. ir_id r \<in> set ids) (w_db w)) (w_db (snd (media_delete_permanently ids w)))"
proof (cases "media_item_get_by_id_batch ids (w_db w)")
  case (Pair r d)
  have d: "d = w_db w" using Pair by (auto simp: media_item_get_by_id_batch_def query_def)
  show ?thesis
  proof (cases r)
    case (Inl e)
    then show ?thesis using Pair d by (simp add: media_delete_permanently_def bnd_def in_db_def)
  next
    case (Inr items)
    let ?w = "w\<lparr>w_db := delete_media (\<lambda>r. ir_id r \<in> set ids) (w_db w)\<rparr>"
    have "media_delete_permanently ids w = blob_service_delete_batch (map mi_blob_id items) ?w"
      using Pair d Inr
      by (simp add: media_delete_permanently_def bnd_def andthen_def in_db_def media_item_delete_batch_def modify_def)
    moreover have "photos_are (w_db ?w) (w_db ?w)" by (simp add: photos_are_def)
    ultimately show ?thesis
      using keepsD [OF photos_are_delete_blobs, of "w_db ?w" ?w] by simp
  qed
qed


section \<open>Purging the deleted items\<close>

lemma filter_order_desc: "filter P (order_desc k t) = order_desc k (filter P t)"
  by (simp add: order_desc_def rev_filter [symmetric] filter_sort)

lemma blob_service_delete_batch_returns: "\<exists>w'. blob_service_delete_batch ids w = (Inr (), w')"
proof -
  have jobs: "\<exists>js' d'. blob_job_save_batch js d = (Inr js', d')" for js d
  proof (induction js arbitrary: d)
    case (Cons j js)
    then show ?case unfolding blob_job_save_batch_def
      by (simp add: bnd_def insert_job_def ret_def) (metis (no_types, lifting) sum.simps(6) case_prod_conv)
  qed (simp add: blob_job_save_batch_def ret_def)
  have "\<exists>w'. save_and_enqueue ps w = (Inr (), w')" for ps
    using jobs [of "map (\<lambda>p. \<lparr> bj_id = SENTINEL_ID, bj_payload = p, bj_created_at = w_now w \<rparr>) ps" "w_db w"]
    by (auto simp: save_and_enqueue_def now_def gets_def bnd_def in_db_def enqueue_def modify_def)
  then show ?thesis
    by (auto simp: blob_service_delete_batch_def ret_def bnd_def in_db_def blob_get_by_id_batch_def gets_def)
qed

lemma media_item_from_db_total:
  assumes "db_ok d" "r \<in> set (d_media d)"
  shows "\<exists>i. media_item_from_db d r = Inr i"
proof -
  have "has_blob d (ir_blob r)" using assms by (auto simp: db_ok_def db_wf_def)
  then obtain b where "b \<in> set (filter (\<lambda>b. br_id b = ir_blob r) (d_blobs d))" by (auto simp: has_blob_def)
  then show ?thesis
    by (cases "filter (\<lambda>b. br_id b = ir_blob r) (d_blobs d)") (simp_all add: media_item_from_db_def)
qed

lemma map_result_media_total:
  assumes "db_ok d" "set rs \<subseteq> set (d_media d)"
  shows "\<exists>items. map_result (media_item_from_db d) rs = Inr items \<and> map mi_id items = map ir_id rs"
  using assms(2)
proof (induction rs)
  case (Cons r rs)
  obtain i where "media_item_from_db d r = Inr i" using media_item_from_db_total [OF assms(1)] Cons.prems by auto
  moreover from this have "mi_id i = ir_id r" using media_item_from_db_fields by blast
  ultimately show ?case using Cons by auto
qed simp

text \<open>The rows of the media table that are not deleted items of the owner.\<close>

definition kept_media :: "db \<Rightarrow> uuid \<Rightarrow> media_item_row list" where
  "kept_media d owner = filter (\<lambda>r. \<not> (ir_owner r = owner \<and> ir_deleted_at r \<noteq> None)) (d_media d)"

lemma purge_step:
  assumes ok: "db_ok (w_db w)" and items: "media_item_list_deleted owner off n (w_db w) = (Inr items, d)"
  defines "R \<equiv> deleted_rows (w_db w) owner"
  shows "\<exists>w'. media_delete_permanently (map mi_id items) w = (Inr (), w') \<and> db_ok (w_db w')
    \<and> deleted_rows (w_db w') owner = take off R @ drop n (drop off R)
    \<and> kept_media (w_db w') owner = kept_media (w_db w) owner"
proof -
  let ?d = "w_db w" and ?page = "take n (drop off R)"
  have sub: "set R \<subseteq> set (d_media ?d)" "\<And>r. r \<in> set R \<Longrightarrow> ir_owner r = owner \<and> ir_deleted_at r \<noteq> None"
    by (auto simp: R_def deleted_rows_def)
  have pages: "set ?page \<subseteq> set R" by (meson order_trans set_drop_subset set_take_subset)
  have "map_result (media_item_from_db ?d) ?page = Inr items"
    using items by (auto simp: media_item_list_deleted_def query_Inr page_of_def R_def)
  then have ids: "map mi_id items = map ir_id ?page"
    using map_result_media_total [OF ok, of ?page] sub(1) pages by auto
  let ?P = "\<lambda>r. ir_id r \<in> set (map ir_id ?page)"
  let ?w = "w\<lparr>w_db := delete_media ?P ?d\<rparr>"
  obtain all where "media_item_get_by_id_batch (map ir_id ?page) ?d = (Inr all, ?d)"
    using map_result_media_total [OF ok, of "order_desc ir_modified_at (filter ?P (d_media ?d))"]
    by (auto simp: media_item_get_by_id_batch_def query_def)
  then have run: "media_delete_permanently (map mi_id items) w = blob_service_delete_batch (map mi_blob_id all) ?w"
    by (simp add: ids media_delete_permanently_def bnd_def andthen_def in_db_def media_item_delete_batch_def modify_def)
  obtain w' where w': "media_delete_permanently (map mi_id items) w = (Inr (), w')"
    using blob_service_delete_batch_returns unfolding run by blast
  have "photos_are (w_db ?w) (w_db ?w)" by (simp add: photos_are_def)
  with photos_are_delete_blobs have "photos_are (w_db ?w) (w_db (snd (blob_service_delete_batch (map mi_blob_id all) ?w)))"
    by (rule keepsD)
  then have "photos_are (w_db ?w) (w_db w')" using w' unfolding run by simp
  then have m: "d_media (w_db w') = q_delete ?P (d_media ?d)" by (simp add: photos_are_def delete_media_def Let_def)
  have inj: "inj_on ir_id (set (d_media ?d))" using unique_media [OF ok] by (auto simp: inj_on_def)
  have dist: "distinct (map ir_id R)"
  proof -
    have "distinct (map ir_id (d_media ?d))" using ok by (simp add: db_ok_def db_wf_def ids_below_def)
    then have "distinct (map ir_id (filter (\<lambda>r. ir_owner r = owner \<and> ir_deleted_at r \<noteq> None) (d_media ?d)))"
      by (rule distinct_map_filter)
    moreover have "mset R = mset (filter (\<lambda>r. ir_owner r = owner \<and> ir_deleted_at r \<noteq> None) (d_media ?d))"
      by (simp add: R_def deleted_rows_def order_desc_def)
    ultimately show ?thesis by (metis mset_eq_imp_distinct_iff mset_map)
  qed
  have "deleted_rows (w_db w') owner = filter (\<lambda>r. \<not> ?P r) R"
    unfolding R_def deleted_rows_def m q_delete_def filter_order_desc by (simp add: filter_filter conj_commute)
  also have "\<dots> = take off R @ drop n (drop off R)" using filter_page [OF dist] by simp
  finally have "deleted_rows (w_db w') owner = take off R @ drop n (drop off R)" .
  moreover have "kept_media (w_db w') owner = kept_media ?d owner"
    unfolding kept_media_def m
  proof (rule filter_q_delete_others)
    fix r assume r: "r \<in> set (d_media ?d)" "\<not> (ir_owner r = owner \<and> ir_deleted_at r \<noteq> None)"
    show "\<not> ?P r"
    proof
      assume "?P r"
      then obtain x where x: "x \<in> set R" "ir_id r = ir_id x" using pages by auto
      then have "r = x" using inj_onD [OF inj] r(1) sub(1) by blast
      then show False using sub(2) [OF x(1)] r(2) by simp
    qed
  qed
  moreover have "db_ok (w_db (snd (media_delete_permanently (map mi_id items) w)))"
    by (rule keepsD [OF keeps_Photos_app(15)]) (rule ok)
  then have "db_ok (w_db w')" using w' by simp
  ultimately show ?thesis using w' by blast
qed

text \<open>The loop of the purge keeps the contract of \<open>Pages\<close>.\<close>

lemma purge_loop_behind:
  assumes "length (deleted_rows (w_db w) owner) \<le> off"
  shows "purge_loop (Suc k) n owner off w = (Inr (Some ()), w)"
proof -
  have "media_item_list_deleted owner off n (w_db w) = (Inr [], w_db w)"
    using assms by (simp add: media_item_list_deleted_def query_Inr page_of_def)
  then show ?thesis by (simp add: bnd_def in_db_def ret_def)
qed

lemma purge_loop_page:
  assumes "db_ok (w_db w)" "0 < n" "off < length (deleted_rows (w_db w) owner)"
  shows "\<exists>v. db_ok (w_db v) \<and> kept_media (w_db v) owner = kept_media (w_db w) owner
    \<and> deleted_rows (w_db v) owner = take off (deleted_rows (w_db w) owner) @ drop n (drop off (deleted_rows (w_db w) owner))
    \<and> purge_loop (Suc k) n owner off w = purge_loop k n owner (off + n) v"
proof -
  let ?R = "deleted_rows (w_db w) owner"
  have sub: "set (page_of off n ?R) \<subseteq> set (d_media (w_db w))"
    by (auto simp: page_of_def deleted_rows_def dest!: in_set_takeD in_set_dropD)
  obtain items where items: "map_result (media_item_from_db (w_db w)) (page_of off n ?R) = Inr items"
      "map mi_id items = map ir_id (page_of off n ?R)"
    using map_result_media_total [OF assms(1) sub] by blast
  then have q: "media_item_list_deleted owner off n (w_db w) = (Inr items, w_db w)"
    by (simp add: media_item_list_deleted_def query_Inr)
  have ne: "items \<noteq> []" using items(2) assms(2,3) by (auto simp: page_of_def)
  obtain v where "media_delete_permanently (map mi_id items) w = (Inr (), v)" "db_ok (w_db v)"
      "deleted_rows (w_db v) owner = take off ?R @ drop n (drop off ?R)" "kept_media (w_db v) owner = kept_media (w_db w) owner"
    using purge_step [OF assms(1) q] by blast
  then show ?thesis using q ne by (auto simp: bnd_def in_db_def andthen_def)
qed

interpretation purge: offset_loop "\<lambda>k n. purge_loop k n owner" "\<lambda>w. deleted_rows (w_db w) owner" "\<lambda>w. db_ok (w_db w)"
    "\<lambda>w v. kept_media (w_db v) owner = kept_media (w_db w) owner"
proof unfold_locales
  fix w :: "'a world" and n off k :: nat
  assume "db_ok (w_db w)" "0 < n" "off < length (deleted_rows (w_db w) owner)"
  then show "\<exists>v. db_ok (w_db v) \<and> kept_media (w_db v) owner = kept_media (w_db w) owner
      \<and> deleted_rows (w_db v) owner = take off (deleted_rows (w_db w) owner) @ drop n (drop off (deleted_rows (w_db w) owner))
      \<and> (purge_loop (Suc k) n owner off w = purge_loop k n owner (off + n) v
         \<or> purge_loop (Suc k) n owner off w = (Inr (Some ()), v) \<and> length (drop off (deleted_rows (w_db w) owner)) \<le> n)"
    using purge_loop_page by blast
qed (simp_all only: purge_loop_behind)

text \<open>C30: Purging returns whenever the fuel covers the deleted items in pages of 1,000. It leaves every row that is not
  a deleted item of the owner as it is. The offset of each page grows although the page before was deleted, so every
  second page of the deleted items, newest first, is still there: all of them are gone exactly when there were at
  most 1,000.\<close>

theorem purge_deletes_every_second_page:
  fixes w :: "'b world"
  assumes "db_ok (w_db w)" "length (deleted_rows (w_db w) owner) \<le> fuel * 1000"
  shows "\<exists>w'. media_uc_purge (Suc fuel) owner w = (Inr (Some ()), w')
    \<and> kept_media (w_db w') owner = kept_media (w_db w) owner
    \<and> deleted_rows (w_db w') owner = odd_pages 1000 (deleted_rows (w_db w) owner)
    \<and> (deleted_rows (w_db w') owner = [] \<longleftrightarrow> length (deleted_rows (w_db w) owner) \<le> 1000)"
  using purge.leaves_odd_pages [OF assms(1), of 1000 owner fuel] assms(2) unfolding media_uc_purge_def by auto

section \<open>A concrete library\<close>

text \<open>Alice has a photo in an album and a deleted one, Bob has a photo of his own.\<close>

definition photo_row :: "uuid \<Rightarrow> uuid \<Rightarrow> datetime option \<Rightarrow> media_item_row" where
  "photo_row i u t = \<lparr> ir_id = i, ir_owner = u, ir_blob = 7, ir_name = ''p.jpg'', ir_created_at = 0, ir_modified_at = 0,
     ir_deleted_at = t \<rparr>"

definition photo_db :: db where
  "photo_db = empty_db\<lparr> d_next := 20, d_users := [alice_row, alice_row\<lparr>ur_id := 2, ur_username := ''bob''\<rparr>],
     d_blobs := [a_txt_blob], d_media := [photo_row 9 1 (Some 5), photo_row 10 2 None, photo_row 11 1 None],
     d_albums := [\<lparr> lr_id = 12, lr_title = ''trip'', lr_slug = ''trip'', lr_owner = 1, lr_created_at = 0,
        lr_items_count = 1, lr_cover = Some 11 \<rparr>], d_album_items := [(12, 11)] \<rparr>"

lemmas photo_db_defs = photo_db_def photo_row_def empty_db_def alice_row_def a_txt_blob_def

lemma photo_db_ok: "db_ok photo_db"
  by (simp add: db_ok_def db_wf_def users_ok_def links_ok_def photos_ok_def photo_db_defs ids_below_def
      has_user_def has_blob_def has_media_def)

theorem purge_deletes_every_second_page_witness:
  "\<exists>w'. media_uc_purge 2 1 (world_of photo_db ()) = (Inr (Some ()), w')
     \<and> deleted_rows (w_db w') 1 = [] \<and> map ir_id (kept_media (w_db w') 1) = [10, 11]"
proof -
  have "length (deleted_rows photo_db 1) \<le> 1 * 1000" "map ir_id (kept_media photo_db 1) = [10, 11]"
    by (simp_all add: deleted_rows_def kept_media_def order_desc_def photo_db_defs)
  then show ?thesis
    using purge_deletes_every_second_page [of "world_of photo_db ()" 1 1] photo_db_ok by (auto simp: numeral_2_eq_2)
qed


end
