(* ===== verification/AlbumProps.thy ===== *)
theory AlbumProps
  imports PhotoProps
begin

text \<open>
  Albums: what adding and removing photos does to the items and to the counter, and the cover of an
  album, which stays one of its items. Download sessions of photos, which work once.
\<close>

section \<open>Adding and removing\<close>

definition items_in :: "db \<Rightarrow> uuid \<Rightarrow> uuid set" where
  "items_in d a = {m. (a, m) \<in> set (d_album_items d)}"

lemma album_row_get_Inr:
  "album_row_get owner slug d = (Inr r, d') \<Longrightarrow>
     d' = d \<and> r \<in> set (d_albums d) \<and> lr_owner r = owner \<and> lr_slug r = slug"
  by (auto simp: album_row_get_def query_Inr or_missing_def split: sum.splits query_error.splits dest: q_get_InrD)

lemma album_row_save_Inr:
  "album_row_save r d = (Inr x, d') \<longleftrightarrow>
     d' = d\<lparr>d_albums := q_update (\<lambda>y. lr_id y = lr_id r) (\<lambda>_. r) (d_albums d)\<rparr>
     \<and> distinct (map (\<lambda>y. (lr_owner y, lr_slug y)) (d_albums d')) \<and> (\<forall>m. lr_cover r = Some m \<longrightarrow> has_media d m)"
  by (auto simp: album_row_save_def Let_def split: option.splits)

lemma album_from_db_fields [simp]:
  "al_id (album_from_db x r) = lr_id r" "al_cover (album_from_db x r) = lr_cover r"
  "al_items_count (album_from_db x r) = lr_items_count r"
  by (simp_all add: album_from_db_def mk_album_def)

definition known_media :: "db \<Rightarrow> uuid list \<Rightarrow> uuid set" where
  "known_media d ids = set ids \<inter> ir_id ` set (d_media d)"

lemma album_items_remove_Inr:
  "album_items_remove a ms d = (Inr x, d') \<longleftrightarrow>
     ms \<noteq> [] \<and> d' = d\<lparr>d_album_items := q_delete (\<lambda>(b, m). b = a \<and> m \<in> set ms) (d_album_items d)\<rparr>"
  by (auto simp: album_items_remove_def andthen_Inr guard_Inr modify_Inr)

definition album_changed :: "db \<Rightarrow> string \<Rightarrow> uuid \<Rightarrow> int \<Rightarrow> (uuid set \<Rightarrow> uuid set) \<Rightarrow> Album \<Rightarrow> album_row \<Rightarrow> db \<Rightarrow> bool" where
  "album_changed d slug owner k f a r d' \<longleftrightarrow>
     r \<in> set (d_albums d) \<and> lr_owner r = owner \<and> lr_slug r = slug
     \<and> al_id a = lr_id r \<and> al_cover a = lr_cover r \<and> al_items_count a = lr_items_count r + k
     \<and> d_albums d' = q_update (\<lambda>y. lr_id y = lr_id r) (\<lambda>_. r\<lparr>lr_items_count := lr_items_count r + k\<rparr>) (d_albums d)
     \<and> items_in d' = (items_in d)(lr_id r := f (items_in d (lr_id r)))
     \<and> d_next d' = d_next d \<and> d_media d' = d_media d"

lemma album_add_items_Inr:
  assumes "album_add_items x owner slug ids d = (Inr a, d')"
  shows "\<exists>r. album_changed d slug owner (int (length ids)) (\<lambda>M. M \<union> known_media d ids) a r d'"
proof -
  obtain r d1 where r: "r \<in> set (d_albums d)" "lr_owner r = owner" "lr_slug r = slug"
      and d1: "album_items_add (lr_id r) (map ir_id (filter (\<lambda>r. ir_id r \<in> set ids) (d_media d))) d = (Inr (), d1)"
      and s: "album_row_save (r\<lparr>lr_items_count := lr_items_count r + int (length ids)\<rparr>) d1 = (Inr (), d')"
      and a: "a = album_from_db x (r\<lparr>lr_items_count := lr_items_count r + int (length ids)\<rparr>)"
    using assms by (auto simp: album_add_items_def bnd_Inr andthen_Inr Let_def media_ids_in_def gets_Inr ret_Inr
        dest!: album_row_get_Inr)
  have "items_in d1 = (items_in d)(lr_id r := items_in d (lr_id r) \<union> known_media d ids)"
    using d1 by (auto simp: album_items_add_def modify_Inr items_in_def known_media_def fun_eq_iff)
  moreover have "items_in d' = items_in d1" using s by (simp add: album_row_save_Inr items_in_def fun_eq_iff)
  ultimately show ?thesis
    using r a d1 s by (auto simp: album_changed_def album_items_add_def modify_Inr album_row_save_Inr)
qed

lemma album_remove_items_Inr:
  assumes "album_remove_items x owner slug ids d = (Inr a, d')"
  shows "\<exists>r. album_changed d slug owner (- int (length ids)) (\<lambda>M. M - known_media d ids) a r d'"
proof -
  obtain r d1 where r: "r \<in> set (d_albums d)" "lr_owner r = owner" "lr_slug r = slug"
      and d1: "album_items_remove (lr_id r) (map ir_id (filter (\<lambda>r. ir_id r \<in> set ids) (d_media d))) d = (Inr (), d1)"
      and s: "album_row_save (r\<lparr>lr_items_count := lr_items_count r - int (length ids)\<rparr>) d1 = (Inr (), d')"
      and a: "a = album_from_db x (r\<lparr>lr_items_count := lr_items_count r - int (length ids)\<rparr>)"
    using assms by (auto simp: album_remove_items_def bnd_Inr andthen_Inr Let_def media_ids_in_def gets_Inr ret_Inr
        dest!: album_row_get_Inr)
  have "items_in d1 = (items_in d)(lr_id r := items_in d (lr_id r) - known_media d ids)"
    using d1 by (auto simp: album_items_remove_Inr items_in_def known_media_def fun_eq_iff)
  moreover have "items_in d' = items_in d1" using s by (simp add: album_row_save_Inr items_in_def fun_eq_iff)
  ultimately show ?thesis
    using r a d1 s by (auto simp: album_changed_def album_items_remove_Inr album_row_save_Inr)
qed

lemma album_set_cover_Inr:
  assumes "album_set_cover x owner slug c d = (Inr a, d')"
  shows "\<exists>r \<in> set (d_albums d). lr_owner r = owner \<and> lr_slug r = slug \<and> a = album_from_db x (r\<lparr>lr_cover := c\<rparr>)
    \<and> album_row_save (r\<lparr>lr_cover := c\<rparr>) d = (Inr (), d')"
  using assms by (auto simp: album_set_cover_def bnd_Inr andthen_Inr Let_def ret_Inr dest!: album_row_get_Inr)

text \<open>The row that was changed is the one the same owner and slug find again.\<close>

lemma album_changed_row:
  assumes "album_changed d slug owner k f a r d'" "distinct (map (\<lambda>y. (lr_owner y, lr_slug y)) (d_albums d'))"
    "q \<in> set (d_albums d')" "lr_owner q = owner" "lr_slug q = slug"
  shows "q = r\<lparr>lr_items_count := lr_items_count r + k\<rparr>"
proof -
  let ?r = "r\<lparr>lr_items_count := lr_items_count r + k\<rparr>"
  have "?r \<in> set (d_albums d')" using assms(1) by (auto simp: album_changed_def set_q_update image_iff)
  moreover have "lr_owner ?r = owner" "lr_slug ?r = slug" using assms(1) by (auto simp: album_changed_def)
  ultimately show ?thesis using assms(2-5) by (auto simp: distinct_map inj_on_def)
qed

lemma album_add_items_distinct:
  "album_add_items x owner slug ids d = (Inr a, d') \<Longrightarrow> distinct (map (\<lambda>y. (lr_owner y, lr_slug y)) (d_albums d'))"
  by (auto simp: album_add_items_def bnd_Inr andthen_Inr Let_def album_row_save_Inr ret_Inr)

lemma album_uc_add_cases:
  assumes "album_uc_add_album_items x owner slug ids w = (Inr a, w')"
  obtains (plain) r where
      "album_changed (w_db w) slug owner (int (length ids)) (\<lambda>M. M \<union> known_media (w_db w) ids) a r (w_db w')"
  | (first) b r d1 m ms where
      "album_changed (w_db w) slug owner (int (length ids)) (\<lambda>M. M \<union> known_media (w_db w) ids) b r d1"
      "ids = m # ms" "a = album_from_db x (r\<lparr>lr_items_count := lr_items_count r + int (length ids), lr_cover := Some m\<rparr>)"
      "album_row_save (r\<lparr>lr_items_count := lr_items_count r + int (length ids), lr_cover := Some m\<rparr>) d1 = (Inr (), w_db w')"
proof -
  obtain b d1 where b: "album_add_items x owner slug ids (w_db w) = (Inr b, d1)"
      "(case (al_cover b, ids) of (None, m # _) \<Rightarrow> in_db (album_set_cover x owner slug (Some m)) | _ \<Rightarrow> ret b) (w\<lparr>w_db := d1\<rparr>)
       = (Inr a, w')"
    using assms unfolding album_uc_add_album_items_def atomic_Inr bnd_Inr in_db_Inr by auto
  obtain r where r: "album_changed (w_db w) slug owner (int (length ids)) (\<lambda>M. M \<union> known_media (w_db w) ids) b r d1"
    using album_add_items_Inr [OF b(1)] by blast
  show ?thesis
  proof (cases "al_cover b = None \<and> ids \<noteq> []")
    case True
    then obtain m ms where m: "ids = m # ms" by (cases ids) auto
    then have c: "album_set_cover x owner slug (Some m) d1 = (Inr a, w_db w')" using b(2) True by (auto simp: in_db_Inr)
    show ?thesis
      using album_set_cover_Inr [OF c] album_changed_row [OF r album_add_items_distinct [OF b(1)]] first [OF r m] by auto
  next
    case False
    then have "a = b" "w_db w' = d1" using b(2) by (auto simp: ret_Inr split: option.splits list.splits)
    then show ?thesis using plain r by simp
  qed
qed

text \<open>C31: Adding photos to an album makes the known ones among the requested ones its items, whoever owns them, and
  raises the counter by the length of the request, whether its photos were there already, are named twice or are
  unknown.\<close>

theorem album_counter_counts_requests:
  fixes w :: "'b world"
  assumes "album_uc_add_album_items x owner slug ids w = (Inr a, w')"
  shows "\<exists>r \<in> set (d_albums (w_db w)). lr_owner r = owner \<and> lr_slug r = slug \<and> al_id a = lr_id r
    \<and> items_in (w_db w') (lr_id r) = items_in (w_db w) (lr_id r) \<union> (set ids \<inter> ir_id ` set (d_media (w_db w)))
    \<and> al_items_count a = lr_items_count r + int (length ids)"
  using assms
proof (cases rule: album_uc_add_cases)
  case (plain r)
  then show ?thesis by (auto simp: album_changed_def known_media_def)
next
  case (first b r d1 m ms)
  then have "items_in (w_db w') = items_in d1" by (simp add: album_row_save_Inr items_in_def fun_eq_iff)
  then show ?thesis using first by (auto simp: album_changed_def known_media_def)
qed

theorem album_counter_counts_requests_witness:
  "\<exists>a w'. album_uc_add_album_items demo_ext 1 ''trip'' [11, 11, 10, 99] (world_of photo_db ()) = (Inr a, w')
     \<and> items_in (w_db w') 12 = {10, 11} \<and> al_items_count a = 5"
proof -
  let ?r = "album_uc_add_album_items demo_ext 1 ''trip'' [11, 11, 10, 99] (world_of photo_db ())"
  have "(case fst ?r of Inl e \<Rightarrow> False | Inr a \<Rightarrow> True)" by code_simp
  then have "\<exists>a w'. ?r = (Inr a, w')" by (cases ?r) (auto split: sum.splits)
  then obtain a w' where "?r = (Inr a, w')" by blast
  then show ?thesis
    using album_counter_counts_requests [of demo_ext 1 "''trip''" "[11, 11, 10, 99]" "world_of photo_db ()" a w']
    by (auto simp: photo_db_defs items_in_def)
qed

section \<open>The cover\<close>

definition covers_ok :: "db \<Rightarrow> uuid set \<Rightarrow> bool" where
  "covers_ok d A \<longleftrightarrow> ids_below (d_next d) lr_id (d_albums d)
     \<and> (\<forall>r \<in> set (d_albums d). \<forall>m. lr_cover r = Some m \<longrightarrow> m \<in> items_in d (lr_id r) \<or> lr_id r \<in> A)"

abbreviation albums_ok :: "db \<Rightarrow> bool" where "albums_ok d \<equiv> covers_ok d {}"

lemma keeps_covers_insert_album: "lr_cover r = None \<Longrightarrow> keeps albums_ok (insert_album r)"
  by (rule keepsI) (auto simp: insert_album_def covers_ok_def items_in_def ids_below_insert)

lemma keeps_covers_insert_job: "keeps albums_ok (insert_job r)"
  by (rule keepsI) (auto simp: insert_job_def covers_ok_def items_in_def ids_below_def less_Suc_eq)

lemma keeps_covers_delete_media: "keeps albums_ok (modify (delete_media P))"
  by (rule keepsI) (auto simp: modify_def delete_media_def Let_def covers_ok_def items_in_def set_q_update ids_below_def
      map_q_update split: option.splits if_splits)

lemma keeps_covers_delete_albums: "keeps albums_ok (modify (delete_albums P))"
proof (rule keepsI)
  fix d assume ok: "albums_ok d"
  then have "inj_on lr_id (set (d_albums d))" by (simp add: covers_ok_def ids_below_def distinct_map)
  then have "lr_id r \<notin> lr_id ` set (filter P (d_albums d))" if "r \<in> set (d_albums d)" "\<not> P r" for r
    using that by (auto dest: inj_onD)
  then show "albums_ok (snd (modify (delete_albums P) d))"
    using ok by (auto simp: modify_def delete_albums_def Let_def covers_ok_def items_in_def ids_below_def distinct_map_q_delete)
qed

lemma keeps_covers_set_deleted: "keeps albums_ok (media_item_set_deleted_at_batch owner ids t)"
  unfolding media_item_set_deleted_at_batch_def
  by (rule keeps_andthen [OF _ keeps_query], rule keepsI) (simp add: modify_def covers_ok_def items_in_def)

lemma keeps_covers_save_blob_jobs: "keeps albums_ok (blob_job_save_batch js)"
  unfolding blob_job_save_batch_def by (intro keeps_map_prog keeps_bnd keeps_covers_insert_job) simp_all

text \<open>Saving a row keeps the identifiers; the cover that is saved must be an item.\<close>

lemma covers_album_row_save:
  assumes "covers_ok d A" "album_row_save r d = (Inr x, d')" "\<exists>q \<in> set (d_albums d). lr_id q = lr_id r"
    "\<And>m. lr_cover r = Some m \<Longrightarrow> m \<in> items_in d (lr_id r) \<or> lr_id r \<in> A"
  shows "covers_ok d' A"
proof -
  have "map lr_id (q_update (\<lambda>y. lr_id y = lr_id r) (\<lambda>_. r) (d_albums d)) = map lr_id (d_albums d)"
    by (simp add: q_update_def)
  then show ?thesis
    using assms by (auto simp: album_row_save_Inr covers_ok_def items_in_def set_q_update ids_below_def image_iff)
qed

lemma album_row_save_Inl: "album_row_save r d = (Inl e, d') \<Longrightarrow> d' = d"
  by (auto simp: album_row_save_def Let_def split: if_splits)

lemma covers_reassign:
  assumes "covers_ok (w_db w) (set ids)" "album_reassign_covers ids w = (Inr u, w')"
  shows "albums_ok (w_db w')"
proof (cases "ids = []")
  case False
  let ?d = "w_db w"
  define cand where "cand = List.map_filter (\<lambda>r. map_option (Pair (lr_id r)) (cover_candidate ?d (lr_id r)))
       (sort_key lr_id (filter (\<lambda>r. lr_id r \<in> set ids) (d_albums ?d)))"
  define cover_of where "cover_of = map_of (rev (map (\<lambda>a. (a, map_of (rev cand) a)) ids))"
  have w': "d_albums (w_db w') = q_update (\<lambda>r. cover_of (lr_id r) \<noteq> None) (\<lambda>r. r\<lparr>lr_cover := the (cover_of (lr_id r))\<rparr>) (d_albums ?d)"
      "d_album_items (w_db w') = d_album_items ?d" "d_next (w_db w') = d_next ?d"
    using assms(2) False
    by (auto simp: album_reassign_covers_def bnd_Inr in_db_Inr album_list_cover_candidates_def gets_Inr cand_def [symmetric]
        album_set_cover_batch_def Let_def cover_of_def [symmetric] split: if_splits)
  have of_id: "cover_of a = (if a \<in> set ids then Some (map_of (rev cand) a) else None)" for a
  proof -
    have "map_of (rev (map (\<lambda>a. (a, map_of (rev cand) a)) xs)) a = (if a \<in> set xs then Some (map_of (rev cand) a) else None)" for xs
      by (induction xs) (auto simp: map_add_def)
    then show ?thesis unfolding cover_of_def by blast
  qed
  have "m \<in> items_in ?d a" if "map_of (rev cand) a = Some m" for a m
  proof -
    have "(a, m) \<in> set cand" using map_of_SomeD [OF that] by simp
    then have "cover_candidate ?d a = Some m" by (auto simp: cand_def List.map_filter_def)
    then obtain r rs where l: "order_desc ir_modified_at (sort_key ir_id
         (filter (\<lambda>r. (a, ir_id r) \<in> set (d_album_items ?d) \<and> ir_deleted_at r = None) (d_media ?d))) = r # rs" "m = ir_id r"
      by (auto simp: cover_candidate_def split: list.splits)
    then have "r \<in> set (order_desc ir_modified_at (sort_key ir_id
         (filter (\<lambda>r. (a, ir_id r) \<in> set (d_album_items ?d) \<and> ir_deleted_at r = None) (d_media ?d))))" by simp
    then have "(a, m) \<in> set (d_album_items ?d)" by (simp add: l(2))
    then show ?thesis by (auto simp: items_in_def)
  qed
  then show ?thesis
    using assms(1) by (auto simp: covers_ok_def w' items_in_def set_q_update of_id ids_below_def map_q_update)
qed (use assms in \<open>auto simp: album_reassign_covers_def ret_Inr\<close>)

lemma album_changed_ids:
  assumes "album_changed d slug owner k f a r d'"
  shows "map lr_id (d_albums d') = map lr_id (d_albums d)" "lr_id r \<in> lr_id ` set (d_albums d')"
proof -
  show ids: "map lr_id (d_albums d') = map lr_id (d_albums d)" using assms by (simp add: album_changed_def q_update_def)
  have "lr_id r \<in> set (map lr_id (d_albums d))" using assms by (simp add: album_changed_def)
  then show "lr_id r \<in> lr_id ` set (d_albums d')" unfolding ids [symmetric] by simp
qed

lemma covers_add_items:
  assumes "covers_ok (w_db w) {}"
  shows "albums_ok (w_db (snd (album_uc_add_album_items x owner slug ids w)))"
proof (cases "album_uc_add_album_items x owner slug ids w")
  case (Pair res w')
  show ?thesis
  proof (cases res)
    case (Inl e)
    then show ?thesis using Pair assms atomic_Inl by (fastforce simp: album_uc_add_album_items_def)
  next
    case (Inr a)
    have ch: "albums_ok d'" if "album_changed (w_db w) slug owner k (\<lambda>M. M \<union> K) b r d'" for k K b r d'
    proof -
      show ?thesis using album_changed_ids(1) [OF that] that assms by (auto simp: album_changed_def covers_ok_def set_q_update ids_below_def)
    qed
    from Pair [unfolded Inr] show ?thesis
    proof (cases rule: album_uc_add_cases)
      case (plain r)
      then show ?thesis using ch Pair by simp
    next
      case (first b r d1 m ms)
      let ?r = "r\<lparr>lr_items_count := lr_items_count r + int (length ids), lr_cover := Some m\<rparr>"
      have "has_media d1 m" using first(4) by (simp add: album_row_save_Inr)
      then have "m \<in> items_in d1 (lr_id ?r)"
        using first(1,2) by (auto simp: album_changed_def known_media_def has_media_def)
      moreover have "\<exists>q \<in> set (d_albums d1). lr_id q = lr_id ?r" using album_changed_ids(2) [OF first(1)] by auto
      ultimately have "albums_ok (w_db w')" using covers_album_row_save [OF ch [OF first(1)] first(4)] by simp
      then show ?thesis using Pair by simp
    qed
  qed
qed

lemma covers_remove_items:
  assumes "covers_ok (w_db w) {}"
  shows "albums_ok (w_db (snd (album_uc_remove_album_items x owner slug ids w)))"
proof (cases "album_uc_remove_album_items x owner slug ids w")
  case (Pair res w')
  show ?thesis
  proof (cases res)
    case (Inl e)
    then show ?thesis using Pair assms atomic_Inl by (fastforce simp: album_uc_remove_album_items_def)
  next
    case (Inr a)
    have "album_uc_remove_album_items x owner slug ids w = (Inr a, w')" using Pair Inr by simp
    then obtain b d1 where b: "album_remove_items x owner slug ids (w_db w) = (Inr b, d1)"
        "(case al_cover b of
            Some c \<Rightarrow> if c \<in> set ids then andthen (album_reassign_covers [al_id b]) (in_db (album_get_by_slug x owner slug)) else ret b
          | None \<Rightarrow> ret b) (w\<lparr>w_db := d1\<rparr>) = (Inr a, w')"
      unfolding album_uc_remove_album_items_def atomic_Inr bnd_Inr in_db_Inr by auto
    obtain r where r: "album_changed (w_db w) slug owner (- int (length ids)) (\<lambda>M. M - known_media (w_db w) ids) b r d1"
      using album_remove_items_Inr [OF b(1)] by blast
    note ids = album_changed_ids(1) [OF r]
    show ?thesis
    proof (cases "\<exists>c \<in> set ids. al_cover b = Some c")
      case True
      have "covers_ok d1 {al_id b}"
        using r ids assms by (auto simp: album_changed_def covers_ok_def set_q_update ids_below_def)
      then have "covers_ok (w_db (w\<lparr>w_db := d1\<rparr>)) (set [al_id b])" by simp
      moreover obtain w1 where "album_reassign_covers [al_id b] (w\<lparr>w_db := d1\<rparr>) = (Inr (), w1)" "w_db w' = w_db w1"
        using b(2) True by (auto simp: andthen_Inr in_db_Inr album_get_by_slug_def bnd_Inr ret_Inr dest!: album_row_get_Inr)
      ultimately show ?thesis using covers_reassign Pair by fastforce
    next
      case False
      have "albums_ok d1"
        using r ids assms False by (auto simp: album_changed_def covers_ok_def set_q_update ids_below_def known_media_def)
      then show ?thesis using b(2) False Pair by (auto simp: ret_Inr split: option.splits if_splits)
    qed
  qed
qed

lemma keeps_covers_row_save:
  "keeps albums_ok (bnd (album_row_get owner slug) (\<lambda>obj. andthen (album_row_save (obj\<lparr>lr_title := t obj, lr_slug := s obj\<rparr>)) (ret (y obj))))"
  "keeps albums_ok (bnd (album_row_get owner slug) (\<lambda>obj. andthen (album_row_save (obj\<lparr>lr_cover := None\<rparr>)) (ret (z obj))))"
proof -
  have *: "keeps albums_ok (bnd (album_row_get owner slug) (\<lambda>obj. andthen (album_row_save (f obj)) (ret (g obj))))"
    if f: "\<And>r. lr_id (f r) = lr_id r \<and> (lr_cover (f r) = None \<or> lr_cover (f r) = lr_cover r)" for f :: "album_row \<Rightarrow> album_row" and g :: "album_row \<Rightarrow> 'y"
  proof (rule keepsI)
    fix d assume ok: "albums_ok d"
    obtain res d1 where g: "album_row_get owner slug d = (res, d1)" by (cases "album_row_get owner slug d")
    have d1: "d1 = d" using g by (simp add: album_row_get_def query_def)
    show "albums_ok (snd (bnd (album_row_get owner slug) (\<lambda>obj. andthen (album_row_save (f obj)) (ret (g obj))) d))"
    proof (cases res)
      case (Inr r)
      obtain q d2 where s: "album_row_save (f r) d = (q, d2)" by (cases "album_row_save (f r) d")
      have r: "r \<in> set (d_albums d)" using album_row_get_Inr g Inr by blast
      have "albums_ok d2"
      proof (cases q)
        case (Inl e)
        then show ?thesis using album_row_save_Inl s ok by blast
      next
        case (Inr u)
        show ?thesis
          by (rule covers_album_row_save [OF ok s [unfolded Inr]])
             (use r f [of r] ok in \<open>auto simp: covers_ok_def\<close>)
      qed
      then show ?thesis using g Inr s d1 by (auto simp: bnd_def andthen_def ret_def split: sum.splits)
    qed (use g d1 ok in \<open>simp add: bnd_def\<close>)
  qed
  show "keeps albums_ok (bnd (album_row_get owner slug) (\<lambda>obj. andthen (album_row_save (obj\<lparr>lr_title := t obj, lr_slug := s obj\<rparr>)) (ret (y obj))))"
    "keeps albums_ok (bnd (album_row_get owner slug) (\<lambda>obj. andthen (album_row_save (obj\<lparr>lr_cover := None\<rparr>)) (ret (z obj))))"
    by (rule *, simp)+
qed

lemma db_keeps_covers:
  "db_keeps albums_ok (album_uc_create x title owner)" "db_keeps albums_ok (album_rename x owner slug title)"
  "db_keeps albums_ok (album_uc_remove_cover x owner slug)" "db_keeps albums_ok (in_db (album_delete x owner slug))"
  "db_keeps albums_ok (media_restore_batch owner ids)" "db_keeps albums_ok (media_delete_permanently ids)"
proof -
  have slug: "db_keeps albums_ok (album_get_available_slug x owner sl)" for sl
    unfolding album_get_available_slug_def
    by (auto intro!: keeps_bnd keeps_in_db simp: album_exists_with_slug_def album_count_by_slug_pattern_def)
  have save: "keeps albums_ok (album_save a)" for a
    unfolding album_save_def by (intro keeps_bnd keeps_covers_insert_album) simp_all
  show "db_keeps albums_ok (album_uc_create x title owner)"
    unfolding album_uc_create_def album_service_create_def
    by (intro keeps_bnd keeps_in_db slug save) (simp add: now_def)
  have "keeps albums_ok (album_update x a t s)" for a t s
    unfolding album_update_def Let_def by (rule keeps_covers_row_save(1))
  then show "db_keeps albums_ok (album_rename x owner slug title)"
    unfolding album_rename_def by (auto intro!: keeps_bnd keeps_in_db slug simp: album_get_by_slug_def album_row_get_def)
  show "db_keeps albums_ok (album_uc_remove_cover x owner slug)"
    unfolding album_uc_remove_cover_def album_set_cover_def Let_def by (intro keeps_in_db keeps_covers_row_save(2))
  show "db_keeps albums_ok (in_db (album_delete x owner slug))"
    unfolding album_delete_def
    by (intro keeps_in_db keeps_bnd keeps_andthen keeps_covers_delete_albums) (simp_all add: album_row_get_def)
  show "db_keeps albums_ok (media_restore_batch owner ids)"
    unfolding media_restore_batch_def by (intro keeps_in_db keeps_covers_set_deleted)
  have "db_keeps albums_ok (blob_service_delete_batch bs)" for bs
    unfolding blob_service_delete_batch_def save_and_enqueue_def
    by (auto intro!: keeps_bnd keeps_in_db keeps_covers_save_blob_jobs simp: blob_get_by_id_batch_def)
  then show "db_keeps albums_ok (media_delete_permanently ids)"
    unfolding media_delete_permanently_def media_item_delete_batch_def
    by (intro keeps_bnd keeps_andthen keeps_in_db keeps_covers_delete_media) (simp_all add: media_item_get_by_id_batch_def)
qed

lemma db_keeps_covers_purge: "db_keeps albums_ok (purge_loop k n owner off)"
  by (induction k arbitrary: off)
    (auto intro!: keeps_bnd keeps_andthen keeps_in_db db_keeps_covers simp: media_item_list_deleted_def)

lemma covers_delete_batch:
  fixes w :: "'b world"
  assumes "albums_ok (w_db w)"
  shows "albums_ok (w_db (snd (media_uc_delete_batch owner ids w)))"
proof -
  have "db_keeps albums_ok (media_delete_batch owner ids :: ('b, MediaItem list) app)"
    unfolding media_delete_batch_def by (intro keeps_bnd keeps_in_db keeps_covers_set_deleted) (simp add: now_def)
  moreover have "db_keeps albums_ok (album_reassign_covers as :: ('b, unit) app)" for as
  proof (rule keepsI)
    fix v :: "'b world" assume ok: "albums_ok (w_db v)"
    show "albums_ok (w_db (snd (album_reassign_covers as v)))"
    proof (cases "album_reassign_covers as v")
      case (Pair r v')
      have "covers_ok (w_db v) (set as)" using ok by (auto simp: covers_ok_def)
      moreover have "w_db v' = w_db v" if "r = Inl e" for e
        using Pair that by (auto simp: album_reassign_covers_def ret_def bnd_def in_db_def album_list_cover_candidates_def
            gets_def album_set_cover_batch_def Let_def split: if_splits)
      ultimately show ?thesis using Pair covers_reassign [of v as] ok by (cases r) auto
    qed
  qed
  ultimately have "db_keeps albums_ok (media_uc_delete_batch owner ids :: ('b, MediaItem list) app)"
    unfolding media_uc_delete_batch_def
    by (auto intro!: keeps_atomic keeps_bnd keeps_andthen keeps_in_db simp: album_list_ids_by_cover_ids_def)
  then show ?thesis using assms by (rule keepsD)
qed



end
