(* ===== verification/DownloadProps.thy ===== *)
theory DownloadProps
  imports AlbumProps
begin

text \<open>
  Download sessions of photos: a session holds photos of the user who asked for it, works once and for a
  minute.
\<close>

lemma download_items_of:
  "i \<in> set (download_items items blobs) \<Longrightarrow> \<exists>m \<in> set items. dm_name i = mi_name m \<and> dm_size i = mi_size m"
  by (induction items blobs rule: download_items.induct) (auto split: list.splits)

lemma media_item_from_db_name: "media_item_from_db d r = Inr m \<Longrightarrow> mi_name m = ir_name r"
  by (auto simp: media_item_from_db_def split: list.splits)

lemma media_get_download_items_Inr:
  assumes "media_get_download_items owner ids w = (Inr items, w')"
  shows "items \<noteq> []" "w' = w"
    "i \<in> set items \<Longrightarrow> \<exists>r \<in> set (d_media (w_db w)). ir_owner r = owner \<and> ir_id r \<in> set ids \<and> dm_name i = ir_name r"
proof -
  obtain all blobs where q: "media_item_get_by_id_batch (remdups ids) (w_db w) = (Inr all, w_db w)"
      and i: "items = download_items (filter (\<lambda>i. mi_owner_id i = owner) all) blobs" "items \<noteq> []" "w' = w"
    using assms
    by (auto simp: media_get_download_items_def bnd_Inr andthen_Inr guard_Inr ret_Inr in_db_Inr Let_def
        blob_service_get_by_id_batch_def blob_get_by_id_batch_def gets_Inr media_item_get_by_id_batch_def query_Inr split: if_splits)
  then show "items \<noteq> []" "w' = w" by simp_all
  assume "i \<in> set items"
  then obtain m where m: "m \<in> set all" "mi_owner_id m = owner" "dm_name i = mi_name m"
    using i(1) download_items_of by fastforce
  have "map_result (media_item_from_db (w_db w))
      (order_desc ir_modified_at (filter (\<lambda>r. ir_id r \<in> set (remdups ids)) (d_media (w_db w)))) = Inr all"
    using q by (simp add: media_item_get_by_id_batch_def query_Inr)
  from map_result_Inr_set [OF this m(1)] obtain r where
    "r \<in> set (d_media (w_db w))" "ir_id r \<in> set ids" "media_item_from_db (w_db w) r = Inr m" by auto
  then show "\<exists>r \<in> set (d_media (w_db w)). ir_owner r = owner \<and> ir_id r \<in> set ids \<and> dm_name i = ir_name r"
    using m media_item_from_db_fields media_item_from_db_name by metis
qed

lemma media_create_download_session_Inr:
  assumes "media_create_download_session E owner ids w = (Inr (key, n), w1)"
  shows "\<exists>items b. media_get_download_items owner ids w = (Inr items, w) \<and> n = length items \<and> w_now w1 = w_now w
    \<and> ic_set (e_cache E) (w_now w) (download_cache_key key) (CVItems items) (Some 60) None (w_cache w) = (Inr b, w_cache w1)"
proof -
  obtain items v where i: "media_get_download_items owner ids w = (Inr items, v)"
      and r: "andthen (guard (items \<noteq> []) MediaItemNotFound)
     (bnd (token_urlsafe (e_ext E) 32) (\<lambda>key.
      bnd (in_cache (\<lambda>t. ic_set (e_cache E) t (download_cache_key key) (CVItems items) (Some 60) None)) (\<lambda>_.
      ret (key, length items)))) v = (Inr (key, n), w1)"
    using assms unfolding media_create_download_session_def bnd_Inr by auto
  have "v = w" using media_get_download_items_Inr(2) [OF i] .
  then show ?thesis
    using i r by (auto simp: token_urlsafe_def Let_def bnd_Inr ret_Inr in_cache_Inr draw_Inr split: if_splits)
qed

lemma media_create_download_session_returns:
  assumes "cache_ok (e_cache E) view" "media_get_download_items owner ids w = (Inr items, w)" "items \<noteq> []"
  shows "\<exists>key w1. media_create_download_session E owner ids w = (Inr (key, length items), w1)"
proof -
  have set: "\<exists>c. ic_set (e_cache E) t k v (Some 60) None s = (Inr True, c)" for t k v s
    using cache_ok.cache_put_for [OF assms(1), of None] by blast
  obtain key v where key: "token_urlsafe (e_ext E) 32 w = (Inr key, v)"
    by (simp add: token_urlsafe_def bnd_def draw_def ret_def Let_def)
  obtain c where "ic_set (e_cache E) (w_now v) (download_cache_key key) (CVItems items) (Some 60) None (w_cache v) = (Inr True, c)"
    using set by blast
  then show ?thesis
    using assms(2,3) key by (simp add: media_create_download_session_def bnd_def andthen_def guard_def in_cache_def ret_def)
qed

text \<open>C28: A download session that was just created yields its photos, all of them photos of the user who asked for it
  among the requested ones, to the first request with its key within a minute. The second request and any request
  after the minute get nothing.\<close>

theorem download_session_works_once:
  fixes w :: "'b world"
  assumes "cache_ok (e_cache E) view"
    and "media_create_download_session E owner ids w = (Inr (key, n), w1)"
    and "w_cache w2 = w_cache w1" "w_now w1 \<le> w_now w2" "w_now w2 < w_now w1 + 60000000"
    and "w_cache late = w_cache w1" "w_now w1 + 60000000 \<le> w_now late"
  shows "\<exists>items w3. media_get_download_session E key w2 = (Inr (Some items), w3)
    \<and> length items = n \<and> 0 < n
    \<and> (\<forall>i \<in> set items. \<exists>r \<in> set (d_media (w_db w)).
          ir_owner r = owner \<and> ir_id r \<in> set ids \<and> dm_name i = ir_name r)
    \<and> fst (media_get_download_session E key w3) = Inr None
    \<and> fst (media_get_download_session E key late) = Inr None"
proof -
  let ?C = "e_cache E" and ?k = "download_cache_key key"
  obtain items b where items: "media_get_download_items owner ids w = (Inr items, w)" "n = length items" "w_now w1 = w_now w"
      and set: "ic_set ?C (w_now w) ?k (CVItems items) (Some 60) None (w_cache w) = (Inr b, w_cache w1)"
    using media_create_download_session_Inr [OF assms(2)] by blast
  obtain c where "ic_set ?C (w_now w) ?k (CVItems items) (Some 60) None (w_cache w) = (Inr True, c)"
      "\<forall>u \<ge> w_now w. view c u ?k = (if u < w_now w + 60 * 1000000 then Some (CVItems items) else None)"
    using cache_ok.cache_put_for [OF assms(1), of None "w_cache w" "w_now w" ?k "CVItems items" 60] by auto
  then have view: "view (w_cache w1) u ?k = (if u < w_now w + 60000000 then Some (CVItems items) else None)"
    if "w_now w \<le> u" for u using set that by simp
  have get: "ic_get ?C (w_now v) ?k (w_cache v) = (Inr (view (w_cache v) (w_now v) ?k), w_cache v)" for v :: "'b world"
    by (rule cache_ok.cache_get [OF assms(1)])
  obtain b3 c3 where del: "ic_delete ?C (w_now w2) ?k (w_cache w2) = (Inr b3, c3)"
      "\<And>u k'. view c3 u k' = (if k' = ?k then None else view (w_cache w2) u k')"
    by (rule cache_ok.cache_delete [OF assms(1), of "w_now w2" ?k "w_cache w2"]) blast
  have none: "fst (media_get_download_session E key v) = Inr None" if "view (w_cache v) (w_now v) ?k = None" for v
    using get [of v] that by (simp add: media_get_download_session_def bnd_def in_cache_def ret_def)
  have "media_get_download_session E key w2 = (Inr (Some items), w2\<lparr>w_cache := c3\<rparr>)"
    using get [of w2] view [of "w_now w2"] assms(3-5) items(3) del(1)
    by (simp add: media_get_download_session_def bnd_def in_cache_def ret_def)
  moreover have "fst (media_get_download_session E key (w2\<lparr>w_cache := c3\<rparr>)) = Inr None"
    by (rule none) (simp add: del(2))
  moreover have "fst (media_get_download_session E key late) = Inr None"
    by (rule none) (use view [of "w_now late"] assms(6,7) items(3) in simp)
  ultimately show ?thesis using items(2) media_get_download_items_Inr [OF items(1)] by (metis length_greater_0_conv)
qed

theorem download_session_works_once_witness:
  "\<exists>key n w1 items w3. media_create_download_session demo_env 1 [9, 10, 11] (world_of photo_db demo_backend) = (Inr (key, n), w1)
     \<and> media_get_download_session demo_env key w1 = (Inr (Some items), w3) \<and> length items = n \<and> 0 < n
     \<and> fst (media_get_download_session demo_env key w3) = Inr None"
proof -
  let ?w = "world_of photo_db demo_backend"
  let ?r = "media_create_download_session demo_env 1 [9, 10, 11] ?w"
  have C: "cache_ok (e_cache demo_env) demo_view" by (simp add: demo_cache_ok)
  let ?i = "media_get_download_items 1 [9, 10, 11] ?w :: (exn + DownloadMediaItem list) \<times> demo_state world"
  have "(case fst ?i of Inl e \<Rightarrow> False | Inr p \<Rightarrow> True)" by code_simp
  then obtain items v where i: "?i = (Inr items, v)" by (cases ?i) (auto split: sum.splits)
  then have "?i = (Inr items, ?w)" "items \<noteq> []" using media_get_download_items_Inr by metis+
  then obtain key w1 where r: "?r = (Inr (key, length items), w1)"
    using media_create_download_session_returns [OF C] by blast
  have "w_now w1 < w_now w1 + 60000000" by simp
  from download_session_works_once [OF C r refl order_refl this, of "w1\<lparr>w_now := w_now w1 + 60000000\<rparr>"]
  show ?thesis using r by auto
qed

end
