(* ===== verification/Migrations.thy ===== *)
theory Migrations
  imports FileRepo Pages "HOL-Library.Multiset"
begin

text \<open>
  The data migrations of \<open>src/app/infrastructure/database/tortoise/migrations\<close>: \<open>0009_file_blob_backfill\<close>
  gives every file a blob and \<open>0013_file_owner_backfill\<close> an owner. The tables are those between
  \<open>0008\<close> and \<open>0014\<close>: a file still has its hash and media type, and blob and owner may be missing.
  \<open>0011\<close> then drops hash and media type, and \<open>0014\<close> makes the owner mandatory.
\<close>

section \<open>The tables\<close>

record mig_file =
  mg_id :: uuid
  mg_name :: string
  mg_path :: string
  mg_chash :: string
  mg_size :: int
  mg_modified_at :: datetime
  mg_mediatype :: string
  mg_ns :: uuid
  mg_deleted_at :: "datetime option"
  mg_blob :: "uuid option"
  mg_owner :: "uuid option"

record mig_db =
  mg_next :: uuid
  mg_files :: "mig_file list"
  mg_metadata :: "(uuid \<times> Exif) list"
  mg_namespaces :: "namespace_row list"
  mg_blobs :: "blob_row list"
  mg_blob_metadata :: "blob_metadata_row list"

type_synonym 'a migration = "(mig_db, exn, 'a) prog"

text \<open>The joined row of \<open>select_related("namespace")\<close>; the foreign key makes it exist.\<close>

definition mig_namespace :: "mig_db \<Rightarrow> mig_file \<Rightarrow> namespace_row" where
  "mig_namespace d f = (case filter (\<lambda>n. nr_id n = mg_ns f) (mg_namespaces d) of
       [] \<Rightarrow> \<lparr> nr_id = 0, nr_path = [], nr_owner = 0 \<rparr> | n # _ \<Rightarrow> n)"

text \<open>\<open>bulk_update(files, fields=[...])\<close>: the rows with the identifiers of the objects take their fields.\<close>

definition mig_bulk_update :: "(mig_file \<Rightarrow> mig_file \<Rightarrow> mig_file) \<Rightarrow> mig_file list \<Rightarrow> mig_file list \<Rightarrow> mig_file list" where
  "mig_bulk_update set_fields files t =
     map (\<lambda>r. case filter (\<lambda>f. mg_id f = mg_id r) files of [] \<Rightarrow> r | f # _ \<Rightarrow> set_fields f r) t"

section \<open>0009: files to blobs\<close>

definition mig_storage_key :: "string \<Rightarrow> string \<Rightarrow> string" where
  "mig_storage_key ns_path path = ns_path @ ''/'' @ path"

definition files_without_blob :: "mig_db \<Rightarrow> mig_file list" where
  "files_without_blob d = filter (\<lambda>f. mg_blob f = None \<and> mg_mediatype f \<noteq> mt_folder) (mg_files d)"

text \<open>The loop over the files of a batch: the updated files, the new blobs, the new metadata and the next
  unused identifier.\<close>

fun process_files ::
  "mig_db \<Rightarrow> (uuid \<Rightarrow> Exif option) \<Rightarrow> uuid \<Rightarrow> mig_file list
     \<Rightarrow> mig_file list \<times> blob_row list \<times> blob_metadata_row list \<times> uuid" where
  "process_files d metadata_by_file_id next [] = ([], [], [], next)"
| "process_files d metadata_by_file_id next (file # files) =
     (let blob = \<lparr> br_id = next, br_storage_key = mig_storage_key (nr_path (mig_namespace d file)) (mg_path file),
            br_size = mg_size file, br_chash = mg_chash file, br_media_type = mg_mediatype file,
            br_created_at = mg_modified_at file \<rparr>;
          meta = (case metadata_by_file_id (mg_id file) of None \<Rightarrow> []
            | Some m \<Rightarrow> [\<lparr> mr_id = Suc next, mr_data = m, mr_blob = next \<rparr>]);
          (files', blobs, metas, next') = process_files d metadata_by_file_id (next + 1 + length meta) files
      in (file\<lparr>mg_blob := Some next\<rparr> # files', blob # blobs, meta @ metas, next'))"

definition process_batch :: "mig_file list \<Rightarrow> unit migration" where
  "process_batch files = (\<lambda>d.
     let metadata_by_file_id = map_of (rev (filter (\<lambda>(i, m). i \<in> mg_id ` set files) (mg_metadata d)));
         (files', blobs, blob_metadata, next) = process_files d metadata_by_file_id (mg_next d) files
     in if blobs = [] then (Inr (), d)
        else if distinct (map br_storage_key (mg_blobs d @ blobs))
        then (Inr (), d\<lparr>mg_next := next, mg_blobs := mg_blobs d @ blobs,
               mg_files := mig_bulk_update (\<lambda>f r. r\<lparr>mg_blob := mg_blob f\<rparr>) files' (mg_files d),
               mg_blob_metadata := mg_blob_metadata d @ blob_metadata\<rparr>)
        else (Inl IntegrityError, d))"

text \<open>The generator \<open>_iter_files\<close> interleaved with the body of the loop that consumes it.\<close>

fun backfill_loop :: "nat \<Rightarrow> nat \<Rightarrow> nat \<Rightarrow> unit option migration" where
  "backfill_loop 0 batch_size off = ret None"
| "backfill_loop (Suc fuel) batch_size off =
     bnd (gets (\<lambda>d. page_of off batch_size (files_without_blob d))) (\<lambda>batch.
     andthen (process_batch batch)
       (if batch = [] \<or> length batch < batch_size then ret (Some ())
        else backfill_loop fuel batch_size (off + batch_size)))"

definition backfill_files_to_blobs :: "nat \<Rightarrow> unit option migration" where
  "backfill_files_to_blobs fuel = backfill_loop fuel 1000 0"

section \<open>0013: file owners\<close>

fun backfill_owner_loop :: "nat \<Rightarrow> nat \<Rightarrow> unit option migration" where
  "backfill_owner_loop 0 batch_size = ret None"
| "backfill_owner_loop (Suc fuel) batch_size =
     bnd (gets (\<lambda>d. (d, take batch_size (filter (\<lambda>f. mg_owner f = None) (mg_files d))))) (\<lambda>(d, files).
       if files = [] then ret (Some ())
       else andthen
         (modify (\<lambda>d. d\<lparr>mg_files := mig_bulk_update (\<lambda>f r. r\<lparr>mg_owner := mg_owner f\<rparr>)
            (map (\<lambda>f. f\<lparr>mg_owner := Some (nr_owner (mig_namespace d f))\<rparr>) files) (mg_files d)\<rparr>))
         (backfill_owner_loop fuel batch_size))"

definition backfill_file_owner :: "nat \<Rightarrow> unit option migration" where
  "backfill_file_owner fuel = backfill_owner_loop fuel 1000"

section \<open>0011 and 0014: the tables of today\<close>

text \<open>Dropping \<open>chash\<close> and \<open>mediatype\<close>, and \<open>NOT NULL\<close> on the owner.\<close>

definition migrated_row :: "mig_file \<Rightarrow> exn + file_row" where
  "migrated_row f = (case mg_owner f of None \<Rightarrow> Inl IntegrityError
     | Some u \<Rightarrow> Inr \<lparr> fr_id = mg_id f, fr_name = mg_name f, fr_path = mg_path f, fr_size = mg_size f,
         fr_modified_at = mg_modified_at f, fr_owner = u, fr_ns = mg_ns f, fr_blob = mg_blob f,
         fr_deleted_at = mg_deleted_at f \<rparr>)"

definition migrate :: "nat \<Rightarrow> mig_db \<Rightarrow> (exn + file_row list option) \<times> mig_db" where
  "migrate fuel =
     bnd (backfill_files_to_blobs fuel) (\<lambda>a.
     bnd (backfill_file_owner fuel) (\<lambda>b.
     case (a, b) of
       (Some (), Some ()) \<Rightarrow> query (\<lambda>d. map_sum id Some (map_result migrated_row (mg_files d)))
     | _ \<Rightarrow> ret None))"

section \<open>What a batch does\<close>

definition mig_key :: "mig_db \<Rightarrow> mig_file \<Rightarrow> string" where
  "mig_key d f = mig_storage_key (nr_path (mig_namespace d f)) (mg_path f)"

definition blob_of :: "mig_db \<Rightarrow> mig_file \<Rightarrow> blob_row \<Rightarrow> bool" where
  "blob_of d f b \<longleftrightarrow> mg_blob f = Some (br_id b) \<and> br_storage_key b = mig_key d f \<and> br_size b = mg_size f
     \<and> br_chash b = mg_chash f \<and> br_media_type b = mg_mediatype f"

definition without_blob :: "mig_file \<Rightarrow> mig_file" where
  "without_blob f = f\<lparr>mg_blob := None\<rparr>"

lemma process_files_result:
  assumes "process_files d meta next files = (files', blobs, metas, next')"
  shows "map br_storage_key blobs = map (mig_key d) files \<and> map without_blob files' = map without_blob files
    \<and> (\<forall>f \<in> set files'. \<exists>b \<in> set blobs. blob_of d f b)"
  using assms
proof (induction d meta "next" files arbitrary: files' blobs metas next' rule: process_files.induct)
  case (2 d meta "next" f fs)
  let ?m = "case meta (mg_id f) of None \<Rightarrow> [] | Some m \<Rightarrow> [\<lparr> mr_id = Suc next, mr_data = m, mr_blob = next \<rparr>]"
  obtain fs' bs ms n' where rest: "process_files d meta (next + 1 + length ?m) fs = (fs', bs, ms, n')" by (metis prod_cases4)
  have key: "mig_key d (f\<lparr>mg_blob := Some next\<rparr>) = mig_key d f" by (simp add: mig_key_def mig_namespace_def)
  then show ?case
    using 2(1) [OF refl refl rest] 2(2) rest
    by (auto simp: Let_def blob_of_def mig_key_def [symmetric] without_blob_def)
qed simp

lemma map_bulk_update_blob:
  assumes "map without_blob files' = map without_blob files" "\<And>f. f \<in> set files' \<Longrightarrow> mg_blob f \<noteq> None"
    "set files \<subseteq> set t" "distinct (map mg_id t)" "\<And>f. f \<in> set files \<Longrightarrow> mg_blob f = None"
  defines "g \<equiv> \<lambda>r. case filter (\<lambda>f. mg_id f = mg_id r) files' of [] \<Rightarrow> r | f # _ \<Rightarrow> r\<lparr>mg_blob := mg_blob f\<rparr>"
  assumes "r \<in> set t"
  shows "if mg_id r \<in> mg_id ` set files then g r \<in> set files' \<and> mg_blob (g r) \<noteq> None else g r = r"
proof -
  have ids: "mg_id ` set files' = mg_id ` set files"
  proof -
    have "map mg_id files' = map mg_id (map without_blob files')" by (simp add: without_blob_def comp_def)
    also have "\<dots> = map mg_id files" unfolding assms(1) by (simp add: without_blob_def comp_def)
    finally show ?thesis by (metis set_map)
  qed
  show ?thesis
  proof (cases "filter (\<lambda>f. mg_id f = mg_id r) files'")
    case Nil
    then have "mg_id r \<notin> mg_id ` set files'" by (force simp: filter_empty_conv)
    then show ?thesis using ids Nil by (simp add: g_def)
  next
    case (Cons f fs)
    then have "f \<in> set (filter (\<lambda>f. mg_id f = mg_id r) files')" by simp
    then have f: "f \<in> set files'" "mg_id f = mg_id r" by auto
    have "without_blob f \<in> without_blob ` set files" using f(1) assms(1) by (metis imageI set_map)
    then obtain q where q: "q \<in> set files" "without_blob f = without_blob q" by auto
    then have "mg_id q = mg_id r" using f(2) by (simp add: without_blob_def) (metis mig_file.select_convs(1) mig_file.surjective mig_file.update_convs(10))
    then have "q = r" using assms(3,4,7) q(1) by (auto simp: distinct_map dest: inj_onD)
    then have "r\<lparr>mg_blob := mg_blob f\<rparr> = f" using q(2) by (cases f, cases r) (simp add: without_blob_def)
    then show ?thesis using f q(1) \<open>q = r\<close> assms(2) Cons by (auto simp: g_def)
  qed
qed

definition mig_ok :: "mig_db \<Rightarrow> bool" where
  "mig_ok d \<longleftrightarrow> distinct (map mg_id (mg_files d))
     \<and> distinct (map br_storage_key (mg_blobs d) @ map (mig_key d) (files_without_blob d))"

text \<open>What a part of the backfill may do: give files a blob with their content, and nothing else.\<close>

definition backfilled :: "mig_db \<Rightarrow> mig_db \<Rightarrow> bool" where
  "backfilled d d' \<longleftrightarrow> map without_blob (mg_files d') = map without_blob (mg_files d)
     \<and> mg_namespaces d' = mg_namespaces d \<and> set (mg_blobs d) \<subseteq> set (mg_blobs d')
     \<and> (\<forall>f \<in> set (mg_files d'). f \<in> set (mg_files d) \<or> (\<exists>b \<in> set (mg_blobs d'). blob_of d' f b))"

lemma backfilled_refl: "backfilled d d"
  by (simp add: backfilled_def)

lemma mig_key_cong: "mg_namespaces d' = mg_namespaces d \<Longrightarrow> mig_key d' = mig_key d"
  by (simp add: mig_key_def mig_namespace_def fun_eq_iff)

lemma backfilled_trans:
  assumes "backfilled d d1" "backfilled d1 d2"
  shows "backfilled d d2"
proof -
  have "mig_key d2 = mig_key d1" by (rule mig_key_cong) (use assms(2) in \<open>simp add: backfilled_def\<close>)
  then have mono: "blob_of d1 f b \<Longrightarrow> blob_of d2 f b" for f b by (simp add: blob_of_def)
  have "f \<in> set (mg_files d) \<or> (\<exists>b \<in> set (mg_blobs d2). blob_of d2 f b)" if f: "f \<in> set (mg_files d2)" for f
  proof (cases "f \<in> set (mg_files d1)")
    case True
    then have "f \<in> set (mg_files d) \<or> (\<exists>b \<in> set (mg_blobs d1). blob_of d1 f b)" using assms(1) by (simp add: backfilled_def)
    moreover have "set (mg_blobs d1) \<subseteq> set (mg_blobs d2)" using assms(2) by (simp add: backfilled_def)
    ultimately show ?thesis using mono by blast
  next
    case False
    then show ?thesis using assms(2) f unfolding backfilled_def by blast
  qed
  then show ?thesis using assms by (auto simp: backfilled_def)
qed

lemma process_batch_run:
  assumes "mig_ok d" "batch = take n (drop off (files_without_blob d))"
  shows "\<exists>d'. process_batch batch d = (Inr (), d') \<and> mig_ok d' \<and> backfilled d d'
    \<and> files_without_blob d' = take off (files_without_blob d) @ drop n (drop off (files_without_blob d))"
proof -
  let ?R = "files_without_blob d"
  obtain files' blobs metas "next" where
      p: "process_files d (map_of (rev (filter (\<lambda>(i, m). i \<in> mg_id ` set batch) (mg_metadata d)))) (mg_next d) batch
        = (files', blobs, metas, next)" by (metis prod_cases4)
  note r = process_files_result [OF p]
  have sub: "set batch \<subseteq> set ?R" unfolding assms(2) by (meson order_trans set_drop_subset set_take_subset)
  have perm: "mset batch + mset (take off ?R @ drop n (drop off ?R)) = mset ?R"
  proof -
    have "mset ?R = mset (take off ?R) + mset (batch @ drop n (drop off ?R))"
      unfolding assms(2) by (metis append_take_drop_id mset_append)
    then show ?thesis by simp
  qed
  have keys: "distinct (map br_storage_key (mg_blobs d @ blobs) @ map (mig_key d) (take off ?R @ drop n (drop off ?R)))"
  proof -
    have "mset (map br_storage_key (mg_blobs d @ blobs) @ map (mig_key d) (take off ?R @ drop n (drop off ?R)))
        = mset (map br_storage_key (mg_blobs d)) + image_mset (mig_key d) (mset batch + mset (take off ?R @ drop n (drop off ?R)))"
      using r by simp
    also have "\<dots> = mset (map br_storage_key (mg_blobs d) @ map (mig_key d) ?R)" unfolding perm by simp
    finally show ?thesis using assms(1) mset_eq_imp_distinct_iff unfolding mig_ok_def by blast
  qed
  define g where "g = (\<lambda>r :: mig_file. case filter (\<lambda>f. mg_id f = mg_id r) files' of [] \<Rightarrow> r | f # _ \<Rightarrow> r\<lparr>mg_blob := mg_blob f\<rparr>)"
  define d' where "d' = d\<lparr>mg_next := next, mg_blobs := mg_blobs d @ blobs, mg_files := map g (mg_files d),
      mg_blob_metadata := mg_blob_metadata d @ metas\<rparr>"
  have run: "process_batch batch d = (Inr (), d')" if "batch \<noteq> []"
  proof -
    have "blobs \<noteq> []" using r that by (metis list.map_disc_iff)
    moreover have "distinct (map br_storage_key (mg_blobs d @ blobs))" using keys by auto
    ultimately show ?thesis using p by (simp add: process_batch_def Let_def d'_def mig_bulk_update_def g_def)
  qed
  have g: "if mg_id r \<in> mg_id ` set batch then g r \<in> set files' \<and> mg_blob (g r) \<noteq> None else g r = r"
    if "r \<in> set (mg_files d)" for r
    unfolding g_def
    by (rule map_bulk_update_blob [where t = "mg_files d"])
       (use r sub assms(1) that in \<open>auto simp: mig_ok_def files_without_blob_def blob_of_def\<close>)
  have same: "without_blob (g r) = without_blob r" for r by (auto simp: g_def without_blob_def split: list.split)
  have media: "mg_mediatype (g r) = mg_mediatype r" for r by (auto simp: g_def split: list.split)
  have "files_without_blob d' = filter (\<lambda>r. mg_id r \<notin> mg_id ` set batch) ?R"
  proof -
    have "files_without_blob d' = map g (filter (\<lambda>r. mg_blob (g r) = None \<and> mg_mediatype r \<noteq> mt_folder) (mg_files d))"
      by (simp add: files_without_blob_def d'_def filter_map comp_def media)
    also have "filter (\<lambda>r. mg_blob (g r) = None \<and> mg_mediatype r \<noteq> mt_folder) (mg_files d)
        = filter (\<lambda>r. mg_id r \<notin> mg_id ` set batch) ?R"
      unfolding files_without_blob_def filter_filter
      by (rule filter_cong_set) (use g in \<open>force split: if_splits\<close>)
    also have "map g \<dots> = \<dots>" by (rule map_idI) (use g in \<open>force simp: files_without_blob_def split: if_splits\<close>)
    finally show ?thesis .
  qed
  also have "\<dots> = take off ?R @ drop n (drop off ?R)"
    using assms(1) unfolding assms(2)
    by (intro filter_page) (simp add: mig_ok_def files_without_blob_def distinct_map_filter)
  finally have left: "files_without_blob d' = take off ?R @ drop n (drop off ?R)" .
  have ids: "map mg_id (mg_files d') = map mg_id (mg_files d)"
    unfolding d'_def by (auto simp: g_def split: list.split)
  have K: "mig_key d' = mig_key d" by (rule mig_key_cong) (simp add: d'_def)
  have "distinct (map mg_id (mg_files d'))" using assms(1) unfolding ids by (simp add: mig_ok_def)
  moreover have "mg_blobs d' = mg_blobs d @ blobs" by (simp add: d'_def)
  ultimately have "mig_ok d'" using keys by (simp only: mig_ok_def left K simp_thms)
  moreover have "backfilled d d'"
  proof -
    have "f \<in> set (mg_files d) \<or> (\<exists>b \<in> set (mg_blobs d'). blob_of d' f b)" if f: "f \<in> set (mg_files d')" for f
    proof -
      obtain q where q: "q \<in> set (mg_files d)" "f = g q" using f by (auto simp: d'_def)
      then have "f \<in> set files' \<or> f = q" using g [OF q(1)] by (auto split: if_splits)
      then show ?thesis using r q(1) K by (auto simp: d'_def blob_of_def)
    qed
    moreover have "map without_blob (mg_files d') = map without_blob (mg_files d)" by (simp add: d'_def same)
    ultimately show ?thesis by (simp add: backfilled_def d'_def)
  qed
  ultimately have "batch \<noteq> [] \<Longrightarrow> ?thesis" using run left by blast
  moreover have "?thesis" if "batch = []"
  proof -
    have "take off ?R @ drop n (drop off ?R) = ?R"
      using that unfolding assms(2) by (metis append_Nil append_take_drop_id)
    moreover have "process_batch [] d = (Inr (), d)" by (simp add: process_batch_def)
    ultimately show ?thesis using assms(1) backfilled_refl that by auto
  qed
  ultimately show ?thesis by blast
qed

text \<open>The loop keeps the contract of \<open>Pages\<close>.\<close>

lemma backfill_loop_behind:
  assumes "0 < n" "length (files_without_blob d) \<le> off"
  shows "backfill_loop (Suc k) n off d = (Inr (Some ()), d)"
proof -
  have "page_of off n (files_without_blob d) = []" using assms by (simp add: page_of_def)
  moreover have "process_batch [] d = (Inr (), d)" by (simp add: process_batch_def)
  ultimately show ?thesis by (simp add: bnd_def gets_def andthen_def ret_def)
qed

lemma backfill_loop_page:
  assumes "mig_ok d" "0 < n" "off < length (files_without_blob d)"
  shows "\<exists>d'. mig_ok d' \<and> backfilled d d'
    \<and> files_without_blob d' = take off (files_without_blob d) @ drop n (drop off (files_without_blob d))
    \<and> (backfill_loop (Suc k) n off d = backfill_loop k n (off + n) d'
       \<or> backfill_loop (Suc k) n off d = (Inr (Some ()), d') \<and> length (drop off (files_without_blob d)) \<le> n)"
proof -
  let ?R = "files_without_blob d" and ?batch = "page_of off n (files_without_blob d)"
  obtain d' where d': "process_batch ?batch d = (Inr (), d')" "mig_ok d'" "backfilled d d'"
      "files_without_blob d' = take off ?R @ drop n (drop off ?R)"
    using process_batch_run [OF assms(1), of ?batch n off] by (auto simp: page_of_def)
  have "?batch \<noteq> []" using assms(2,3) by (auto simp: page_of_def)
  then have "backfill_loop (Suc k) n off d = (if length ?batch < n then (Inr (Some ()), d') else backfill_loop k n (off + n) d')"
    using d'(1) by (simp add: bnd_def gets_def andthen_def ret_def)
  moreover have "length ?batch < n \<Longrightarrow> length (drop off ?R) \<le> n" by (auto simp: page_of_def)
  ultimately show ?thesis using d'(2-4) by (cases "length ?batch < n") auto
qed

interpretation backfill: offset_loop backfill_loop files_without_blob mig_ok backfilled
  by unfold_locales (use backfilled_refl backfilled_trans backfill_loop_behind backfill_loop_page in
      \<open>blast | (simp del: backfill_loop.simps)\<close>)+

text \<open>C33: With enough fuel the backfill of blobs returns. It changes no column but the blob, a file it gives a blob has
  its key, size, hash and media type there, and of the files without a blob every second thousand is left without
  one: all have a blob exactly when there were at most 1,000. The tables of today show the others as folders.\<close>

theorem backfill_leaves_every_second_page:
  assumes "mig_ok d" "length (files_without_blob d) \<le> fuel * 1000"
  shows "\<exists>d'. backfill_files_to_blobs (Suc fuel) d = (Inr (Some ()), d') \<and> backfilled d d'
    \<and> files_without_blob d' = odd_pages 1000 (files_without_blob d)
    \<and> (files_without_blob d' = [] \<longleftrightarrow> length (files_without_blob d) \<le> 1000)
    \<and> (\<forall>f \<in> set (files_without_blob d'). \<forall>r D. migrated_row f = Inr r \<longrightarrow> file_fields D r = Inr (EMPTY_CONTENT_HASH, mt_folder))"
proof -
  have "file_fields D r = Inr (EMPTY_CONTENT_HASH, mt_folder)"
    if "mg_blob f = None" "migrated_row f = Inr r" for f r D
    using that by (auto simp: migrated_row_def file_fields_def split: option.splits)
  then show ?thesis
    using backfill.leaves_odd_pages [OF assms(1), of 1000 fuel] assms(2) unfolding backfill_files_to_blobs_def
    by (auto simp: files_without_blob_def)
qed

section \<open>Owners\<close>

definition owned :: "mig_db \<Rightarrow> mig_file \<Rightarrow> mig_file" where
  "owned d f = (if mg_owner f = None then f\<lparr>mg_owner := Some (nr_owner (mig_namespace d f))\<rparr> else f)"

lemma bulk_update_owner:
  assumes "distinct (map mg_id t)" "set B \<subseteq> set t" "\<And>f. f \<in> set B \<Longrightarrow> mg_owner f = None"
  shows "mig_bulk_update (\<lambda>f r. r\<lparr>mg_owner := mg_owner f\<rparr>) (map (\<lambda>f. f\<lparr>mg_owner := Some (nr_owner (mig_namespace d f))\<rparr>) B) t
    = map (\<lambda>r. if mg_id r \<in> mg_id ` set B then owned d r else r) t"
  unfolding mig_bulk_update_def
proof (rule map_cong [OF refl])
  let ?s = "\<lambda>f. f\<lparr>mg_owner := Some (nr_owner (mig_namespace d f))\<rparr>"
  fix r assume r: "r \<in> set t"
  show "(case filter (\<lambda>f. mg_id f = mg_id r) (map ?s B) of [] \<Rightarrow> r | f # _ \<Rightarrow> r\<lparr>mg_owner := mg_owner f\<rparr>)
      = (if mg_id r \<in> mg_id ` set B then owned d r else r)"
  proof (cases "filter (\<lambda>f. mg_id f = mg_id r) (map ?s B)")
    case Nil
    then have "mg_id r \<notin> mg_id ` set B" by (force simp: filter_empty_conv)
    then show ?thesis using Nil by simp
  next
    case (Cons f fs)
    then have "f \<in> set (filter (\<lambda>f. mg_id f = mg_id r) (map ?s B))" by simp
    then obtain q where q: "q \<in> set B" "f = ?s q" "mg_id q = mg_id r" by auto
    then have "q = r" using assms(1,2) r by (auto simp: distinct_map dest: inj_onD)
    then show ?thesis using q assms(3) Cons by (auto simp: owned_def)
  qed
qed

lemma backfill_owner_loop_run:
  assumes "distinct (map mg_id (mg_files d))" "0 < n" "length (filter (\<lambda>f. mg_owner f = None) (mg_files d)) \<le> k * n"
  shows "backfill_owner_loop (Suc k) n d = (Inr (Some ()), d\<lparr>mg_files := map (owned d) (mg_files d)\<rparr>)"
  using assms
proof (induction k arbitrary: d)
  case 0
  then have "filter (\<lambda>f. mg_owner f = None) (mg_files d) = []" by simp
  moreover from this have "map (owned d) (mg_files d) = mg_files d"
    by (intro map_idI) (auto simp: owned_def filter_empty_conv)
  ultimately show ?case by (simp add: bnd_def gets_def ret_def)
next
  case (Suc k)
  let ?P = "\<lambda>f. mg_owner f = None" and ?t = "mg_files d"
  let ?B = "take n (filter ?P ?t)"
  let ?h = "\<lambda>r. if mg_id r \<in> mg_id ` set ?B then owned d r else r"
  let ?d1 = "d\<lparr>mg_files := map ?h ?t\<rparr>"
  show ?case
  proof (cases "?B = []")
    case True
    then have "filter ?P ?t = []" using Suc.prems(2) by simp
    moreover from this have "map (owned d) ?t = ?t" by (intro map_idI) (auto simp: owned_def filter_empty_conv)
    ultimately show ?thesis by (simp add: bnd_def gets_def ret_def)
  next
    case False
    have B: "set ?B \<subseteq> set ?t" "\<And>f. f \<in> set ?B \<Longrightarrow> mg_owner f = None" by (auto dest: in_set_takeD)
    note upd = bulk_update_owner [OF Suc.prems(1) B, of d]
    have own: "owned ?d1 f = owned d f" "owned d (owned d f) = owned d f" "mg_id (owned d f) = mg_id f"
      "mg_owner (owned d f) \<noteq> None" for f by (auto simp: owned_def mig_namespace_def)
    have "filter ?P (map ?h ?t) = map ?h (filter (\<lambda>r. mg_id r \<notin> mg_id ` set ?B) (filter ?P ?t))"
    proof -
      have "filter (\<lambda>r. mg_owner (?h r) = None) ?t = filter (\<lambda>r. mg_id r \<notin> mg_id ` set ?B) (filter ?P ?t)"
        unfolding filter_filter by (rule filter_cong_set) (use own(4) in auto)
      then show ?thesis by (simp add: filter_map comp_def)
    qed
    also have "\<dots> = map ?h (drop n (filter ?P ?t))"
      using filter_page [of mg_id "filter ?P ?t" n 0] Suc.prems(1) by (simp add: distinct_map_filter)
    finally have "length (filter ?P (mg_files ?d1)) \<le> k * n" using Suc.prems(3) by simp
    moreover have "distinct (map mg_id (mg_files ?d1))"
    proof -
      have "map mg_id (mg_files ?d1) = map mg_id ?t" using own(3) by simp
      then show ?thesis using Suc.prems(1) by (simp only:)
    qed
    ultimately have "backfill_owner_loop (Suc k) n ?d1 = (Inr (Some ()), ?d1\<lparr>mg_files := map (owned ?d1) (mg_files ?d1)\<rparr>)"
      using Suc.IH Suc.prems(2) by blast
    moreover have "map (owned ?d1) (mg_files ?d1) = map (owned d) ?t" using own(1,2) by simp
    ultimately show ?thesis
      using False upd
      by (simp add: bnd_def gets_def andthen_def modify_def del: backfill_owner_loop.simps
          add: backfill_owner_loop.simps(2) [of "Suc k"])
  qed
qed

text \<open>C34: With enough fuel the backfill of owners returns, and every file that had no owner has the owner of its
  namespace, so that none violates the constraint the next migration adds; nothing else changes.\<close>

theorem backfill_owner_completes:
  assumes "distinct (map mg_id (mg_files d))" "length (filter (\<lambda>f. mg_owner f = None) (mg_files d)) \<le> fuel * 1000"
  shows "backfill_file_owner (Suc fuel) d = (Inr (Some ()), d\<lparr>mg_files := map (owned d) (mg_files d)\<rparr>)
    \<and> (\<exists>rows. map_result migrated_row (map (owned d) (mg_files d)) = Inr rows \<and> length rows = length (mg_files d))"
proof
  show "backfill_file_owner (Suc fuel) d = (Inr (Some ()), d\<lparr>mg_files := map (owned d) (mg_files d)\<rparr>)"
    using backfill_owner_loop_run [OF assms(1), of 1000 fuel] assms(2) unfolding backfill_file_owner_def by simp
  show "\<exists>rows. map_result migrated_row (map (owned d) (mg_files d)) = Inr rows \<and> length rows = length (mg_files d)"
  proof -
    let ?F = "map (owned d) (mg_files d)"
    have "migrated_row f = Inr (projr (migrated_row f))" if "f \<in> set ?F" for f
      using that by (auto simp: owned_def migrated_row_def)
    then have "map_result migrated_row ?F = Inr (map (\<lambda>f. projr (migrated_row f)) ?F)" by (rule map_result_total)
    then show ?thesis by auto
  qed
qed

section \<open>A concrete run\<close>

definition old_db :: mig_db where
  "old_db = \<lparr> mg_next = 10,
     mg_files = [\<lparr> mg_id = 3, mg_name = ''docs'', mg_path = ''docs'', mg_chash = EMPTY_CONTENT_HASH, mg_size = 3,
         mg_modified_at = 0, mg_mediatype = mt_folder, mg_ns = 2, mg_deleted_at = None, mg_blob = None, mg_owner = None \<rparr>,
       \<lparr> mg_id = 4, mg_name = ''a.txt'', mg_path = ''docs/a.txt'', mg_chash = ''h'', mg_size = 3, mg_modified_at = 0,
         mg_mediatype = ''text/plain'', mg_ns = 2, mg_deleted_at = None, mg_blob = None, mg_owner = None \<rparr>],
     mg_metadata = [], mg_namespaces = [\<lparr> nr_id = 2, nr_path = ''alice'', nr_owner = 1 \<rparr>], mg_blobs = [], mg_blob_metadata = [] \<rparr>"

theorem backfill_leaves_every_second_page_witness:
  "\<exists>d'. backfill_files_to_blobs 2 old_db = (Inr (Some ()), d') \<and> files_without_blob d' = []"
proof -
  have "mig_ok old_db" "length (files_without_blob old_db) \<le> 1 * 1000"
    by (simp_all add: mig_ok_def files_without_blob_def old_db_def mt_folder_def)
  from backfill_leaves_every_second_page [OF this] this(2) show ?thesis by (auto simp: numeral_2_eq_2)
qed

theorem backfill_owner_completes_witness:
  "\<exists>d'. backfill_file_owner 2 old_db = (Inr (Some ()), d') \<and> map mg_owner (mg_files d') = [Some 1, Some 1]"
proof -
  have "distinct (map mg_id (mg_files old_db))" "length (filter (\<lambda>f. mg_owner f = None) (mg_files old_db)) \<le> 1 * 1000"
    by (simp_all add: old_db_def)
  from backfill_owner_completes [OF this] show ?thesis
    by (simp add: numeral_2_eq_2) (simp add: old_db_def owned_def mig_namespace_def)
qed

end
