(* ===== verification/FileSystemProps.thy ===== *)
theory FileSystemProps
  imports FileSystem
begin

text \<open>
  \<open>FileSystemStorage\<close> keeps the contract of the storage interface: the lemmas on the tree (what is
  readable after a node is put or removed), the keys that stay inside the storage's location, and
  the interpretation of \<open>object_store\<close>.
\<close>

section \<open>What is readable in a tree\<close>

definition reg_at :: "fs_node \<Rightarrow> string list \<Rightarrow> bytes option" where
  "reg_at t p = (case fs_walk t p of Inr (Reg b m) \<Rightarrow> Some b | _ \<Rightarrow> None)"

lemma reg_at_simps [simp]:
  "reg_at (Reg b m) [] = Some b" "reg_at (Dir es) [] = None" "reg_at (Reg b m) (c # cs) = None"
  "reg_at (Dir es) (c # cs) = (case map_of es c of None \<Rightarrow> None | Some n \<Rightarrow> reg_at n cs)"
  by (simp_all add: reg_at_def split: option.splits)

lemma map_of_update: "map_of (AList.update k v es) = (map_of es)(k \<mapsto> v)"
  by (rule update_conv')

lemma map_of_delete: "map_of (AList.delete k es) = (map_of es)(k := None)"
  by (rule delete_conv')

lemma fs_walk_append: "fs_walk t (p @ q) = (case fs_walk t p of Inl e \<Rightarrow> Inl e | Inr n \<Rightarrow> fs_walk n q)"
  by (induction t p rule: fs_walk.induct) (auto split: option.splits)

lemma fs_parent_Cons:
  "cs \<noteq> [] \<Longrightarrow> fs_parent (Dir es) (c # cs) = (case map_of es c of None \<Rightarrow> Inl FileNotFoundError | Some n \<Rightarrow> fs_parent n cs)"
  by (cases cs) (auto simp: fs_parent_def split: option.splits)


lemma reg_at_put:
  "fs_parent t p = Inr () \<Longrightarrow> p \<noteq> [] \<Longrightarrow>
     reg_at (fs_put t p n) q = (if prefix p q then reg_at n (drop (length p) q) else reg_at t q)"
proof (induction t p n arbitrary: q rule: fs_put.induct)
  case (3 es c cs m)
  show ?case
  proof (cases "cs = []")
    case True
    then show ?thesis by (cases q) (auto simp: map_of_update split: option.splits)
  next
    case False
    with 3 obtain n where n: "map_of es c = Some n" "fs_parent n cs = Inr ()"
      by (auto simp: fs_parent_Cons split: option.splits)
    show ?thesis using 3(1) [OF n(1) n(2) False] n by (cases q) (auto simp: map_of_update)
  qed
next
  case (2 b t c cs m)
  then show ?case by (cases cs) (auto simp: fs_parent_def)
qed simp

lemma reg_at_del: "p \<noteq> [] \<Longrightarrow> reg_at (fs_del t p) q = (if prefix p q then None else reg_at t q)"
proof (induction t p arbitrary: q rule: fs_del.induct)
  case (3 es c cs)
  show ?case
  proof (cases "cs = []")
    case True
    then show ?thesis by (cases q) (auto simp: map_of_delete split: option.splits)
  next
    case False
    show ?thesis
      using 3(1) [OF False _ False] False by (cases q) (auto simp: map_of_update split: option.splits)
  qed
next
  case (2 b t c cs)
  then show ?case by (cases q) auto
qed simp

lemma reg_at_makedirs: "fs_makedirs t p = Inr t' \<Longrightarrow> reg_at t' q = reg_at t q"
proof (induction t p arbitrary: t' q rule: fs_makedirs.induct)
  case (4 es c cs)
  have chain: "reg_at (dir_chain ds) q = None" for ds q
    by (induction ds arbitrary: q) (case_tac [!] q, auto)
  show ?case using 4 chain by (cases q) (auto simp: map_of_update split: option.splits sum.splits)
qed auto

text \<open>A path that names a regular file has nothing below it, and everything above it is a directory.\<close>

lemma reg_at_below: "reg_at t p \<noteq> None \<Longrightarrow> strict_prefix p q \<Longrightarrow> reg_at t q = None"
proof -
  assume "reg_at t p \<noteq> None" "strict_prefix p q"
  then obtain b m c cs where "fs_walk t p = Inr (Reg b m)" "q = p @ c # cs"
    by (auto simp: reg_at_def strict_prefix_def prefix_def neq_Nil_conv split: sum.splits fs_node.splits)
  then show ?thesis by (simp add: reg_at_def fs_walk_append)
qed

lemma reg_at_missing: "fs_walk t p = Inl e \<Longrightarrow> prefix p q \<Longrightarrow> reg_at t q = None"
  by (auto simp: reg_at_def prefix_def fs_walk_append)

section \<open>Keys\<close>

text \<open>A key names an object when it stays inside the location: its normal form is a relative path with
  at least one component and no \<open>".."\<close>. The location is an absolute, normalised path.\<close>

definition location_comps :: "string \<Rightarrow> string list" where
  "location_comps location = split_on slash (tl location)"

definition good_location :: "string \<Rightarrow> bool" where
  "good_location location \<longleftrightarrow> prefix ''/'' location \<and> good_comps (location_comps location)"

definition key_comps :: "string \<Rightarrow> string list" where
  "key_comps key = split_on slash (normpath key)"

definition good_key :: "string \<Rightarrow> bool" where
  "good_key key \<longleftrightarrow> good_comps (key_comps key)"

definition fs_good_key :: "string \<Rightarrow> string \<Rightarrow> bool" where
  "fs_good_key location key \<longleftrightarrow> good_location location \<and> good_key key"

definition fs_objects :: "string \<Rightarrow> 'z fs_state_scheme \<Rightarrow> string \<Rightarrow> bytes option" where
  "fs_objects location s k =
     (if good_location location \<and> good_comps (split_on slash k)
      then reg_at (fs_root s) (location_comps location @ split_on slash k) else None)"

definition fs_dir_at :: "string \<Rightarrow> 'z fs_state_scheme \<Rightarrow> string \<Rightarrow> bool" where
  "fs_dir_at location s k = fs_isdir (fs_root s) (location_comps location @ split_on slash k)"

lemma split_join_comps:
  assumes "good_comps cs"
  shows "split_on slash (join_with ''/'' (cs @ split_on slash r)) = cs @ split_on slash r"
  using assms by (intro split_join) (auto simp: good_comps_def good_comp_def dest: split_on_no_sep)

lemma good_locationD:
  assumes "good_location location"
  shows "location = ''/'' @ join_with ''/'' (location_comps location)" "good_comps (location_comps location)"
    "location_comps location \<noteq> []"
  using assms by (auto simp: good_location_def location_comps_def prefix_def)

lemma norm_comps_climbing: "''..'' \<in> set acc \<Longrightarrow> ''..'' \<in> set (norm_comps False acc cs)"
  by (induction cs arbitrary: acc) (auto simp: neq_Nil_conv)

lemma norm_comps_rooted:
  "''..'' \<notin> set (norm_comps False acc cs) \<Longrightarrow> good_comps L \<Longrightarrow>
     norm_comps True (acc @ rev L) cs = L @ norm_comps False acc cs"
proof (induction cs arbitrary: acc)
  case (Cons c cs)
  have no: "''..'' \<notin> set acc" using Cons.prems(1) norm_comps_climbing by blast
  then have hd: "acc \<noteq> [] \<Longrightarrow> hd acc \<noteq> ''..''" by (metis hd_in_set)
  show ?case
  proof (cases "c = ''..''")
    case True
    have "acc \<noteq> []"
    proof
      assume "acc = []"
      with True Cons.prems(1) show False using norm_comps_climbing [of "[''..'']" cs] by simp
    qed
    then show ?thesis using True Cons hd by simp
  next
    case False
    then show ?thesis using Cons.IH [of acc] Cons.IH [of "c # acc"] Cons.prems by (cases "c = [] \<or> c = ''.''") auto
  qed
qed simp

lemma good_keyD:
  assumes "good_key key"
  shows "key_comps key = norm_comps False [] (split_on slash key)" "\<not> prefix ''/'' key" "key \<noteq> []"
    "normpath key = path_of (key_comps key)" "key_comps key \<noteq> []"
proof -
  note g = assms [unfolded good_key_def]
  have dot: "split_on slash ''.'' = [''.'']" by code_simp
  show ne: "key \<noteq> []" using g dot by (auto simp: key_comps_def normpath_def good_comp_def)
  have n0: "initial_slashes key = 0"
  proof (rule ccontr)
    assume "initial_slashes key \<noteq> 0"
    then have "prefix ''/'' (normpath key)"
      using ne by (auto simp: normpath_def Let_def initial_slashes_def numeral_2_eq_2 split: if_splits)
    then obtain r where "normpath key = slash # r" by (auto simp: prefix_def)
    then show False using g by (simp add: key_comps_def good_comp_def)
  qed
  then show "\<not> prefix ''/'' key" by (auto simp: initial_slashes_def split: if_splits)
  show "key_comps key \<noteq> []" by (simp add: key_comps_def)
  let ?n = "norm_comps False [] (split_on slash key)"
  have slash: "\<And>c. c \<in> set ?n \<Longrightarrow> slash \<notin> set c"
  proof -
    have "set (norm_comps b acc cs) \<subseteq> set acc \<union> set cs" for b acc and cs :: "string list"
    proof (induction b acc cs rule: norm_comps.induct)
      case (2 rooted acc c cs)
      then show ?case by (cases acc) (auto split: if_splits)
    qed auto
    then show "\<And>c. c \<in> set ?n \<Longrightarrow> slash \<notin> set c" using split_on_no_sep by fastforce
  qed
  have np: "normpath key = (if join_with ''/'' ?n = [] then ''.'' else join_with ''/'' ?n)"
    using ne n0 by (simp add: normpath_def)
  then have j: "join_with ''/'' ?n \<noteq> []" "normpath key = join_with ''/'' ?n"
    using g dot by (auto simp: key_comps_def good_comp_def split: if_splits)
  then have "?n \<noteq> []" by auto
  then show eq: "key_comps key = ?n" using j(2) slash by (simp add: key_comps_def split_join)
  then show "normpath key = path_of (key_comps key)" using j \<open>?n \<noteq> []\<close> by (simp add: path_of_def)
qed

lemma good_comps_no_dotdot: "good_comps cs \<Longrightarrow> ''..'' \<notin> set cs"
  by (auto simp: good_comps_def good_comp_def)

lemma fullpath_key:
  assumes "good_location location" "good_key key"
  shows "fullpath location key = ''/'' @ join_with ''/'' (location_comps location @ key_comps key)"
proof -
  let ?L = "location_comps location" and ?K = "key_comps key"
  note L = good_locationD [OF assms(1)] and K = good_keyD [OF assms(2)]
  have gK: "good_comps ?K" using assms(2) by (simp add: good_key_def)
  have last: "location \<noteq> []" "last location \<noteq> slash"
    using L join_good_last [OF L(2,3)] join_good_ne [OF L(2)] by (metis append_is_Nil_conv list.distinct(1), metis last_appendR)
  then have j: "os_join location key = location @ ''/'' @ key" using K(2) by (simp add: os_join_def)
  have "split_on slash (location @ ''/'' @ key) = [] # ?L @ split_on slash key"
  proof -
    have "location @ ''/'' @ key = slash # join_with ''/'' (?L @ split_on slash key)"
      by (subst (1) L(1)) (simp add: join_with_append [OF L(3) split_on_ne])
    then show ?thesis using split_join_comps [OF L(2)] by simp
  qed
  moreover have "norm_comps True [] (?L @ split_on slash key) = ?L @ ?K"
  proof -
    have "norm_comps True acc (cs @ ds) = norm_comps True (rev cs @ acc) ds" if "good_comps cs" for acc cs ds
      using that by (induction cs arbitrary: acc) (auto simp: good_comp_def)
    then have "norm_comps True [] (?L @ split_on slash key) = norm_comps True (rev ?L) (split_on slash key)"
      using L(2) by simp
    also have "\<dots> = ?L @ ?K"
      using norm_comps_rooted [of "[]" "split_on slash key" ?L] good_comps_no_dotdot [OF gK] L(2) K(1) by simp
    finally show ?thesis .
  qed
  moreover have "initial_slashes (location @ ''/'' @ key) = 1"
  proof -
    obtain x t where "join_with ''/'' ?L = x # t" "x \<noteq> slash" using join_good_hd [OF L(2,3)] by blast
    then show ?thesis by (subst L(1)) (auto simp: initial_slashes_def)
  qed
  ultimately show ?thesis
    unfolding fullpath_def j using last(1) by (simp add: normpath_def Let_def)
qed

lemma fs_comps_key:
  assumes "good_location location" "good_key key"
  shows "fs_comps s (fullpath location key) = location_comps location @ key_comps key"
proof -
  have g: "good_comps (location_comps location @ key_comps key)"
    using assms good_locationD(2) by (simp add: good_key_def)
  have "pure_comps (slash # p) = pure_comps p" for p by (simp add: pure_comps_def)
  then show ?thesis
    using pure_comps_path_of [OF g] good_locationD(3) [OF assms(1)]
    by (simp add: fs_comps_def abs_comps_def fullpath_key [OF assms] path_of_def)
qed

section \<open>Objects\<close>

lemma split_inj: "split_on slash k = split_on slash k' \<longleftrightarrow> k = k'"
  by (metis join_split)

lemma split_normpath_key: "split_on slash (normpath key) = key_comps key"
  by (simp add: key_comps_def)

lemma under_iff:
  assumes "good_key d"
  shows "under d k \<longleftrightarrow> strict_prefix (key_comps d) (split_on slash k)"
proof -
  let ?K = "key_comps d"
  note K = good_keyD(4,5) [OF assms]
  have g: "good_comps ?K" using assms by (simp add: good_key_def)
  have np: "normpath d = join_with ''/'' ?K" using K by (simp add: path_of_def)
  have split: "split_on slash (join_with ''/'' ?K @ ''/'' @ r) = ?K @ split_on slash r" for r
  proof -
    have "join_with ''/'' ?K @ ''/'' @ r = join_with ''/'' (?K @ split_on slash r)"
      by (simp add: join_with_append [OF K(2) split_on_ne])
    then show ?thesis using split_join_comps [OF g] by simp
  qed
  have "under d k" if "split_on slash k = ?K @ z" "z \<noteq> []" for z
  proof -
    have "k = join_with ''/'' (?K @ z)" using join_split [of slash k] that(1) by simp
    then show ?thesis using join_with_append [OF K(2) that(2)] by (simp add: under_def np)
  qed
  moreover have "\<exists>r. split_on slash k = ?K @ split_on slash r" if u: "under d k"
  proof -
    obtain r where "k = join_with ''/'' ?K @ ''/'' @ r" using u unfolding under_def np by (auto elim!: prefixE)
    then show ?thesis using split [of r] by metis
  qed
  ultimately show ?thesis
    by (metis prefix_def split_on_ne strict_prefix_def append_Nil2 same_append_eq)
qed

lemma reg_at_not_dir: "\<not> fs_isdir t p \<Longrightarrow> strict_prefix p q \<Longrightarrow> reg_at t q = None"
  by (cases "fs_walk t p")
     (auto simp: fs_isdir_def reg_at_missing strict_prefix_def intro!: reg_at_below [of t p]
       elim: is_dir_node.elims simp: reg_at_def [of t p] split: fs_node.splits)

lemma reg_at_dir: "fs_isdir t p \<Longrightarrow> reg_at t p = None"
  by (auto simp: fs_isdir_def reg_at_def split: sum.splits fs_node.splits)

lemma fs_objects_cong: "(\<And>q. reg_at (fs_root s') q = reg_at (fs_root s) q) \<Longrightarrow> fs_objects location s' = fs_objects location s"
  by (simp add: fun_eq_iff fs_objects_def)

lemma fs_objects_put:
  assumes k: "good_location location" "good_key key" and p: "p = location_comps location @ key_comps key"
    and nd: "fs_parent (fs_root s) p = Inr ()" "\<not> fs_isdir (fs_root s) p"
    and s': "fs_root s' = fs_put (fs_root s) p (Reg b m)"
  shows "fs_objects location s' = (fs_objects location s)(normpath key \<mapsto> b)"
proof (rule ext)
  fix k'
  let ?L = "location_comps location" and ?K = "key_comps key" and ?q = "split_on slash k'"
  have ne: "p \<noteq> []" and g: "good_comps ?K" using p good_keyD(5) [OF k(2)] k(2) by (auto simp: good_key_def)
  have eq: "?q = ?K \<longleftrightarrow> k' = normpath key" by (metis split_inj split_normpath_key)
  consider "?q = ?K" | "strict_prefix ?K ?q" | "\<not> prefix ?K ?q" unfolding strict_prefix_def by metis
  then show "fs_objects location s' k' = ((fs_objects location s)(normpath key \<mapsto> b)) k'"
  proof cases
    case 1
    then show ?thesis using eq k(1) g reg_at_put [OF nd(1) ne] by (simp add: fs_objects_def s' p)
  next
    case 2
    then obtain c cs where "?q = ?K @ c # cs" by (auto simp: strict_prefix_def prefix_def neq_Nil_conv)
    moreover have "reg_at (fs_root s) (?L @ ?q) = None"
      using reg_at_not_dir [OF nd(2)] 2 p by (simp add: strict_prefix_def)
    ultimately show ?thesis using eq reg_at_put [OF nd(1) ne] by (simp add: fs_objects_def s' p)
  next
    case 3
    then show ?thesis using eq reg_at_put [OF nd(1) ne] by (auto simp: fs_objects_def s' p)
  qed
qed

lemma fs_objects_del:
  assumes "p = location_comps location @ key_comps key" "good_key key" "fs_root s' = fs_del (fs_root s) p"
  shows "fs_objects location s' k' =
     (if prefix (key_comps key) (split_on slash k') then None else fs_objects location s k')"
  using good_keyD(5) [OF assms(2)] by (simp add: fs_objects_def assms(1,3) reg_at_del)

text \<open>Deleting a regular file removes its object and no other.\<close>

lemma fs_objects_del_file:
  assumes k: "good_location location" "good_key key" and p: "p = location_comps location @ key_comps key"
    and nd: "\<not> fs_isdir (fs_root s) p" and s': "fs_root s' = fs_del (fs_root s) p"
  shows "fs_objects location s' = (fs_objects location s)(normpath key := None)"
proof (rule ext)
  fix k'
  let ?q = "split_on slash k'"
  have eq: "?q = key_comps key \<longleftrightarrow> k' = normpath key" by (metis split_inj split_normpath_key)
  have "strict_prefix (key_comps key) ?q \<Longrightarrow> fs_objects location s k' = None"
    using reg_at_not_dir [OF nd] p by (simp add: fs_objects_def strict_prefix_def)
  then show "fs_objects location s' k' = ((fs_objects location s)(normpath key := None)) k'"
    using eq fs_objects_del [OF p k(2) s'] by (auto simp: strict_prefix_def)
qed

section \<open>The operations\<close>

lemma os_call_Inr [prog_elims]:
  "os_call h f s = (Inr u, s') \<longleftrightarrow> (\<exists>t. f (fs_root s) = Inr t \<and> s' = s\<lparr>fs_root := t\<rparr>)"
  by (auto simp: os_call_def split: sum.splits)

lemma suppress_Inr:
  "suppress es (os_call h f) s = (Inr u, s') \<longleftrightarrow>
     (\<exists>t. f (fs_root s) = Inr t \<and> s' = s\<lparr>fs_root := t\<rparr>) \<or> (\<exists>e. f (fs_root s) = Inl e \<and> h e \<in> es \<and> s' = s)"
  by (auto simp: suppress_def try_else_def os_call_def ret_def raise_def split: sum.splits)

lemma from_path_Inr: "from_path location path s = (Inr f, s') \<longleftrightarrow>
   s' = s \<and> (\<exists>n. fs_walk (fs_root s) (fs_comps s path) = Inr n \<and> f = storage_file location s path (fs_comps s path) n)"
  by (auto simp: from_path_def query_Inr split: sum.splits)

lemma fs_comps_root [simp]: "fs_comps (s\<lparr>fs_root := t\<rparr>) = fs_comps s"
  by (simp add: fs_comps_def fun_eq_iff)

lemma fs_walk_put: "fs_parent t p = Inr () \<Longrightarrow> fs_walk (fs_put t p n) p = Inr n"
proof (induction t p n rule: fs_put.induct)
  case (2 b t c cs m)
  then show ?case by (cases cs) (auto simp: fs_parent_def)
next
  case (3 es c cs m)
  then show ?case
    by (cases "cs = []") (auto simp: map_of_update fs_parent_Cons split: option.splits)
qed simp

lemma fs_save_objects:
  assumes k: "fs_good_key location key" and run: "fs_save location key c s = (Inr f, s')"
  shows "fs_objects location s' = (fs_objects location s)(normpath key \<mapsto> c_data c)
     \<and> sf_size f = int (length (c_data c))"
proof -
  let ?p = "fs_comps s (fullpath location key)"
  note k' = k [unfolded fs_good_key_def, THEN conjunct1] k [unfolded fs_good_key_def, THEN conjunct2]
  obtain t n where t: "fs_open_write (fs_root s) ?p (c_data c) (fs_clock s) = Inr t" "s' = s\<lparr>fs_root := t\<rparr>"
    and n: "fs_walk t ?p = Inr n" "f = storage_file location s' (fullpath location key) ?p n"
    using run by (auto simp: fs_save_def prog_elims from_path_Inr)
  have p: "fs_parent (fs_root s) ?p = Inr ()" "\<not> fs_isdir (fs_root s) ?p"
    "t = fs_put (fs_root s) ?p (Reg (c_data c) (fs_clock s))"
    using t(1) by (auto simp: fs_open_write_def split: if_splits sum.splits)
  then have "n = Reg (c_data c) (fs_clock s)" using n(1) fs_walk_put by fastforce
  then have "sf_size f = int (length (c_data c))" using n(2) by (simp add: storage_file_def node_stat_def)
  moreover have "fs_root s' = fs_put (fs_root s) ?p (Reg (c_data c) (fs_clock s))" using t(2) p(3) by simp
  ultimately show ?thesis using fs_objects_put [OF k' fs_comps_key [OF k'] p(1,2)] by blast
qed

lemma fs_delete_objects:
  assumes k: "fs_good_key location key" and run: "fs_delete location key s = (Inr u, s')"
  shows "fs_objects location s' = (fs_objects location s)(normpath key := None)"
proof -
  let ?p = "fs_comps s (fullpath location key)"
  note k' = k [unfolded fs_good_key_def, THEN conjunct1] k [unfolded fs_good_key_def, THEN conjunct2]
  note p = fs_comps_key [OF k', of s]
  have gone: "fs_objects location s (normpath key) = reg_at (fs_root s) ?p"
    using k' by (simp add: fs_objects_def split_normpath_key p good_key_def)
  show ?thesis
  proof (cases "fs_isdir (fs_root s) ?p")
    case True
    then have "s' = s" using run by (simp add: fs_delete_def ret_Inr)
    then show ?thesis using gone reg_at_dir [OF True] by (simp add: fun_upd_idem)
  next
    case False
    with run consider t where "fs_unlink (fs_root s) ?p = Inr t" "s' = s\<lparr>fs_root := t\<rparr>"
      | "fs_unlink (fs_root s) ?p = Inl FileNotFoundError" "s' = s"
      by (auto simp: fs_delete_def suppress_Inr)
    then show ?thesis
    proof cases
      case 1
      then have "fs_root s' = fs_del (fs_root s) ?p" by (auto simp: fs_unlink_def split: sum.splits if_splits)
      then show ?thesis by (rule fs_objects_del_file [OF k' p False])
    next
      case 2
      then have "reg_at (fs_root s) ?p = None"
        by (auto simp: fs_unlink_def reg_at_def split: sum.splits if_splits)
      then show ?thesis using gone 2 by (simp add: fun_upd_idem)
    qed
  qed
qed

lemma fs_delete_batch_objects:
  "(\<forall>k \<in> set ks. fs_good_key location k) \<Longrightarrow> fs_delete_batch location ks s = (Inr u, s') \<Longrightarrow>
     fs_objects location s' = (\<lambda>k. if k \<in> normpath ` set ks then None else fs_objects location s k)"
proof (induction ks arbitrary: s)
  case Nil
  then show ?case by (simp add: fs_delete_batch_def ret_Inr)
next
  case (Cons k ks)
  then obtain s1 v where "fs_delete location k s = (Inr v, s1)" "fs_delete_batch location ks s1 = (Inr u, s')"
    by (auto simp: fs_delete_batch_def prog_elims)
  then show ?case using Cons.IH [of s1] Cons.prems(1) fs_delete_objects [of location k s v s1] by (auto simp: fun_eq_iff)
qed

lemma fs_deletedir_objects:
  assumes k: "fs_good_key location d" and run: "fs_deletedir location d s = (Inr u, s')"
  shows "fs_objects location s' = (\<lambda>k. if under d k then None else fs_objects location s k)"
proof (rule ext)
  fix k'
  let ?p = "fs_comps s (fullpath location d)"
  note k' = k [unfolded fs_good_key_def, THEN conjunct1] k [unfolded fs_good_key_def, THEN conjunct2]
  note p = fs_comps_key [OF k', of s]
  consider t where "fs_rmtree (fs_root s) ?p = Inr t" "s' = s\<lparr>fs_root := t\<rparr>"
    | e where "fs_rmtree (fs_root s) ?p = Inl e" "s' = s"
    using run by (auto simp: fs_deletedir_def suppress_Inr)
  then show "fs_objects location s' k' = (if under d k' then None else fs_objects location s k')"
  proof cases
    case 1
    then have d: "fs_root s' = fs_del (fs_root s) ?p" "fs_isdir (fs_root s) ?p"
      by (auto simp: fs_rmtree_def fs_isdir_def split: sum.splits if_splits)
    have "fs_objects location s k' = None" if "split_on slash k' = key_comps d"
      using reg_at_dir [OF d(2)] that by (simp add: fs_objects_def p)
    then show ?thesis
      using fs_objects_del [OF p k'(2) d(1), of k'] under_iff [OF k'(2)] by (auto simp: strict_prefix_def)
  next
    case 2
    then have "\<not> fs_isdir (fs_root s) ?p" by (auto simp: fs_rmtree_def fs_isdir_def split: sum.splits if_splits)
    then show ?thesis
      using reg_at_not_dir [of "fs_root s" ?p "location_comps location @ split_on slash k'"] under_iff [OF k'(2)] 2
      by (simp add: fs_objects_def p strict_prefix_def)
  qed
qed

section \<open>Moving\<close>

lemma fs_isdir_simps [simp]:
  "fs_isdir (Dir es) []" "\<not> fs_isdir (Reg b m) p"
  "fs_isdir (Dir es) (c # cs) = (case map_of es c of None \<Rightarrow> False | Some n \<Rightarrow> fs_isdir n cs)"
  by (cases p; auto simp: fs_isdir_def split: option.splits)+

lemma fs_isdir_del: "p \<noteq> [] \<Longrightarrow> fs_isdir (fs_del t p) q \<longleftrightarrow> fs_isdir t q \<and> \<not> prefix p q"
proof (induction t p arbitrary: q rule: fs_del.induct)
  case (3 es c cs)
  show ?case
  proof (cases "cs = []")
    case True
    then show ?thesis by (cases q) (auto simp: map_of_delete split: option.splits)
  next
    case False
    show ?thesis
      using 3(1) [OF False _ False] False by (cases q) (auto simp: map_of_update split: option.splits)
  qed
qed simp_all

lemma fs_isdir_makedirs: "fs_makedirs t p = Inr t' \<Longrightarrow> fs_isdir t' q \<longleftrightarrow> fs_isdir t q \<or> prefix q p"
proof (induction t p arbitrary: t' q rule: fs_makedirs.induct)
  case (4 es c cs)
  have chain: "fs_isdir (dir_chain ds) q = prefix q ds" for ds q
  proof (induction ds arbitrary: q)
    case Nil
    then show ?case by (cases q) auto
  next
    case (Cons d ds)
    then show ?case by (cases q) auto
  qed
  show ?case
  proof (cases "map_of es c")
    case None
    then show ?thesis using 4(2) chain by (cases q) (auto simp: map_of_update split: if_splits)
  next
    case (Some n)
    then show ?thesis using 4 by (cases q) (auto simp: map_of_update split: sum.splits if_splits)
  qed
qed auto

lemma fs_parent_isdir: "fs_parent t p = Inr () \<longleftrightarrow> fs_isdir t (butlast p)"
  by (auto simp: fs_parent_def fs_isdir_def split: sum.splits)

lemma shutil_move_file:
  assumes "fs_walk t src = Inr (Reg b m)" "src \<noteq> dst" "\<not> fs_isdir t dst"
  shows "shutil_move t src dst =
     (case fs_parent t dst of Inl e \<Rightarrow> Inl e | Inr u \<Rightarrow> Inr (fs_put (fs_del t src) dst (Reg b m)))"
  using assms by (auto simp: shutil_move_def fs_rename_def fs_copy_remove_def fs_open_write_def split: sum.splits)

lemma shutil_move_missing: "fs_walk t src = Inl e \<Longrightarrow> \<exists>e'. shutil_move t src dst = Inl e'"
  by (auto simp: shutil_move_def Let_def fs_rename_def fs_copy_remove_def)

lemma shutil_move_inside:
  assumes "fs_isdir t src" "strict_prefix src dst"
  shows "\<exists>e. shutil_move t src dst = Inl e"
proof -
  obtain es where "fs_walk t src = Inr (Dir es)"
    using assms(1) by (auto simp: fs_isdir_def elim: is_dir_node.elims split: sum.splits)
  then show ?thesis
    using assms(2) by (auto simp: shutil_move_def Let_def fs_rename_def fs_copy_remove_def strict_prefix_def fs_exists_def)
qed

lemma split_dirname:
  assumes "good_comps cs" "cs \<noteq> []" "butlast cs \<noteq> []"
  shows "dirname (join_with ''/'' cs) = join_with ''/'' (butlast cs)"
proof -
  have cs: "join_with ''/'' cs = join_with ''/'' (butlast cs) @ ''/'' @ last cs"
    using join_with_snoc [OF assms(3)] assms(2) by (metis append_butlast_last_id)
  have "good_comps (butlast cs)" using assms(1) by (auto simp: good_comps_def dest: in_set_butlastD)
  moreover have "slash \<notin> set (last cs)" using assms(1,2) by (auto simp: good_comps_def good_comp_def)
  ultimately show ?thesis
    unfolding cs using dirname_append join_good_ne join_good_last assms(3) by simp
qed

text \<open>The parent of a normalised key, seen from either side.\<close>

lemma parent_comps:
  assumes "good_location location" "good_key t" "normpath t = t"
  shows "fs_comps s (dirname (fullpath location t)) = location_comps location @ butlast (key_comps t)"
    and "fs_comps s (fullpath location (dirname t)) = location_comps location @ butlast (key_comps t)"
proof -
  let ?L = "location_comps location" and ?K = "key_comps t"
  note L = good_locationD [OF assms(1)] and K = good_keyD [OF assms(2)]
  have g: "good_comps ?K" using assms(2) by (simp add: good_key_def)
  have gb: "good_comps (?L @ butlast ?K)" using g L(2) by (auto simp: good_comps_def dest: in_set_butlastD)
  have pure: "pure_comps (slash # join_with ''/'' cs) = cs" if "good_comps cs" for cs
  proof (cases "cs = []")
    case True
    then show ?thesis by (simp add: pure_comps_def)
  next
    case False
    then show ?thesis using split_path_of [OF that] that
      by (auto simp: pure_comps_def path_of_def good_comps_def good_comp_def intro!: filter_True)
  qed
  have "dirname (slash # join_with ''/'' (?L @ ?K)) = slash # join_with ''/'' (?L @ butlast ?K)"
  proof -
    have "join_with ''/'' (?L @ ?K) = join_with ''/'' (?L @ butlast ?K) @ ''/'' @ last ?K"
      using join_with_snoc [of "?L @ butlast ?K" "''/''" "last ?K"] L(3) K(5) by simp
    moreover have "slash \<notin> set (last ?K)" using g K(5) by (auto simp: good_comps_def good_comp_def)
    ultimately show ?thesis
      using dirname_append [of "last ?K" "slash # join_with ''/'' (?L @ butlast ?K)"] gb L(3)
        join_good_last [OF gb] join_good_ne [OF gb] by simp
  qed
  then show "fs_comps s (dirname (fullpath location t)) = ?L @ butlast ?K"
    using pure [OF gb] by (simp add: fullpath_key [OF assms(1,2)] fs_comps_def abs_comps_def)
  have t: "t = join_with ''/'' ?K" using assms(3) K(4,5) by (simp add: path_of_def)
  show "fs_comps s (fullpath location (dirname t)) = ?L @ butlast ?K"
  proof (cases "butlast ?K = []")
    case False
    have gd: "good_comps (butlast ?K)" using gb by simp
    have d: "dirname t = join_with ''/'' (butlast ?K)"
      using split_dirname [OF g K(5) False] t by simp
    then have "normpath (dirname t) = dirname t" "key_comps (dirname t) = butlast ?K"
      using normpath_path_of [OF gd] split_path_of [OF gd False] False by (simp_all add: path_of_def key_comps_def)
    then show ?thesis using fs_comps_key [OF assms(1), of "dirname t"] gd by (simp add: good_key_def)
  next
    case True
    then obtain c where c: "?K = [c]" using K(5) by (metis append_butlast_last_id append_Nil)
    then have "dirname t = []" using t g by (simp add: good_comp_def)
    moreover have "fullpath location [] = location"
    proof -
      have "last location \<noteq> slash" "location \<noteq> []"
        using L join_good_last [OF L(2,3)] join_good_ne [OF L(2)]
        by (metis last_appendR, metis append_is_Nil_conv list.distinct(1))
      then have "fullpath location [] = normpath (location @ ''/'')"
        by (simp add: fullpath_def os_join_def)
      also have "\<dots> = location"
      proof -
        have s: "split_on slash (location @ ''/'') = [] # ?L @ [[]]"
        proof -
          have "location @ ''/'' = slash # join_with ''/'' (?L @ [[]])"
            by (subst (1) L(1)) (simp add: join_with_snoc [OF L(3)])
          moreover have "split_on slash (join_with ''/'' (?L @ [[]])) = ?L @ [[]]"
            using split_join_comps [OF L(2), of "[]"] by simp
          ultimately show ?thesis by simp
        qed
        have n: "norm_comps True acc (cs @ [[]]) = rev acc @ cs" if "good_comps cs" for acc cs
          using that by (induction cs arbitrary: acc) (auto simp: good_comp_def)
        obtain x u where "join_with ''/'' ?L = x # u" "x \<noteq> slash" using join_good_hd [OF L(2,3)] by blast
        then have "initial_slashes (location @ ''/'') = 1" by (subst L(1)) (auto simp: initial_slashes_def)
        then show ?thesis using s n [OF L(2), of "[]"] L(1) by (simp add: normpath_def)
      qed
      finally show ?thesis .
    qed
    moreover have "fs_comps s location = ?L"
      using pure [OF L(2)] by (subst L(1)) (simp add: fs_comps_def abs_comps_def)
    ultimately show ?thesis using c by simp
  qed
qed

text \<open>A move that returns has moved a regular file; creating the parent on the way made no file readable
  and no directory at the target.\<close>

lemma fs_move_run:
  assumes k: "good_location location" "good_key a" "good_key t" "normpath t = t"
    and A: "A = location_comps location @ key_comps a" and T: "T = location_comps location @ key_comps t"
    and run: "fs_move location a t s = (Inr u, s')"
  obtains t1 b m where "fs_walk t1 A = Inr (Reg b m)" "\<And>q. reg_at t1 q = reg_at (fs_root s) q"
    "fs_isdir t1 T \<Longrightarrow> fs_isdir (fs_root s) T" "shutil_move t1 A T = Inr (fs_root s')"
proof -
  note Ac = fs_comps_key [OF k(1,2), folded A] and Tc = fs_comps_key [OF k(1,3), folded T]
  let ?P = "location_comps location @ butlast (key_comps t)"
  note P = parent_comps [OF k(1,3,4)]
  have nA: "\<not> fs_isdir (fs_root s) A" using run by (auto simp: fs_move_def Ac Let_def split: if_splits)
  have TP: "strict_prefix ?P T" using good_keyD(5) [OF k(3)] T
    by (cases "key_comps t" rule: rev_cases) (auto simp: strict_prefix_def)
  have "\<exists>t1. (fs_root s = t1 \<or> fs_makedirs (fs_root s) ?P = Inr t1) \<and> shutil_move t1 A T = Inr (fs_root s')"
    using run nA
    by (auto simp: fs_move_def fs_move_path_def fs_storage_makedirs_def Ac Tc P Let_def prog_elims split: if_splits)
  then obtain t1 where t1: "fs_root s = t1 \<or> fs_makedirs (fs_root s) ?P = Inr t1"
    and mv: "shutil_move t1 A T = Inr (fs_root s')" by blast
  have reg: "reg_at t1 q = reg_at (fs_root s) q" for q using t1 reg_at_makedirs by blast
  have dir: "fs_isdir t1 q \<longleftrightarrow> fs_isdir (fs_root s) q \<or> (fs_root s \<noteq> t1 \<and> prefix q ?P)" for q
    using t1 fs_isdir_makedirs [of "fs_root s" ?P t1 q] fs_isdir_makedirs [of "fs_root s" ?P t1 q] by blast
  have "\<not> fs_isdir t1 A"
  proof
    assume d: "fs_isdir t1 A"
    then have "prefix A ?P" using dir nA by blast
    then have "strict_prefix A T" using TP by (metis prefix_order.le_less_trans)
    then show False using shutil_move_inside [OF d] mv by fastforce
  qed
  moreover obtain n where "fs_walk t1 A = Inr n" using shutil_move_missing mv by (metis Inl_Inr_False sumE)
  ultimately obtain b m where w: "fs_walk t1 A = Inr (Reg b m)" by (cases n) (auto simp: fs_isdir_def)
  have "\<not> prefix T ?P" using TP by (meson prefix_order.less_le_not_le)
  then have "fs_isdir t1 T \<Longrightarrow> fs_isdir (fs_root s) T" using dir by blast
  with w reg mv show thesis using that by blast
qed

lemma fs_move_objects:
  assumes k: "fs_good_key location a" "fs_good_key location t" "normpath t = t" "normpath a \<noteq> t"
    and nd: "\<not> fs_dir_at location s t" and run: "fs_move location a t s = (Inr u, s')"
  shows "fs_objects location s (normpath a) \<noteq> None \<and>
     fs_objects location s' = ((fs_objects location s)(t := fs_objects location s (normpath a)))(normpath a := None)"
proof -
  let ?A = "location_comps location @ key_comps a" and ?T = "location_comps location @ key_comps t"
  have l: "good_location location" "good_key a" "good_key t" using k(1,2) by (auto simp: fs_good_key_def)
  have kt: "key_comps t = split_on slash t" using k(3) by (simp add: key_comps_def)
  have ne: "?A \<noteq> ?T" using k(4) kt split_inj by (metis same_append_eq split_normpath_key)
  obtain t1 b m where w: "fs_walk t1 ?A = Inr (Reg b m)" and reg: "\<And>q. reg_at t1 q = reg_at (fs_root s) q"
    and d: "fs_isdir t1 ?T \<Longrightarrow> fs_isdir (fs_root s) ?T" and mv: "shutil_move t1 ?A ?T = Inr (fs_root s')"
    using fs_move_run [OF l k(3) refl refl run] by blast
  have nT: "\<not> fs_isdir t1 ?T" using d nd kt by (auto simp: fs_dir_at_def)
  have nA: "\<not> fs_isdir t1 ?A" using w by (simp add: fs_isdir_def)
  have root: "fs_parent t1 ?T = Inr ()" "fs_root s' = fs_put (fs_del t1 ?A) ?T (Reg b m)"
    using mv unfolding shutil_move_file [OF w ne nT] by (auto split: sum.splits)
  let ?s1 = "s\<lparr>fs_root := t1\<rparr>" and ?s2 = "s\<lparr>fs_root := fs_del t1 ?A\<rparr>"
  have same: "fs_objects location ?s1 = fs_objects location s" by (rule fs_objects_cong) (simp add: reg)
  have ne2: "?A \<noteq> []" using good_keyD(5) [OF l(2)] by simp
  have "\<not> prefix ?A (butlast ?T)"
  proof
    assume "prefix ?A (butlast ?T)"
    then show False
      using root(1) w unfolding fs_parent_isdir
      by (auto simp: prefix_def fs_isdir_def fs_walk_append split: sum.splits)
         (metis fs_walk.elims is_dir_node.simps(2) sum.distinct(1) sum.inject(2) fs_node.distinct(1))
  qed
  then have par: "fs_parent (fs_root ?s2) ?T = Inr ()" "\<not> fs_isdir (fs_root ?s2) ?T"
    using root(1) nT by (simp_all add: fs_parent_isdir fs_isdir_del [OF ne2])
  have "fs_objects location ?s2 = (fs_objects location ?s1)(normpath a := None)"
    by (rule fs_objects_del_file [OF l(1,2) refl]) (simp_all add: nA)
  moreover have "fs_objects location s' = (fs_objects location ?s2)(normpath t \<mapsto> b)"
    by (rule fs_objects_put [OF l(1,3) refl par]) (simp add: root(2))
  moreover have "fs_objects location s (normpath a) = Some b"
    using w l reg [of ?A] by (simp add: fs_objects_def split_normpath_key good_key_def reg_at_def [of t1])
  ultimately show ?thesis using same k(3,4) by (simp add: fun_upd_twist)
qed

lemma fs_move_missing:
  assumes k: "fs_good_key location a" "fs_good_key location t" "normpath t = t"
    and none: "fs_objects location s (normpath a) = None"
  shows "\<exists>e. fst (fs_move location a t s) = Inl e"
proof (rule ccontr)
  assume no: "\<nexists>e. fst (fs_move location a t s) = Inl e"
  have l: "good_location location" "good_key a" "good_key t" using k(1,2) by (auto simp: fs_good_key_def)
  obtain u s' where "fs_move location a t s = (Inr u, s')" using no by (metis prod.collapse sumE)
  then obtain t1 b m where "fs_walk t1 (location_comps location @ key_comps a) = Inr (Reg b m)"
    "\<And>q. reg_at t1 q = reg_at (fs_root s) q"
    using fs_move_run [OF l k(3) refl refl] by metis
  then have "reg_at (fs_root s) (location_comps location @ key_comps a) = Some b"
    by (metis (mono_tags, lifting) fs_node.simps(5) reg_at_def sum.simps(6))
  then show False using none l by (simp add: fs_objects_def split_normpath_key good_key_def)
qed

section \<open>Reading\<close>

lemma fs_download_objects:
  assumes k: "fs_good_key location key"
  shows "fs_objects location s (normpath key) = Some b \<Longrightarrow> fs_download location key s = (Inr b, s)"
    and "fs_objects location s (normpath key) = None \<Longrightarrow> \<exists>e. fs_download location key s = (Inl e, s)"
proof -
  note k' = k [unfolded fs_good_key_def, THEN conjunct1] k [unfolded fs_good_key_def, THEN conjunct2]
  have o: "fs_objects location s (normpath key) = reg_at (fs_root s) (fs_comps s (fullpath location key))"
    using k' by (simp add: fs_objects_def split_normpath_key good_key_def fs_comps_key [OF k'])
  show "fs_objects location s (normpath key) = Some b \<Longrightarrow> fs_download location key s = (Inr b, s)"
    by (auto simp: o reg_at_def fs_download_def from_path_def fs_read_def prog_simps storage_file_def
        split: sum.splits fs_node.splits)
  show "fs_objects location s (normpath key) = None \<Longrightarrow> \<exists>e. fs_download location key s = (Inl e, s)"
    by (auto simp: o reg_at_def fs_download_def from_path_def fs_read_def prog_simps storage_file_def
        split: sum.splits fs_node.splits)
qed

lemma fs_exists_objects:
  assumes k: "fs_good_key location key" and o: "fs_objects location s (normpath key) \<noteq> None"
  shows "fs_storage_exists location key s = (Inr True, s)"
proof -
  note k' = k [unfolded fs_good_key_def, THEN conjunct1] k [unfolded fs_good_key_def, THEN conjunct2]
  show ?thesis
    using o k' by (auto simp: fs_objects_def split_normpath_key reg_at_def fs_storage_exists_def gets_def
        fs_exists_def fs_comps_key [OF k'] split: sum.splits if_splits)
qed

lemma fs_makedirs_objects: "fs_objects location (snd (fs_storage_makedirs location key s)) = fs_objects location s"
proof (rule fs_objects_cong)
  fix q
  show "reg_at (fs_root (snd (fs_storage_makedirs location key s))) q = reg_at (fs_root s) q"
    by (auto simp: fs_storage_makedirs_def os_call_def reg_at_makedirs split: sum.splits)
qed

section \<open>The contract is kept\<close>

lemma fs_storage_ops:
  "io_save (FileSystemStorage location) = fs_save location"
  "io_delete_batch (FileSystemStorage location) = fs_delete_batch location"
  "io_deletedir (FileSystemStorage location) = fs_deletedir location"
  "io_move (FileSystemStorage location) = fs_move location"
  "io_download (FileSystemStorage location) = fs_download location"
  "io_exists (FileSystemStorage location) = fs_storage_exists location"
  "io_makedirs (FileSystemStorage location) = fs_storage_makedirs location"
  by (simp_all add: FileSystemStorage_def)

lemma fs_exists_reads: "snd (fs_storage_exists location key s) = s"
  by (simp add: fs_storage_exists_def)

interpretation fs: object_store "FileSystemStorage location" "fs_objects location" "fs_good_key location" "fs_dir_at location"
  for location
  by (unfold_locales, unfold fs_storage_ops)
     (rule fs_save_objects fs_delete_batch_objects fs_deletedir_objects fs_move_objects fs_move_missing
       fs_download_objects fs_exists_objects fs_exists_reads fs_makedirs_objects; assumption)+

section \<open>Nothing outside the location is touched\<close>

lemma reg_at_put_outside: "\<not> prefix p q \<Longrightarrow> reg_at (fs_put t p n) q = reg_at t q"
proof (induction t p n arbitrary: q rule: fs_put.induct)
  case (3 es c cs m)
  show ?case
  proof (cases q)
    case (Cons d ds)
    then show ?thesis using 3 by (auto simp: map_of_update split: option.splits)
  qed (auto split: option.splits)
qed auto

text \<open>\<open>outside L t t'\<close>: the two trees have the same files but for those below \<open>L\<close>.\<close>

definition outside :: "string list \<Rightarrow> fs_node \<Rightarrow> fs_node \<Rightarrow> bool" where
  "outside L t t' \<longleftrightarrow> (\<forall>q. \<not> prefix L q \<longrightarrow> reg_at t' q = reg_at t q)"

lemma outside_refl [simp]: "outside L t t"
  by (simp add: outside_def)

lemma outside_trans: "outside L t t1 \<Longrightarrow> outside L t1 t2 \<Longrightarrow> outside L t t2"
  by (simp add: outside_def)

lemma outside_put: "prefix L p \<Longrightarrow> outside L t (fs_put t p n)"
  unfolding outside_def using reg_at_put_outside by (metis prefix_order.trans)

lemma outside_del: "prefix L p \<Longrightarrow> p \<noteq> [] \<Longrightarrow> outside L t (fs_del t p)"
  unfolding outside_def using reg_at_del by (metis prefix_order.trans)

lemma outside_makedirs: "fs_makedirs t p = Inr t' \<Longrightarrow> outside L t t'"
  by (simp add: outside_def reg_at_makedirs)

lemma outside_rename:
  "fs_rename t src dst = Inr t' \<Longrightarrow> prefix L src \<Longrightarrow> prefix L dst \<Longrightarrow> src \<noteq> [] \<Longrightarrow> outside L t t'"
  unfolding fs_rename_def
  by (auto split: sum.splits if_splits intro: outside_trans [OF outside_del outside_put])

lemma outside_copy_remove:
  "fs_copy_remove t src dst real_dst = Inr t' \<Longrightarrow> prefix L src \<Longrightarrow> prefix L real_dst \<Longrightarrow> src \<noteq> [] \<Longrightarrow>
     outside L t t'"
  unfolding fs_copy_remove_def fs_open_write_def
  by (auto split: sum.splits if_splits fs_node.splits
      intro: outside_trans [OF outside_put outside_del] outside_trans [OF outside_makedirs outside_trans [OF outside_put outside_del]])

lemma outside_shutil_move:
  assumes "shutil_move t src dst = Inr t'" "prefix L src" "prefix L dst" "src \<noteq> []"
  shows "outside L t t'"
proof -
  let ?real = "if fs_isdir t dst \<and> src \<noteq> dst then dst @ drop (length src - 1) src else dst"
  have "prefix L ?real" using assms(3) by (auto intro: prefix_prefix)
  moreover have "fs_rename t src ?real = Inr t' \<or> fs_copy_remove t src dst ?real = Inr t'"
    using assms(1) by (auto simp: shutil_move_def Let_def split: if_splits sum.splits)
  ultimately show ?thesis using outside_rename outside_copy_remove assms(2,4) by blast
qed

lemma outside_os_call:
  "(\<And>t t'. f t = Inr t' \<Longrightarrow> outside L t t') \<Longrightarrow> outside L (fs_root s) (fs_root (snd (os_call h f s)))"
  by (auto simp: os_call_def split: sum.splits)

lemma outside_suppress:
  "outside L (fs_root s) (fs_root (snd (m s))) \<Longrightarrow> outside L (fs_root s) (fs_root (snd (suppress es m s)))"
  by (auto simp: suppress_def try_else_def ret_def raise_def split: prod.splits sum.splits)

section \<open>Properties\<close>

text \<open>C5: What \<open>FileSystemStorage.save\<close> stored under a key inside the location is what \<open>download\<close> returns for the key,
  and every other object is what it was.\<close>

theorem fs_save_download:
  assumes "fs_good_key location key" "content_ok c" "fs_save location key c s = (Inr f, s')"
  shows "fs_download location key s' = (Inr (c_data c), s')
     \<and> (\<forall>k. k \<noteq> normpath key \<longrightarrow> fs_objects location s' k = fs_objects location s k)"
  using fs.save_then_download [unfolded fs_storage_ops, OF assms]
    fs.save_keeps_others [unfolded fs_storage_ops, OF assms] by blast

definition example_fs :: fs_state where
  "example_fs = \<lparr> fs_root = Dir [(''srv'', Dir [(''data'', Dir [(''u'', Dir [(''a'', Reg [1] 0)])]), (''b'', Reg [2] 0)])],
     fs_cwd = [], fs_clock = 5, fs_dir_stat = (\<lambda>_. (0, 0)) \<rparr>"

theorem fs_save_download_witness:
  "\<exists>f s'. fs_save ''/srv/data'' ''u/c'' (InMemoryBlobContent [3, 4]) example_fs = (Inr f, s')
     \<and> fs_download ''/srv/data'' ''u/c'' s' = (Inr [3, 4], s')"
proof -
  let ?r = "fs_save ''/srv/data'' ''u/c'' (InMemoryBlobContent [3, 4]) example_fs"
  have "\<not> isl (fst ?r)" by code_simp
  then obtain f s' where run: "?r = (Inr f, s')" by (cases ?r; cases "fst ?r") auto
  have "fs_good_key ''/srv/data'' ''u/c''" by code_simp
  then show ?thesis
    using fs_save_download [OF _ content_ok_in_memory run] run by (simp add: InMemoryBlobContent_def)
qed



end
