(* ===== verification/UploadProps.thy ===== *)
theory UploadProps
  imports TableRules Demo FileSystemProps
begin

text \<open>
  Uploading a file: the quota of the account, the room it takes, and what is refused before anything is
  written.
\<close>

section \<open>The space an account uses\<close>

definition root_of :: "db \<Rightarrow> uuid \<Rightarrow> file_row \<Rightarrow> bool" where
  "root_of d owner r \<longleftrightarrow> fr_path r = ''.'' \<and> (\<exists>n \<in> set (d_namespaces d). nr_id n = fr_ns r \<and> nr_owner n = owner)"

definition space_used :: "db \<Rightarrow> uuid \<Rightarrow> int" where
  "space_used d owner = sum_list (map fr_size (filter (root_of d owner) (d_files d)))"

lemma namespace_get_space_used [simp]: "namespace_get_space_used_by_owner_id owner d = (Inr (space_used d owner), d)"
  unfolding namespace_get_space_used_by_owner_id_def gets_def space_used_def root_of_def ..

lemma root_of_cong: "d_namespaces d' = d_namespaces d \<Longrightarrow> root_of d' = root_of d"
  by (simp add: root_of_def fun_eq_iff)

lemma space_used_cong: "d_namespaces d' = d_namespaces d \<Longrightarrow> d_files d' = d_files d \<Longrightarrow> space_used d' = space_used d"
  unfolding space_used_def [abs_def] root_of_cong [of d' d] by simp

lemma insert_ignoring_space:
  "fr_size r = 0 \<Longrightarrow> space_used (insert_file_ignoring d r) owner = space_used d owner
     \<and> d_namespaces (insert_file_ignoring d r) = d_namespaces d"
  using root_of_cong [of "insert_file_ignoring d r" d]
  by (auto simp: insert_file_ignoring_def space_used_def)

lemma foldl_insert_space:
  "\<forall>r \<in> set rs. fr_size r = 0 \<Longrightarrow> space_used (foldl insert_file_ignoring d rs) owner = space_used d owner
     \<and> d_namespaces (foldl insert_file_ignoring d rs) = d_namespaces d"
  by (induction rs arbitrary: d) (auto simp: insert_ignoring_space)

text \<open>New folders are empty.\<close>

lemma create_folder_space:
  assumes "filecore_create_folder ns_path path w = (Inr f, w')"
  shows "space_used (w_db w') owner = space_used (w_db w) owner \<and> d_namespaces (w_db w') = d_namespaces (w_db w)"
proof -
  obtain ns t ps d1 where save: "file_save_batch (map (new_folder ns_path ns t) ps) (w_db w) = (Inr (), d1)"
    and w': "w_db w' = d1"
    using assms by (auto simp: create_folder_run split: sum.splits prod.splits)
  have "fr_size r = 0" if "file_new_row (w_db w) (new_folder ns_path ns t p) = Inr r" for r p
    using that by (auto simp: file_new_row_def new_folder_def split: list.splits)
  then have zero: "\<forall>r \<in> set rs. fr_size r = 0"
    if "map_result (file_new_row (w_db w)) (map (new_folder ns_path ns t) ps) = Inr rs" for rs
    using map_result_Inr_set [OF that] by fastforce
  show ?thesis
  proof (cases "ps = []")
    case False
    then have "bnd (query (\<lambda>d. map_result (file_new_row d) (map (new_folder ns_path ns t) ps))) bulk_insert_files (w_db w)
        = (Inr (), d1)" using save by (simp add: file_save_batch_def)
    then obtain rs where "map_result (file_new_row (w_db w)) (map (new_folder ns_path ns t) ps) = Inr rs"
      "bulk_insert_files rs (w_db w) = (Inr (), d1)"
      unfolding bnd_Inr query_Inr by blast
    moreover from this(2) have "d1 = foldl insert_file_ignoring (w_db w) rs"
      by (simp add: bulk_insert_files_def split: if_splits)
    ultimately show ?thesis using zero foldl_insert_space w' by metis
  qed (use save w' in \<open>simp add: file_save_batch_def ret_def\<close>)
qed

text \<open>Adding \<open>v\<close> to the folders above a path adds \<open>v\<close> to the root folder.\<close>

lemma space_used_resize:
  "space_used (d\<lparr>d_files := resize g (d_files d)\<rparr>) owner
     = space_used d owner + sum_list (map g (filter (root_of d owner) (d_files d)))"
proof -
  let ?R = "root_of d owner"
  have R: "root_of (d\<lparr>d_files := fs\<rparr>) owner = ?R" for fs by (simp add: root_of_def fun_eq_iff)
  have "?R (r\<lparr>fr_size := z\<rparr>) = ?R r" for r z by (simp add: root_of_def)
  then have "filter ?R (resize g fs) = resize g (filter ?R fs)" for fs
    by (induction fs) (auto simp: resize_def)
  moreover have "sum_list (map fr_size (resize g fs)) = sum_list (map fr_size fs) + sum_list (map g fs)" for fs
    by (induction fs) (auto simp: resize_def)
  ultimately show ?thesis by (simp add: space_used_def R)
qed

lemma sum_list_if: "sum_list (map (\<lambda>r. if P r then v else 0) xs) = v * int (length (filter P xs))"
  by (induction xs) (auto simp: algebra_simps)

lemma incr_root_space:
  assumes wf: "db_wf d" and ns: "filter (\<lambda>n. nr_path n = ns_path) (d_namespaces d) = [ns]" "nr_owner ns = owner"
    and q: "q \<in> set (d_files d)" "fr_path q = ''.''" "fr_ns q = nr_id ns" and ps: "''.'' \<in> set paths"
    and run: "file_incr_size_batch ns_path paths v d = (Inr u, d')"
  shows "space_used d' owner = space_used d owner + v"
proof -
  let ?g = "\<lambda>r. if in_ns d ns_path r \<and> fr_path r \<in> set paths then v else 0"
  have n: "ns \<in> set (d_namespaces d)" using filter_singleton [OF ns(1)] by blast
  have "root_of d owner r \<and> in_ns d ns_path r \<and> fr_path r \<in> set paths
      \<longleftrightarrow> (fr_path r, fr_ns r) = (fr_path q, fr_ns q)" for r
    using q(2,3) ps ns(2) n in_ns_iff [OF wf ns(1), of r] by (auto simp: root_of_def)
  then have "filter (\<lambda>r. in_ns d ns_path r \<and> fr_path r \<in> set paths) (filter (root_of d owner) (d_files d)) = [q]"
    using q_get_unique [OF db_wfD(7) [OF wf] q(1), of "\<lambda>r. (fr_path r, fr_ns r) = (fr_path q, fr_ns q)"]
    by (simp add: filter_filter q_get_Inr_iff conj_commute cong: filter_cong)
  then have "sum_list (map ?g (filter (root_of d owner) (d_files d))) = v"
    by (simp only: sum_list_if) simp
  then show ?thesis
    using file_incr_size_batch_Inr [OF wf run] space_used_resize [where d = d and g = ?g and owner = owner] by simp
qed

section \<open>The steps of an upload\<close>

lemma triple_conj:
  assumes "triple P m Q E" "triple P' m Q' E'"
  shows "triple (\<lambda>s. P s \<and> P' s) m (\<lambda>x s. Q x s \<and> Q' x s) (\<lambda>s. E s \<and> E' s)"
  by (rule tripleI) (use tripleD [OF assms(1)] tripleD [OF assms(2)] tripleE [OF assms(1)] tripleE [OF assms(2)] in blast)+

definition space_is :: "uuid \<Rightarrow> int \<Rightarrow> namespace_row list \<Rightarrow> 'b world \<Rightarrow> bool" where
  "space_is owner s nss w \<longleftrightarrow> space_used (w_db w) owner = s \<and> d_namespaces (w_db w) = nss"

lemma ensure_parent_space:
  "triple (space_is owner s nss) (filecore_ensure_parent ns_path parent) (\<lambda>_. space_is owner s nss) (\<lambda>_. True)"
proof (rule tripleI)
  fix w u w'
  assume P: "space_is owner s nss w" and run: "filecore_ensure_parent ns_path parent w = (Inr u, w')"
  have "w' = w \<or> (\<exists>f. filecore_create_folder ns_path (path_str parent) w = (Inr f, w'))"
    using run unfolding filecore_ensure_parent_def
    by (auto simp: prog_elims attempt_def in_db_read split: sum.splits if_splits)
  then show "space_is owner s nss w'"
    using P by (auto simp: space_is_def create_folder_space)
qed simp

text \<open>The storage says how much it stored.\<close>

definition size_reported :: "'b istorage \<Rightarrow> BlobContent \<Rightarrow> bool" where
  "size_reported S content \<longleftrightarrow>
     (\<forall>key s f s'. io_save S key content s = (Inr f, s') \<longrightarrow> sf_size f = c_size content)"

lemma blob_create_size:
  assumes "size_reported (e_default E) content" "blob_create E key content w = (Inr b, w')"
  shows "b_size b = c_size content \<and> d_files (w_db w') = d_files (w_db w)
     \<and> d_namespaces (w_db w') = d_namespaces (w_db w)"
proof -
  obtain s0 f s1 where "io_save (e_default E) key content s0 = (Inr f, s1)" "b_size b = sf_size f"
    "d_files (w_db w') = d_files (w_db w)" "d_namespaces (w_db w') = d_namespaces (w_db w)"
    using assms(2) unfolding blob_create_def Let_def now_def gets_def
    by (auto simp: prog_elims blob_save_def insert_blob_def split: if_splits)
  then show ?thesis using assms(1) unfolding size_reported_def by metis
qed

lemma dot_in_parents:
  assumes "good_comps (cs @ [c])"
  shows "''.'' \<in> set (map path_str (path_parents (MkPath (path_of (cs @ [c])))))"
  unfolding parents_strings [OF assms] by (auto simp: path_of_def strict_prefix_def intro!: exI [of _ "[]"])

lemma path_of_eq_dot: "good_comps cs \<Longrightarrow> path_of cs = ''.'' \<longleftrightarrow> cs = []"
  using path_of_inj [of cs "[]"] by (auto simp: path_of_def)

lemma save_new_space:
  assumes d: "db_tree (w_db w)" and up: "has_folder (w_db w) ns_path cs"
    and F: "f_ns_path F = ns_path" "f_path F = MkPath (path_of (cs @ [c]))" "good_comps (cs @ [c])"
    and ns: "filter (\<lambda>n. nr_path n = ns_path) (d_namespaces (w_db w)) = [ns]"
    and run: "filecore_save_new ns_path F w = (Inr f, w')"
  shows "space_used (w_db w') (nr_owner ns) = space_used (w_db w) (nr_owner ns) + f_size F \<and> f_size f = f_size F"
proof -
  let ?d = "w_db w" and ?paths = "map path_str (path_parents (f_path F))"
  note wf = db_treeD(1) [OF d] and t = db_treeD(2) [OF d]
  obtain d1 d2 u where save: "file_save F ?d = (Inr f, d1)"
    and incr: "file_incr_size_batch ns_path ?paths (f_size f) d1 = (Inr u, d2)"
    and w': "w' = w\<lparr>w_db := d2\<rparr>"
    using run by (auto simp: prog_elims filecore_save_new_def)
  obtain r where r: "fr_path r = path_of (cs @ [c])" "fr_ns r = nr_id ns" "fr_size r = f_size F"
      "r\<lparr>fr_id := d_next ?d\<rparr> = r" "file_fk_ok ?d r" "\<not> file_conflict ?d r"
      "d1 = ?d\<lparr>d_files := d_files ?d @ [r], d_next := Suc (d_next ?d)\<rparr>"
      "file_from_db (Some (row_ns_path d1 r)) d1 r = Inr f"
    using file_save_Inr [OF wf save] ns F(1,2) by force
  have same: "d_namespaces d1 = d_namespaces ?d" and R: "root_of d1 = root_of ?d"
    using r(7) by (simp_all add: root_of_def fun_eq_iff)
  have wf1: "db_wf d1" using db_wf_append_file [OF wf r(5,6)] r(4,7) by simp
  have size: "f_size f = f_size F" using file_from_db_Inr [OF r(8)] r(3) by simp
  have "\<not> root_of ?d (nr_owner ns) r" using F(3) r(1) by (auto simp: root_of_def path_of_eq_dot)
  then have s1: "space_used d1 (nr_owner ns) = space_used ?d (nr_owner ns)"
    by (simp add: space_used_def R) (simp add: r(7))
  obtain q where q: "q \<in> set (d_files ?d)" "fr_ns q = nr_id ns" "comps q = []"
  proof -
    obtain x where x: "x \<in> set (d_files ?d)" "in_ns ?d ns_path x" "comps x = cs" using up by (auto simp: has_folder_def)
    then have "fr_ns x = nr_id ns" using in_ns_iff [OF wf ns] by simp
    then have "\<exists>p \<in> set (d_files ?d). fr_ns p = nr_id ns \<and> comps p = []"
      using x tree_ancestor [OF t x(1), of "[]"] by (cases "comps x") auto
    then show ?thesis using that by blast
  qed
  have "fr_path q = ''.''" using treeD(2) [OF t q(1)] q(3) by (simp add: row_ok_def path_of_def)
  then show ?thesis
    using incr_root_space [OF wf1 _ refl _ _ q(2) _ incr] q(1) ns F s1 size w' same r(7) dot_in_parents [OF F(3)]
    by simp
qed

lemma store_space:
  assumes mime: "mime_lib_ok (e_ext E)" and rep: "size_reported (e_default E) content"
    and np: "good_comps (cs @ [c])" "np = MkPath (path_of (cs @ [c]))"
    and w: "db_tree (w_db w)" "has_folder (w_db w) ns_path cs"
    and ns: "filter (\<lambda>n. nr_path n = ns_path) (d_namespaces (w_db w)) = [ns]"
    and run: "filecore_store E ns_path np content m w = (Inr f, w')"
  shows "space_used (w_db w') (nr_owner ns) = space_used (w_db w) (nr_owner ns) + c_size content
     \<and> f_size f = c_size content"
proof -
  obtain nsp :: Namespace and b w1 where b: "blob_create E (storage_key_of (nsp_owner_id nsp) (path_str np)) content w = (Inr b, w1)"
    and save: "filecore_save_new ns_path \<lparr> f_id = SENTINEL_ID, f_blob_id = Some (b_id b), f_owner_id = nsp_owner_id nsp,
         f_ns_path = ns_path, f_name = path_name np, f_path = np,
         f_chash = b_chash b, f_size = b_size b,
         f_modified_at = (case m of Some m \<Rightarrow> m | None \<Rightarrow> w_now w1),
         f_mediatype = b_media_type b, f_shared = False \<rparr> w1 = (Inr f, w')" (is "_ ?F _ = _")
    using run unfolding filecore_store_def now_def gets_def by (simp add: bnd_Inr in_db_read) blast
  note same = blob_create_size [OF rep b]
  have "db_tree (w_db w1)"
    using tripleD [OF blob_create_triple [OF mime, where fs = "d_files (w_db w)" and nss = "d_namespaces (w_db w)"] _ b] w(1)
    by blast
  moreover have "has_folder (w_db w1) ns_path cs"
    using w(2) same in_ns_cong [of "w_db w1" "w_db w"] by (auto simp: has_folder_def)
  moreover have "space_used (w_db w1) = space_used (w_db w)" using same by (intro space_used_cong) simp_all
  ultimately show ?thesis
    using save_new_space [OF _ _ _ _ np(1) _ save] np(2) ns same by simp
qed

lemma create_file_space:
  assumes mime: "mime_lib_ok (e_ext E)" and rep: "size_reported (e_default E) content"
    and p: "Path path = MkPath (path_of (cs @ [c]))" "good_comps (cs @ [c])"
    and w: "db_tree (w_db w)" "casing_ok (w_db w) ns_path cs"
    and ns: "filter (\<lambda>n. nr_path n = ns_path) (d_namespaces (w_db w)) = [ns]"
    and run: "filecore_create_file E ns_path path content m w = (Inr f, w')"
  shows "space_used (w_db w') (nr_owner ns) = space_used (w_db w) (nr_owner ns) + c_size content
     \<and> f_size f = c_size content"
proof -
  have gp: "good_comps cs" using p(2) by simp
  have par: "path_parent (Path path) = MkPath (path_of cs)" unfolding p(1) by (rule path_parent_path_of [OF p(2)])
  have pp: "Path (path_str (Path path)) = MkPath (path_of (cs @ [c]))"
    using Path_path_of [OF p(2)] by (simp add: p(1) path_str_def)
  obtain w1 np where ens: "filecore_ensure_parent ns_path (path_parent (Path path)) w = (Inr (), w1)"
    and av: "fst (filecore_get_available_path (e_ext E) ns_path (path_str (Path path)) w1) = Inr np"
    and store: "filecore_store E ns_path np content m w1 = (Inr f, w')"
  proof -
    obtain w1 np w2 where "filecore_ensure_parent ns_path (path_parent (Path path)) w = (Inr (), w1)"
      "filecore_get_available_path (e_ext E) ns_path (path_str (Path path)) w1 = (Inr np, w2)"
      "filecore_store E ns_path np content m w2 = (Inr f, w')"
      using run unfolding filecore_create_file_def bnd_Inr andthen_Inr by auto
    moreover from this(2) have "w2 = w1" using filecore_get_available_path_reads by (metis snd_conv)
    ultimately show ?thesis using that by auto
  qed
  obtain c' where c': "good_comps (cs @ [c'])" "np = MkPath (path_of (cs @ [c']))"
    using available_path_same_folder [OF pp p(2) av] by blast
  have w1: "db_tree (w_db w1)" "has_folder (w_db w1) ns_path cs"
    using tripleD [OF ensure_parent [OF gp par] _ ens] w by blast+
  have "space_is (nr_owner ns) (space_used (w_db w) (nr_owner ns)) (d_namespaces (w_db w)) w1"
    by (rule tripleD [OF ensure_parent_space _ ens]) (simp add: space_is_def)
  then show ?thesis
    using store_space [OF mime rep c' w1 _ store] ns by (simp add: space_is_def)
qed

section \<open>NamespaceUseCase.add_file\<close>

lemma file_service_create_file_Inr:
  assumes p: "Path path = MkPath (path_of (cs @ [c]))" "good_comps (cs @ [c])"
    and run: "file_service_create_file E ns_path path content m w = (Inr f, w')"
  shows "\<exists>c'. good_comps (cs @ [c']) \<and>
    filecore_create_file E ns_path (path_of (cs @ [c'])) content m w = (Inr f, w')"
proof -
  obtain np w2 where av: "filecore_get_available_path (e_ext E) ns_path path w = (Inr np, w2)"
    and create: "filecore_create_file E ns_path (path_str np) content m w2 = (Inr f, w')"
    using run by (auto simp: file_service_create_file_def bnd_Inr)
  have "w2 = w" using av filecore_get_available_path_reads by (metis snd_conv)
  moreover obtain c' where "good_comps (cs @ [c'])" "np = MkPath (path_of (cs @ [c']))"
    using available_path_same_folder [OF p] av by (metis fst_conv)
  ultimately show ?thesis using create by (auto simp: path_str_def)
qed

lemma account_get_reads [simp]: "snd (account_get_by_user_id u d) = d"
  by (simp add: account_get_by_user_id_def)

lemma ns_add_file_Inr:
  assumes "ns_add_file E ns_path path content m w = (Inr f, w')"
  shows "\<exists>(nsp :: Namespace) account w1. fst (namespace_get_by_path ns_path (w_db w)) = Inr nsp
    \<and> account_get_by_user_id (nsp_owner_id nsp) (w_db w) = (Inr account, w_db w)
    \<and> (case ac_storage_quota account of None \<Rightarrow> True
         | Some quota \<Rightarrow> space_used (w_db w) (nsp_owner_id nsp) + c_size content \<le> quota)
    \<and> file_service_create_file E ns_path (path_str (Path path)) content m w = (Inr f, w1)
    \<and> w_db w' = w_db w1"
proof -
  let ?k = "\<lambda>f. case f_blob_id f of None \<Rightarrow> raise (PyErr AssertionError)
        | Some b \<Rightarrow> andthen (content_process_async b)
            (andthen (schedule (Task_file_action Act_file_added f)) (ret f))"
  have k: "f1 = f \<and> w_db w' = w_db w1" if "?k f1 w1 = (Inr f, w')" for f1 w1
    using that by (auto simp: prog_elims content_process_async_def enqueue_def schedule_def modify_def
        split: option.splits)
  obtain nsp :: Namespace and w0 account w2 u w3 f1 w1 where
      nsp: "in_db (namespace_get_by_path ns_path) w = (Inr nsp, w0)"
    and acc: "user_get_account (nsp_owner_id nsp) w0 = (Inr account, w2)"
    and quota: "(case ac_storage_quota account of None \<Rightarrow> ret ()
          | Some quota \<Rightarrow> bnd (in_db (namespace_get_space_used_by_owner_id (nsp_owner_id nsp))) (\<lambda>used.
                guard (used + c_size content \<le> quota) (UserErr StorageQuotaExceeded))) w2 = (Inr u, w3)"
    and create: "file_service_create_file E ns_path (path_str (Path path)) content m w3 = (Inr f1, w1)"
    and rest: "?k f1 w1 = (Inr f, w')"
    using assms unfolding ns_add_file_def Let_def andthen_Inr bnd_Inr guard_Inr by (elim exE conjE) blast
  have "w0 = w" "fst (namespace_get_by_path ns_path (w_db w)) = Inr nsp" using nsp by (auto simp: in_db_read)
  moreover have "w2 = w0" "account_get_by_user_id (nsp_owner_id nsp) (w_db w0) = (Inr account, w_db w0)"
    using acc by (auto simp: user_get_account_def in_db_read prod_eq_iff)
  moreover have "w3 = w2 \<and> (case ac_storage_quota account of None \<Rightarrow> True
         | Some quota \<Rightarrow> space_used (w_db w2) (nsp_owner_id nsp) + c_size content \<le> quota)"
    using quota by (auto simp: bnd_Inr in_db_read guard_Inr ret_Inr split: option.splits)
  ultimately show ?thesis using create k [OF rest] by blast
qed

definition quota_of :: "db \<Rightarrow> uuid \<Rightarrow> int option" where
  "quota_of d owner = (case filter (\<lambda>r. ar_user r = owner) (d_accounts d) of [r] \<Rightarrow> ar_storage_quota r | _ \<Rightarrow> None)"



section \<open>An upload that is refused\<close>

text \<open>C18: A path in the trash, a content over the limit and a content that does not fit in the quota are refused
  with their own error, before anything is stored, written or scheduled.\<close>

theorem add_file_refused:
  fixes w :: "'b world"
  assumes "is_relative_to (Path path) ''trash'' \<or> c_size content > cfg_upload_max_size (e_features E)
      \<or> namespace_get_by_path ns_path (w_db w) = (Inr nsp, w_db w)
        \<and> account_get_by_user_id (nsp_owner_id nsp) (w_db w) = (Inr account, w_db w)
        \<and> ac_storage_quota account = Some quota \<and> space_used (w_db w) (nsp_owner_id nsp) + c_size content > quota"
  shows "ns_add_file E ns_path path content m w =
     (Inl (if is_relative_to (Path path) ''trash'' then FileErr MalformedPath
           else if c_size content > cfg_upload_max_size (e_features E) then FileErr FileTooLarge
           else UserErr StorageQuotaExceeded), w)"
  using assms by (auto simp: ns_add_file_def Let_def bnd_def andthen_def in_db_def user_get_account_def
      guard_def ret_def raise_def)

section \<open>Instances\<close>

lemma fs_save_size: "fs_save location key c s = (Inr f, s') \<Longrightarrow> sf_size f = int (length (c_data c))"
proof -
  assume run: "fs_save location key c s = (Inr f, s')"
  let ?p = "fs_comps s (fullpath location key)"
  obtain t n where t: "fs_open_write (fs_root s) ?p (c_data c) (fs_clock s) = Inr t"
    and n: "fs_walk t ?p = Inr n" "f = storage_file location s' (fullpath location key) ?p n"
    using run by (auto simp: fs_save_def prog_elims from_path_Inr)
  have "fs_parent (fs_root s) ?p = Inr ()" "t = fs_put (fs_root s) ?p (Reg (c_data c) (fs_clock s))"
    using t by (auto simp: fs_open_write_def split: if_splits sum.splits)
  then have "n = Reg (c_data c) (fs_clock s)" using n(1) fs_walk_put by fastforce
  then show ?thesis using n(2) by (simp add: storage_file_def node_stat_def)
qed

lemma demo_size_reported: "size_reported (e_default demo_env) (InMemoryBlobContent b)"
  by (auto simp: size_reported_def demo_env_def FileSystemStorage_def InMemoryBlobContent_def dest: fs_save_size)

lemma demo_mime_ok: "mime_lib_ok demo_ext"
  by (simp add: demo_ext_def mime_lib_ok_def)

lemma demo_casing: "casing_ok (w_db demo_world) ''alice'' [''docs'']"
  by (rule casing_okI) code_simp


theorem add_file_refused_witness:
  "ns_add_file demo_env ''alice'' ''docs/big.txt'' (InMemoryBlobContent [1, 2, 3, 4, 5, 6, 7, 8]) None demo_world
     = (Inl (UserErr StorageQuotaExceeded), demo_world)"
proof -
  let ?c = "InMemoryBlobContent [1, 2, 3, 4, 5, 6, 7, 8]"
  have g: "\<not> is_relative_to (Path ''docs/big.txt'') ''trash''" "\<not> c_size ?c > cfg_upload_max_size (e_features demo_env)"
    by code_simp+
  have "ns_add_file demo_env ''alice'' ''docs/big.txt'' ?c None demo_world =
     (Inl (if is_relative_to (Path ''docs/big.txt'') ''trash'' then FileErr MalformedPath
           else if c_size ?c > cfg_upload_max_size (e_features demo_env) then FileErr FileTooLarge
           else UserErr StorageQuotaExceeded), demo_world)"
  proof (rule add_file_refused, intro disjI2 conjI)
    show "namespace_get_by_path ''alice'' (w_db demo_world)
        = (Inr \<lparr> nsp_id = 2, nsp_path = ''alice'', nsp_owner_id = 1 \<rparr>, w_db demo_world)"
      by (simp add: namespace_get_by_path_def query_def q_get_def example_defs namespace_from_db_def or_missing_def)
    show "account_get_by_user_id (nsp_owner_id \<lparr> nsp_id = 2, nsp_path = ''alice'', nsp_owner_id = 1 \<rparr>) (w_db demo_world)
        = (Inr \<lparr> ac_id = 1, ac_user_id = 1, ac_storage_quota = Some 10 \<rparr>, w_db demo_world)"
      by (simp add: account_get_by_user_id_def query_def q_get_def example_defs account_from_db_def or_missing_def)
    show "(10 :: int) < space_used (w_db demo_world) (nsp_owner_id \<lparr> nsp_id = 2, nsp_path = ''alice'', nsp_owner_id = 1 \<rparr>) + c_size ?c"
      by (simp add: space_used_def root_of_def example_defs InMemoryBlobContent_def)
  qed simp
  then show ?thesis using g by simp
qed

end
