(* ===== verification/SignupProps.thy ===== *)
theory SignupProps
  imports AuthProps UploadProps
begin

text \<open>
  Signing up: the user, the account, the namespace and its two folders appear together or not at all.
\<close>

section \<open>The folders of a new namespace\<close>

text \<open>Creating a folder adds rows at the paths of its chain only.\<close>

lemma create_folder_rows:
  assumes "filecore_create_folder ns_path path w = (Inr f, w')"
  shows "\<exists>parents ps. file_get_by_path_batch ns_path (map path_str (folder_chain (Path path))) (w_db w) = (Inr parents, w_db w)
     \<and> missing_folders (Path path) parents = Inr ps
     \<and> (\<forall>x \<in> set (d_files (w_db w')). x \<in> set (d_files (w_db w)) \<or> fr_path x \<in> raw ` set ps)
     \<and> w' = w\<lparr>w_db := w_db w'\<rparr> \<and> d_users (w_db w') = d_users (w_db w) \<and> d_accounts (w_db w') = d_accounts (w_db w)"
proof -
  obtain parents ns ps d1 where 1: "fst (file_get_by_path_batch ns_path (map path_str (folder_chain (Path path))) (w_db w)) = Inr parents"
      "missing_folders (Path path) parents = Inr ps"
    and save: "file_save_batch (map (new_folder ns_path ns (w_now w)) ps) (w_db w) = (Inr (), d1)"
    and w': "w' = w\<lparr>w_db := d1\<rparr>"
    using assms by (auto simp: create_folder_run split: sum.splits prod.splits)
  have ins: "(\<forall>x \<in> set (d_files (foldl insert_file_ignoring d rs)). x \<in> set (d_files d) \<or> fr_path x \<in> fr_path ` set rs)
      \<and> d_users (foldl insert_file_ignoring d rs) = d_users d \<and> d_accounts (foldl insert_file_ignoring d rs) = d_accounts d"
    for rs d
  proof (induction rs arbitrary: d)
    case (Cons r rs)
    have one: "x \<in> set (d_files (insert_file_ignoring d r)) \<Longrightarrow> x \<in> set (d_files d) \<or> fr_path x = fr_path r" for x
      by (auto simp: insert_file_ignoring_def split: if_splits)
    have "d_users (insert_file_ignoring d r) = d_users d" "d_accounts (insert_file_ignoring d r) = d_accounts d"
      by (simp_all add: insert_file_ignoring_def)
    then show ?case using Cons [of "insert_file_ignoring d r"] one unfolding foldl_Cons by (auto dest!: one)
  qed simp
  have "(\<forall>x \<in> set (d_files d1). x \<in> set (d_files (w_db w)) \<or> fr_path x \<in> raw ` set ps)
      \<and> d_users d1 = d_users (w_db w) \<and> d_accounts d1 = d_accounts (w_db w)"
  proof (cases "ps = []")
    case False
    then have "bnd (query (\<lambda>d. map_result (file_new_row d) (map (new_folder ns_path ns (w_now w)) ps))) bulk_insert_files (w_db w)
        = (Inr (), d1)" using save by (simp add: file_save_batch_def)
    then obtain rs where rs: "map_result (file_new_row (w_db w)) (map (new_folder ns_path ns (w_now w)) ps) = Inr rs"
      "bulk_insert_files rs (w_db w) = (Inr (), d1)"
      unfolding bnd_Inr query_Inr by blast
    have "fr_path ` set rs \<subseteq> raw ` set ps"
      using map_result_Inr_set [OF rs(1)]
      by (fastforce simp: file_new_row_def new_folder_def path_str_def split: list.splits)
    moreover have "d1 = foldl insert_file_ignoring (w_db w) rs"
      using rs(2) by (simp add: bulk_insert_files_def split: if_splits)
    ultimately show ?thesis using ins [where rs = rs and d = "w_db w"] by (metis subsetD)
  qed (use save in \<open>simp add: file_save_batch_def ret_def\<close>)
  then show ?thesis using 1 w' by (auto simp: prod_eq_iff)
qed


lemma new_namespace_folders:
  assumes d: "db_tree (w_db w)" and none: "\<forall>x \<in> set (d_files (w_db w)). \<not> in_ns (w_db w) ns_path x"
    and run: "bnd (filecore_create_folder ns_path ''.'') (\<lambda>_. bnd (filecore_create_folder ns_path ''Trash'') (\<lambda>_. ret y)) w
      = (Inr z, w')"
  shows "db_tree (w_db w') \<and> has_folder (w_db w') ns_path [] \<and> has_folder (w_db w') ns_path [''Trash'']
     \<and> d_users (w_db w') = d_users (w_db w) \<and> d_accounts (w_db w') = d_accounts (w_db w)
     \<and> d_namespaces (w_db w') = d_namespaces (w_db w) \<and> w' = w\<lparr>w_db := w_db w'\<rparr> \<and> z = y"
proof -
  obtain f g w1 where 1: "filecore_create_folder ns_path ''.'' w = (Inr f, w1)"
    and 2: "filecore_create_folder ns_path ''Trash'' w1 = (Inr g, w')" and z: "z = y"
    using run by (auto simp: prog_elims)
  have p1: "Path ''.'' = MkPath (path_of [])" "good_comps []" "folder_chain (Path ''.'') = [Path ''.'']" by code_simp+
  have p2: "Path ''Trash'' = MkPath (path_of [''Trash''])" "good_comps [''Trash'']" by code_simp+
  have ok1: "casing_ok (w_db w) ns_path []" using none by (simp add: casing_ok_def)
  note t1 = create_folder_tree [OF d p1(1,2) ok1 1]
  obtain ns where ns: "filter (\<lambda>n. nr_path n = ns_path) (d_namespaces (w_db w)) = [ns]"
    "chain_inv (nr_id ns) [] (Suc 0) (w_db w1)" "d_namespaces (w_db w1) = d_namespaces (w_db w)"
    using t1(2) by auto
  obtain parents ps where rows: "file_get_by_path_batch ns_path (map path_str (folder_chain (Path ''.''))) (w_db w) = (Inr parents, w_db w)"
    "missing_folders (Path ''.'') parents = Inr ps"
    "\<forall>x \<in> set (d_files (w_db w1)). x \<in> set (d_files (w_db w)) \<or> fr_path x \<in> raw ` set ps"
    "w1 = w\<lparr>w_db := w_db w1\<rparr>" "d_users (w_db w1) = d_users (w_db w)" "d_accounts (w_db w1) = d_accounts (w_db w)"
    using create_folder_rows [OF 1] by blast
  have "parents = []"
  proof -
    have "filter (\<lambda>r. in_ns (w_db w) ns_path r \<and> P r) (d_files (w_db w)) = []" for P
      using none by (simp add: filter_empty_conv)
    then show ?thesis using rows(1) by (auto simp: file_get_by_path_batch_def query_def by_lower_path_def)
  qed
  then have ps: "raw ` set ps = {''.''}" using rows(2) p1 by (auto simp: missing_folders_def Let_def path_of_def)
  have same: "in_ns (w_db w1) ns_path x = in_ns (w_db w) ns_path x" for x
    by (simp add: in_ns_def ns(3))
  have only: "fr_path x = ''.''" if x: "x \<in> set (d_files (w_db w1))" "in_ns (w_db w1) ns_path x" for x
  proof -
    have "x \<notin> set (d_files (w_db w))" using none x(2) unfolding same by blast
    then show ?thesis using bspec [OF rows(3) x(1)] ps by simp
  qed
  have "casing_ok (w_db w1) ns_path [''Trash'']"
  proof -
    have "casefold ''.'' \<noteq> casefold (path_of [''Trash''])" "casefold ''.'' = casefold (path_of [])"
      "path_of [] = ''.''" by code_simp+
    then have "casefold ''.'' = casefold (path_of (take k [''Trash''])) \<Longrightarrow> ''.'' = path_of (take k [''Trash''])" for k
      by (cases k) auto
    then show ?thesis using only unfolding casing_ok_def by metis
  qed
  note t2 = create_folder_tree [OF t1(1) p2(1,2) this 2]
  obtain ns' where ns': "filter (\<lambda>n. nr_path n = ns_path) (d_namespaces (w_db w1)) = [ns']"
    "chain_inv (nr_id ns') [''Trash''] (Suc (Suc 0)) (w_db w')" "d_namespaces (w_db w') = d_namespaces (w_db w1)"
    using t2(2) by auto
  have folder: "has_folder (w_db w') ns_path (take k [''Trash''])" if "k \<le> 1" for k
  proof -
    obtain x where x: "x \<in> set (d_files (w_db w'))" "fr_ns x = nr_id ns'" "comps x = take k [''Trash'']"
      using ns'(2) \<open>k \<le> 1\<close> unfolding chain_inv_def by (metis One_nat_def le_imp_less_Suc length_Cons list.size(3))
    moreover have "is_dir x" using ns'(2) x unfolding chain_inv_def by (metis take_is_prefix)
    moreover have "in_ns (w_db w') ns_path x"
      using in_ns_iff [OF db_treeD(1) [OF t2(1)], of ns_path ns' x] ns'(1,3) x(2) by simp
    ultimately show ?thesis by (auto simp: has_folder_def)
  qed
  have "w' = w1\<lparr>w_db := w_db w'\<rparr>" "d_users (w_db w') = d_users (w_db w1)" "d_accounts (w_db w') = d_accounts (w_db w1)"
    using create_folder_rows [OF 2] by blast+
  moreover from this(1) have "w' = w\<lparr>w_db := w_db w'\<rparr>" using rows(4) by (metis world.select_convs(1) world.surjective world.update_convs(1))
  ultimately show ?thesis
    using t2(1) folder [of 0] folder [of 1] rows(5,6) ns(3) ns'(3) z by simp
qed

section \<open>The rows of a new user\<close>

lemma db_keepsD: "db_keeps I m \<Longrightarrow> I (w_db w) \<Longrightarrow> I (w_db (snd (m w)))"
  by (simp add: keeps_def)

lemma db_tree_same:
  "db_tree d \<Longrightarrow> db_ok d' \<Longrightarrow> d_files d' = d_files d \<Longrightarrow> d_blobs d' = d_blobs d \<Longrightarrow> db_tree d'"
  by (simp add: db_tree_def db_ok_def no_folder_blobs_def)

lemma user_service_create_Inr:
  assumes ok: "db_ok (w_db w)" and t: "db_tree (w_db w)"
    and run: "user_service_create E username password email display_name superuser quota w = (Inr user, w')"
  shows "db_ok (w_db w') \<and> db_tree (w_db w') \<and> w' = w\<lparr>w_db := w_db w'\<rparr>
    \<and> d_files (w_db w') = d_files (w_db w) \<and> d_namespaces (w_db w') = d_namespaces (w_db w)
    \<and> u_username user = casefold username
    \<and> (\<exists>u. d_users (w_db w') = d_users (w_db w) @ [u] \<and> ur_id u = u_id user \<and> \<not> user_conflict (w_db w) u
         \<and> ur_username u = casefold username \<and> ur_email u = email \<and> \<not> ur_email_verified u
         \<and> ur_password u = x_make_password (e_ext E) password \<and> ur_superuser u = superuser \<and> ur_active u)
    \<and> (\<exists>a. d_accounts (w_db w') = d_accounts (w_db w) @ [a] \<and> ar_user a = u_id user \<and> ar_storage_quota a = quota)"
proof -
  let ?r = "\<lparr> ur_id = 0, ur_username = casefold username, ur_password = x_make_password (e_ext E) password,
            ur_email = email, ur_email_verified = False, ur_display_name = display_name, ur_created_at = w_now w,
            ur_last_login_at = None, ur_active = True, ur_superuser = superuser \<rparr>"
  have ok': "db_ok (w_db w')"
    using db_keepsD [OF keeps_Users_app(4), of w E username password email display_name superuser quota] run ok by simp
  obtain d1 i j d2 where u: "insert_user ?r (w_db w) = (Inr i, d1)"
    and a: "insert_account \<lparr> ar_id = 0, ar_user = i, ar_storage_quota = quota \<rparr> d1 = (Inr j, d2)"
    and w': "w' = w\<lparr>w_db := d2\<rparr>" "u_id user = i" "u_username user = casefold username"
    using run
    by (auto simp: user_service_create_def prog_elims user_save_def account_save_def)
  have d1: "\<not> user_conflict (w_db w) (?r\<lparr>ur_id := i\<rparr>)"
      "d1 = (w_db w)\<lparr>d_users := d_users (w_db w) @ [?r\<lparr>ur_id := i\<rparr>], d_next := Suc (d_next (w_db w))\<rparr>"
    using u by (auto simp: insert_user_def user_conflict_def split: if_splits)
  have d2: "d2 = d1\<lparr>d_accounts := d_accounts d1 @ [\<lparr> ar_id = d_next d1, ar_user = i, ar_storage_quota = quota \<rparr>],
      d_next := Suc (d_next d1)\<rparr>"
    using a by (auto simp: insert_account_def split: if_splits)
  have "db_tree (w_db w')" by (rule db_tree_same [OF t ok']) (simp_all add: w' d1 d2)
  with ok' show ?thesis using w' d1 d2 by simp
qed

text \<open>C26: \<open>AuthUseCase.signup\<close> either raises and leaves the database as it was, or creates a user that nobody else
  conflicts with, with the given email and the hash of the password, an account with the configured quota, and a
  namespace of the user's name with the root folder and the trash; the constraints of the tables and the trees hold.\<close>

theorem signup_creates_account:
  fixes w :: "'b world"
  assumes "db_ok (w_db w)" "db_tree (w_db w)"
  shows "case auth_signup E email password display_name w of
      (Inl e, w') \<Rightarrow> w_db w' = w_db w
    | (Inr tokens, w') \<Rightarrow> db_ok (w_db w') \<and> db_tree (w_db w')
       \<and> (\<exists>u a n. d_users (w_db w') = d_users (w_db w) @ [u] \<and> \<not> user_conflict (w_db w) u
            \<and> ur_username u = casefold email \<and> ur_email u = Some email \<and> \<not> ur_email_verified u
            \<and> ur_password u = x_make_password (e_ext E) password \<and> \<not> ur_superuser u
            \<and> d_accounts (w_db w') = d_accounts (w_db w) @ [a]
            \<and> ar_user a = ur_id u \<and> ar_storage_quota a = cfg_quota (e_features E)
            \<and> d_namespaces (w_db w') = d_namespaces (w_db w) @ [n]
            \<and> nr_owner n = ur_id u \<and> nr_path n = casefold email
            \<and> has_folder (w_db w') (nr_path n) [] \<and> has_folder (w_db w') (nr_path n) [''Trash''])"
proof (cases "auth_signup E email password display_name w")
  case (Pair r w')
  show ?thesis
  proof (cases r)
    case (Inl e)
    then show ?thesis using Pair atomic_Inl by (auto simp: auth_signup_def)
  next
    case (Inr tokens)
    with Pair have run: "auth_signup E email password display_name w = (Inr tokens, w')" by simp
    obtain user w1 nsp w2 where
        1: "user_service_create E email password (Some email) display_name False (cfg_quota (e_features E)) w = (Inr user, w1)"
      and 2: "namespace_create (u_username user) (u_id user) w1 = (Inr nsp, w2)"
      and 3: "token_create E (uuid_str (u_id user)) w2 = (Inr tokens, w')"
      using run by (auto simp: auth_signup_def prog_elims)
    note u = user_service_create_Inr [OF assms 1]
    have same: "w_db w' = w_db w2"
      using 3 by (auto simp: token_create_def access_build_def refresh_build_def token_hex_def prog_elims draw_def)
    let ?n = "casefold email"
    obtain i d where ins: "insert_namespace \<lparr> nr_id = 0, nr_path = ?n, nr_owner = u_id user \<rparr> (w_db w1) = (Inr i, d)"
      and folders: "bnd (filecore_create_folder ?n ''.'') (\<lambda>_. bnd (filecore_create_folder ?n ''Trash'') (\<lambda>_.
          ret \<lparr> nsp_id = i, nsp_path = ?n, nsp_owner_id = u_id user \<rparr>)) (w1\<lparr>w_db := d\<rparr>) = (Inr nsp, w2)"
      using 2 u by (auto simp: namespace_create_def namespace_save_def bnd_Inr in_db_Inr ret_Inr)
    have ok1: "db_ok (w_db w1)" "db_tree (w_db w1)" using u by blast+
    have d: "d = (w_db w1)\<lparr>d_namespaces := d_namespaces (w_db w1) @ [\<lparr> nr_id = d_next (w_db w1), nr_path = ?n, nr_owner = u_id user \<rparr>],
        d_next := Suc (d_next (w_db w1))\<rparr>"
      "?n \<notin> nr_path ` set (d_namespaces (w_db w1))"
      using ins by (auto simp: insert_namespace_def split: if_splits)
    have okd: "db_ok d" using keepsD [OF keeps_insert_namespace ok1(1)] ins by (metis snd_conv)
    have "db_tree d" by (rule db_tree_same [OF ok1(2) okd]) (simp_all add: d(1))
    moreover have "\<not> in_ns d ?n x" if x: "x \<in> set (d_files d)" for x
    proof
      assume "in_ns d ?n x"
      then have "fr_ns x = d_next (w_db w1)" using d by (force simp: in_ns_def)
      moreover have "has_namespace (w_db w1) (fr_ns x)"
        using x ok1(1) by (auto simp: d(1) db_ok_def db_wf_def file_fk_ok_def)
      moreover have "ids_below (d_next (w_db w1)) nr_id (d_namespaces (w_db w1))"
        using ok1(1) by (simp add: db_ok_def db_wf_def)
      ultimately show False by (auto simp: has_namespace_def ids_below_def)
    qed
    ultimately have f: "db_tree (w_db w2) \<and> has_folder (w_db w2) ?n [] \<and> has_folder (w_db w2) ?n [''Trash'']
       \<and> d_users (w_db w2) = d_users d \<and> d_accounts (w_db w2) = d_accounts d \<and> d_namespaces (w_db w2) = d_namespaces d"
      using new_namespace_folders [OF _ _ folders] by simp
    have okw: "db_ok (w_db w')"
      using db_keepsD [OF keeps_AuthUseCases_app(2) assms(1), of E email password display_name] run by simp
    show ?thesis
      using Pair Inr f same u okw by (auto simp: d(1))
  qed
qed

theorem signup_creates_account_witness:
  "\<exists>tokens w'. auth_signup demo_env ''bo@x'' ''pw'' ''Bo'' demo_world = (Inr tokens, w') \<and> db_tree (w_db w')
     \<and> (\<exists>u n. d_users (w_db w') = d_users alice_db @ [u] \<and> ur_username u = ''bo@x''
          \<and> d_namespaces (w_db w') = d_namespaces alice_db @ [n] \<and> has_folder (w_db w') ''bo@x'' [''Trash''])"
proof -
  let ?create = "user_service_create demo_env ''bo@x'' ''pw'' (Some ''bo@x'') ''Bo'' False (cfg_quota (e_features demo_env))"
  let ?m = "bnd ?create (\<lambda>user. bnd (namespace_create (u_username user) (u_id user)) (\<lambda>_. ret user))"
  have "\<not> isl (fst (?m demo_world))" by code_simp
  then obtain user w1 where "?m demo_world = (Inr user, w1)" by (cases "?m demo_world"; cases "fst (?m demo_world)") auto
  then obtain w0 nsp where 1: "?create demo_world = (Inr user, w0)"
      "namespace_create (u_username user) (u_id user) w0 = (Inr nsp, w1)"
    by (auto simp: prog_elims)
  obtain tokens w' where "token_create demo_env (uuid_str (u_id user)) w1 = (Inr tokens, w')"
    using token_create_Inr [of demo_env demo_view "uuid_str (u_id user)" w1] demo_cache_ok by (auto simp: Let_def)
  with 1 have run: "auth_signup demo_env ''bo@x'' ''pw'' ''Bo'' demo_world = (Inr tokens, w')"
    by (simp add: auth_signup_def atomic_Inr bnd_Inr)
  have "casefold ''bo@x'' = ''bo@x''" by code_simp
  then show ?thesis
    using signup_creates_account [where w = demo_world and E = demo_env and email = "''bo@x''" and password = "''pw''"
        and display_name = "''Bo''"] run
    by (auto simp: alice_db_ok alice_db_tree)
qed

end
