(* ===== verification/ToolkitProps.thy ===== *)
theory ToolkitProps
  imports Demo
begin

text \<open>
  The toolkit: the content hash against the specification of the Dropbox hash.
\<close>

section \<open>Blocks\<close>

text \<open>The blocks of a content: all full but the last, none empty.\<close>

definition content_blocks :: "nat \<Rightarrow> bytes \<Rightarrow> bytes list" where
  "content_blocks n data = blocks ((length data + n - 1) div n) n data"

lemma blocks_concat: "length data \<le> k * n \<Longrightarrow> concat (blocks k n data) = data"
proof (induction k arbitrary: data)
  case (Suc k)
  then have "concat (blocks k n (drop n data)) = drop n data" by simp
  then show ?case by simp
qed simp

lemma ball_Cons_butlast:
  "B \<noteq> [] \<Longrightarrow> P t \<Longrightarrow> Q t \<Longrightarrow> (\<forall>b \<in> set B. P b) \<and> (\<forall>b \<in> set (butlast B). Q b) \<Longrightarrow>
     (\<forall>b \<in> set (t # B). P b) \<and> (\<forall>b \<in> set (butlast (t # B)). Q b)"
  by simp

lemma blocks_lengths:
  assumes "0 < n"
  shows "length data \<le> k * n \<Longrightarrow> (k - 1) * n < length data \<or> k = 0 \<Longrightarrow>
    (\<forall>b \<in> set (blocks k n data). b \<noteq> [] \<and> length b \<le> n) \<and> (\<forall>b \<in> set (butlast (blocks k n data)). length b = n)"
proof (induction k arbitrary: data)
  case (Suc k)
  have lt: "k * n < length data" using Suc.prems(2) by simp
  have full: "n \<le> length data \<and> (k - 1) * n < length (drop n data)" if "k \<noteq> 0"
    using that lt by (cases k) auto
  have "length (drop n data) \<le> k * n" using Suc.prems(1) by simp
  moreover have "(k - 1) * n < length (drop n data) \<or> k = 0" using full by blast
  ultimately have IH: "(\<forall>b \<in> set (blocks k n (drop n data)). b \<noteq> [] \<and> length b \<le> n)
      \<and> (\<forall>b \<in> set (butlast (blocks k n (drop n data))). length b = n)" by (rule Suc.IH)
  have first: "take n data \<noteq> []" using lt assms by auto
  show ?case
  proof (cases "k = 0")
    case True
    then show ?thesis using first by simp
  next
    case False
    then have "blocks k n (drop n data) \<noteq> []" by (cases k) auto
    moreover have "take n data \<noteq> [] \<and> length (take n data) \<le> n" "length (take n data) = n"
      using first full [OF False] by simp_all
    ultimately show ?thesis unfolding blocks.simps by (rule ball_Cons_butlast) (rule IH)
  qed
qed simp

lemma number_of_blocks:
  fixes l n :: nat
  assumes "0 < n"
  shows "l \<le> ((l + n - 1) div n) * n" and "((l + n - 1) div n - 1) * n < l \<or> (l + n - 1) div n = 0"
proof -
  define k where "k = (l + n - 1) div n"
  define r where "r = (l + n - 1) mod n"
  have a: "k * n + r = l + n - 1" unfolding k_def r_def by (rule div_mult_mod_eq)
  have b: "r < n" unfolding r_def using assms by simp
  have "l \<le> k * n" using a b by linarith
  moreover have "(k - 1) * n < l \<or> k = 0"
  proof (cases k)
    case (Suc j)
    then have "k * n = j * n + n" by simp
    then show ?thesis using a assms Suc by simp
  qed simp
  ultimately show "l \<le> ((l + n - 1) div n) * n" "((l + n - 1) div n - 1) * n < l \<or> (l + n - 1) div n = 0"
    by (simp_all only: k_def)
qed

text \<open>C23: \<open>chash\<close> is the Dropbox content hash: the content is the concatenation of its blocks of 4 MiB, all full but
  the last, and its hash is the hash of the concatenated digests of the blocks; the loop over reads computes it.\<close>

theorem chash_is_block_hash:
  fixes data :: bytes
  assumes "\<And>b. length (x_sha256 x b) = 32"
  defines "bs \<equiv> content_blocks (4 * 1024 * 1024) data"
  shows "concat bs = data
    \<and> (\<forall>b \<in> set bs. b \<noteq> [] \<and> length b \<le> 4 * 1024 * 1024) \<and> (\<forall>b \<in> set (butlast bs). length b = 4 * 1024 * 1024)
    \<and> chash x data = (if data = [] then EMPTY_CONTENT_HASH
                      else hexdigest (x_sha256 x (concat (map (x_sha256 x) bs))))"
proof -
  let ?n = "4 * 1024 * 1024 :: nat"
  have n: "0 < ?n" by simp
  note nb = number_of_blocks [OF n, of "length data"]
  have c: "concat bs = data" unfolding bs_def content_blocks_def by (rule blocks_concat [OF nb(1)])
  note l = blocks_lengths [OF n nb, folded content_blocks_def, folded bs_def]
  have h: "block_hashes x ?n data = concat (map (x_sha256 x) bs)"
    unfolding bs_def content_blocks_def by (rule block_hashes_blocks [OF n])
  have "concat (map (x_sha256 x) bs) = [] \<longleftrightarrow> data = []"
  proof
    assume "concat (map (x_sha256 x) bs) = []"
    then have "x_sha256 x b = []" if "b \<in> set bs" for b using that by simp
    then have "set bs = {}" using assms(1) by (metis ex_in_conv length_0_conv zero_neq_numeral)
    then show "data = []" using c by simp
  next
    assume "data = []"
    then show "concat (map (x_sha256 x) bs) = []" by (simp add: bs_def content_blocks_def)
  qed
  then show ?thesis
    using c l h by (simp add: chash_def chash_with_def DROPBOX_HASH_CHUNK_SIZE_def Let_def)
qed

theorem chash_is_block_hash_witness:
  "chash (demo_ext\<lparr>x_sha256 := (\<lambda>b. replicate 32 (fold (+) b 0))\<rparr>) [1, 2] = hexdigest (replicate 32 96)"
proof -
  let ?x = "demo_ext\<lparr>x_sha256 := (\<lambda>b. replicate 32 (fold (+) b 0))\<rparr>"
  have "\<And>b. length (x_sha256 ?x b) = 32" by simp
  note h = chash_is_block_hash [OF this, of "[1, 2]"]
  have b: "content_blocks (4 * 1024 * 1024) [1, 2 :: 8 word] = [[1, 2]]"
  proof -
    have "(length [1, 2 :: 8 word] + 4 * 1024 * 1024 - 1) div (4 * 1024 * 1024) = Suc 0" by simp
    then show ?thesis by (simp only: content_blocks_def blocks.simps) simp
  qed
  have sum: "((+) (3 :: 8 word) ^^ 32) 0 = 96" by code_simp
  show ?thesis using h unfolding b by (simp add: sum)
qed

section \<open>Media types\<close>



section \<open>Exposure times\<close>

lemma limit_loop_bounds:
  "0 \<le> q0 \<Longrightarrow> q0 \<le> m \<Longrightarrow> 0 < q1 \<Longrightarrow> q1 \<le> m \<Longrightarrow> 0 \<le> d \<Longrightarrow> d \<le> n \<Longrightarrow>
     limit_loop m p0 q0 p1 q1 n d = (p0', q0', p1', q1') \<Longrightarrow> 0 \<le> q0' \<and> q0' \<le> m \<and> 0 < q1' \<and> q1' \<le> m"
proof (induction m p0 q0 p1 q1 n d rule: limit_loop.induct)
  case (1 m p0 q0 p1 q1 n d)
  let ?a = "n div d" and ?q2 = "q0 + n div d * q1"
  show ?case
  proof (cases "d \<le> 0 \<or> ?q2 > m")
    case True
    then show ?thesis using 1(2-) limit_loop.simps [of m p0 q0 p1 q1 n d] by (auto simp: Let_def split: if_splits)
  next
    case False
    then have d: "0 < d" "?q2 \<le> m" by auto
    have "1 \<le> ?a" using d(1) 1(7) by (simp add: int_one_le_iff_zero_less pos_imp_zdiv_pos_iff)
    then have "q1 \<le> ?a * q1" using 1(4) by (simp add: mult_le_cancel_right1)
    then have q2: "0 < ?q2" using 1(2,4) by linarith
    have r: "0 \<le> n - ?a * d" "n - ?a * d \<le> d"
      using d(1) by (simp_all add: minus_div_mult_eq_mod order_less_imp_le)
    have "limit_loop m p1 q1 (p0 + ?a * p1) ?q2 d (n - ?a * d) = (p0', q0', p1', q1')"
      using 1(8) d limit_loop.simps [of m p0 q0 p1 q1 n d] by (simp add: Let_def)
    then show ?thesis
      by (intro 1(1) [OF _ refl refl]) (use d 1(4,5) q2 r in simp_all)
  qed
qed

lemma limit_denominator_bounds:
  assumes "0 < den" "1 \<le> m" "limit_denominator m num den = (p, q)"
  shows "1 \<le> q \<and> q \<le> m"
proof -
  let ?g = "gcd num den"
  let ?n = "num div ?g" and ?d = "den div ?g"
  have g: "0 < ?g" using assms(1) by (metis gcd_pos_int less_irrefl)
  then have d: "1 \<le> ?d" using assms(1) by (simp add: int_one_le_iff_zero_less pos_imp_zdiv_pos_iff zdvd_imp_le)
  show ?thesis
  proof (cases "?d \<le> m")
    case True
    then show ?thesis using assms(3) d by (simp add: limit_denominator_def Let_def)
  next
    case False
    obtain p0 q0 p1 q1 where loop: "limit_loop m 0 1 1 0 ?n ?d = (p0, q0, p1, q1)" by (metis prod_cases4)
    let ?a = "?n div ?d"
    have "limit_loop m 1 0 ?a 1 ?d (?n - ?a * ?d) = (p0, q0, p1, q1)"
      using loop d assms(2) limit_loop.simps [of m 0 1 1 0 ?n ?d] by (simp add: Let_def)
    moreover have "0 \<le> ?n - ?a * ?d" "?n - ?a * ?d \<le> ?d"
      using d by (simp_all add: minus_div_mult_eq_mod order_less_imp_le)
    ultimately have b: "0 \<le> q0" "q0 \<le> m" "0 < q1" "q1 \<le> m"
      using limit_loop_bounds [of 0 m 1 "?n - ?a * ?d" ?d 1 ?a p0 q0 p1 q1] d assms(2) by simp_all
    let ?k = "(m - q0) div q1"
    have "?k * q1 + (m - q0) mod q1 = m - q0" by (rule div_mult_mod_eq)
    moreover have "0 \<le> (m - q0) mod q1" "(m - q0) mod q1 < q1" using b(3) by simp_all
    ultimately have k: "1 \<le> q0 + ?k * q1" "q0 + ?k * q1 \<le> m" using b(4) by linarith+
    have "(p, q) = (p1, q1) \<or> (p, q) = (p0 + ?k * p1, q0 + ?k * q1)"
      using assms(3) loop False unfolding limit_denominator_def Let_def by (simp split: if_splits)
    then show ?thesis using b k by auto
  qed
qed

text \<open>C24: An exposure time read from a photo is a fraction in which the denominator is positive and at most 8000.\<close>

theorem exposure_denominator:
  assumes "get_exposure v = Inr (Some s)"
  shows "\<exists>p q. s = fraction_str (p, q) \<and> 1 \<le> q \<and> q \<le> 8000"
proof -
  have lim: "\<exists>p q. fraction_str (limit_denominator 8000 n d) = fraction_str (p, q) \<and> 1 \<le> q \<and> q \<le> 8000"
    if "0 < d" for n d
    using limit_denominator_bounds [OF that, of 8000 n] by (metis prod.collapse one_le_numeral)
  show ?thesis
    using assms lim by (auto simp: get_exposure_def split: if_splits option.splits exif_value.splits)
qed

theorem exposure_denominator_witness:
  "get_exposure (Some (ERat 10 30011)) = Inr (Some ''1/3001'')
   \<and> (\<exists>p q. ''1/3001'' = fraction_str (p, q) \<and> 1 \<le> q \<and> q \<le> 8000)"
proof -
  have "get_exposure (Some (ERat 10 30011)) = Inr (Some ''1/3001'')" by code_simp
  with exposure_denominator [OF this] show ?thesis by blast
qed

end
