(* ===== verification/UploadConfined.thy ===== *)
theory UploadConfined
  imports UploadProps ApiFiles
begin

text \<open>
  Where the content of an upload goes: below the owner's own files when the path has no component that
  leads upwards, and wherever such components lead when it has, which the check of the API lets through.
\<close>

section \<open>Keys\<close>

lemma uuid_str_good: "good_comp (uuid_str u)"
proof -
  have "length (uuid_str u) = 36" by simp
  then have "uuid_str u \<noteq> [] \<and> uuid_str u \<noteq> ''.'' \<and> uuid_str u \<noteq> ''..''" by fastforce
  moreover have "slash \<notin> set (uuid_str u)"
    using slash_notin_hex_string by (auto simp: uuid_str_def Let_def dest: in_set_takeD in_set_dropD)
  ultimately show ?thesis by (simp add: good_comp_def)
qed

lemma storage_key_of_comps:
  assumes "good_comps cs" "cs \<noteq> []"
  shows "storage_key_of owner (path_of cs) = path_of (uuid_str owner # ''files'' # cs)"
    and "good_key (storage_key_of owner (path_of cs))"
    and "key_comps (storage_key_of owner (path_of cs)) = uuid_str owner # ''files'' # cs"
proof -
  let ?k = "uuid_str owner # ''files'' # cs"
  have g: "good_comps ?k" using assms(1) uuid_str_good by (simp add: good_comp_def)
  have "uuid_str owner \<noteq> []" "slash \<notin> set (uuid_str owner)" using uuid_str_good by (simp_all add: good_comp_def)
  then have u: "uuid_str owner \<noteq> []" "last (uuid_str owner) \<noteq> slash" by (simp, metis last_in_set)
  have c: "\<not> prefix ''/'' (path_of cs)" "path_of cs = join_with ''/'' cs"
    using join_good_hd [OF assms] assms(2) by (auto simp: path_of_def)
  have "os_join (uuid_str owner) ''files'' = uuid_str owner @ ''/files''" using u by (simp add: os_join_def)
  then have "storage_key_of owner (path_of cs) = uuid_str owner @ ''/files/'' @ path_of cs"
    using c(1) by (simp add: storage_key_of_def os_join_def)
  also have "\<dots> = path_of ?k" using assms(2) c(2) by (cases cs) (simp_all add: path_of_def)
  finally show k: "storage_key_of owner (path_of cs) = path_of ?k" .
  show "key_comps (storage_key_of owner (path_of cs)) = ?k"
    unfolding k key_comps_def normpath_path_of [OF g] by (rule split_path_of [OF g]) simp
  then show "good_key (storage_key_of owner (path_of cs))" using g by (simp add: good_key_def)
qed

section \<open>Steps that leave the storage alone\<close>

abbreviation store_keeps :: "('b \<Rightarrow> bool) \<Rightarrow> ('b, 'a) app \<Rightarrow> bool" where
  "store_keeps J m \<equiv> keeps (\<lambda>w. J (w_default w)) m"

lemma store_keeps_parts [intro, simp]:
  "store_keeps J (in_db d)" "store_keeps J (in_media m)" "store_keeps J (in_cache c)" "store_keeps J (draw x)"
  "store_keeps J (enqueue j)" "store_keeps J (schedule t)"
  by (auto simp: keeps_def in_db_def in_media_def in_cache_def draw_def enqueue_def schedule_def modify_def
      split: prod.splits)

lemma store_keeps_atomic: "store_keeps J m \<Longrightarrow> store_keeps J (atomic m)"
  unfolding keeps_def atomic_def by (clarsimp split: prod.splits sum.splits) (metis snd_conv)

lemma store_keeps_default: "keeps J m \<Longrightarrow> store_keeps J (in_default m)"
  unfolding keeps_def in_default_def by (simp add: case_prod_beta)

lemmas store_rules = keeps_bnd keeps_andthen keeps_attempt store_keeps_atomic

lemma store_keeps_create_folder: "store_keeps J (filecore_create_folder ns_path path)"
  unfolding filecore_create_folder_def Let_def by (intro store_rules) simp_all

lemma store_keeps_ensure_parent: "store_keeps J (filecore_ensure_parent ns_path parent)"
  unfolding filecore_ensure_parent_def
  by (intro store_rules) (auto split: sum.split intro!: store_rules store_keeps_create_folder)

lemma store_keeps_save_new: "store_keeps J (filecore_save_new ns_path F)"
  unfolding filecore_save_new_def by (intro store_rules) simp_all


section \<open>Uploads stay in the owner's folder\<close>

text \<open>The folder of a user's files in the location of a storage.\<close>

definition user_folder :: "string \<Rightarrow> uuid \<Rightarrow> string list" where
  "user_folder location owner = location_comps location @ [uuid_str owner, ''files'']"

lemma outside_save:
  assumes "prefix L (fs_comps s (fullpath location key))"
  shows "outside L (fs_root s) (fs_root (snd (fs_save location key c s)))"
proof -
  have "outside L (fs_root s) (fs_root (snd (os_call catch_not_dir
      (\<lambda>t. fs_open_write t (fs_comps s (fullpath location key)) b m) s)))" for b m
    by (rule outside_os_call) (use assms in \<open>auto simp: fs_open_write_def outside_put split: if_splits sum.splits\<close>)
  moreover have "snd (from_path location p s) = s" for p and s :: "'a fs_state_scheme" by (simp add: from_path_def)
  ultimately show ?thesis
    unfolding fs_save_def by (auto simp: andthen_def bnd_def split: prod.splits sum.splits) (metis snd_conv)+
qed

lemma blob_create_confined:
  fixes E :: "'z fs_state_scheme env"
  assumes E: "e_default E = FileSystemStorage location" "good_location location"
    and cs: "good_comps cs" "cs \<noteq> []"
  shows "store_keeps (\<lambda>b. outside (user_folder location owner) t (fs_root b))
    (blob_create E (storage_key_of owner (path_of cs)) content)"
    (is "store_keeps ?J (blob_create E ?key content)")
proof -
  have k: "prefix (user_folder location owner) (fs_comps s (fullpath location ?key))" for s :: "'z fs_state_scheme"
    using fs_comps_key [OF E(2) storage_key_of_comps(2) [OF cs], of s] storage_key_of_comps(3) [OF cs]
    by (simp add: user_folder_def prefix_def)
  have "keeps ?J (io_save (e_default E) ?key content)"
    unfolding E(1) fs_storage_ops keeps_def using outside_save [OF k] outside_trans by blast
  moreover have "keeps ?J (io_makedirs (e_default E) d)" for d
    unfolding E(1) fs_storage_ops keeps_def fs_storage_makedirs_def
    using outside_trans outside_os_call [of "\<lambda>u. fs_makedirs u _"] outside_makedirs by blast
  ultimately show ?thesis
    unfolding blob_create_def Let_def by (intro store_rules store_keeps_default store_keeps_parts keeps_now) simp_all
qed


lemma triple_weaken_snd: "triple P m (\<lambda>_. Q) Q \<Longrightarrow> P s \<Longrightarrow> Q (snd (m s))"
  by (cases "m s") (auto simp: triple_def split: sum.splits dest: spec [of _ s])

lemma triple_store_keeps: "store_keeps J m \<Longrightarrow> triple (\<lambda>w. J (w_default w)) m (\<lambda>_ w. J (w_default w)) (\<lambda>w. J (w_default w))"
  unfolding triple_def keeps_def by (fastforce split: prod.split sum.split)

lemma create_file_confined:
  fixes E :: "'z fs_state_scheme env"
  assumes E: "e_default E = FileSystemStorage location" "good_location location"
    and cs: "Path path = MkPath (path_of (cs @ [c]))" "good_comps (cs @ [c])"
    and ns: "filter (\<lambda>n. nr_path n = ns_path) nss = [ns]"
    and J_def: "J = (\<lambda>b. outside (user_folder location (nr_owner ns)) t (fs_root b))"
  shows "triple (\<lambda>w. J (w_default w) \<and> d_namespaces (w_db w) = nss) (filecore_create_file E ns_path path content m)
    (\<lambda>_ w. J (w_default w)) (\<lambda>w. J (w_default w))"
    (is "triple ?P _ ?Q ?E")
proof -
  have pp: "Path (path_str (Path path)) = MkPath (path_of (cs @ [c]))"
    using Path_path_of [OF cs(2)] by (simp add: cs(1) path_str_def)
  let ?G = "\<lambda>np. \<exists>c'. good_comps (cs @ [c']) \<and> np = MkPath (path_of (cs @ [c']))"
  have ens: "triple ?P (filecore_ensure_parent ns_path p) (\<lambda>_. ?P) ?E" for p
  proof (rule triple_fix)
    fix w0 :: "'z fs_state_scheme world" assume w0: "?P w0"
    show "triple (\<lambda>w. w = w0) (filecore_ensure_parent ns_path p) (\<lambda>_. ?P) ?E"
      using triple_conj [OF triple_store_keeps [OF store_keeps_ensure_parent [of J ns_path p]]
          ensure_parent_space [of 0 "space_used (w_db w0) 0" nss ns_path p]] w0
      by (elim triple_conseq) (auto simp: space_is_def)
  qed
  have avail: "triple ?P (filecore_get_available_path (e_ext E) ns_path (path_str (Path path))) (\<lambda>np w. ?P w \<and> ?G np) ?E"
    by (rule triple_read) (use available_path_same_folder [OF pp cs(2)] in auto)
  have store: "triple (\<lambda>w. ?P w \<and> ?G np) (filecore_store E ns_path np content m) ?Q ?E" for np
  proof (cases "?G np")
    case True
    then obtain c' where c': "good_comps (cs @ [c'])" "np = MkPath (path_of (cs @ [c']))" by blast
    have nsp: "triple ?P (in_db (namespace_get_by_path ns_path))
        (\<lambda>nsp w. J (w_default w) \<and> nsp = namespace_from_db ns) ?E"
      by (rule triple_read) (use namespace_get_by_path_Inr ns in \<open>fastforce simp: in_db_read\<close>)+
    have rest: "store_keeps J (bnd (blob_create E (storage_key_of (nr_owner ns) (path_of (cs @ [c']))) content) (\<lambda>blob.
        bnd now (\<lambda>t. filecore_save_new ns_path (F blob t))))" for F
      unfolding J_def by (intro store_rules blob_create_confined [OF E c'(1)] store_keeps_save_new keeps_now) simp
    show ?thesis
      unfolding filecore_store_def
    proof (rule triple_bnd)
      show "triple (\<lambda>w. ?P w \<and> ?G np) (in_db (namespace_get_by_path ns_path))
          (\<lambda>nsp w. J (w_default w) \<and> nsp = namespace_from_db ns) ?E"
        by (rule triple_conseq [OF nsp]) auto
    next
      fix nsp
      show "triple (\<lambda>w. J (w_default w) \<and> nsp = namespace_from_db ns)
          (bnd (blob_create E (storage_key_of (nsp_owner_id nsp) (path_str np)) content) (\<lambda>blob. bnd now (\<lambda>t.
            filecore_save_new ns_path \<lparr> f_id = SENTINEL_ID, f_blob_id = Some (b_id blob), f_owner_id = nsp_owner_id nsp,
             f_ns_path = ns_path, f_name = path_name np, f_path = np, f_chash = b_chash blob, f_size = b_size blob,
             f_modified_at = (case m of None \<Rightarrow> t | Some m \<Rightarrow> m), f_mediatype = b_media_type blob, f_shared = False \<rparr>)))
          ?Q ?E"
        using triple_store_keeps [OF rest] c'(2)
        by (cases "nsp = namespace_from_db ns") (simp_all add: namespace_from_db_def path_str_def triple_def)
    qed
  next
    case False
    then show ?thesis unfolding triple_def by blast
  qed
  show ?thesis
    unfolding filecore_create_file_def
    by (rule triple_andthen [OF ens], rule triple_bnd [OF avail store])
qed


text \<open>C19: With \<open>FileSystemStorage\<close> and a path without \<open>..\<close> components, \<open>NamespaceUseCase.add_file\<close> changes no
  stored file outside the folder of the namespace's owner, whether it returns or raises.\<close>

theorem upload_confined:
  fixes E :: "'z fs_state_scheme env"
  assumes "e_default E = FileSystemStorage location" "good_location location"
    and "Path path = MkPath (path_of (cs @ [c]))" "good_comps (cs @ [c])"
    and "filter (\<lambda>n. nr_path n = ns_path) (d_namespaces (w_db w)) = [ns]"
  shows "outside (user_folder location (nr_owner ns)) (fs_root (w_default w))
    (fs_root (w_default (snd (ns_add_file E ns_path path content m w))))"
proof -
  let ?t = "fs_root (w_default w)"
  define J where J: "J = (\<lambda>b :: 'z fs_state_scheme. outside (user_folder location (nr_owner ns)) ?t (fs_root b))"
  let ?P = "\<lambda>v. J (w_default v) \<and> d_namespaces (w_db v) = d_namespaces (w_db w)" and ?E = "\<lambda>v. J (w_default v)"
  have pp: "Path (path_str (Path path)) = MkPath (path_of (cs @ [c]))"
    using Path_path_of [OF assms(4)] by (simp add: assms(3) path_str_def)
  have create: "triple ?P (file_service_create_file E ns_path (path_str (Path path)) content m) (\<lambda>_. ?E) ?E"
    unfolding file_service_create_file_def
  proof (rule triple_bnd)
    let ?G = "\<lambda>np. \<exists>c'. good_comps (cs @ [c']) \<and> np = MkPath (path_of (cs @ [c']))"
    show "triple ?P (filecore_get_available_path (e_ext E) ns_path (path_str (Path path))) (\<lambda>np v. ?P v \<and> ?G np) ?E"
      by (rule triple_read) (use available_path_same_folder [OF pp assms(4)] in auto)
    show "triple (\<lambda>v. ?P v \<and> ?G np) (filecore_create_file E ns_path (path_str np) content m) (\<lambda>_. ?E) ?E" for np
    proof (cases "?G np")
      case True
      then obtain c' where c': "good_comps (cs @ [c'])" "path_str np = path_of (cs @ [c'])" by (auto simp: path_str_def)
      show ?thesis
        unfolding c'(2)
        by (rule triple_conseq [OF create_file_confined [OF assms(1,2) Path_path_of [OF c'(1)] c'(1) assms(5) J]]) auto
    qed (auto simp: triple_def)
  qed
  have read: "triple ?P (in_db d) (\<lambda>_. ?P) ?E" if "\<And>x. snd (d x) = x" for d :: "'x repo"
    by (rule triple_read) (use that in \<open>auto simp: in_db_read\<close>)
  have "triple ?P (ns_add_file E ns_path path content m) (\<lambda>_. ?E) ?E"
    unfolding ns_add_file_def Let_def user_get_account_def
    by (intro triple_andthen [where R = ?P] triple_bnd [where R = "\<lambda>_. ?P"] triple_bnd [OF create] read triple_guard)
       (auto split: option.split intro!: triple_ret triple_bnd [where R = "\<lambda>_. ?P"] read triple_guard
         triple_store_keeps store_rules simp: content_process_async_def)
  then have "?E (snd (ns_add_file E ns_path path content m w))"
    by (rule triple_weaken_snd) (simp add: J)
  then show ?thesis by (simp add: J)
qed

theorem upload_confined_witness:
  "outside [''srv'', ''data'', uuid_str 1, ''files''] (fs_root (w_default demo_world))
    (fs_root (w_default (snd (ns_add_file demo_env ''alice'' ''docs/new.txt'' (InMemoryBlobContent [97]) None demo_world))))"
proof -
  have p: "Path ''docs/new.txt'' = MkPath (path_of ([''docs''] @ [''new.txt'']))" "good_comps ([''docs''] @ [''new.txt''])"
    "good_location ''/srv/data''" "location_comps ''/srv/data'' = [''srv'', ''data'']"
    by code_simp+
  have ns: "filter (\<lambda>n. nr_path n = ''alice'') (d_namespaces (w_db demo_world)) = [\<lparr> nr_id = 2, nr_path = ''alice'', nr_owner = 1 \<rparr>]"
    by (simp add: example_defs)
  have "e_default demo_env = FileSystemStorage ''/srv/data''" by (simp add: demo_env_def)
  from upload_confined [OF this p(3,1,2) ns] show ?thesis by (simp add: user_folder_def p(4))
qed


end
