(* ===== verification/StorageRefinement.thy ===== *)
theory StorageRefinement
  imports FileSystemProps Demo
begin

text \<open>
  A storage as an abstract map from keys to contents: programs over the storage interface, the same
  programs over the map, and the simulation between the two for every storage that keeps the contract
  \<open>object_store\<close>. \<open>FileSystemStorage\<close> is one. The services that use the interface are clients of the
  contract: what \<open>blob_create\<close> stores is what a download of the blob's key returns.
\<close>

section \<open>Programs over a storage and over a map\<close>

datatype store_op =
    Store_save string bytes
  | Store_delete "string list"
  | Store_deletedir string
  | Store_move string string
  | Store_makedirs string
  | Store_download string

fun store_run :: "'b istorage \<Rightarrow> store_op \<Rightarrow> ('b, exn, bytes option) prog" where
  "store_run S (Store_save k b) = bnd (io_save S k (InMemoryBlobContent b)) (\<lambda>_. ret None)"
| "store_run S (Store_delete ks) = bnd (io_delete_batch S ks) (\<lambda>_. ret None)"
| "store_run S (Store_deletedir d) = bnd (io_deletedir S d) (\<lambda>_. ret None)"
| "store_run S (Store_move a t) = bnd (io_move S a t) (\<lambda>_. ret None)"
| "store_run S (Store_makedirs d) = bnd (io_makedirs S d) (\<lambda>_. ret None)"
| "store_run S (Store_download k) = bnd (io_download S k) (\<lambda>b. ret (Some b))"

type_synonym object_map = "string \<rightharpoonup> bytes"

fun object_run :: "store_op \<Rightarrow> object_map \<Rightarrow> bytes option \<times> object_map" where
  "object_run (Store_save k b) m = (None, m(normpath k \<mapsto> b))"
| "object_run (Store_delete ks) m = (None, \<lambda>k. if k \<in> normpath ` set ks then None else m k)"
| "object_run (Store_deletedir d) m = (None, \<lambda>k. if under d k then None else m k)"
| "object_run (Store_move a t) m = (None, (m(t := m (normpath a)))(normpath a := None))"
| "object_run (Store_makedirs d) m = (None, m)"
| "object_run (Store_download k) m = (m (normpath k), m)"

fun object_runs :: "store_op list \<Rightarrow> object_map \<Rightarrow> bytes option list \<times> object_map" where
  "object_runs [] m = ([], m)"
| "object_runs (c # cs) m =
     (let (r, m1) = object_run c m; (rs, m2) = object_runs cs m1 in (r # rs, m2))"

text \<open>The programs the contract speaks about: the keys are good, and a move names a normalised target
  that is not a directory at the time.\<close>

fun op_ok :: "(string \<Rightarrow> bool) \<Rightarrow> (string \<Rightarrow> bool) \<Rightarrow> object_map \<Rightarrow> store_op \<Rightarrow> bool" where
  "op_ok good dir m (Store_save k b) = good k"
| "op_ok good dir m (Store_delete ks) = list_all good ks"
| "op_ok good dir m (Store_deletedir d) = (good d \<and> (\<forall>k \<in> dom m. under d k \<longrightarrow> good k))"
| "op_ok good dir m (Store_move a t) = (good a \<and> good t \<and> normpath t = t \<and> normpath a \<noteq> t \<and> \<not> dir t)"
| "op_ok good dir m (Store_makedirs d) = True"
| "op_ok good dir m (Store_download k) = good k"

fun program_ok ::
  "'b istorage \<Rightarrow> ('b \<Rightarrow> object_map) \<Rightarrow> (string \<Rightarrow> bool) \<Rightarrow> ('b \<Rightarrow> string \<Rightarrow> bool) \<Rightarrow> 'b \<Rightarrow> store_op list \<Rightarrow> bool" where
  "program_ok S objects good dir s [] = True"
| "program_ok S objects good dir s (c # cs) =
     (op_ok good (dir s) (objects s) c \<and> program_ok S objects good dir (snd (store_run S c s)) cs)"

context object_store begin

lemma step_refines:
  assumes ok: "op_ok good_key (dir_at s) (objects s) c" and run: "store_run S c s = (Inr r, s')"
  shows "object_run c (objects s) = (r, objects s')"
proof (cases c)
  case (Store_save k b)
  with ok run save_objects [of k "InMemoryBlobContent b"] show ?thesis
    by (auto simp: prog_elims content_ok_in_memory)
      (simp_all add: InMemoryBlobContent_def)
next
  case (Store_delete ks)
  with run obtain u where u: "io_delete_batch S ks s = (Inr u, s')" "r = None" by (auto simp: prog_elims)
  have "\<forall>k \<in> set ks. good_key k" using ok Store_delete by (simp add: list_all_iff)
  from delete_batch_objects [OF this u(1)] show ?thesis using Store_delete u(2) by simp
next
  case (Store_deletedir d)
  with run obtain u where u: "io_deletedir S d s = (Inr u, s')" "r = None" by (auto simp: prog_elims)
  have "good_key d" "\<forall>k. objects s k \<noteq> None \<and> under d k \<longrightarrow> good_key k" using ok Store_deletedir by auto
  from deletedir_objects [OF this u(1)] show ?thesis using Store_deletedir u(2) by simp
next
  case (Store_move a t)
  with run obtain u where u: "io_move S a t s = (Inr u, s')" "r = None" by (auto simp: prog_elims)
  have "good_key a" "good_key t" "normpath t = t" "normpath a \<noteq> t" "\<not> dir_at s t" using ok Store_move by simp_all
  from move_objects [OF this u(1)] show ?thesis using Store_move u(2) by simp
next
  case (Store_makedirs d)
  with run makedirs_objects [of d s] show ?thesis by (auto simp: prog_elims)
next
  case (Store_download k)
  with ok run download_objects [of k s] download_missing [of k s] show ?thesis
    by (cases "objects s (normpath k)") (auto simp: prog_elims)
qed

lemma runs_refine:
  "program_ok S objects good_key dir_at s cs \<Longrightarrow> map_prog (store_run S) cs s = (Inr rs, s') \<Longrightarrow>
     object_runs cs (objects s) = (rs, objects s')"
proof (induction cs arbitrary: s rs)
  case (Cons c cs)
  then obtain r s1 rs' where "store_run S c s = (Inr r, s1)" "map_prog (store_run S) cs s1 = (Inr rs', s')" "rs = r # rs'"
    by (auto simp: prog_elims)
  then show ?case using Cons step_refines [of s c r s1] by simp
qed (simp add: prog_elims)

end

section \<open>FileSystemStorage\<close>

text \<open>C21: \<open>FileSystemStorage\<close> refines a map from keys to contents: every program of saves, deletions, moves and
  downloads that returns on the storage gives the results it gives on the map, and leaves the map it leaves.\<close>

theorem filesystem_refines_map:
  fixes s :: "'z fs_state_scheme"
  assumes "program_ok (FileSystemStorage location) (fs_objects location) (fs_good_key location) (fs_dir_at location) s cs"
    and "map_prog (store_run (FileSystemStorage location)) cs s = (Inr rs, s')"
  shows "object_runs cs (fs_objects location s) = (rs, fs_objects location s')"
  using fs.runs_refine assms by blast


theorem filesystem_refines_map_witness:
  "let cs = [Store_save ''u/c'' [3, 4], Store_move ''u/c'' ''v/w/c'', Store_delete [''u/a''], Store_download ''v/w/c''];
       (r, s') = map_prog (store_run (FileSystemStorage ''/srv/data'')) cs example_fs
   in r = Inr [None, None, None, Some [3, 4]]
      \<and> fst (object_runs cs (fs_objects ''/srv/data'' example_fs)) = [None, None, None, Some [3, 4]]
      \<and> snd (object_runs cs (fs_objects ''/srv/data'' example_fs)) = fs_objects ''/srv/data'' s'"
proof -
  let ?cs = "[Store_save ''u/c'' [3, 4], Store_move ''u/c'' ''v/w/c'', Store_delete [''u/a''], Store_download ''v/w/c'']"
  let ?S = "FileSystemStorage ''/srv/data''"
  let ?r = "map_prog (store_run ?S) ?cs example_fs"
  have "fst ?r = Inr [None, None, None, Some [3, 4]]" by code_simp
  then obtain s' where run: "?r = (Inr [None, None, None, Some [3, 4]], s')" by (metis prod.collapse)
  have "fs_good_key ''/srv/data'' ''u/c'' \<and> fs_good_key ''/srv/data'' ''v/w/c'' \<and> fs_good_key ''/srv/data'' ''u/a''
      \<and> normpath ''v/w/c'' = ''v/w/c'' \<and> normpath ''u/c'' \<noteq> ''v/w/c''"
    by code_simp
  moreover have "\<not> fs_dir_at ''/srv/data'' (snd (store_run ?S (Store_save ''u/c'' [3, 4]) example_fs)) ''v/w/c''"
    by code_simp
  ultimately have "program_ok ?S (fs_objects ''/srv/data'') (fs_good_key ''/srv/data'') (fs_dir_at ''/srv/data'') example_fs ?cs"
    by (simp del: store_run.simps)
  from filesystem_refines_map [OF this run] run show ?thesis by (simp only: Let_def prod.case) simp
qed

section \<open>A client of the contract\<close>

context object_store begin

lemma create_then_download:
  assumes S: "S = e_default E" and k: "good_key key" "content_ok content"
    and run: "blob_create E key content w = (Inr b, w')"
  shows "blob_service_download E (b_storage_key b) w' = (Inr (c_data content), w')
     \<and> b_size b = int (length (c_data content)) \<and> b_chash b = chash (e_ext E) (c_data content)
     \<and> objects (w_default w') = (objects (w_default w))(normpath key \<mapsto> c_data content)"
proof -
  obtain s0 f s1 where s: "io_makedirs S (dirname key) (w_default w) = (Inr (), s0)"
    "io_save S key content s0 = (Inr f, s1)" "w_default w' = s1"
    and b: "b_storage_key b = key" "b_size b = sf_size f" "b_chash b = chash (e_ext E) (c_data content)"
    using run S
    by (auto simp: blob_create_def Let_def prog_elims blob_save_def insert_blob_def now_def gets_def split: if_splits)
  have "objects s0 = objects (w_default w)" using makedirs_objects [of "dirname key" "w_default w"] s(1) by simp
  then have o: "objects s1 = (objects (w_default w))(normpath key \<mapsto> c_data content)" "sf_size f = int (length (c_data content))"
    using save_objects [OF k s(2)] by simp_all
  have "io_download S key s1 = (Inr (c_data content), s1)"
    by (rule save_then_download [OF k s(2)])
  then show ?thesis using o s(3) b S by (simp add: blob_service_download_def in_default_def)
qed

end

text \<open>C22: With a storage that keeps the contract, here \<open>FileSystemStorage\<close>, the blob that \<open>BlobService.create\<close> returns
  has the size and the hash of the content, and \<open>BlobService.download\<close> of its key returns the content.\<close>

theorem created_blob_downloads:
  fixes E :: "'z fs_state_scheme env"
  assumes "e_default E = FileSystemStorage location" "fs_good_key location key" "content_ok content"
    and "blob_create E key content w = (Inr b, w')"
  shows "blob_service_download E (b_storage_key b) w' = (Inr (c_data content), w')
     \<and> b_size b = int (length (c_data content)) \<and> b_chash b = chash (e_ext E) (c_data content)
     \<and> fs_objects location (w_default w') = (fs_objects location (w_default w))(normpath key \<mapsto> c_data content)"
  using fs.create_then_download [OF assms(1) [symmetric] assms(2-4)] .


theorem created_blob_downloads_witness:
  "\<exists>b w'. blob_create demo_env ''k/new'' (InMemoryBlobContent [97, 98]) demo_world = (Inr b, w')
     \<and> blob_service_download demo_env (b_storage_key b) w' = (Inr [97, 98], w') \<and> b_size b = 2"
proof -
  let ?w = "demo_world"
  let ?r = "blob_create demo_env ''k/new'' (InMemoryBlobContent [97, 98]) ?w"
  have "\<not> isl (fst ?r)" by code_simp
  then obtain b w' where run: "?r = (Inr b, w')" by (cases ?r; cases "fst ?r") auto
  have "e_default demo_env = FileSystemStorage ''/srv/data''" by (simp add: demo_env_def)
  from created_blob_downloads [OF this _ content_ok_in_memory run] have
    "fs_good_key ''/srv/data'' ''k/new'' \<Longrightarrow> blob_service_download demo_env (b_storage_key b) w' = (Inr [97, 98], w') \<and> b_size b = 2"
    by (simp add: InMemoryBlobContent_def)
  moreover have "fs_good_key ''/srv/data'' ''k/new''" by code_simp
  ultimately show ?thesis using run by blast
qed

end
