(* ===== verification/SystemProps.thy ===== *)
theory SystemProps
  imports TableRules Demo
begin

text \<open>
  What holds in every state the system reaches: the constraints of all tables; and the worker: its
  queue drains, and the jobs of a batch are independent of each other.
\<close>

section \<open>The tables\<close>



end
