(* ===== verification/WorkerProps.thy ===== *)
theory WorkerProps
  imports TableRules Demo
begin

text \<open>
  The worker: how many jobs a job can put into the queue, that the queue drains, and that the items of a
  batch job do not disturb each other.
\<close>

section \<open>Jobs that an operation adds\<close>

text \<open>An operation adds at most \<open>k\<close> jobs to the end of the queue, all of them blob jobs.\<close>

definition enqueues :: "nat \<Rightarrow> ('b, 'a) app \<Rightarrow> bool" where
  "enqueues k m \<longleftrightarrow> (\<forall>w. \<exists>js. w_queue (snd (m w)) = w_queue w @ map Job_process_blob_jobs js \<and> length js \<le> k)"

named_theorems enqueue_rules "how many jobs an operation adds"

lemma enqueuesI: "(\<And>w. w_queue (snd (m w)) = w_queue w) \<Longrightarrow> enqueues 0 m"
  by (simp add: enqueues_def)

lemma enqueues_mono: "enqueues j m \<Longrightarrow> j \<le> k \<Longrightarrow> enqueues k m"
  unfolding enqueues_def by (meson order_trans)

lemma enqueues_bnd [enqueue_rules]:
  assumes m: "enqueues a m" and f: "\<And>x. enqueues b (f x)"
  shows "enqueues (a + b) (bnd m f)"
  unfolding enqueues_def
proof
  fix w
  obtain js where js: "w_queue (snd (m w)) = w_queue w @ map Job_process_blob_jobs js" "length js \<le> a"
    using m unfolding enqueues_def by blast
  show "\<exists>js. w_queue (snd (bnd m f w)) = w_queue w @ map Job_process_blob_jobs js \<and> length js \<le> a + b"
  proof (cases "m w")
    case (Pair r w1)
    show ?thesis
    proof (cases r)
      case (Inl e)
      then show ?thesis using js Pair by (intro exI [of _ js]) (simp add: bnd_def)
    next
      case (Inr x)
      obtain ks where ks: "w_queue (snd (f x w1)) = w_queue w1 @ map Job_process_blob_jobs ks" "length ks \<le> b"
        using f unfolding enqueues_def by blast
      show ?thesis using js ks Pair Inr by (intro exI [of _ "js @ ks"]) (simp add: bnd_def)
    qed
  qed
qed

lemma enqueues_andthen [enqueue_rules]: "enqueues a m \<Longrightarrow> enqueues b k \<Longrightarrow> enqueues (a + b) (andthen m k)"
  unfolding andthen_def by (rule enqueues_bnd)

lemma enqueues_0 [enqueue_rules]:
  "enqueues 0 (ret x)" "enqueues 0 (raise e)" "enqueues 0 (gets g)" "enqueues 0 (query q)" "enqueues 0 (of_result r)"
  "enqueues 0 (guard b e)" "enqueues 0 (in_db d)" "enqueues 0 (in_default s)" "enqueues 0 (in_media s)"
  "enqueues 0 (in_cache c)" "enqueues 0 (draw y)" "enqueues 0 (schedule t)" "enqueues 0 now"
  by (auto intro!: enqueuesI simp: ret_def raise_def query_def of_result_def guard_def in_db_def in_default_def
      in_media_def in_cache_def draw_def schedule_def now_def modify_def split: prod.split)

lemma enqueues_enqueue [enqueue_rules]: "enqueues 1 (enqueue (Job_process_blob_jobs ids))"
  unfolding enqueues_def by (rule allI, rule exI [of _ "[ids]"]) (simp add: enqueue_def modify_def)

lemma enqueues_same_queue: "(\<And>w. w_queue (snd (m w)) = w_queue (snd (k w))) \<Longrightarrow> enqueues n k \<Longrightarrow> enqueues n m"
  by (simp add: enqueues_def)

lemma enqueues_atomic [enqueue_rules]: "enqueues k m \<Longrightarrow> enqueues k (atomic m)"
  using enqueues_same_queue [of "atomic m" m] by (auto simp: atomic_def split: prod.split sum.split)

lemma enqueues_attempt [enqueue_rules]: "enqueues k m \<Longrightarrow> enqueues k (attempt m)"
  using enqueues_same_queue [of "attempt m" m] by (auto simp: attempt_def split: prod.split sum.split)

lemma enqueues_if [enqueue_rules]: "enqueues a m \<Longrightarrow> enqueues b k \<Longrightarrow> enqueues (max a b) (if c then m else k)"
  by (auto intro: enqueues_mono)

lemma enqueues_option [enqueue_rules]:
  "enqueues a m \<Longrightarrow> (\<And>y. enqueues b (k y)) \<Longrightarrow> enqueues (max a b) (case x of None \<Rightarrow> m | Some y \<Rightarrow> k y)"
  by (cases x) (auto simp: le_max_iff_disj intro: enqueues_mono [of a] enqueues_mono [of b])

lemma enqueues_sum [enqueue_rules]:
  "(\<And>e. enqueues a (m e)) \<Longrightarrow> (\<And>y. enqueues b (k y)) \<Longrightarrow> enqueues (max a b) (case x of Inl e \<Rightarrow> m e | Inr y \<Rightarrow> k y)"
  by (cases x) (auto simp: le_max_iff_disj intro: enqueues_mono [of a] enqueues_mono [of b])

lemma enqueues_prod [enqueue_rules]: "(\<And>a b. enqueues k (f a b)) \<Longrightarrow> enqueues k (case p of (a, b) \<Rightarrow> f a b)"
  by (simp split: prod.split)

lemma enqueues_let [enqueue_rules]: "(\<And>x. enqueues k (f x)) \<Longrightarrow> enqueues k (Let y f)"
  by simp

lemma enqueues_for_each [enqueue_rules]: "(\<And>x. enqueues 0 (f x)) \<Longrightarrow> enqueues 0 (for_each xs f)"
proof (induction xs)
  case (Cons x xs)
  then show ?case using enqueues_andthen [of 0 "f x" 0] by simp
qed (simp add: enqueues_0)

lemma enqueues_map_prog: "(\<And>x. enqueues k (f x)) \<Longrightarrow> enqueues (k * length xs) (map_prog f xs)"
proof (induction xs)
  case (Cons x xs)
  have "enqueues (k + (k * length xs + 0)) (bnd (f x) (\<lambda>y. bnd (map_prog f xs) (\<lambda>ys. ret (y # ys))))"
    by (intro enqueues_bnd Cons enqueues_0)
  then show ?case by simp
qed (simp add: enqueues_0)

lemma enqueues_payload [enqueue_rules]:
  "(\<And>b k. enqueues 0 (f b k)) \<Longrightarrow> (\<And>p. enqueues 0 (g p)) \<Longrightarrow> (\<And>b k l. enqueues 0 (h b k l)) \<Longrightarrow> (\<And>p q. enqueues 0 (j p q))
   \<Longrightarrow> enqueues 0 (case x of BlobJobDelete b k \<Rightarrow> f b k | BlobJobDeletePrefix p \<Rightarrow> g p
        | BlobJobMove b k l \<Rightarrow> h b k l | BlobJobMovePrefix p q \<Rightarrow> j p q)"
  by (simp split: blob_job_payload.split)

lemma enqueues_generate_sizes [enqueue_rules]: "enqueues 0 (generate_sizes E ch content sizes)"
proof (induction sizes)
  case (Cons sz sizes)
  show ?case
    by (rule enqueues_mono, simp only: generate_sizes.simps, (rule enqueue_rules Cons.IH)+, simp)
qed (simp add: enqueues_0)

section \<open>The jobs\<close>

lemma enqueues_save_and_enqueue [enqueue_rules]: "enqueues 1 (save_and_enqueue ps)"
  unfolding save_and_enqueue_def by (rule enqueues_mono, (rule enqueue_rules)+) simp

lemma enqueues_process_blob_jobs [enqueue_rules]: "enqueues 0 (blob_service_process_blob_jobs E ids)"
  unfolding blob_service_process_blob_jobs_def process_delete_jobs_def process_delete_prefix_jobs_def
    process_move_jobs_def process_move_prefix_jobs_def
  by (rule enqueues_mono, (rule enqueue_rules | (rule enqueues_mono, (rule enqueue_rules)+, simp))+) simp

lemma enqueues_content_process [enqueue_rules]: "enqueues 0 (content_process E blob_id)"
  unfolding content_process_def blob_service_get_by_id_def blob_service_download_def thumbnail_generate_def
    blob_metadata_track_def
  by (rule enqueues_mono, (rule enqueue_rules)+) simp

lemma enqueues_blob_service [enqueue_rules]:
  "enqueues 1 (blob_service_delete_all_with_prefix p)" "enqueues 1 (blob_service_delete_batch ids)"
  "enqueues 1 (blob_service_move i k)" "enqueues 1 (blob_service_move_with_prefix p q)"
  unfolding blob_service_delete_all_with_prefix_def blob_service_delete_batch_def blob_service_move_def
    blob_service_move_with_prefix_def
  by (rule enqueues_mono, (rule enqueue_rules)+, simp)+

text \<open>Deleting or moving a row schedules at most the work on its own blob and on those below it.\<close>

lemma enqueues_filecore [enqueue_rules]:
  "enqueues 2 (filecore_delete ns path)" "enqueues 1 (filecore_empty_folder ns path)"
  unfolding filecore_delete_def filecore_empty_folder_def
  by (rule enqueues_mono, (rule enqueue_rules)+, simp)+

lemma enqueues_filecore_move [enqueue_rules]: "enqueues 2 (filecore_move at to)"
  unfolding filecore_move_def filecore_move_file_def
  by (rule enqueues_mono, (rule enqueue_rules)+, simp)

lemma enqueues_ns [enqueue_rules]:
  "enqueues 2 (ns_delete_item ns p)" "enqueues 1 (ns_empty_trash ns)" "enqueues 2 (ns_move_item ns p q)"
  "enqueues 2 (ns_move_item_to_trash x ns p)"
  unfolding ns_delete_item_def ns_empty_trash_def ns_move_item_def ns_move_item_to_trash_def file_service_move_def
    filecore_exists_at_path_def
  by (rule enqueues_mono, (rule enqueue_rules)+, simp)+

lemma enqueues_job_batch: "(\<And>p. enqueues k (op p)) \<Longrightarrow> enqueues (k * length ps) (job_batch op ps)"
  unfolding job_batch_def
  by (rule enqueues_map_prog, rule enqueues_mono, (rule enqueue_rules | assumption)+) simp_all

lemma enqueues_with_context: "enqueues k m \<Longrightarrow> enqueues k (with_context u m)"
  unfolding enqueues_def
  by (rule allI, drule_tac x = "w\<lparr>w_user := Some u\<rparr>" in spec) (auto simp: with_context_def split: prod.split)

text \<open>The turns a job can cost: its own, and one for each job it adds.\<close>

definition job_turns :: "worker_job \<Rightarrow> nat" where
  "job_turns j = (case j of
     Job_process_blob_jobs ids \<Rightarrow> 1
   | Job_process_blob_content blob_id \<Rightarrow> 1
   | Job_delete_immediately_batch ns_path paths \<Rightarrow> 1 + 2 * length paths
   | Job_empty_trash ns_path u \<Rightarrow> 2
   | Job_move_batch ns_path relocations u \<Rightarrow> 1 + 2 * length relocations
   | Job_move_to_trash_batch ns_path paths u \<Rightarrow> 1 + 2 * length paths)"

lemma enqueues_run_job: "enqueues (job_turns j - 1) (run_job E j)"
proof (cases j)
  case (Job_empty_trash ns_path u)
  have "enqueues (1 + 0) (bnd (attempt (ns_empty_trash ns_path)) (\<lambda>_. ret ()))" by (rule enqueue_rules)+
  then have "enqueues (1 + 0) (bnd (job_empty_trash ns_path u) (\<lambda>_. ret []))"
    unfolding job_empty_trash_def by (intro enqueues_bnd enqueues_with_context) (simp_all add: enqueues_0)
  then show ?thesis by (simp add: Job_empty_trash run_job_def job_turns_def)
next
  case (Job_process_blob_jobs ids)
  have "enqueues (0 + 0) (bnd (blob_service_process_blob_jobs E ids) (\<lambda>_. ret []))" by (rule enqueue_rules)+
  then show ?thesis by (simp add: Job_process_blob_jobs run_job_def job_turns_def)
next
  case (Job_process_blob_content i)
  have "enqueues (0 + 0) (bnd (content_process E i) (\<lambda>_. ret []))" by (rule enqueue_rules)+
  then show ?thesis by (simp add: Job_process_blob_content run_job_def job_turns_def)
qed (auto simp: run_job_def job_turns_def job_delete_immediately_batch_def job_move_batch_def
    job_move_to_trash_batch_def intro!: enqueues_with_context enqueues_job_batch enqueues_ns split: prod.split)

section \<open>The queue drains\<close>

lemma worker_turn_turns:
  assumes "w_queue w = j # js"
  shows "sum_list (map job_turns (w_queue (worker_turn E w))) < sum_list (map job_turns (w_queue w))"
proof -
  obtain ks where ks: "w_queue (snd (run_job E j (w\<lparr>w_queue := js\<rparr>))) = js @ map Job_process_blob_jobs ks"
    "length ks \<le> job_turns j - 1"
    using enqueues_run_job [of j E, unfolded enqueues_def, THEN spec, of "w\<lparr>w_queue := js\<rparr>"] by auto
  have "sum_list (map job_turns (map Job_process_blob_jobs ks)) = length ks"
    by (induction ks) (auto simp: job_turns_def)
  moreover have "0 < job_turns j" by (cases j) (simp_all add: job_turns_def)
  ultimately show ?thesis using assms ks by (simp add: worker_turn_def comp_def)
qed

text \<open>C15: However many jobs are waiting, the worker empties the queue, and needs at most as many turns as the jobs can
  cost: one each, and two more for every item of a batch.\<close>

theorem worker_drains:
  "\<exists>n \<le> sum_list (map job_turns (w_queue w)). w_queue ((worker_turn E ^^ n) w) = []"
proof (induction "sum_list (map job_turns (w_queue w))" arbitrary: w rule: less_induct)
  case less
  show ?case
  proof (cases "w_queue w")
    case Nil
    then show ?thesis by (intro exI [of _ 0]) simp
  next
    case (Cons j js)
    let ?w = "worker_turn E w"
    note t = worker_turn_turns [OF Cons, of E]
    obtain n where n: "n \<le> sum_list (map job_turns (w_queue ?w))" "w_queue ((worker_turn E ^^ n) ?w) = []"
      using less [OF t] by blast
    then show ?thesis using t by (intro exI [of _ "Suc n"]) (simp add: funpow_Suc_right del: funpow.simps)
  qed
qed

section \<open>Batches\<close>

text \<open>A batch job never raises. Every item has its result, in the order of the items: the file, or an error code.\<close>

definition results_ok :: "'p list \<Rightarrow> FileTaskResult list \<Rightarrow> bool" where
  "results_ok ps rs \<longleftrightarrow> length rs = length ps \<and> (\<forall>r \<in> set rs. tr_err_code r = None \<longleftrightarrow> tr_file r \<noteq> None)"

lemma job_batch_run:
  assumes "\<And>p. keeps I (op p)" "I w"
  shows "\<exists>rs w'. job_batch op ps w = (Inr rs, w') \<and> results_ok ps rs \<and> I w'"
  using assms(2)
proof (induction ps arbitrary: w)
  case Nil
  then show ?case by (simp add: job_batch_def ret_def results_ok_def)
next
  case (Cons p ps)
  let ?w = "snd (op p w)"
  have "I ?w" using keepsD [OF assms(1) Cons.prems] .
  from Cons.IH [OF this] obtain rs w' where run: "job_batch op ps ?w = (Inr rs, w')" "results_ok ps rs" "I w'" by blast
  have "job_batch op (p # ps) w = (Inr (task_result (fst (op p w)) # rs), w')"
    using run(1) by (cases "op p w") (simp add: job_batch_def bnd_def attempt_def ret_def)
  moreover have "results_ok (p # ps) (task_result (fst (op p w)) # rs)"
    using run(2) by (auto simp: results_ok_def task_result_def split: sum.split)
  ultimately show ?case using run(3) by blast
qed

lemma keeps_tree_delete_item: "db_keeps db_tree (ns_delete_item ns_path path)"
proof (rule keepsI)
  fix w :: "'a world" assume w: "db_tree (w_db w)"
  show "db_tree (w_db (snd (ns_delete_item ns_path path w)))"
  proof (cases "path = ''.''")
    case True
    then show ?thesis using w by (simp add: ns_delete_item_def special_dot)
  next
    case False
    then show ?thesis using filecore_delete_tree [OF w] w by (simp add: ns_delete_item_def)
  qed
qed



end
