(* ===== verification/S3Props.thy ===== *)
theory S3Props
  imports S3 World
begin

text \<open>
  What the S3 client sends: the deletions come in batches the service accepts, an object is deleted
  by a move only after its copy, a listing follows the pages to their end, and a content is cut into
  parts that together are the content.
\<close>

section \<open>Chunks\<close>

lemma chunks_of_Nil [simp]: "chunks_of n [] = []"
  by (simp add: chunks_of.simps)

lemma chunks_of_ne: "xs \<noteq> [] \<Longrightarrow> 0 < n \<Longrightarrow> chunks_of n xs = take n xs # chunks_of n (drop n xs)"
  by (subst chunks_of.simps) simp

lemma concat_chunks: "0 < n \<Longrightarrow> concat (chunks_of n xs) = xs"
proof (induction n xs rule: chunks_of.induct)
  case (1 n xs)
  then show ?case by (cases "xs = []") (auto simp: chunks_of_ne)
qed

lemma chunks_bounded: "0 < n \<Longrightarrow> c \<in> set (chunks_of n xs) \<Longrightarrow> c \<noteq> [] \<and> length c \<le> n"
proof (induction n xs rule: chunks_of.induct)
  case (1 n xs)
  then show ?case by (cases "xs = []") (auto simp: chunks_of_ne)
qed

lemma concat_read_chunks: "0 < n \<Longrightarrow> concat (read_chunks n b) = b"
proof (induction n b rule: read_chunks.induct)
  case (1 n b)
  then show ?case by (subst read_chunks.simps) simp
qed

lemma length_read_chunks: "0 < n \<Longrightarrow> length (read_chunks n b) = Suc (length b div n)"
proof (induction n b rule: read_chunks.induct)
  case (1 n b)
  show ?case
  proof (cases "n \<le> length b")
    case True
    then have "length (read_chunks n b) = Suc (Suc ((length b - n) div n))"
      using 1 by (subst read_chunks.simps) simp
    then show ?thesis using True 1(2) by (simp add: le_div_geq)
  next
    case False
    then show ?thesis using 1(2) by (subst read_chunks.simps) simp
  qed
qed

lemma butlast_read_chunks: "0 < n \<Longrightarrow> c \<in> set (butlast (read_chunks n b)) \<Longrightarrow> length c = n"
proof (induction n b rule: read_chunks.induct)
  case (1 n b)
  then show ?case
    by (subst (asm) (2) read_chunks.simps) (auto simp: read_chunks.simps [of n "drop n b"] split: if_splits)
qed

section \<open>A service that keeps a log\<close>

text \<open>The client against a service of which only the replies matter; the state is the list of the
  requests sent.\<close>

definition logging :: "'a s3_config \<Rightarrow> (http_request \<Rightarrow> exn + http_reply) \<Rightarrow> http_request list s3_config" where
  "logging C reply = \<lparr> sc_base_url = sc_base_url C, sc_bucket = sc_bucket C, sc_cwd = sc_cwd C,
     sc_http = (\<lambda>rq log. (reply rq, log @ [rq])), sc_xml = sc_xml C, sc_httpdate = sc_httpdate C,
     sc_isodate = sc_isodate C \<rparr>"

lemma logging_simps [simp]:
  "sc_base_url (logging C reply) = sc_base_url C" "sc_bucket (logging C reply) = sc_bucket C"
  "sc_http (logging C reply) = (\<lambda>rq log. (reply rq, log @ [rq]))" "sc_xml (logging C reply) = sc_xml C"
  "sc_isodate (logging C reply) = sc_isodate C"
  "s3_url (logging C reply) = s3_url C" "object_url (logging C reply) = object_url C"
  by (simp_all add: logging_def s3_url_def object_url_def fun_eq_iff)

lemma s3_send_log: "snd (s3_send (logging C reply) rq log) = log @ [rq]"
  by (auto simp: s3_send_def prog_simps split: sum.splits)

lemma bnd_log: "snd (m log) = log @ l \<Longrightarrow> (\<And>x log'. snd (k x log') = log') \<Longrightarrow> snd (bnd m k log) = log @ l"
  by (simp add: bnd_def split: prod.splits sum.splits) (metis snd_conv)

lemma of_result_reads [simp]: "snd (of_result r s) = s"
  by (simp add: of_result_def)

lemma ret_reads [simp]: "snd (ret x s) = s"
  by (simp add: ret_def)

definition delete_request :: "'b s3_config \<Rightarrow> string list \<Rightarrow> http_request" where
  "delete_request C files =
     request ''POST'' (s3_url C (sc_bucket C)) [(''delete'', ''1'')] [] (utf8 (delete_xml files))"

lemma delete_1000_log:
  assumes "length files \<le> 1000"
  shows "snd (delete_1000_files (logging C reply) files log) = log @ [delete_request C files]"
proof -
  have "snd (bnd (of_result r) k log) = log" if "\<And>x log. snd (k x log) = log" for r log
    and k :: "xml \<Rightarrow> (http_request list, string option list) s3"
    using that by (simp add: bnd_def of_result_def split: sum.splits)
  then have "snd (bnd (s3_send (logging C reply) (delete_request C files)) (\<lambda>r.
      bnd (of_result (reply_xml (logging C reply) r)) (\<lambda>root.
      of_result (map_result (\<lambda>k. child_text k ''Key'') (xml_children root)))) log) = log @ [delete_request C files]"
    by (intro bnd_log s3_send_log) simp
  then show ?thesis
    using assms by (simp add: delete_1000_files_def delete_request_def andthen_def guard_def)
qed

lemma map_prog_log:
  assumes "\<And>x log. x \<in> set xs \<Longrightarrow> snd (f x log) = log @ [g x]"
  shows "case map_prog f xs log of (Inr ys, log') \<Rightarrow> log' = log @ map g xs
     | (Inl e, log') \<Rightarrow> prefix log' (log @ map g xs)"
  using assms
proof (induction xs arbitrary: log)
  case Nil
  then show ?case by (simp add: ret_def)
next
  case (Cons x xs)
  have 1: "snd (f x log) = log @ [g x]" using Cons.prems by simp
  show ?case
  proof (cases "f x log")
    case (Pair r log1)
    show ?thesis
    proof (cases r)
      case (Inl e)
      show ?thesis using 1 Pair Inl by (simp add: bnd_def)
    next
      case (Inr y)
      have log1: "log1 = log @ [g x]" using 1 Pair by simp
      have "case map_prog f xs log1 of (Inr ys, log') \<Rightarrow> log' = log1 @ map g xs
           | (Inl e, log') \<Rightarrow> prefix log' (log1 @ map g xs)"
        using Cons.prems by (intro Cons.IH) simp
      then show ?thesis
        using Pair Inr log1
        by (cases "map_prog f xs log1"; cases "fst (map_prog f xs log1)")
           (auto simp: bnd_def ret_def)
    qed
  qed
qed

lemma task_group_log: "snd (task_group m log) = snd (m log)"
  by (simp add: task_group_def try_else_def raise_def split: prod.splits sum.splits)

section \<open>Properties\<close>


definition copy_request :: "'b s3_config \<Rightarrow> string \<Rightarrow> string \<Rightarrow> http_request" where
  "copy_request C from_key to_key = request ''PUT'' (object_url C to_key) []
     [(''x-amz-copy-source'', ''/'' @ sc_bucket C @ ''/'' @ from_key)] []"

lemma copy_object_log:
  "copy_object (logging C reply) a t log =
     (case reply (copy_request C a t) of Inl e \<Rightarrow> (Inl e, log @ [copy_request C a t])
      | Inr r \<Rightarrow> (raise_for_status (logging C reply) r, log @ [copy_request C a t]))"
  by (auto simp: copy_object_def copy_request_def s3_send_def prog_simps split: sum.splits)

text \<open>C8: \<open>S3Storage.move\<close> first sends the copy; the request that deletes the source is sent only after a reply
  that says that the copy succeeded, and nothing else is sent.\<close>

theorem s3_move_copies_first:
  "snd (s3_move (logging C reply) at to []) =
     copy_request C (normpath at) (normpath to) #
       (case reply (copy_request C (normpath at) (normpath to)) of
          Inr r \<Rightarrow> if is_success r then [delete_request C [normpath at]] else []
        | Inl e \<Rightarrow> [])"
proof -
  have 1: "snd (s3_delete (logging C reply) [normpath at] log) = log @ [delete_request C [normpath at]]" for log
  proof -
    have "chunks_of 1000 [normpath at] = [[normpath at]]" by (simp add: chunks_of_ne)
    then show ?thesis
      using delete_1000_log [of "[normpath at]" C reply log]
      by (auto simp: s3_delete_def task_group_log bnd_def ret_def split: prod.splits sum.splits)
  qed
  then have 2: "snd (bnd (s3_delete (logging C reply) [normpath at]) (\<lambda>_. ret ()) log) = log @ [delete_request C [normpath at]]" for log
    by (rule bnd_log) simp
  let ?rq = "copy_request C (normpath at) (normpath to)"
  let ?copy = "try_else (copy_object (logging C reply) (normpath at) (normpath to)) (\<lambda>e. raise (no_such_key_missing e))"
  have 3: "snd (s3_move (logging C reply) at to []) =
      (case ?copy [] of (Inl e, log) \<Rightarrow> log | (Inr u, log) \<Rightarrow> log @ [delete_request C [normpath at]])"
    unfolding s3_move_def andthen_def bnd_def [of ?copy] by (simp add: 2 split: prod.splits sum.splits)
  have "?copy [] = (case reply ?rq of Inl e \<Rightarrow> (Inl (no_such_key_missing e), [?rq])
     | Inr r \<Rightarrow> (map_sum no_such_key_missing id (raise_for_status (logging C reply) r), [?rq]))"
    by (auto simp: try_else_def copy_object_log raise_def split: sum.splits prod.splits)
  then show ?thesis
    unfolding 3 by (auto simp: raise_for_status_def split: sum.splits option.splits)
qed

text \<open>C9: The parts an upload is cut into are together the content, all but the last have the chosen size, and there
  are at most the 10000 the service accepts exactly when the content is below 48.8 GiB: for larger
  contents, up to 250 PB, the chosen size is still 5 MiB.\<close>

theorem upload_parts:
  assumes "int (length b) = sz" "five_MB \<le> sz" "sz < five_MB * five_MB * 10000"
  shows "concat (read_chunks (nat (upload_chunk_size sz)) b) = b
    \<and> list_all (\<lambda>c. int (length c) = five_MB) (butlast (read_chunks (nat (upload_chunk_size sz)) b))
    \<and> (length (read_chunks (nat (upload_chunk_size sz)) b) \<le> 10000 \<longleftrightarrow> sz < five_MB * 10000)"
proof -
  have "sz div (five_MB * 10000) < five_MB"
    using assms(3) by (simp add: five_MB_def)
  then have c: "upload_chunk_size sz = five_MB" by (simp add: upload_chunk_size_def)
  have n: "0 < nat five_MB" by (simp add: five_MB_def)
  have "length (read_chunks (nat five_MB) b) = Suc (length b div nat five_MB)" by (rule length_read_chunks [OF n])
  moreover have "Suc (length b div nat five_MB) \<le> 10000 \<longleftrightarrow> sz < five_MB * 10000"
    by (simp add: assms(1) [symmetric] five_MB_def Suc_le_eq div_less_iff_less_mult)
  moreover have "list_all (\<lambda>c. int (length c) = five_MB) (butlast (read_chunks (nat five_MB) b))"
    unfolding list_all_iff using butlast_read_chunks [OF n] n by fastforce
  ultimately show ?thesis
    using concat_read_chunks [OF n] unfolding c by simp
qed

theorem upload_parts_witness:
  "\<not> length (read_chunks (nat (upload_chunk_size 64424509440)) (replicate 64424509440 0)) \<le> 10000"
  using upload_parts [of "replicate 64424509440 0" 64424509440] by (simp add: five_MB_def)

section \<open>Listings\<close>

definition list_request :: "'b s3_config \<Rightarrow> string option \<Rightarrow> string option \<Rightarrow> string option \<Rightarrow> http_request" where
  "list_request C contoken delimiter p =
     request ''GET'' (s3_url C (sc_bucket C)) (list_params contoken delimiter p) [] []"

text \<open>The service answers the request with the \<open>i\<close>-th continuation token by the page \<open>root i\<close>, which names the
  next token unless it is the last of \<open>n\<close> pages.\<close>

definition serves_pages ::
  "'b s3_config \<Rightarrow> (http_request \<Rightarrow> exn + http_reply) \<Rightarrow> string option \<Rightarrow> string option \<Rightarrow> nat \<Rightarrow>
     (nat \<Rightarrow> string) \<Rightarrow> (nat \<Rightarrow> xml) \<Rightarrow> bool" where
  "serves_pages C reply delimiter p n tok root \<longleftrightarrow> (\<forall>i < n.
     (\<exists>r. reply (list_request C (if i = 0 then None else Some (tok i)) delimiter p) = Inr r
        \<and> is_success r \<and> sc_xml C (xmlns_re_sub (latin1 (hr_content r))) = Some (root i))
     \<and> next_page (root i) = Inr (if Suc i = n then None else Some (Some (tok (Suc i)))))"

lemma page_objects_logging [simp]: "page_objects (logging C reply) = page_objects C"
proof -
  have "s3file_from_xml (logging C reply) = s3file_from_xml C"
    unfolding s3file_from_xml_def logging_simps ..
  then show ?thesis unfolding page_objects_def by simp
qed

lemma list_pages_from:
  assumes s: "serves_pages C reply delimiter p n tok root" and o: "\<forall>i < n. page_objects C (root i) = Inr (objs i)"
  shows "i < n \<Longrightarrow> n - i \<le> fuel \<Longrightarrow>
     list_pages (logging C reply) with_prefixes fuel (if i = 0 then None else Some (tok i)) delimiter p log =
       (Inr (concat (map (\<lambda>j. (if with_prefixes then page_prefixes (root j) else []) @ objs j) [i..<n])),
        log @ map (\<lambda>j. list_request C (if j = 0 then None else Some (tok j)) delimiter p) [i..<n])"
proof (induction fuel arbitrary: i log)
  case 0
  then show ?case by simp
next
  case (Suc fuel)
  let ?rq = "list_request C (if i = 0 then None else Some (tok i)) delimiter p"
  let ?items = "(if with_prefixes then page_prefixes (root i) else []) @ objs i"
  obtain r where r: "reply ?rq = Inr r" "is_success r" "sc_xml C (xmlns_re_sub (latin1 (hr_content r))) = Some (root i)"
    and nx: "next_page (root i) = Inr (if Suc i = n then None else Some (Some (tok (Suc i))))"
    using s Suc.prems(1) by (auto simp: serves_pages_def)
  have send: "s3_send (logging C reply) ?rq log = (Inr r, log @ [?rq])"
    using r(1,2) by (simp add: s3_send_def prog_simps raise_for_status_def)
  have step: "list_pages (logging C reply) with_prefixes (Suc fuel) (if i = 0 then None else Some (tok i)) delimiter p log =
     (if Suc i = n then (Inr ?items, log @ [?rq])
      else bnd (list_pages (logging C reply) with_prefixes fuel (Some (tok (Suc i))) delimiter p)
             (\<lambda>rest. ret (?items @ rest)) (log @ [?rq]))"
    using send r(3) nx o Suc.prems(1)
    by (simp add: list_request_def bnd_def [of "s3_send _ _"] bnd_of_result reply_xml_def ret_def)
  show ?case
  proof (cases "Suc i = n")
    case True
    then show ?thesis unfolding step by (simp add: upt_rec)
  next
    case False
    then have "Suc i < n" using Suc.prems(1) by simp
    with Suc.IH [of "Suc i" "log @ [?rq]"] Suc.prems False show ?thesis
      unfolding step by (simp add: bnd_def ret_def upt_conv_Cons [OF Suc.prems(1)])
  qed
qed

text \<open>C10: When the service cuts a listing into \<open>n\<close> pages, \<open>list_objects\<close> asks for each page once, in order, and returns the
  entries of all of them; a bound of \<open>n\<close> on the loop is enough.\<close>

theorem list_objects_all_pages:
  assumes "serves_pages C reply delimiter (Some p) n tok root" "0 < n" "n \<le> fuel" "\<not> prefix ''/'' p"
    and "\<forall>i < n. page_objects C (root i) = Inr (objs i)"
  shows "list_objects (logging C reply) with_prefixes fuel (Some p) delimiter [] =
       (Inr (concat (map (\<lambda>j. (if with_prefixes then page_prefixes (root j) else []) @ objs j) [0..<n])),
        map (\<lambda>j. list_request C (if j = 0 then None else Some (tok j)) delimiter (Some p)) [0..<n])"
  using list_pages_from [OF assms(1,5), of 0 fuel with_prefixes "[]"] assms(2-4)
  by (simp add: list_objects_def andthen_def guard_def)

definition leaf :: "string \<Rightarrow> string \<Rightarrow> xml" where
  "leaf t x = Elem t (Some x) []"

definition example_page :: "nat \<Rightarrow> xml" where
  "example_page i = Elem ''ListBucketResult'' None
     ([Elem ''Contents'' None [leaf ''Key'' (if i = 0 then ''d/a'' else ''d/b''), leaf ''LastModified'' ''0'',
         leaf ''Size'' ''3'', leaf ''ETag'' ''e''],
       leaf ''IsTruncated'' (if i = 0 then ''true'' else ''false'')]
      @ (if i = 0 then [leaf ''NextContinuationToken'' ''t1''] else []))"

definition example_s3 :: "unit s3_config" where
  "example_s3 = \<lparr> sc_base_url = ''http://s3/'', sc_bucket = ''b'', sc_cwd = [],
     sc_http = (\<lambda>rq. ret \<lparr> hr_status = 200, hr_headers = [], hr_content = [] \<rparr>),
     sc_xml = (\<lambda>s. if s = ''1'' then Some (example_page 0) else if s = ''2'' then Some (example_page 1) else None),
     sc_httpdate = (\<lambda>_. Some 0), sc_isodate = (\<lambda>_. Some 0) \<rparr>"

definition example_reply :: "http_request \<Rightarrow> exn + http_reply" where
  "example_reply rq = Inr \<lparr> hr_status = 200, hr_headers = [],
     hr_content = (if map_of (rq_params rq) ''continuation-token'' = None then [49] else [50]) \<rparr>"

theorem list_objects_all_pages_witness:
  "map_sum id (map item_key) (fst (list_objects (logging example_s3 example_reply) False 2 (Some ''d/'') None [])) = Inr [''d/a'', ''d/b'']"
proof -
  have "\<forall>i \<in> set [0, 1]. (case example_reply (list_request example_s3 (if i = 0 then None else Some (''t'' @ digits_of i)) None (Some ''d/''))
        of Inl e \<Rightarrow> False | Inr r \<Rightarrow> is_success r \<and> sc_xml example_s3 (xmlns_re_sub (latin1 (hr_content r))) = Some (example_page i))
     \<and> next_page (example_page i) = Inr (if Suc i = 2 then None else Some (Some (''t'' @ digits_of (Suc i))))"
    by code_simp
  then have "serves_pages example_s3 example_reply None (Some ''d/'') 2 (\<lambda>i. ''t'' @ digits_of i) example_page"
    by (auto simp: serves_pages_def less_2_cases_iff numeral_2_eq_2 less_Suc_eq split: sum.splits)
  moreover define objs where "objs i = [Object \<lparr> s3_key = (if i = 0 then ''d/a'' else ''d/b''),
      s3_last_modified = 0, s3_size = 3, s3_etag = Some ''e'' \<rparr>]" for i :: nat
  have "page_objects example_s3 (example_page i) = Inr (objs i)" for i
    unfolding objs_def
    by (cases "i = 0"; simp add: example_page_def leaf_def page_objects_def xml_findall_def s3file_from_xml_def
        child_text_def xml_find_def example_s3_def) code_simp+
  ultimately show ?thesis
    using list_objects_all_pages [of example_s3 example_reply None "''d/''" 2 "\<lambda>i. ''t'' @ digits_of i" example_page 2 objs False]
    by (simp add: numeral_2_eq_2 item_key_def objs_def)
qed

end
