(* ===== verification/Spec2Isabelle.thy ===== *)
theory Spec2Isabelle
  imports ApiPhotos AwsAuth DHash Schema TrashProps ConfigProps AlbumProps DownloadProps Migrations SignupProps ToolkitProps
    UploadConfined StorageRefinement AuthProps SystemProps WorkerProps FileSystemProps S3Props
begin

text \<open>
  A verification library of the Shelf backend, a file and photo storage server in Python (\<open>src/app\<close>).

  \<^bold>\<open>The program.\<close> Views (\<open>src/app/api\<close>) authenticate a request, validate it and call use cases
  (\<open>src/app/app/*/usecases\<close>). Use cases join services (\<open>src/app/app/*/services\<close>): files and folders of a
  namespace, blobs (the stored contents), photos and albums, users, tokens, the audit trail. Services read and write the
  database through repositories (\<open>src/app/infrastructure/database/tortoise/repositories\<close>), contents through an object
  storage (\<open>src/app/infrastructure/storage\<close>: a directory tree or S3), short-lived values through a cache, and
  leave slow work to a queue that a worker empties (\<open>src/app/worker\<close>): blobs are deleted and moved by jobs
  that are written to the database in the transaction of the change and carried out afterwards.

  \<^bold>\<open>How it is modelled.\<close> A Python function that may raise and changes a state is a \<open>prog\<close>: a function from the
  state to the exception or the value, and the state afterwards (\<open>Prelude\<close>, with \<open>bnd\<close>, \<open>andthen\<close>, \<open>guard\<close>,
  \<open>try_else\<close>, \<open>map_prog\<close> for the sequencing of the source). Repositories are programs over the tables
  (\<open>db\<close>), services and use cases are programs over the \<open>world\<close>: database, both storages, cache,
  queue, background tasks, current user, clock and random draws. What is configured or third-party is an argument:
  the record \<open>env\<close> of collaborators, the record \<open>ext\<close> of library functions (digests, tokens, images, normal forms of
  text), the record \<open>s3\<close> with the HTTP service. Every \<open>raise\<close> is a value of \<open>exn\<close>, every early return a branch.
  A transaction (\<open>atomic\<close>) restores the database, and only the database, when its body raises.

  \<^bold>\<open>The theories, from the bottom.\<close>
  \<^item> \<open>Prelude\<close>, \<open>PyStr\<close>: programs, queries on lists of rows, Python strings and POSIX paths.
  \<^item> \<open>Paths\<close> (\<open>files/domain/path.py\<close>), \<open>Entities\<close> (domain classes and rows), \<open>Database\<close> (the tables with their unique
    columns, foreign keys and deletion rules), \<open>External\<close>.
  \<^item> \<open>FileRepo\<close>, \<open>BlobRepo\<close>, \<open>PhotoRepo\<close>, and the repositories in \<open>Users\<close> and \<open>Auth\<close>.
  \<^item> \<open>Storage\<close> (the interface \<open>IStorage\<close>), \<open>FileSystem\<close> (\<open>storage/filesystem.py\<close> over the calls of \<open>os\<close>, \<open>shutil\<close>, \<open>glob\<close>),
    \<open>S3\<close> (\<open>storage/s3\<close>: both clients and the storage, URLs and bodies built as in the code), \<open>AwsAuth\<close>
    (\<open>contrib/aws_v4_auth.py\<close>: the signatures of the S3 requests).
  \<^item> \<open>World\<close>, \<open>Toolkit\<close> and \<open>DHash\<close> (\<open>toolkit\<close>), \<open>Blobs\<close> (\<open>blobs/services\<close>), \<open>FileCore\<close> (\<open>services/file/filecore.py\<close>),
    \<open>FileServices\<close> (services and use cases on files, namespaces and sharing), \<open>Photos\<close>, \<open>Users\<close>, \<open>Auth\<close>, \<open>AuthUseCases\<close>.
  \<^item> \<open>Worker\<close> (\<open>worker/jobs\<close>) and \<open>System\<close>: the step relation of clients, worker, background tasks and time.
  \<^item> \<open>Api\<close>, \<open>ApiFiles\<close>, \<open>ApiUsers\<close>, \<open>ApiPhotos\<close>: errors, dependencies, request validators and every view.
  \<^item> \<open>Config\<close> (\<open>config.py\<close>), \<open>Migrations\<close> (the two data migrations), \<open>Schema\<close> (all sixteen migrations as operations on the
    schema, and the declarations of \<open>models.py\<close>).
\<close>

text \<open>
  \<^bold>\<open>What is shown.\<close>
  \<^item> Files. \<open>FileTree\<close> says what the rows mean: in every namespace a tree of folders and files in which the size of a folder is
    the sum of what is below it. \<open>FileInvariant\<close> lifts this to the database; \<open>FileCoreProps\<close>, \<open>FileCreate\<close> and \<open>FileMove\<close> prove
    it of each operation of \<open>FileCoreService\<close> on every outcome; \<open>NamespaceProps\<close> states it, and what deleting,
    creating folders and moving do, of the use cases; \<open>UploadProps\<close> does so for uploads with quota and size limit;
    \<open>TrashProps\<close> for emptying the trash.
  \<^item> Tables. \<open>Tables\<close> and \<open>TableRules\<close> prove of every operation that it keeps the unique columns unique and the foreign keys
    valid; the rules of \<open>keeps_rules\<close> follow the sequencing of the programs. \<open>SystemProps\<close> concludes it of
    every reachable state, by induction on the steps.
  \<^item> Storage. The locale \<open>object_store\<close> is the contract of \<open>IStorage\<close>; \<open>FileSystemProps\<close> interprets it for
    \<open>FileSystemStorage\<close>, confines its writes to the location, and \<open>StorageRefinement\<close> derives a simulation by
    a map from keys to contents. \<open>S3Props\<close> states what the S3 client sends, in which order. \<open>UploadConfined\<close>
    joins views, services and storage: where the content of an upload goes.
  \<^item> Sessions. \<open>Contracts\<close> has the locales \<open>cache_ok\<close> and \<open>jwt_ok\<close> of the two collaborators; \<open>AuthProps\<close> shows that
    access tokens authenticate their owner until they expire and that a refresh token works once; \<open>SignupProps\<close> that an
    account appears as a whole or not at all; \<open>DownloadProps\<close> that download sessions work once.
  \<^item> Photos. \<open>PhotoProps\<close> and \<open>AlbumProps\<close>: rows of other owners, covers, counters, slugs, the purge. The locale
    \<open>offset_loop\<close> of \<open>Pages\<close> is the contract of loops that page at a growing offset through rows they remove;
    the purge and the backfill of blobs are its two interpretations, and both leave every second page.
  \<^item> Worker. \<open>WorkerProps\<close>: the queue drains, and the items of a batch are independent.
  \<^item> Toolkit, configuration, schema. \<open>ToolkitProps\<close>, \<open>DHash\<close>, \<open>ConfigProps\<close>, \<open>AwsAuth\<close>, \<open>Migrations\<close>, \<open>Schema\<close>.
  \<open>Example\<close> and \<open>Demo\<close> are the concrete database and environment of the witnesses; \<open>Demo\<close> interprets the two
  collaborator locales on a cache with expiry and on readable tokens, as the real ones are third-party code.

  \<^bold>\<open>Bounds and fuel.\<close> Loops the code ends only when a service or a table says so carry fuel, and returning is part of
  the statements: the purge and the backfills need one step more than the number of pages of 1,000 rows, a listing of S3
  one step per page the service has, the worker the number of turns its jobs can cost. \<open>LoopUnfinished\<close> marks a
  run that spent its fuel and is no exception of the program. All other recursions are structural or have a measure.
  Integers of Python are \<open>int\<close> or \<open>nat\<close>, octets are \<open>8 word\<close>, times are microseconds.

  \<^bold>\<open>The domain of the model.\<close> Text is the 256 characters of \<open>char\<close>, and case folding acts on the ASCII
  letters. Identifiers come from a counter, as \<open>uuid7\<close> grows with time. Each call, job and task runs as one step: the model
  has every interleaving of whole operations, not of statements within them. Locks only order such steps. The
  database compares paths as PostgreSQL does, and checks constraints when rows are written.

  \<^bold>\<open>Not modelled.\<close> Start-up and wiring (\<open>context.py\<close>, \<open>db.py\<close>, \<open>main.py\<close>, \<open>manage.py\<close>), which build the objects the
  model takes as arguments; mail over SMTP and its templates; the transport of jobs (\<open>arq\<close>) and the cache backends; ZIP
  encoding, image decoding and scaling, rate limits, the routing and serialisation of FastAPI and pydantic; the
  protocol classes, which have no code. Hardware and network failures appear only where the code handles them.
\<close>

end
